(* ===== verification/Prelude.thy ===== *)
theory Prelude
  imports Main "HOL-Library.Word"
begin

text \<open>
  Shared vocabulary of the development: the machine types of the Go code, the errors a Go
  function returns, the theorem collections the component proofs use, and generic lemmas
  on lists, options and maps.

  \<^item> \<open>go_err\<close> is what a function returns in its error result: \<open>ErrMsg\<close> for
    \<open>errors.New\<close> and \<open>fmt.Errorf\<close>, \<open>Wrap\<close> for \<open>errors.Wrap\<close>, \<open>LibErr\<close> for an
    error made by a package that is not part of the repository, \<open>GoPanic\<close> for a run-time
    panic.
  \<^item> A Go \<open>float64\<close> is kept as its 64 bits; arithmetic on it is a parameter of the
    definitions that use it.
\<close>

unbundle bit_operations_syntax

type_synonym byte = "8 word"
type_synonym bytes = "8 word list"
type_synonym u8 = "8 word"
type_synonym u16 = "16 word"
type_synonym u32 = "32 word"
type_synonym u64 = "64 word"
type_synonym float64 = "64 word"

datatype go_err =
    ErrMsg string
  | Wrap string go_err
  | LibErr string
  | GoPanic string

type_synonym 'a result = "go_err + 'a"

named_theorems codec_simps \<open>round-trip equations of encoders and decoders\<close>
named_theorems state_simps \<open>effect of operations on state fields they do not write\<close>
named_theorems inv_intros \<open>preservation of component invariants\<close>

text \<open>The sign bit is ignored, so both zeros of the float format compare equal to 0.\<close>

definition f64_is_zero :: "float64 \<Rightarrow> bool" where
  "f64_is_zero x \<longleftrightarrow> take_bit 63 x = 0"

text \<open>\<open>errors.Wrap(err, msg)\<close> applied to a result.\<close>

definition wrap_err :: "string \<Rightarrow> 'a result \<Rightarrow> 'a result" where
  "wrap_err msg r = (case r of Inl e \<Rightarrow> Inl (Wrap msg e) | Inr x \<Rightarrow> Inr x)"

lemma wrap_err_simps [simp]:
  "wrap_err m (Inl e) = Inl (Wrap m e)"
  "wrap_err m (Inr x) = Inr x"
  by (simp_all add: wrap_err_def)

lemma wrap_err_Inr_iff [simp]: "wrap_err m r = Inr x \<longleftrightarrow> r = Inr x"
  by (cases r) simp_all

definition bind_res :: "'a result \<Rightarrow> ('a \<Rightarrow> 'b result) \<Rightarrow> 'b result" where
  "bind_res r f = (case r of Inl e \<Rightarrow> Inl e | Inr x \<Rightarrow> f x)"

lemma bind_res_simps [simp]:
  "bind_res (Inl e) f = Inl e"
  "bind_res (Inr x) f = f x"
  by (simp_all add: bind_res_def)

lemma bind_res_Inr_iff: "bind_res r f = Inr y \<longleftrightarrow> (\<exists>x. r = Inr x \<and> f x = Inr y)"
  by (cases r) simp_all

lemma bind_res_assoc: "bind_res (bind_res r f) g = bind_res r (\<lambda>x. bind_res (f x) g)"
  by (cases r) simp_all

definition ok_result :: "'a result \<Rightarrow> 'a option" where
  "ok_result r = (case r of Inl e \<Rightarrow> None | Inr x \<Rightarrow> Some x)"

lemma ok_result_simps [simp]:
  "ok_result (Inl e) = None"
  "ok_result (Inr x) = Some x"
  "ok_result r = Some x \<longleftrightarrow> r = Inr x"
  "ok_result r = None \<longleftrightarrow> (\<exists>e. r = Inl e)"
  by (cases r, simp_all add: ok_result_def)+

text \<open>A Go slice read with a bounds check: out of range is a panic.\<close>

definition slice :: "nat \<Rightarrow> nat \<Rightarrow> 'a list \<Rightarrow> 'a list" where
  "slice i j xs = take (j - i) (drop i xs)"

lemma length_slice [simp]: "i \<le> j \<Longrightarrow> j \<le> length xs \<Longrightarrow> length (slice i j xs) = j - i"
  by (simp add: slice_def)

text \<open>
  \<open>copy(dst[:], src)\<close> into a zeroed array of \<open>n\<close> bytes: the common prefix is copied.
\<close>

definition copy_fixed :: "nat \<Rightarrow> bytes \<Rightarrow> bytes" where
  "copy_fixed n src = take n src @ replicate (n - length src) 0"

lemma length_copy_fixed [simp]: "length (copy_fixed n src) = n"
  by (simp add: copy_fixed_def)

lemma copy_fixed_id [simp]: "length src = n \<Longrightarrow> copy_fixed n src = src"
  by (simp add: copy_fixed_def)

section \<open>Counting maps\<close>

text \<open>A Go map with integer values reads 0 for a missing key.\<close>

definition get0 :: "('k \<rightharpoonup> u32) \<Rightarrow> 'k \<Rightarrow> u32" where
  "get0 m k = (case m k of None \<Rightarrow> 0 | Some v \<Rightarrow> v)"

definition bump :: "('k \<rightharpoonup> u32) \<Rightarrow> 'k \<Rightarrow> ('k \<rightharpoonup> u32)" where
  "bump m k = m(k \<mapsto> get0 m k + 1)"

lemma get0_empty [simp]: "get0 Map.empty k = 0"
  by (simp add: get0_def)

lemma get0_bump: "get0 (bump m k) j = (if j = k then get0 m k + 1 else get0 m j)"
  by (simp add: get0_def bump_def)

lemma dom_bump [simp]: "dom (bump m k) = insert k (dom m)"
  by (simp add: bump_def)

text \<open>The sum of all counts of a finite counting map, modulo the width.\<close>

definition total :: "('k \<rightharpoonup> u32) \<Rightarrow> u32" where
  "total m = (\<Sum>k\<in>dom m. get0 m k)"

lemma total_empty [simp]: "total Map.empty = 0"
  by (simp add: total_def)

lemma total_bump [simp]:
  assumes "finite (dom m)"
  shows "total (bump m k) = total m + 1"
proof -
  have rest: "(\<Sum>j\<in>dom m - {k}. get0 (bump m k) j) = (\<Sum>j\<in>dom m - {k}. get0 m j)"
    by (rule sum.cong) (auto simp: get0_bump)
  have "total (bump m k) = get0 m k + 1 + (\<Sum>j\<in>dom m - {k}. get0 m j)"
    using assms by (simp add: total_def sum.insert_remove rest get0_bump)
  also have "get0 m k + (\<Sum>j\<in>dom m - {k}. get0 m j) = total m"
  proof (cases "k \<in> dom m")
    case True
    then show ?thesis using assms by (simp add: total_def sum.remove)
  next
    case False
    then have "get0 m k = 0" by (simp add: get0_def domIff)
    with False show ?thesis by (simp add: total_def)
  qed
  then have "get0 m k + 1 + (\<Sum>j\<in>dom m - {k}. get0 m j) = total m + 1"
    by (simp add: algebra_simps)
  finally show ?thesis .
qed

section \<open>Association lists as Go maps\<close>

lemma map_of_map_snd_pair:
  "map_of (map (\<lambda>(k, v). (k, f k v)) xs) k = map_option (f k) (map_of xs k)"
  by (induction xs) auto

lemma map_of_SomeD_set: "map_of xs k = Some v \<Longrightarrow> (k, v) \<in> set xs"
  by (rule map_of_SomeD)

section \<open>Codecs\<close>

text \<open>
  The contract an encoder and its decoder share: what is encoded is read back. Values the
  code never encodes are excluded by \<open>ok\<close>.
\<close>

locale codec =
  fixes enc :: "'a \<Rightarrow> 'b" and dec :: "'b \<Rightarrow> 'a option" and ok :: "'a \<Rightarrow> bool"
  assumes round_trip: "ok x \<Longrightarrow> dec (enc x) = Some x"
begin

lemma enc_inject: "ok x \<Longrightarrow> ok y \<Longrightarrow> enc x = enc y \<longleftrightarrow> x = y"
  by (metis option.inject round_trip)

lemma dec_the_enc: "ok x \<Longrightarrow> the (dec (enc x)) = x"
  by (simp add: round_trip)

end

section \<open>Transition systems\<close>

inductive reachable :: "('s \<Rightarrow> bool) \<Rightarrow> ('s \<Rightarrow> 's \<Rightarrow> bool) \<Rightarrow> 's \<Rightarrow> bool"
  for init step where
  reach_init: "init s \<Longrightarrow> reachable init step s"
| reach_step: "reachable init step s \<Longrightarrow> step s t \<Longrightarrow> reachable init step t"

text \<open>The contract of an inductive invariant: it holds at the start and steps keep it.\<close>

locale inductive_invariant =
  fixes init :: "'s \<Rightarrow> bool" and step :: "'s \<Rightarrow> 's \<Rightarrow> bool" and inv :: "'s \<Rightarrow> bool"
  assumes inv_init: "init s \<Longrightarrow> inv s"
    and inv_step: "inv s \<Longrightarrow> step s t \<Longrightarrow> inv t"
begin

lemma inv_reachable: "reachable init step s \<Longrightarrow> inv s"
  by (induction rule: reachable.induct) (auto intro: inv_init inv_step)

lemma inv_run: "step\<^sup>*\<^sup>* s t \<Longrightarrow> inv s \<Longrightarrow> inv t"
  by (induction s t rule: rtranclp.induct) (auto intro: inv_step)

end

end
