(* ===== verification/Encoding.thy ===== *)
theory Encoding
  imports Prelude
begin

text \<open>
  The parts of Go's standard library that encode bytes: \<open>encoding/binary\<close> in both byte
  orders, \<open>encoding/hex\<close> and \<open>encoding/base64\<close> (\<open>StdEncoding\<close>), with their round
  trips. Decimal printing (\<open>%d\<close>) and the decimal readers of \<open>strconv\<close> are here too.
\<close>

section \<open>encoding/binary\<close>

text \<open>Little-endian bytes of a word, least significant first, and back.\<close>

fun put_le :: "nat \<Rightarrow> 'a::len word \<Rightarrow> bytes" where
  "put_le 0 w = []"
| "put_le (Suc n) w = ucast w # put_le n (drop_bit 8 w)"

fun get_le :: "bytes \<Rightarrow> 'a::len word" where
  "get_le [] = 0"
| "get_le (b # bs) = ucast b OR push_bit 8 (get_le bs)"

definition put_be :: "nat \<Rightarrow> 'a::len word \<Rightarrow> bytes" where
  "put_be n w = rev (put_le n w)"

definition get_be :: "bytes \<Rightarrow> 'a::len word" where
  "get_be bs = get_le (rev bs)"

lemma length_put_le [simp]: "length (put_le n w) = n"
  by (induction n arbitrary: w) simp_all

lemma length_put_be [simp]: "length (put_be n w) = n"
  by (simp add: put_be_def)

lemma put_le_numeral [simp]:
  "put_le (numeral k) w = ucast w # put_le (pred_numeral k) (drop_bit 8 w)"
  by (simp add: numeral_eq_Suc)

lemma get_le_put_le_take: "get_le (put_le n w) = take_bit (8 * n) (w :: 'a::len word)"
proof (induction n arbitrary: w)
  case 0
  then show ?case by simp
next
  case (Suc n)
  show ?case
    by (rule bit_word_eqI) (auto simp: Suc bit_simps)
qed

lemma get_le_put_le [codec_simps]:
  "LENGTH('a) \<le> 8 * n \<Longrightarrow> get_le (put_le n w) = (w :: 'a::len word)"
  by (simp add: get_le_put_le_take take_bit_word_eq_self)

lemma bit_get_le_bound: "bit (get_le bs :: 'a::len word) i \<Longrightarrow> i < 8 * length bs"
proof (induction bs arbitrary: i)
  case Nil
  then show ?case by simp
next
  case (Cons b bs)
  from Cons.prems consider "i < 8" | "8 \<le> i" "bit (get_le bs :: 'a word) (i - 8)"
    by (auto simp: bit_simps dest: bit_imp_le_length)
  then show ?case
  proof cases
    case 1
    then show ?thesis by simp
  next
    case 2
    with Cons.IH[of "i - 8"] show ?thesis by simp
  qed
qed

lemma ucast_get_le_Cons: "8 \<le> LENGTH('a) \<Longrightarrow>
  ucast (get_le (b # bs) :: 'a::len word) = b"
  by (rule bit_word_eqI) (auto simp: bit_simps)

lemma drop_get_le_Cons:
  assumes "8 * Suc (length bs) \<le> LENGTH('a)"
  shows "drop_bit 8 (get_le (b # bs) :: 'a::len word) = get_le bs"
proof (rule bit_word_eqI)
  fix i
  assume i: "i < LENGTH('a)"
  show "bit (drop_bit 8 (get_le (b # bs) :: 'a word)) i = bit (get_le bs :: 'a word) i"
    using assms bit_get_le_bound[of bs i, where 'a = 'a]
    by (auto simp: bit_simps dest: bit_imp_le_length)
qed

lemma put_le_get_le [codec_simps]:
  "8 * length bs \<le> LENGTH('a) \<Longrightarrow> put_le (length bs) (get_le bs :: 'a::len word) = bs"
proof (induction bs)
  case Nil
  then show ?case by simp
next
  case (Cons b bs)
  then show ?case
    by (simp add: ucast_get_le_Cons drop_get_le_Cons del: get_le.simps)
qed

lemma get_be_put_be [codec_simps]:
  "LENGTH('a) \<le> 8 * n \<Longrightarrow> get_be (put_be n w) = (w :: 'a::len word)"
  by (simp add: get_be_def put_be_def get_le_put_le)

lemma put_be_get_be [codec_simps]:
  "8 * length bs \<le> LENGTH('a) \<Longrightarrow> put_be (length bs) (get_be bs :: 'a::len word) = bs"
  using put_le_get_le[of "rev bs", where 'a = 'a] by (simp add: get_be_def put_be_def)

section \<open>encoding/hex\<close>

definition hex_digit :: "nat \<Rightarrow> char" where
  "hex_digit n = char_of (if n < 10 then n + 48 else n + 87)"

definition unhex :: "char \<Rightarrow> nat option" where
  "unhex c = (let n = (of_char c :: nat) in
     if 48 \<le> n \<and> n \<le> 57 then Some (n - 48)
     else if 97 \<le> n \<and> n \<le> 102 then Some (n - 87)
     else if 65 \<le> n \<and> n \<le> 70 then Some (n - 55)
     else None)"

text \<open>\<open>hex.EncodeToString\<close>; also what \<open>%x\<close> prints for a byte slice.\<close>

fun hex_encode :: "bytes \<Rightarrow> string" where
  "hex_encode [] = []"
| "hex_encode (b # bs) = hex_digit (unat b div 16) # hex_digit (unat b mod 16) # hex_encode bs"

text \<open>\<open>hex.DecodeString\<close>: \<open>None\<close> stands for its error (bad digit or odd length).\<close>

fun hex_decode :: "string \<Rightarrow> bytes option" where
  "hex_decode [] = Some []"
| "hex_decode [c] = None"
| "hex_decode (c # d # cs) = (case (unhex c, unhex d) of
     (Some h, Some l) \<Rightarrow> map_option (\<lambda>r. word_of_nat (16 * h + l) # r) (hex_decode cs)
   | _ \<Rightarrow> None)"

lemma unhex_hex_digit [simp]: "n < 16 \<Longrightarrow> unhex (hex_digit n) = Some n"
  by (auto simp: unhex_def hex_digit_def Let_def)

lemma unat_byte [simp]: "unat (b :: byte) < 256"
  using unsigned_less[of b] by simp

lemma unat_byte_div_16: "unat (b :: byte) div 16 < 16"
  using unat_byte[of b] by linarith

lemma hex_decode_encode [codec_simps]: "hex_decode (hex_encode bs) = Some bs"
  by (induction bs) (simp_all add: unat_byte_div_16 del: of_nat_add of_nat_mult)

lemma length_hex_encode [simp]: "length (hex_encode bs) = 2 * length bs"
  by (induction bs) simp_all

lemma hex_encode_append [simp]: "hex_encode (xs @ ys) = hex_encode xs @ hex_encode ys"
  by (induction xs) simp_all

lemma length_hex_decode: "hex_decode s = Some bs \<Longrightarrow> length s = 2 * length bs"
  by (induction s arbitrary: bs rule: hex_decode.induct) (auto split: option.splits)

section \<open>encoding/base64\<close>

text \<open>The alphabet \<open>A..Z a..z 0..9 + /\<close> by position.\<close>

definition b64_char :: "nat \<Rightarrow> char" where
  "b64_char n = char_of
     (if n < 26 then n + 65 else if n < 52 then n + 71 else if n < 62 then n - 4
      else if n = 62 then 43 else 47)"

definition b64_val :: "char \<Rightarrow> nat option" where
  "b64_val c = (let n = (of_char c :: nat) in
     if 65 \<le> n \<and> n \<le> 90 then Some (n - 65)
     else if 97 \<le> n \<and> n \<le> 122 then Some (n - 71)
     else if 48 \<le> n \<and> n \<le> 57 then Some (n + 4)
     else if n = 43 then Some 62
     else if n = 47 then Some 63
     else None)"

fun b64_encode :: "bytes \<Rightarrow> string" where
  "b64_encode [] = []"
| "b64_encode [a] =
     [b64_char (unat a div 4), b64_char (unat a mod 4 * 16), CHR ''='', CHR ''='']"
| "b64_encode [a, b] =
     [b64_char (unat a div 4), b64_char (unat a mod 4 * 16 + unat b div 16),
      b64_char (unat b mod 16 * 4), CHR ''='']"
| "b64_encode (a # b # c # r) =
     b64_char (unat a div 4) # b64_char (unat a mod 4 * 16 + unat b div 16)
     # b64_char (unat b mod 16 * 4 + unat c div 64) # b64_char (unat c mod 64) # b64_encode r"

text \<open>
  \<open>StdEncoding.DecodeString\<close> skips line ends, reads groups of four characters, takes
  padding in the last group only, and refuses anything after it. Unused low bits of the
  last group are dropped (the decoder is not strict).
\<close>

fun b64_quads :: "string \<Rightarrow> bytes option" where
  "b64_quads [] = Some []"
| "b64_quads (c0 # c1 # c2 # c3 # r) = (case (b64_val c0, b64_val c1) of
     (Some v0, Some v1) \<Rightarrow>
       (let x = word_of_nat (v0 * 4 + v1 div 16) in
        if c2 = CHR ''='' then (if c3 = CHR ''='' \<and> r = [] then Some [x] else None)
        else (case b64_val c2 of None \<Rightarrow> None | Some v2 \<Rightarrow>
          (let y = word_of_nat (v1 mod 16 * 16 + v2 div 4) in
           if c3 = CHR ''='' then (if r = [] then Some [x, y] else None)
           else (case b64_val c3 of None \<Rightarrow> None | Some v3 \<Rightarrow>
             map_option (\<lambda>t. x # y # word_of_nat (v2 mod 4 * 64 + v3) # t) (b64_quads r)))))
   | _ \<Rightarrow> None)"
| "b64_quads _ = None"

definition b64_decode :: "string \<Rightarrow> bytes option" where
  "b64_decode s = b64_quads (filter (\<lambda>c. c \<noteq> CHR 0x0A \<and> c \<noteq> CHR 0x0D) s)"

lemma b64_val_char [simp]: "n < 64 \<Longrightarrow> b64_val (b64_char n) = Some n"
  by (auto simp: b64_val_def b64_char_def Let_def)

lemma b64_val_special [simp]:
  "b64_val CHR ''='' = None" "b64_val CHR 0x0A = None" "b64_val CHR 0x0D = None"
  by (simp_all add: b64_val_def)

lemma b64_char_neq [simp]:
  assumes "n < 64"
  shows "b64_char n \<noteq> CHR ''=''" "b64_char n \<noteq> CHR 0x0A" "b64_char n \<noteq> CHR 0x0D"
  using b64_val_char[OF assms] by auto

lemma mult_add_less:
  fixes q r k n :: nat
  assumes "q < n" "r < k"
  shows "q * k + r < n * k"
proof -
  have "q * k + r < Suc q * k" using assms(2) by simp
  also have "\<dots> \<le> n * k" using assms(1) by (intro mult_le_mono1) simp
  finally show ?thesis .
qed

lemma byte_div_less:
  "unat (b :: byte) div 4 < 64" "unat b div 16 < 16" "unat b div 64 < 4"
  using unat_byte[of b] by linarith+

lemma b64_group:
  fixes a b c :: byte
  shows "unat a mod 4 * 16 + unat b div 16 < 64"
    "unat b mod 16 * 4 + unat c div 64 < 64" "unat a mod 4 * 16 < 64"
    "unat b mod 16 * 4 < 64" "unat c mod 64 < 64"
  using mult_add_less[of "unat a mod 4" 4 "unat b div 16" 16]
    mult_add_less[of "unat b mod 16" 16 "unat c div 64" 4]
    mult_add_less[of "unat a mod 4" 4 0 16] mult_add_less[of "unat b mod 16" 16 0 4]
  by (simp_all add: byte_div_less)

lemma b64_bytes:
  fixes a b c :: byte
  shows "(unat a mod 4 * 16 + unat b div 16) div 16 = unat a mod 4"
    "(unat a mod 4 * 16 + unat b div 16) mod 16 = unat b div 16"
    "(unat b mod 16 * 4 + unat c div 64) div 4 = unat b mod 16"
    "(unat b mod 16 * 4 + unat c div 64) mod 4 = unat c div 64"
  by (simp_all add: byte_div_less)

lemma b64_quads_encode: "b64_quads (b64_encode bs) = Some bs"
proof (induction bs rule: b64_encode.induct)
  case 1
  then show ?case by simp
next
  case (2 a)
  then show ?case by (simp add: byte_div_less b64_group Let_def del: of_nat_add of_nat_mult)
next
  case (3 a b)
  then show ?case
    by (simp add: byte_div_less b64_group b64_bytes Let_def del: of_nat_add of_nat_mult)
next
  case (4 a b c r)
  then show ?case
    by (simp add: byte_div_less b64_group b64_bytes Let_def del: of_nat_add of_nat_mult)
qed

lemma b64_encode_no_newline: "c \<in> set (b64_encode bs) \<Longrightarrow> c \<noteq> CHR 0x0A \<and> c \<noteq> CHR 0x0D"
  by (induction bs rule: b64_encode.induct) (auto simp: b64_group byte_div_less)

lemma b64_decode_encode [codec_simps]: "b64_decode (b64_encode bs) = Some bs"
proof -
  have "filter (\<lambda>c. c \<noteq> CHR 0x0A \<and> c \<noteq> CHR 0x0D) (b64_encode bs) = b64_encode bs"
    by (rule filter_True) (use b64_encode_no_newline in blast)
  then show ?thesis by (simp add: b64_decode_def b64_quads_encode)
qed

section \<open>Decimal numbers\<close>

text \<open>What \<open>%d\<close> prints for a non-negative integer, and the digit loop of \<open>strconv\<close>.\<close>

definition dec_digit :: "nat \<Rightarrow> char" where
  "dec_digit n = char_of (n + 48)"

definition digit_val :: "char \<Rightarrow> nat option" where
  "digit_val c = (let n = (of_char c :: nat) in
     if 48 \<le> n \<and> n \<le> 57 then Some (n - 48) else None)"

fun show_dec :: "nat \<Rightarrow> string" where
  "show_dec n = (if n < 10 then [dec_digit n] else show_dec (n div 10) @ [dec_digit (n mod 10)])"

declare show_dec.simps [simp del]

fun read_digits :: "nat \<Rightarrow> string \<Rightarrow> nat option" where
  "read_digits acc [] = Some acc"
| "read_digits acc (c # cs) =
     (case digit_val c of None \<Rightarrow> None | Some d \<Rightarrow> read_digits (10 * acc + d) cs)"

text \<open>\<open>strconv.ParseUint(s, 10, bits)\<close>: no sign, at least one digit, in range.\<close>

definition parse_uint :: "nat \<Rightarrow> string \<Rightarrow> nat option" where
  "parse_uint bits s = (if s = [] then None else
     case read_digits 0 s of None \<Rightarrow> None | Some n \<Rightarrow> if n < 2 ^ bits then Some n else None)"

text \<open>\<open>strconv.Atoi\<close> on a string of digits (the regular expressions admit nothing else).\<close>

definition atoi_digits :: "string \<Rightarrow> nat option" where
  "atoi_digits s = parse_uint 63 s"

lemma digit_val_dec_digit [simp]: "n < 10 \<Longrightarrow> digit_val (dec_digit n) = Some n"
  by (simp add: digit_val_def dec_digit_def Let_def)

lemma show_dec_not_Nil [simp]: "show_dec n \<noteq> []"
  by (subst show_dec.simps) simp

lemma read_digits_append:
  "read_digits acc (xs @ ys) =
     (case read_digits acc xs of None \<Rightarrow> None | Some a \<Rightarrow> read_digits a ys)"
  by (induction xs arbitrary: acc) (simp_all split: option.splits)

lemma read_show_dec [codec_simps]: "read_digits 0 (show_dec n) = Some n"
proof (induction n rule: show_dec.induct)
  case (1 n)
  then show ?case
    by (subst show_dec.simps) (simp add: read_digits_append)
qed

lemma show_dec_digits: "c \<in> set (show_dec n) \<Longrightarrow> digit_val c \<noteq> None"
proof (induction n rule: show_dec.induct)
  case (1 n)
  from "1.prems" have "c \<in> set (show_dec (n div 10)) \<and> \<not> n < 10 \<or> c = dec_digit (n mod 10) \<or> c = dec_digit n \<and> n < 10"
    by (subst (asm) show_dec.simps) (auto split: if_splits)
  with "1.IH" show ?case by auto
qed

section \<open>The codecs as instances of the contract\<close>

interpretation hex: codec hex_encode hex_decode "\<lambda>_. True"
  by unfold_locales (simp add: hex_decode_encode)

interpretation b64: codec b64_encode b64_decode "\<lambda>_. True"
  by unfold_locales (simp add: b64_decode_encode)

interpretation dec: codec show_dec "read_digits 0" "\<lambda>_. True"
  by unfold_locales (simp add: read_show_dec)

interpretation le16: codec "put_le 2 :: u16 \<Rightarrow> bytes" "\<lambda>bs. Some (get_le bs)" "\<lambda>_. True"
  by unfold_locales (simp add: get_le_put_le del: put_le_numeral)

interpretation be64: codec "put_be 8 :: u64 \<Rightarrow> bytes" "\<lambda>bs. Some (get_be bs)" "\<lambda>_. True"
  by unfold_locales (simp add: get_be_put_be)

lemma hex_encode_inject: "hex_encode xs = hex_encode ys \<longleftrightarrow> xs = ys"
  by (simp add: hex.enc_inject)

lemma b64_encode_inject: "b64_encode xs = b64_encode ys \<longleftrightarrow> xs = ys"
  by (simp add: b64.enc_inject)

lemma show_dec_inject [simp]: "show_dec m = show_dec n \<longleftrightarrow> m = n"
  by (simp add: dec.enc_inject)

end
