(* ===== verification/GoStrings.thy ===== *)
theory GoStrings
  imports Encoding
begin

text \<open>
  The functions of Go's \<open>strings\<close> package that the code calls, and the two regular
  expressions of the data-rate parser. Go strings are byte strings, so \<open>string\<close> (a list of
  8-bit characters) is the same type.
\<close>

definition has_prefix :: "string \<Rightarrow> string \<Rightarrow> bool" where
  "has_prefix p s \<longleftrightarrow> take (length p) s = p"

definition has_suffix :: "string \<Rightarrow> string \<Rightarrow> bool" where
  "has_suffix p s \<longleftrightarrow> has_prefix (rev p) (rev s)"

fun str_contains :: "string \<Rightarrow> string \<Rightarrow> bool" where
  "str_contains sub [] = (sub = [])"
| "str_contains sub (c # cs) = (has_prefix sub (c # cs) \<or> str_contains sub cs)"

text \<open>\<open>strings.Split(s, sep)\<close> for a separator of one character: never empty.\<close>

fun split_char :: "char \<Rightarrow> string \<Rightarrow> string list" where
  "split_char c [] = [[]]"
| "split_char c (x # xs) = (if x = c then [] # split_char c xs
     else (case split_char c xs of [] \<Rightarrow> [[x]] | y # ys \<Rightarrow> (x # y) # ys))"

fun join_char :: "char \<Rightarrow> string list \<Rightarrow> string" where
  "join_char c [] = []"
| "join_char c [x] = x"
| "join_char c (x # y # xs) = x @ c # join_char c (y # xs)"

text \<open>
  \<open>strings.SplitN(s, sep, 2)\<close> for a non-empty separator: the two sides of its first
  occurrence, or the string alone.
\<close>

fun cut_at :: "string \<Rightarrow> string \<Rightarrow> (string \<times> string) option" where
  "cut_at sep [] = (if sep = [] then Some ([], []) else None)"
| "cut_at sep (c # cs) = (if has_prefix sep (c # cs) then Some ([], drop (length sep) (c # cs))
     else map_option (\<lambda>(a, b). (c # a, b)) (cut_at sep cs))"

definition split_n2 :: "string \<Rightarrow> string \<Rightarrow> string list" where
  "split_n2 sep s = (case cut_at sep s of None \<Rightarrow> [s] | Some (a, b) \<Rightarrow> [a, b])"

text \<open>\<open>strings.Replace(s, old, new, 1)\<close>: the first occurrence of \<open>old\<close>.\<close>

fun replace_first :: "string \<Rightarrow> string \<Rightarrow> string \<Rightarrow> string" where
  "replace_first old new [] = (if old = [] then new else [])"
| "replace_first old new (c # cs) =
     (if has_prefix old (c # cs) then new @ drop (length old) (c # cs)
      else c # replace_first old new cs)"

text \<open>\<open>strings.TrimRight(s, cutset)\<close> and \<open>strings.Trim(s, cutset)\<close>.\<close>

definition trim_right :: "string \<Rightarrow> string \<Rightarrow> string" where
  "trim_right cutset s = rev (dropWhile (\<lambda>c. c \<in> set cutset) (rev s))"

definition trim_both :: "string \<Rightarrow> string \<Rightarrow> string" where
  "trim_both cutset s = trim_right cutset (dropWhile (\<lambda>c. c \<in> set cutset) s)"

text \<open>
  \<open>strings.Fields(s)\<close>: the parts of a string between runs of white space. The white space of
  \<open>unicode.IsSpace\<close> is given by its encodings; none of them starts inside another character.
\<close>

definition space_codes :: "string list" where
  "space_codes = [[CHR 0x09], [CHR 0x0A], [CHR 0x0B], [CHR 0x0C], [CHR 0x0D], [CHR 0x20],
     [CHR 0xC2, CHR 0x85], [CHR 0xC2, CHR 0xA0], [CHR 0xE1, CHR 0x9A, CHR 0x80]]
     @ map (\<lambda>n. [CHR 0xE2, CHR 0x80, char_of (128 + n)]) [0..<11]
     @ [[CHR 0xE2, CHR 0x80, CHR 0xA8], [CHR 0xE2, CHR 0x80, CHR 0xA9], [CHR 0xE2, CHR 0x80, CHR 0xAF],
        [CHR 0xE2, CHR 0x81, CHR 0x9F], [CHR 0xE3, CHR 0x80, CHR 0x80]]"

text \<open>The length of the white space a string starts with, zero if it starts with none.\<close>

definition leading_space :: "string \<Rightarrow> nat" where
  "leading_space s = (case filter (\<lambda>w. has_prefix w s) space_codes of [] \<Rightarrow> 0 | w # _ \<Rightarrow> length w)"

function fields_from :: "string \<Rightarrow> string \<Rightarrow> string list" where
  "fields_from cur [] = (if cur = [] then [] else [cur])"
| "fields_from cur (c # cs) = (case leading_space (c # cs) of
     0 \<Rightarrow> fields_from (cur @ [c]) cs
   | Suc n \<Rightarrow> (if cur = [] then [] else [cur]) @ fields_from [] (drop n cs))"
  by pat_completeness auto
termination by (relation "measure (\<lambda>(cur, s). length s)") auto

definition go_Fields :: "string \<Rightarrow> string list" where
  "go_Fields s = fields_from [] s"

section \<open>Laws\<close>

lemma has_prefix_append [simp]: "has_prefix p (p @ s)"
  by (simp add: has_prefix_def)

lemma has_prefix_Nil [simp]: "has_prefix [] s"
  by (simp add: has_prefix_def)

lemma has_prefix_iff: "has_prefix p s \<longleftrightarrow> (\<exists>t. s = p @ t)"
proof
  assume "has_prefix p s"
  then have "s = p @ drop (length p) s"
    by (metis append_take_drop_id has_prefix_def)
  then show "\<exists>t. s = p @ t" ..
qed auto

lemma has_suffix_iff: "has_suffix p s \<longleftrightarrow> (\<exists>t. s = t @ p)"
proof
  assume "has_suffix p s"
  then obtain t where "rev s = rev p @ t" by (auto simp: has_suffix_def has_prefix_iff)
  then have "s = rev t @ p" by (metis rev_append rev_rev_ident)
  then show "\<exists>t. s = t @ p" ..
qed (auto simp: has_suffix_def)

lemma str_contains_iff: "str_contains sub s \<longleftrightarrow> (\<exists>a b. s = a @ sub @ b)"
proof (induction s)
  case Nil
  then show ?case by auto
next
  case (Cons c cs)
  show ?case
  proof
    assume "str_contains sub (c # cs)"
    then consider "has_prefix sub (c # cs)" | "str_contains sub cs" by auto
    then show "\<exists>a b. c # cs = a @ sub @ b"
    proof cases
      case 1
      then show ?thesis by (metis append_Nil has_prefix_iff)
    next
      case 2
      then show ?thesis using Cons by (metis append_Cons)
    qed
  next
    assume "\<exists>a b. c # cs = a @ sub @ b"
    then obtain a b where ab: "c # cs = a @ sub @ b" by blast
    show "str_contains sub (c # cs)"
    proof (cases a)
      case Nil
      with ab have "has_prefix sub (c # cs)" by simp
      then show ?thesis by simp
    next
      case (Cons x a')
      with ab have "cs = a' @ sub @ b" by simp
      with Cons.IH show ?thesis by (metis str_contains.simps(2))
    qed
  qed
qed

lemma split_char_not_Nil [simp]: "split_char c s \<noteq> []"
  by (induction s) (auto split: list.split)

lemma join_split_char [codec_simps]: "join_char c (split_char c s) = s"
proof (induction s)
  case Nil
  then show ?case by simp
next
  case (Cons x xs)
  then show ?case
    by (cases "split_char c xs" rule: list.exhaust; cases "tl (split_char c xs)") auto
qed

lemma split_char_no_sep: "c \<notin> set s \<Longrightarrow> split_char c s = [s]"
  by (induction s) auto

lemma split_char_append:
  "c \<notin> set x \<Longrightarrow> split_char c (x @ c # r) = x # split_char c r"
  by (induction x) (auto split: list.split)

lemma split_char_parts: "x \<in> set (split_char c s) \<Longrightarrow> c \<notin> set x"
  by (induction s arbitrary: x) (auto split: list.splits if_splits)

lemma replace_first_prefix [simp]: "replace_first old new (old @ r) = new @ r"
proof (cases old)
  case Nil
  then show ?thesis by (cases r) auto
next
  case (Cons a list)
  then show ?thesis using has_prefix_append[of old r] by auto
qed

lemma replace_first_skip:
  assumes "\<And>p q. x = p @ q \<Longrightarrow> q \<noteq> [] \<Longrightarrow> \<not> has_prefix old (q @ old @ r)"
  shows "replace_first old new (x @ old @ r) = x @ new @ r"
  using assms
proof (induction x)
  case Nil
  then show ?case by simp
next
  case (Cons c cs)
  have "\<not> has_prefix old ((c # cs) @ old @ r)"
    by (rule Cons.prems[of "[]"]) auto
  moreover have "replace_first old new (cs @ old @ r) = cs @ new @ r"
    by (rule Cons.IH) (metis Cons.prems append_Cons)
  ultimately show ?case by simp
qed

lemma cut_at_Some: "sep \<noteq> [] \<Longrightarrow> cut_at sep s = Some (a, b) \<Longrightarrow> s = a @ sep @ b"
proof (induction s arbitrary: a b)
  case Nil
  then show ?case by simp
next
  case (Cons c cs)
  show ?case
  proof (cases "has_prefix sep (c # cs)")
    case True
    with Cons.prems show ?thesis
      by (metis append_Nil append_take_drop_id cut_at.simps(2) fst_conv has_prefix_def
          option.inject snd_conv)
  next
    case False
    with Cons.prems(2) obtain a' where "cut_at sep cs = Some (a', b)" "a = c # a'" by auto
    with Cons.IH Cons.prems(1) show ?thesis by simp
  qed
qed

lemma cut_at_length:
  "cut_at sep s = Some (a, b) \<Longrightarrow> length a + length sep + length b = length s"
proof (induction sep s arbitrary: a rule: cut_at.induct)
  case (2 sep c cs)
  show ?case
  proof (cases "has_prefix sep (c # cs)")
    case True
    then obtain t where "c # cs = sep @ t" by (auto simp: has_prefix_iff)
    then show ?thesis using 2(2) True by (metis add.left_neutral append_eq_conv_conj cut_at.simps(2)
      length_append list.size(3) option.inject prod.inject)
  qed (use 2 in auto)
qed (auto split: if_splits)

lemma cut_at_hit:
  assumes "sep \<noteq> []" "hd sep \<notin> set a"
  shows "cut_at sep (a @ sep @ b) = Some (a, b)"
  using assms(2)
proof (induction a)
  case Nil
  then show ?case using assms(1) by (cases sep) (auto simp: has_prefix_def)
next
  case (Cons c a)
  then have "\<not> has_prefix sep (c # a @ sep @ b)"
    using assms(1) by (cases sep) (auto simp: has_prefix_def)
  then show ?case using Cons by simp
qed

lemma cut_at_miss: "sep \<noteq> [] \<Longrightarrow> hd sep \<notin> set s \<Longrightarrow> cut_at sep s = None"
proof (induction s)
  case (Cons c s)
  then have "\<not> has_prefix sep (c # s)" by (cases sep) (auto simp: has_prefix_def)
  then show ?case using Cons by simp
qed simp

lemma split_joined:
  "\<forall>s \<in> set ss. c \<notin> set s \<Longrightarrow> ss \<noteq> [] \<Longrightarrow> split_char c (join_char c ss) = ss"
  by (induction ss rule: join_char.induct[of _ c]) (auto simp: split_char_no_sep split_char_append)

section \<open>The data-rate regular expressions\<close>

definition is_digit :: "char \<Rightarrow> bool" where
  "is_digit c \<longleftrightarrow> digit_val c \<noteq> None"

text \<open>
  \<open>SF(\d+)BW(\d+)\<close>: an unanchored leftmost match with greedy digit groups. Since the first
  group must be followed by the letter B, giving digits back never helps.
\<close>

definition lora_dr_at :: "string \<Rightarrow> (string \<times> string) option" where
  "lora_dr_at s = (if has_prefix ''SF'' s then
     (let d = takeWhile is_digit (drop 2 s); r = dropWhile is_digit (drop 2 s) in
      if d \<noteq> [] \<and> has_prefix ''BW'' r then
        (let e = takeWhile is_digit (drop 2 r) in if e \<noteq> [] then Some (d, e) else None)
      else None)
    else None)"

fun lora_dr_match :: "string \<Rightarrow> (string \<times> string) option" where
  "lora_dr_match [] = None"
| "lora_dr_match (c # cs) =
     (case lora_dr_at (c # cs) of Some m \<Rightarrow> Some m | None \<Rightarrow> lora_dr_match cs)"

text \<open>\<open>M0CW(\d+)\<close>.\<close>

definition lrfhss_dr_at :: "string \<Rightarrow> string option" where
  "lrfhss_dr_at s = (if has_prefix ''M0CW'' s then
     (let d = takeWhile is_digit (drop 4 s) in if d \<noteq> [] then Some d else None) else None)"

fun lrfhss_dr_match :: "string \<Rightarrow> string option" where
  "lrfhss_dr_match [] = None"
| "lrfhss_dr_match (c # cs) =
     (case lrfhss_dr_at (c # cs) of Some m \<Rightarrow> Some m | None \<Rightarrow> lrfhss_dr_match cs)"

lemma digits_show_dec: "c \<in> set (show_dec n) \<Longrightarrow> is_digit c"
  using show_dec_digits by (simp add: is_digit_def)

lemma takeWhile_digits_show_dec:
  "\<not> is_digit c \<Longrightarrow> takeWhile is_digit (show_dec n @ c # r) = show_dec n"
  "\<not> is_digit c \<Longrightarrow> dropWhile is_digit (show_dec n @ c # r) = c # r"
  "takeWhile is_digit (show_dec n) = show_dec n"
  by (auto simp: takeWhile_append2 dropWhile_append2 takeWhile_eq_all_conv digits_show_dec)

lemma not_digit_B [simp]: "\<not> is_digit (CHR ''B'')"
  by (simp add: is_digit_def digit_val_def)

lemma lora_dr_match_print [codec_simps]:
  "lora_dr_match (''SF'' @ show_dec sf @ ''BW'' @ show_dec bw) = Some (show_dec sf, show_dec bw)"
proof -
  have "lora_dr_at (''SF'' @ show_dec sf @ ''BW'' @ show_dec bw) = Some (show_dec sf, show_dec bw)"
    by (simp add: lora_dr_at_def has_prefix_def takeWhile_digits_show_dec Let_def)
  then show ?thesis by simp
qed

lemma lrfhss_dr_match_print [codec_simps]:
  "lrfhss_dr_match (''M0CW'' @ show_dec cw) = Some (show_dec cw)"
proof -
  have "lrfhss_dr_at (''M0CW'' @ show_dec cw) = Some (show_dec cw)"
    by (simp add: lrfhss_dr_at_def has_prefix_def takeWhile_digits_show_dec Let_def)
  then show ?thesis by simp
qed

section \<open>Words\<close>

text \<open>A word without a byte that can start white space.\<close>

definition plain_word :: "string \<Rightarrow> bool" where
  "plain_word w \<longleftrightarrow> w \<noteq> [] \<and> (\<forall>c \<in> set w. c \<notin> set (map hd space_codes))"

lemma leading_space_plain: "c \<notin> set (map hd space_codes) \<Longrightarrow> leading_space (c # cs) = 0"
proof -
  assume c: "c \<notin> set (map hd space_codes)"
  have "\<forall>w \<in> set space_codes. w \<noteq> []" by (auto simp: space_codes_def)
  then have "\<not> has_prefix w (c # cs)" if "w \<in> set space_codes" for w
    using c that imageI[OF that, of hd] by (cases w) (auto simp: has_prefix_iff)
  then show ?thesis by (auto simp: leading_space_def filter_empty_conv split: list.split)
qed

lemma leading_space_blank: "leading_space (CHR '' '' # cs) = 1"
  by (simp add: leading_space_def space_codes_def has_prefix_def)

lemma fields_from_plain:
  "\<forall>c \<in> set w. c \<notin> set (map hd space_codes) \<Longrightarrow> fields_from cur (w @ s) = fields_from (cur @ w) s"
  by (induction w arbitrary: cur) (simp_all add: leading_space_plain del: set_map)

lemma fields_from_join:
  "\<forall>w \<in> set ws. plain_word w \<Longrightarrow> fields_from [] (join_char CHR '' '' ws) = ws"
proof (induction ws rule: induct_list012)
  case (2 w)
  then show ?case using fields_from_plain[of w "[]" "[]"] by (simp add: plain_word_def del: set_map)
next
  case (3 w v ws)
  have w: "w \<noteq> []" "\<forall>c \<in> set w. c \<notin> set (map hd space_codes)"
    using "3.prems" by (simp_all add: plain_word_def del: set_map)
  then show ?case using "3.IH"(2) "3.prems" fields_from_plain[OF w(2), of "[]"]
    by (simp add: leading_space_blank del: set_map)
qed simp

lemma go_Fields_join: "\<forall>w \<in> set ws. plain_word w \<Longrightarrow> go_Fields (join_char CHR '' '' ws) = ws"
  by (simp add: go_Fields_def fields_from_join)

end
