(* ===== verification/Json.thy ===== *)
theory Json
  imports GoStrings
begin

text \<open>
  The values \<open>encoding/json\<close> produces when it decodes into \<open>interface{}\<close>, and the
  recursive rewriting of \<open>api.go\<close> over them. A Go map has unique keys and no order, so an
  object is an association list whose order carries no meaning. Text to value and back is
  a parameter of the definitions that need it.
\<close>

datatype json =
    JNull
  | JBool bool
  | JNum float64
  | JStr string
  | JArr "json list"
  | JObj "(string \<times> json) list"

text \<open>\<open>modifyMap\<close>: every value stored under \<open>key\<close>, at any depth, is replaced; the
  replaced values are not entered. Values that are neither maps nor slices are left alone.\<close>

fun modifyMap :: "string \<Rightarrow> string \<Rightarrow> json \<Rightarrow> json" where
  "modifyMap key val (JObj m) =
     JObj (map (\<lambda>(k, v). (k, if k = key then JStr val else modifyMap key val v)) m)"
| "modifyMap key val (JArr xs) = JArr (map (modifyMap key val) xs)"
| "modifyMap key val JNull = JNull"
| "modifyMap key val (JBool b) = JBool b"
| "modifyMap key val (JNum n) = JNum n"
| "modifyMap key val (JStr s) = JStr s"

text \<open>The reference reading: every value under the key is the new string ...\<close>

fun all_set :: "string \<Rightarrow> string \<Rightarrow> json \<Rightarrow> bool" where
  "all_set key val (JObj m) =
     (\<forall>(k, v) \<in> set m. if k = key then v = JStr val else all_set key val v)"
| "all_set key val (JArr xs) = (\<forall>x \<in> set xs. all_set key val x)"
| "all_set key val _ = True"

text \<open>... and nothing else changes: the values agree once those under the key are blanked.\<close>

fun blank :: "string \<Rightarrow> json \<Rightarrow> json" where
  "blank key (JObj m) = JObj (map (\<lambda>(k, v). (k, if k = key then JNull else blank key v)) m)"
| "blank key (JArr xs) = JArr (map (blank key) xs)"
| "blank key v = v"

lemma all_set_modifyMap: "all_set key val (modifyMap key val j)"
  by (induction key val j rule: modifyMap.induct) (fastforce split: if_splits)+

lemma blank_modifyMap: "blank key (modifyMap key val j) = blank key j"
  by (induction key val j rule: modifyMap.induct) (force split: if_splits)+

lemma modifyMap_id: "all_set key val j \<Longrightarrow> modifyMap key val j = j"
proof (induction key val j rule: modifyMap.induct)
  case (1 key val m)
  have "(case p of (k, v) \<Rightarrow> (k, if k = key then JStr val else modifyMap key val v)) = p"
    if p: "p \<in> set m" for p
  proof (cases p)
    case (Pair k v)
    with p "1.prems" have "k = key \<longrightarrow> v = JStr val" "k \<noteq> key \<longrightarrow> all_set key val v" by auto
    with "1.IH" p Pair show ?thesis by auto
  qed
  then show ?case by (simp add: map_idI)
qed (auto simp: map_idI)

lemma modifyMap_idem [simp]:
  "modifyMap key val (modifyMap key val j) = modifyMap key val j"
  by (rule modifyMap_id) (rule all_set_modifyMap)

text \<open>A top-level key other than the rewritten one keeps its entry up to the rewriting.\<close>

lemma modifyMap_lookup:
  "modifyMap key val (JObj m) = JObj m' \<Longrightarrow> map_of m' k =
     map_option (\<lambda>v. if k = key then JStr val else modifyMap key val v) (map_of m k)"
  by (auto simp: map_of_map_snd_pair)

text \<open>
  What \<open>json.Unmarshal\<close> into \<open>map[string]interface{}\<close> leaves in the variable: the object,
  or the nil map for \<open>null\<close>; other values are an error.
\<close>

fun as_go_map :: "json \<Rightarrow> (string \<times> json) list option" where
  "as_go_map (JObj m) = Some m"
| "as_go_map JNull = Some []"
| "as_go_map _ = None"

end
