(* ===== verification/RoamingApi.thy ===== *)
theory RoamingApi
  imports Json
begin

text \<open>
  The roaming logic of \<open>api/api.go\<close>: the configuration endpoint, the MQTT message handler
  that tells home from foreign packets by their NetID, the SLA check and counter calls to
  the blockchain service, and the pool of publish clients.

  The state record holds the package variables. What lies outside the repository is the
  environment record \<open>api_env\<close>: the paho MQTT client, the HTTP transport with the Python
  service behind it, and the text level of \<open>encoding/json\<close>. Its functions take the
  number of questions asked so far (\<open>tick\<close>), so the same question may be answered
  differently later: a client that was up may be down at the next look. Everything sent
  out is recorded, in order, in \<open>effects\<close>.
\<close>

type_synonym mqtt_client = nat

section \<open>Data\<close>

record Body =
  body_AddedBroker :: string
  body_BrokerIPHNS :: string
  body_GWIDToken :: string
  body_GWIDTokenForeign :: string
  body_BlockchainServiceURL :: string
  body_MyNetID :: string
  body_MyProviderName :: string
  body_IsForwarder :: bool
  body_AlgodAddress :: string
  body_AlgodToken :: string
  body_IndexerAddress :: string
  body_SCAppID :: int
  body_PrivateKeyMnemonic :: string

record SLACheckResponse =
  sla_Status :: string
  sla_SLAState :: string
  sla_TokenBroker :: string
  sla_GatewayID :: string
  sla_Message :: string

datatype http_request = HttpGet string | HttpPost string "(string \<times> string) list"

text \<open>A reply is a status code, the body read so far and whether reading it failed.\<close>

datatype http_reply = NoReply | Reply int string bool

datatype publish_result = Delivered | PublishTimedOut | PublishError

datatype api_effect =
    EffHttp http_request
  | EffSpawnIncrement string
  | EffDial string string "mqtt_client option"
  | EffPublish mqtt_client string string
  | EffSubscribe mqtt_client string
  | EffSpawnSubscribe string

record api_env =
  is_connected :: "nat \<Rightarrow> mqtt_client \<Rightarrow> bool"
  dial :: "nat \<Rightarrow> string \<Rightarrow> string \<Rightarrow> mqtt_client option"
  new_client :: "nat \<Rightarrow> string \<Rightarrow> mqtt_client"
  publish :: "nat \<Rightarrow> mqtt_client \<Rightarrow> string \<Rightarrow> string \<Rightarrow> publish_result"
  subscribe_ok :: "nat \<Rightarrow> mqtt_client \<Rightarrow> string \<Rightarrow> bool"
  now_nanos :: "nat \<Rightarrow> nat"
  request_ok :: "string \<Rightarrow> bool"
  http_do :: "nat \<Rightarrow> http_request \<Rightarrow> http_reply"
  json_unmarshal :: "string \<Rightarrow> json option"
  json_marshal :: "json \<Rightarrow> string option"
  unmarshal_sla :: "string \<Rightarrow> SLACheckResponse option"
  decode_body :: "string \<Rightarrow> Body option"

record api_state =
  mqttClient :: "mqtt_client option"
  publishClients :: "string \<rightharpoonup> mqtt_client"
  NsIpAddress :: string
  AddedBroker :: string
  GWid :: string
  GWidForeign :: string
  GwidTopicName :: string
  BlockchainServiceURL :: string
  BlockchainEnabled :: bool
  tick :: nat
  effects :: "api_effect list"

definition init_api :: api_state where
  "init_api = \<lparr>mqttClient = None, publishClients = Map.empty, NsIpAddress = [],
     AddedBroker = [], GWid = [], GWidForeign = [], GwidTopicName = [],
     BlockchainServiceURL = [], BlockchainEnabled = False, tick = 0, effects = []\<rparr>"

definition emit :: "api_effect \<Rightarrow> api_state \<Rightarrow> api_state" where
  "emit e s = s\<lparr>effects := effects s @ [e]\<rparr>"

definition advance :: "api_state \<Rightarrow> api_state" where
  "advance s = s\<lparr>tick := Suc (tick s)\<rparr>"

definition ask_connected :: "api_env \<Rightarrow> mqtt_client \<Rightarrow> api_state \<Rightarrow> bool \<times> api_state" where
  "ask_connected env c s = (is_connected env (tick s) c, advance s)"

definition http_call :: "api_env \<Rightarrow> http_request \<Rightarrow> api_state \<Rightarrow> http_reply \<times> api_state" where
  "http_call env r s = (http_do env (tick s) r, advance (emit (EffHttp r) s))"

section \<open>The blockchain service\<close>

definition checkSLAWithPythonService ::
  "api_env \<Rightarrow> string \<Rightarrow> api_state \<Rightarrow> SLACheckResponse result \<times> api_state" where
  "checkSLAWithPythonService env netID s =
     (let url = BlockchainServiceURL s @ ''/check_sla'' in
      if \<not> request_ok env url then
        (Inl (Wrap ''failed to create request'' (LibErr ''http'')), s)
      else (case http_call env (HttpPost url [(''netid'', netID)]) s of
        (NoReply, s1) \<Rightarrow> (Inl (Wrap ''failed to call blockchain service'' (LibErr ''http'')), s1)
      | (Reply status body broken, s1) \<Rightarrow>
          if broken then (Inl (Wrap ''failed to read response'' (LibErr ''http'')), s1)
          else (case unmarshal_sla env body of
            None \<Rightarrow> (Inl (Wrap ''failed to parse response'' (LibErr ''json'')), s1)
          | Some r \<Rightarrow> (Inr r, s1))))"

text \<open>
  The counter call runs in its own goroutine: the handler only starts it. Its body sends
  the request and returns in every case; \<open>True\<close> means the service answered 200.
\<close>

definition incrementCounterWithPythonService :: "string \<Rightarrow> api_state \<Rightarrow> api_state" where
  "incrementCounterWithPythonService netID s = emit (EffSpawnIncrement netID) s"

definition incrementCounterBody :: "api_env \<Rightarrow> string \<Rightarrow> api_state \<Rightarrow> bool \<times> api_state" where
  "incrementCounterBody env netID s =
     (let url = BlockchainServiceURL s @ ''/increment_counter'' in
      if \<not> request_ok env url then (False, s)
      else (case http_call env (HttpPost url [(''netid'', netID)]) s of
        (NoReply, s1) \<Rightarrow> (False, s1)
      | (Reply status body broken, s1) \<Rightarrow> (status = 200, s1)))"

section \<open>Publish clients\<close>

definition initPublishClient ::
  "api_env \<Rightarrow> string \<Rightarrow> string \<Rightarrow> api_state \<Rightarrow> mqtt_client option \<times> api_state" where
  "initPublishClient env broker clientID s =
     (if broker = [] then (None, s)
      else (let c = dial env (tick s) broker clientID in
        (c, advance (emit (EffDial broker clientID c) s))))"

definition fresh_client_id :: "api_env \<Rightarrow> api_state \<Rightarrow> string" where
  "fresh_client_id env s = ''MQTT_Forwarder_'' @ show_dec (now_nanos env (tick s))"

definition makePublishClient ::
  "api_env \<Rightarrow> string \<Rightarrow> api_state \<Rightarrow> mqtt_client option \<times> api_state" where
  "makePublishClient env broker s =
     (case initPublishClient env broker (fresh_client_id env s) s of
        (None, s1) \<Rightarrow> (None, s1)
      | (Some c, s1) \<Rightarrow> (Some c, s1\<lparr>publishClients := (publishClients s1)(broker \<mapsto> c)\<rparr>))"

text \<open>The part under the mutex: the pool is looked at a second time.\<close>

definition lockedPublishClient ::
  "api_env \<Rightarrow> string \<Rightarrow> api_state \<Rightarrow> mqtt_client option \<times> api_state" where
  "lockedPublishClient env broker s =
     (case publishClients s broker of
       Some c \<Rightarrow> (case ask_connected env c s of
           (True, s1) \<Rightarrow> (Some c, s1)
         | (False, s1) \<Rightarrow> makePublishClient env broker s1)
     | None \<Rightarrow> makePublishClient env broker s)"

definition dropPublishClient :: "string \<Rightarrow> api_state \<Rightarrow> api_state" where
  "dropPublishClient broker s = s\<lparr>publishClients := (publishClients s)(broker := None)\<rparr>"

definition getOrCreatePublishClient ::
  "api_env \<Rightarrow> string \<Rightarrow> api_state \<Rightarrow> mqtt_client option \<times> api_state" where
  "getOrCreatePublishClient env broker s =
     (case publishClients s broker of
       Some c \<Rightarrow> (case ask_connected env c s of
           (True, s1) \<Rightarrow> (Some c, s1)
         | (False, s1) \<Rightarrow> lockedPublishClient env broker (dropPublishClient broker s1))
     | None \<Rightarrow> lockedPublishClient env broker s)"

section \<open>DevAddr and NetID\<close>

text \<open>The swap loop of \<open>reverse\<close>, with its two indices.\<close>

function reverse_loop :: "'a list \<Rightarrow> nat \<Rightarrow> nat \<Rightarrow> 'a list" where
  "reverse_loop s i j =
     (if i < j then reverse_loop (s[i := s ! j, j := s ! i]) (i + 1) (j - 1) else s)"
  by pat_completeness auto
termination
  by (relation "measure (\<lambda>(s, i, j). j - i)") auto

declare reverse_loop.simps [simp del]

definition reverse_go :: "'a list \<Rightarrow> 'a list" where
  "reverse_go s = reverse_loop s 0 (length s - 1)"

definition getDevAddr :: "bytes \<Rightarrow> bytes option" where
  "getDevAddr phyPayload =
     (if length phyPayload < 5 then None
      else Some (reverse_go (copy_fixed 4 (slice 1 5 phyPayload))))"

definition calculateNetID :: "bytes \<Rightarrow> bytes option" where
  "calculateNetID devAddr =
     (if length devAddr \<noteq> 4 then None else Some [drop_bit 1 (devAddr ! 0)])"

section \<open>Routing one uplink\<close>

datatype drop_reason =
    BadJson | BadTopic | BadBase64 | NoDevAddr | NoNetID | SlaRejected | BadGatewayID
  | MarshalFailed | NoPublishClient | ReconnectionFailed | PublishTimeout | PublishFailed

datatype outcome = Dropped drop_reason | Panicked | Forwarded

record target =
  target_gwid :: string
  target_broker :: string
  target_foreign :: bool

definition sla_accepted :: "SLACheckResponse \<Rightarrow> bool" where
  "sla_accepted r \<longleftrightarrow> sla_SLAState r = ''Accept'' \<or> sla_SLAState r = ''Active SLA''"

definition sla_target :: "api_state \<Rightarrow> SLACheckResponse \<Rightarrow> target" where
  "sla_target s r =
     \<lparr>target_gwid = (if sla_GatewayID r \<noteq> '''' \<and> sla_GatewayID r \<noteq> ''None''
        then sla_GatewayID r else GWidForeign s),
      target_broker = (if sla_TokenBroker r \<noteq> '''' \<and> sla_TokenBroker r \<noteq> ''None''
        then (if has_prefix ''tcp://'' (sla_TokenBroker r) then sla_TokenBroker r
              else ''tcp://'' @ sla_TokenBroker r)
        else NsIpAddress s),
      target_foreign = True\<rparr>"

definition home_target :: "api_state \<Rightarrow> target" where
  "home_target s = \<lparr>target_gwid = GWid s, target_broker = AddedBroker s, target_foreign = False\<rparr>"

definition fallback_target :: "api_state \<Rightarrow> target" where
  "fallback_target s =
     \<lparr>target_gwid = GWidForeign s, target_broker = NsIpAddress s, target_foreign = True\<rparr>"

definition route_foreign :: "api_env \<Rightarrow> string \<Rightarrow> api_state \<Rightarrow> (outcome + target) \<times> api_state" where
  "route_foreign env netIDStr s =
     (if BlockchainEnabled s then
        (case checkSLAWithPythonService env netIDStr s of
           (Inl e, s1) \<Rightarrow> (Inr (fallback_target s1), s1)
         | (Inr r, s1) \<Rightarrow>
             if sla_accepted r
             then (Inr (sla_target s1 r), incrementCounterWithPythonService netIDStr s1)
             else (Inl (Dropped SlaRejected), s1))
      else (Inr (fallback_target s), s))"

text \<open>
  The branch for event \<open>up\<close>. A \<open>phyPayload\<close> that is absent or null leaves the home target;
  one that is not a string fails the type assertion, which panics.
\<close>

definition route_up ::
  "api_env \<Rightarrow> (string \<times> json) list \<Rightarrow> api_state \<Rightarrow> (outcome + target) \<times> api_state" where
  "route_up env m s =
     (case map_of m ''phyPayload'' of
        None \<Rightarrow> (Inr (home_target s), s)
      | Some JNull \<Rightarrow> (Inr (home_target s), s)
      | Some (JStr payloadPHY) \<Rightarrow>
          (case b64_decode payloadPHY of
             None \<Rightarrow> (Inl (Dropped BadBase64), s)
           | Some phy \<Rightarrow>
               (case getDevAddr phy of
                  None \<Rightarrow> (Inl (Dropped NoDevAddr), s)
                | Some devAddr \<Rightarrow>
                    (case calculateNetID devAddr of
                       None \<Rightarrow> (Inl (Dropped NoNetID), s)
                     | Some netID \<Rightarrow>
                         let netIDStr = hex_encode netID in
                         if netIDStr \<noteq> ''01'' then route_foreign env netIDStr s
                         else (Inr (home_target s), s))))
      | Some _ \<Rightarrow> (Inl Panicked, s))"

section \<open>Publishing\<close>

definition do_publish ::
  "api_env \<Rightarrow> mqtt_client \<Rightarrow> string \<Rightarrow> string \<Rightarrow> api_state \<Rightarrow> outcome \<times> api_state" where
  "do_publish env c topic payload s =
     (case publish env (tick s) c topic payload of
        Delivered \<Rightarrow> Forwarded
      | PublishTimedOut \<Rightarrow> Dropped PublishTimeout
      | PublishError \<Rightarrow> Dropped PublishFailed,
      advance (emit (EffPublish c topic payload) s))"

definition reconnect_publish ::
  "api_env \<Rightarrow> string \<Rightarrow> string \<Rightarrow> string \<Rightarrow> api_state \<Rightarrow> outcome \<times> api_state" where
  "reconnect_publish env broker topic payload s =
     (case getOrCreatePublishClient env broker (dropPublishClient broker s) of
        (None, s1) \<Rightarrow> (Dropped ReconnectionFailed, s1)
      | (Some c, s1) \<Rightarrow> (case ask_connected env c s1 of
            (True, s2) \<Rightarrow> do_publish env c topic payload s2
          | (False, s2) \<Rightarrow> (Dropped ReconnectionFailed, s2)))"

text \<open>The client is asked twice, 100 ms apart, before it is thrown away and replaced once.\<close>

definition publish_to ::
  "api_env \<Rightarrow> string \<Rightarrow> string \<Rightarrow> string \<Rightarrow> api_state \<Rightarrow> outcome \<times> api_state" where
  "publish_to env broker topic payload s =
     (case getOrCreatePublishClient env broker s of
        (None, s1) \<Rightarrow> (Dropped NoPublishClient, s1)
      | (Some c, s1) \<Rightarrow> (case ask_connected env c s1 of
            (True, s2) \<Rightarrow> do_publish env c topic payload s2
          | (False, s2) \<Rightarrow> (case ask_connected env c s2 of
                (True, s3) \<Rightarrow> do_publish env c topic payload s3
              | (False, s3) \<Rightarrow> reconnect_publish env broker topic payload s3)))"

definition forward_payload ::
  "api_env \<Rightarrow> json \<Rightarrow> string \<Rightarrow> target \<Rightarrow> api_state \<Rightarrow> outcome \<times> api_state" where
  "forward_payload env payloadMap newTopic t s =
     (case hex_decode (target_gwid t) of
        None \<Rightarrow> (Dropped BadGatewayID, s)
      | Some gw \<Rightarrow>
          (case json_marshal env (modifyMap ''gatewayID'' (b64_encode gw) payloadMap) of
             None \<Rightarrow> (Dropped MarshalFailed, s)
           | Some payload \<Rightarrow> publish_to env (target_broker t) newTopic payload s))"

definition rewrite_topic :: "api_state \<Rightarrow> string \<Rightarrow> string" where
  "rewrite_topic s topic = replace_first (split_char CHR ''/'' topic ! 1) (GwidTopicName s) topic"

definition onMessage :: "api_env \<Rightarrow> string \<Rightarrow> string \<Rightarrow> api_state \<Rightarrow> outcome \<times> api_state" where
  "onMessage env topic payload s =
     (case json_unmarshal env payload of
        None \<Rightarrow> (Dropped BadJson, s)
      | Some payloadMap \<Rightarrow>
          (case as_go_map payloadMap of
             None \<Rightarrow> (Dropped BadJson, s)
           | Some m \<Rightarrow>
               let topicParts = split_char CHR ''/'' topic in
               if length topicParts < 2 then (Dropped BadTopic, s)
               else
                 let newTopic = rewrite_topic s topic in
                 case (if last topicParts = ''up'' then route_up env m s
                       else (Inr (home_target s), s)) of
                   (Inl out, s1) \<Rightarrow> (out, s1)
                 | (Inr t, s1) \<Rightarrow> forward_payload env payloadMap newTopic t s1))"

section \<open>Configuration\<close>

datatype config_outcome = HttpStatus int "(string \<times> string) list" | ProcessExit

text \<open>\<open>log.Fatal\<close> on an empty address ends the process; a failed connect is only logged.\<close>

definition initMQTTClient :: "api_env \<Rightarrow> string \<Rightarrow> api_state \<Rightarrow> bool \<times> api_state" where
  "initMQTTClient env broker s =
     (if broker = [] then (False, s)
      else (True, advance (s\<lparr>mqttClient := Some (new_client env (tick s) broker)\<rparr>)))"

definition healthy :: "json option \<Rightarrow> bool" where
  "healthy j \<longleftrightarrow> (case j of None \<Rightarrow> False
     | Some v \<Rightarrow> (case as_go_map v of None \<Rightarrow> False
        | Some m \<Rightarrow> map_of m ''initialized'' = Some (JBool True)))"

definition check_blockchain :: "api_env \<Rightarrow> Body \<Rightarrow> api_state \<Rightarrow> api_state" where
  "check_blockchain env b s =
     (if body_BlockchainServiceURL b = [] then s\<lparr>BlockchainEnabled := False\<rparr>
      else
        let s1 = s\<lparr>BlockchainServiceURL := body_BlockchainServiceURL b\<rparr>;
            url = BlockchainServiceURL s1 @ ''/health'' in
        if \<not> request_ok env url then s1\<lparr>BlockchainEnabled := False\<rparr>
        else (case http_call env (HttpGet url) s1 of
          (NoReply, s2) \<Rightarrow> s2\<lparr>BlockchainEnabled := False\<rparr>
        | (Reply status body broken, s2) \<Rightarrow>
            s2\<lparr>BlockchainEnabled := healthy (json_unmarshal env body)\<rparr>))"

definition store_config :: "Body \<Rightarrow> api_state \<Rightarrow> api_state" where
  "store_config b s = s\<lparr>NsIpAddress := body_BrokerIPHNS b, AddedBroker := body_AddedBroker b,
     GWid := body_GWIDToken b,
     GWidForeign := (if body_GWIDTokenForeign b = [] then body_GWIDToken b
                     else body_GWIDTokenForeign b),
     GwidTopicName := body_GWIDToken b\<rparr>"

definition show_bool :: "bool \<Rightarrow> string" where
  "show_bool b = (if b then ''true'' else ''false'')"

definition preinit_clients :: "api_env \<Rightarrow> api_state \<Rightarrow> api_state" where
  "preinit_clients env s =
     (let s1 = snd (getOrCreatePublishClient env (AddedBroker s) s) in
      if NsIpAddress s1 \<noteq> [] \<and> NsIpAddress s1 \<noteq> AddedBroker s1
      then snd (getOrCreatePublishClient env (NsIpAddress s1) s1) else s1)"

definition spawn_subscriptions :: "api_state \<Rightarrow> api_state" where
  "spawn_subscriptions s =
     emit (EffSpawnSubscribe ''gateway/+/state/conn'')
       (emit (EffSpawnSubscribe ''gateway/+/event/stats'')
         (emit (EffSpawnSubscribe ''gateway/+/event/up'') s))"

definition handleRequest ::
  "api_env \<Rightarrow> string \<Rightarrow> string \<Rightarrow> api_state \<Rightarrow> config_outcome \<times> api_state" where
  "handleRequest env meth body s =
     (if meth \<noteq> ''POST'' then (HttpStatus 400 [], s)
      else (case decode_body env body of
        None \<Rightarrow> (HttpStatus 400 [], s)
      | Some b \<Rightarrow>
          let s1 = check_blockchain env b (store_config b s) in
          (case initMQTTClient env (AddedBroker s1) s1 of
             (False, s2) \<Rightarrow> (ProcessExit, s2)
           | (True, s2) \<Rightarrow>
               let s3 = preinit_clients env s2 in
               (HttpStatus 200 [(''status'', ''ok''),
                   (''blockchain_enabled'', show_bool (BlockchainEnabled s3))],
                spawn_subscriptions s3))))"

text \<open>\<open>False\<close> is the \<open>log.Fatal\<close> on a refused subscription, which ends the process.\<close>

definition subscribeToTopic :: "api_env \<Rightarrow> string \<Rightarrow> api_state \<Rightarrow> bool \<times> api_state" where
  "subscribeToTopic env topic s =
     (case mqttClient s of
        None \<Rightarrow> (True, s)
      | Some c \<Rightarrow> (case ask_connected env c s of
            (False, s1) \<Rightarrow> (True, s1)
          | (True, s1) \<Rightarrow>
              (subscribe_ok env (tick s1) c topic, advance (emit (EffSubscribe c topic) s1))))"

definition healthCheck :: "api_state \<Rightarrow> (string \<times> json) list" where
  "healthCheck s =
     [(''status'', JStr ''ok''), (''blockchain_enabled'', JBool (BlockchainEnabled s)),
      (''gwid_local'', JStr (GWid s)), (''gwid_foreign'', JStr (GWidForeign s)),
      (''mqtt_broker'', JStr (AddedBroker s))]"

end
