(* ===== verification/RoamingProofs.thy ===== *)
theory RoamingProofs
  imports RoamingApi
begin

text \<open>
  What the roaming handler does. The lemmas go bottom up: the swap loop and the NetID
  arithmetic; the frame of every operation (which fields it writes, which effects it
  appends), collected in \<open>quiet\<close>; the pool invariant; and then the handler itself.
\<close>

section \<open>The swap loop reverses\<close>

lemma length_reverse_loop [simp]: "length (reverse_loop s i j) = length s"
  by (induction s i j rule: reverse_loop.induct) (subst reverse_loop.simps, simp)

lemma nth_reverse_loop:
  assumes "j < length s" "k < length s"
  shows "reverse_loop s i j ! k = (if i \<le> k \<and> k \<le> j then s ! (i + j - k) else s ! k)"
  using assms
proof (induction s i j rule: reverse_loop.induct)
  case (1 s i j)
  show ?case
  proof (cases "i < j")
    case True
    let ?s = "s[i := s ! j, j := s ! i]"
    have "reverse_loop s i j ! k = reverse_loop ?s (i + 1) (j - 1) ! k"
      using True by (subst reverse_loop.simps) simp
    also have "\<dots> = (if i + 1 \<le> k \<and> k \<le> j - 1 then ?s ! (i + 1 + (j - 1) - k) else ?s ! k)"
      using "1.IH"[OF True] "1.prems" True by simp
    also have "\<dots> = (if i \<le> k \<and> k \<le> j then s ! (i + j - k) else s ! k)"
      using True "1.prems" by (auto simp: nth_list_update)
    finally show ?thesis .
  next
    case False
    then have "reverse_loop s i j = s" by (subst reverse_loop.simps) simp
    moreover have "i \<le> k \<Longrightarrow> k \<le> j \<Longrightarrow> i + j - k = k" using False by simp
    ultimately show ?thesis by simp
  qed
qed

lemma reverse_go_rev [simp]: "reverse_go s = rev s"
proof (cases s)
  case Nil
  then show ?thesis by (simp add: reverse_go_def reverse_loop.simps)
next
  case (Cons x xs)
  show ?thesis
    by (rule nth_equalityI) (use Cons in \<open>simp_all add: reverse_go_def nth_reverse_loop rev_nth del: rev.simps\<close>)
qed

lemma getDevAddr_eq:
  "getDevAddr phy = (if length phy < 5 then None
     else Some [phy ! 4, phy ! 3, phy ! 2, phy ! 1])"
proof (cases "length phy < 5")
  case False
  then have "Suc (Suc (Suc (Suc (Suc 0)))) \<le> length phy" by simp
  then obtain a b c d e r where "phy = a # b # c # d # e # r"
    by (auto simp: Suc_le_length_iff)
  then show ?thesis by (simp add: getDevAddr_def slice_def)
qed (simp add: getDevAddr_def)

lemma calculateNetID_getDevAddr:
  "5 \<le> length phy \<Longrightarrow> getDevAddr phy = Some da \<Longrightarrow>
     calculateNetID da = Some [drop_bit 1 (phy ! 4)]"
  by (auto simp: getDevAddr_eq calculateNetID_def)

section \<open>Frames\<close>

text \<open>
  \<open>quiet b s t\<close>: between \<open>s\<close> and \<open>t\<close> the configuration stayed as it was and the only
  effects were attempts to connect to broker \<open>b\<close>.
\<close>

definition same_config :: "api_state \<Rightarrow> api_state \<Rightarrow> bool" where
  "same_config s t \<longleftrightarrow> NsIpAddress t = NsIpAddress s \<and> AddedBroker t = AddedBroker s
     \<and> GWid t = GWid s \<and> GWidForeign t = GWidForeign s \<and> GwidTopicName t = GwidTopicName s
     \<and> BlockchainServiceURL t = BlockchainServiceURL s
     \<and> BlockchainEnabled t = BlockchainEnabled s \<and> mqttClient t = mqttClient s"

definition new_effects :: "api_state \<Rightarrow> api_state \<Rightarrow> api_effect list" where
  "new_effects s t = drop (length (effects s)) (effects t)"

definition extends :: "api_state \<Rightarrow> api_state \<Rightarrow> bool" where
  "extends s t \<longleftrightarrow> (\<exists>evs. effects t = effects s @ evs)"

definition quiet :: "string \<Rightarrow> api_state \<Rightarrow> api_state \<Rightarrow> bool" where
  "quiet b s t \<longleftrightarrow> same_config s t \<and> extends s t
     \<and> (\<forall>e \<in> set (new_effects s t). \<exists>cid r. e = EffDial b cid r)"

lemma extends_refl [simp]: "extends s s"
  by (simp add: extends_def)

lemma extends_trans: "extends s t \<Longrightarrow> extends t u \<Longrightarrow> extends s u"
  by (auto simp: extends_def)

lemma new_effects_same [simp]: "effects t = effects s \<Longrightarrow> new_effects s t = []"
  by (simp add: new_effects_def)

lemma new_effects_append [simp]: "effects t = effects s @ evs \<Longrightarrow> new_effects s t = evs"
  by (simp add: new_effects_def)

lemma new_effects_trans:
  "extends s t \<Longrightarrow> extends t u \<Longrightarrow> new_effects s u = new_effects s t @ new_effects t u"
  by (auto simp: extends_def)

lemma effects_new: "extends s t \<Longrightarrow> effects t = effects s @ new_effects s t"
  by (auto simp: extends_def)

lemma quiet_refl [simp]: "quiet b s s"
  by (simp add: quiet_def same_config_def)

lemma quiet_trans: "quiet b s t \<Longrightarrow> quiet b t u \<Longrightarrow> quiet b s u"
  using new_effects_trans[of s t u] extends_trans[of s t u]
  unfolding quiet_def same_config_def by fastforce

lemma quietD: "quiet b s t \<Longrightarrow> same_config s t" "quiet b s t \<Longrightarrow> extends s t"
  by (simp_all add: quiet_def)

lemma quiet_tick [simp]: "quiet b s (advance s)" "quiet b s (s\<lparr>publishClients := p\<rparr>)"
  by (simp_all add: quiet_def same_config_def extends_def advance_def new_effects_def)

lemma quiet_drop [simp]: "quiet b s (dropPublishClient b' s)"
  by (simp add: dropPublishClient_def)

lemma quiet_dial [simp]: "quiet b s (advance (emit (EffDial b cid r) s))"
  by (simp add: quiet_def same_config_def extends_def advance_def emit_def new_effects_def)

lemma quiet_init: "quiet b s (snd (initPublishClient env b cid s))"
  by (simp add: initPublishClient_def Let_def)

lemma quiet_make: "quiet b s (snd (makePublishClient env b s))"
proof -
  obtain r t where rt: "initPublishClient env b (fresh_client_id env s) s = (r, t)" by fastforce
  then have "quiet b s t" using quiet_init[of b s env "fresh_client_id env s"] by simp
  then show ?thesis
    using rt quiet_trans[OF _ quiet_tick(2)]
    by (cases r) (simp_all add: makePublishClient_def)
qed

lemma quiet_locked: "quiet b s (snd (lockedPublishClient env b s))"
  using quiet_make[of b "advance s" env] quiet_make[of b s env]
  by (auto simp: lockedPublishClient_def ask_connected_def split: option.split bool.split
      intro: quiet_trans[OF quiet_tick(1)])

lemma quiet_getOrCreate: "quiet b s (snd (getOrCreatePublishClient env b s))"
proof -
  have "quiet b s (snd (lockedPublishClient env b (dropPublishClient b (advance s))))"
    by (blast intro: quiet_trans quiet_locked quiet_tick(1) quiet_drop)
  then show ?thesis
    using quiet_locked[of b s env]
    by (auto simp: getOrCreatePublishClient_def ask_connected_def split: option.split bool.split)
qed

section \<open>The client pool\<close>

definition dialled :: "string \<Rightarrow> mqtt_client \<Rightarrow> api_state \<Rightarrow> bool" where
  "dialled b c s \<longleftrightarrow> (\<exists>cid. EffDial b cid (Some c) \<in> set (effects s))"

definition pool_ok :: "api_state \<Rightarrow> bool" where
  "pool_ok s \<longleftrightarrow> (\<forall>b c. publishClients s b = Some c \<longrightarrow> dialled b c s)"

lemma dialled_extends: "dialled b c s \<Longrightarrow> extends s t \<Longrightarrow> dialled b c t"
  by (auto simp: dialled_def extends_def)

lemma pool_ok_frame: "pool_ok s \<Longrightarrow> extends s t \<Longrightarrow>
    (\<And>b. publishClients t b = None \<or> publishClients t b = publishClients s b) \<Longrightarrow> pool_ok t"
  unfolding pool_ok_def by (metis dialled_extends option.distinct(1))

lemma pool_ok_advance [simp]: "pool_ok s \<Longrightarrow> pool_ok (advance s)"
  by (rule pool_ok_frame) (auto simp: advance_def extends_def)

lemma pool_ok_emit [simp]: "pool_ok s \<Longrightarrow> pool_ok (emit e s)"
  by (rule pool_ok_frame) (auto simp: emit_def extends_def)

lemma pool_ok_drop [simp]: "pool_ok s \<Longrightarrow> pool_ok (dropPublishClient b s)"
  by (rule pool_ok_frame) (auto simp: dropPublishClient_def extends_def)

lemma pool_make:
  assumes "pool_ok s" "makePublishClient env b s = (r, t)"
  shows "pool_ok t \<and> (\<forall>c. r = Some c \<longrightarrow> dialled b c t)"
proof (cases "b = []")
  case True
  with assms show ?thesis by (simp add: makePublishClient_def initPublishClient_def)
next
  case False
  let ?cid = "fresh_client_id env s"
  let ?u = "advance (emit (EffDial b ?cid (dial env (tick s) b ?cid)) s)"
  have u: "pool_ok ?u" using assms(1) by simp
  show ?thesis
  proof (cases "dial env (tick s) b ?cid")
    case None
    with assms False u show ?thesis
      by (simp add: makePublishClient_def initPublishClient_def Let_def)
  next
    case (Some c)
    with assms(2) False have t: "t = ?u\<lparr>publishClients := (publishClients ?u)(b \<mapsto> c)\<rparr>" "r = Some c"
      by (auto simp: makePublishClient_def initPublishClient_def Let_def)
    have eff: "effects t = effects ?u" "EffDial b ?cid (Some c) \<in> set (effects t)"
      using t Some by (simp_all add: advance_def emit_def)
    then have d: "dialled b c t" by (auto simp: dialled_def)
    with u t eff have "pool_ok t" by (auto simp: pool_ok_def dialled_def)
    with d t show ?thesis by simp
  qed
qed

lemma pool_cached: "pool_ok s \<Longrightarrow> publishClients s b = Some c \<Longrightarrow> dialled b c (advance s)"
  by (auto simp: pool_ok_def dialled_def advance_def)

lemma pool_locked:
  assumes "pool_ok s" "lockedPublishClient env b s = (r, t)"
  shows "pool_ok t \<and> (\<forall>c. r = Some c \<longrightarrow> dialled b c t)"
  using assms pool_make[of s env b r t] pool_make[of "advance s" env b r t] pool_cached[of s b]
  by (auto simp: lockedPublishClient_def ask_connected_def split: option.splits bool.splits)

lemma pool_getOrCreate:
  assumes "pool_ok s" "getOrCreatePublishClient env b s = (r, t)"
  shows "pool_ok t \<and> (\<forall>c. r = Some c \<longrightarrow> dialled b c t)"
  using assms pool_locked[of s env b r t]
    pool_locked[of "dropPublishClient b (advance s)" env b r t] pool_cached[of s b]
  by (auto simp: getOrCreatePublishClient_def ask_connected_def split: option.splits bool.splits)

section \<open>Publishing\<close>

lemma do_publish_effects:
  assumes "do_publish env c topic payload s = (out, t)"
  shows "same_config s t" "new_effects s t = [EffPublish c topic payload]" "extends s t"
    "out \<in> {Forwarded, Dropped PublishTimeout, Dropped PublishFailed}"
    "publishClients t = publishClients s" "pool_ok s \<Longrightarrow> pool_ok t"
  using assms
  by (auto simp: do_publish_def same_config_def extends_def advance_def emit_def
      pool_ok_def dialled_def split: publish_result.splits)

text \<open>
  One call publishes at most once, through a client obtained for the given broker; when it
  does not publish, it says which step failed.
\<close>

lemma quiet_ask: "quiet b s t \<Longrightarrow> quiet b s (advance t)"
  by (rule quiet_trans[OF _ quiet_tick(1)])

lemma reconnect_publish_cases:
  assumes "reconnect_publish env b topic payload s = (out, t)"
  shows "quiet b s t \<and> (pool_ok s \<longrightarrow> pool_ok t) \<and> out = Dropped ReconnectionFailed
    \<or> (\<exists>u c. quiet b s u \<and> (pool_ok s \<longrightarrow> pool_ok u \<and> dialled b c u)
         \<and> do_publish env c topic payload u = (out, t))"
proof -
  let ?d = "dropPublishClient b s"
  obtain r u where ru: "getOrCreatePublishClient env b ?d = (r, u)" by fastforce
  have q: "quiet b s u" using quiet_trans[OF quiet_drop[of b s b]] quiet_getOrCreate[of b ?d env] ru
    by (metis snd_conv)
  have p: "pool_ok s \<longrightarrow> pool_ok u \<and> (\<forall>c. r = Some c \<longrightarrow> dialled b c u)"
    using pool_getOrCreate[OF _ ru] by simp
  show ?thesis
  proof (cases r)
    case None
    with assms ru q p show ?thesis by (auto simp: reconnect_publish_def)
  next
    case (Some c)
    have da: "pool_ok s \<longrightarrow> pool_ok (advance u) \<and> dialled b c (advance u)"
      using p Some by (auto simp: dialled_def advance_def[of u] pool_ok_def)
    show ?thesis
      using assms ru Some q da quiet_ask[OF q]
      by (cases "is_connected env (tick u) c") (auto simp: reconnect_publish_def ask_connected_def)
  qed
qed

lemma publish_to_cases:
  assumes "publish_to env b topic payload s = (out, t)"
  shows "quiet b s t \<and> (pool_ok s \<longrightarrow> pool_ok t)
       \<and> (out = Dropped NoPublishClient \<or> out = Dropped ReconnectionFailed)
    \<or> (\<exists>u c. quiet b s u \<and> (pool_ok s \<longrightarrow> pool_ok u \<and> dialled b c u)
         \<and> do_publish env c topic payload u = (out, t))"
proof -
  obtain r u where ru: "getOrCreatePublishClient env b s = (r, u)" by fastforce
  have q: "quiet b s u" using quiet_getOrCreate[of b s env] ru by (metis snd_conv)
  have p: "pool_ok s \<longrightarrow> pool_ok u \<and> (\<forall>c. r = Some c \<longrightarrow> dialled b c u)"
    using pool_getOrCreate[OF _ ru] by simp
  show ?thesis
  proof (cases r)
    case None
    with assms ru q p show ?thesis by (auto simp: publish_to_def)
  next
    case (Some c)
    let ?u1 = "advance u" and ?u2 = "advance (advance u)"
    have da: "pool_ok s \<longrightarrow> pool_ok ?u1 \<and> dialled b c ?u1 \<and> pool_ok ?u2 \<and> dialled b c ?u2"
      using p Some by (auto simp: dialled_def advance_def pool_ok_def)
    have q1: "quiet b s ?u1" and q2: "quiet b s ?u2" using q by (simp_all add: quiet_ask)
    consider "is_connected env (tick u) c"
      | "\<not> is_connected env (tick u) c" "is_connected env (tick ?u1) c"
      | "\<not> is_connected env (tick u) c" "\<not> is_connected env (tick ?u1) c" by blast
    then show ?thesis
    proof cases
      case 1
      then have "do_publish env c topic payload ?u1 = (out, t)"
        using assms ru Some by (simp add: publish_to_def ask_connected_def)
      with q1 da show ?thesis by blast
    next
      case 2
      then have "do_publish env c topic payload ?u2 = (out, t)"
        using assms ru Some by (simp add: publish_to_def ask_connected_def)
      with q2 da show ?thesis by blast
    next
      case 3
      then have "reconnect_publish env b topic payload ?u2 = (out, t)"
        using assms ru Some by (simp add: publish_to_def ask_connected_def)
      from reconnect_publish_cases[OF this] q2 da show ?thesis by (blast intro: quiet_trans)
    qed
  qed
qed

lemma forward_payload_cases:
  assumes "forward_payload env pm topic tg s = (out, t)"
  shows "quiet (target_broker tg) s t \<and> (pool_ok s \<longrightarrow> pool_ok t) \<and> out \<noteq> Forwarded
    \<or> (\<exists>u c gw payload. quiet (target_broker tg) s u
         \<and> (pool_ok s \<longrightarrow> pool_ok u \<and> dialled (target_broker tg) c u)
         \<and> hex_decode (target_gwid tg) = Some gw
         \<and> json_marshal env (modifyMap ''gatewayID'' (b64_encode gw) pm) = Some payload
         \<and> do_publish env c topic payload u = (out, t))"
proof (cases "hex_decode (target_gwid tg)")
  case None
  with assms show ?thesis by (auto simp: forward_payload_def)
next
  case (Some gw)
  show ?thesis
  proof (cases "json_marshal env (modifyMap ''gatewayID'' (b64_encode gw) pm)")
    case None
    with Some assms show ?thesis by (auto simp: forward_payload_def)
  next
    case payload: (Some payload)
    with Some assms have "publish_to env (target_broker tg) topic payload s = (out, t)"
      by (simp add: forward_payload_def)
    from publish_to_cases[OF this] Some payload show ?thesis by blast
  qed
qed

section \<open>The SLA call\<close>

definition sla_request :: "api_state \<Rightarrow> string \<Rightarrow> http_request" where
  "sla_request s n = HttpPost (BlockchainServiceURL s @ ''/check_sla'') [(''netid'', n)]"

lemma checkSLA_frame:
  assumes "checkSLAWithPythonService env n s = (r, t)"
  shows "same_config s t" "extends s t" "publishClients t = publishClients s"
    "pool_ok s \<Longrightarrow> pool_ok t"
    "new_effects s t = [] \<or> new_effects s t = [EffHttp (sla_request s n)]"
    "r = Inr x \<Longrightarrow> new_effects s t = [EffHttp (sla_request s n)]"
  using assms
  by (auto simp: checkSLAWithPythonService_def http_call_def Let_def same_config_def extends_def
      advance_def emit_def pool_ok_def dialled_def sla_request_def new_effects_def
      split: if_splits http_reply.splits option.splits)

section \<open>The handler\<close>

text \<open>The NetID, as the two hex digits the code compares, of a message the handler
  recognises as an uplink with a readable physical payload.\<close>

definition uplink_netid :: "api_env \<Rightarrow> string \<Rightarrow> string \<Rightarrow> string option" where
  "uplink_netid env topic payload =
     (case json_unmarshal env payload of
        Some (JObj m) \<Rightarrow>
          if 2 \<le> length (split_char CHR ''/'' topic) \<and> last (split_char CHR ''/'' topic) = ''up'' then
            (case map_of m ''phyPayload'' of
               Some (JStr p) \<Rightarrow>
                 (case b64_decode p of
                    Some phy \<Rightarrow> if 5 \<le> length phy then Some (hex_encode [drop_bit 1 (phy ! 4)]) else None
                  | None \<Rightarrow> None)
             | _ \<Rightarrow> None)
          else None
      | _ \<Rightarrow> None)"

lemma onMessage_uplink:
  assumes "uplink_netid env topic payload = Some n"
  shows "\<exists>pm. json_unmarshal env payload = Some pm \<and> onMessage env topic payload s =
     (case (if n \<noteq> ''01'' then route_foreign env n s else (Inr (home_target s), s)) of
        (Inl out, s1) \<Rightarrow> (out, s1)
      | (Inr t, s1) \<Rightarrow> forward_payload env pm (rewrite_topic s topic) t s1)"
  using assms
  by (auto simp: uplink_netid_def onMessage_def route_up_def Let_def getDevAddr_eq
      calculateNetID_def split: option.splits json.splits if_splits)

lemma same_config_targets:
  "same_config s t \<Longrightarrow> fallback_target t = fallback_target s"
  "same_config s t \<Longrightarrow> sla_target t r = sla_target s r"
  "same_config s t \<Longrightarrow> home_target t = home_target s"
  by (simp_all add: same_config_def fallback_target_def sla_target_def home_target_def)

lemma increment_frame [simp]:
  "same_config s (incrementCounterWithPythonService n s)"
  "extends s (incrementCounterWithPythonService n s)"
  "new_effects s (incrementCounterWithPythonService n s) = [EffSpawnIncrement n]"
  "pool_ok s \<Longrightarrow> pool_ok (incrementCounterWithPythonService n s)"
  by (simp_all add: incrementCounterWithPythonService_def same_config_def extends_def emit_def
      pool_ok_def dialled_def)

lemma same_config_trans: "same_config s t \<Longrightarrow> same_config t u \<Longrightarrow> same_config s u"
  by (simp add: same_config_def)

text \<open>Everything the routing of a foreign packet can do, by the answer of the service.\<close>

lemma route_foreign_cases:
  assumes "BlockchainEnabled s"
  obtains
    (fallback) e t where "fst (checkSLAWithPythonService env n s) = Inl e"
      "route_foreign env n s = (Inr (fallback_target s), t)" "same_config s t" "extends s t"
      "set (new_effects s t) \<subseteq> {EffHttp (sla_request s n)}" "pool_ok s \<longrightarrow> pool_ok t"
  | (reject) r t where "fst (checkSLAWithPythonService env n s) = Inr r" "\<not> sla_accepted r"
      "route_foreign env n s = (Inl (Dropped SlaRejected), t)" "same_config s t" "extends s t"
      "new_effects s t = [EffHttp (sla_request s n)]" "publishClients t = publishClients s"
  | (accept) r t where "fst (checkSLAWithPythonService env n s) = Inr r" "sla_accepted r"
      "route_foreign env n s = (Inr (sla_target s r), t)" "same_config s t" "extends s t"
      "new_effects s t = [EffHttp (sla_request s n), EffSpawnIncrement n]"
      "pool_ok s \<longrightarrow> pool_ok t"
proof -
  obtain r u where ru: "checkSLAWithPythonService env n s = (r, u)" by fastforce
  note frame = checkSLA_frame[OF ru]
  show thesis
  proof (cases r)
    case (Inl e)
    have "set (new_effects s u) \<subseteq> {EffHttp (sla_request s n)}" using frame(5) by auto
    with Inl assms ru frame show ?thesis
      by (intro fallback[of e u]) (auto simp: route_foreign_def same_config_targets)
  next
    case (Inr a)
    show ?thesis
    proof (cases "sla_accepted a")
      case False
      with Inr assms ru frame show ?thesis
        by (intro reject[of a u]) (auto simp: route_foreign_def)
    next
      case True
      let ?t = "incrementCounterWithPythonService n u"
      have "new_effects s ?t = [EffHttp (sla_request s n), EffSpawnIncrement n]"
        using new_effects_trans[of s u ?t] frame(2,6) Inr by simp
      with True Inr assms ru frame show ?thesis
        by (intro accept[of a ?t])
          (auto simp: route_foreign_def same_config_targets
            intro: same_config_trans[of s u] extends_trans[of s u])
    qed
  qed
qed

lemma onMessage_not_uplink:
  assumes "uplink_netid env topic payload = None"
  obtains out where "onMessage env topic payload s = (out, s)"
  | pm where "json_unmarshal env payload = Some pm" "onMessage env topic payload s =
      forward_payload env pm (rewrite_topic s topic) (home_target s) s"
proof -
  have "(\<exists>out. onMessage env topic payload s = (out, s)) \<or>
    (\<exists>pm. json_unmarshal env payload = Some pm \<and> onMessage env topic payload s =
      forward_payload env pm (rewrite_topic s topic) (home_target s) s)"
    using assms
    by (auto simp: uplink_netid_def onMessage_def route_up_def Let_def getDevAddr_eq
        calculateNetID_def split: option.splits json.splits if_splits)
  then show thesis using that by blast
qed

lemma onMessage_home:
  assumes "uplink_netid env topic payload \<in> {None, Some ''01''}"
  obtains out where "onMessage env topic payload s = (out, s)"
  | pm where "json_unmarshal env payload = Some pm" "onMessage env topic payload s =
      forward_payload env pm (rewrite_topic s topic) (home_target s) s"
proof (cases "uplink_netid env topic payload")
  case None
  then show ?thesis using that by (rule onMessage_not_uplink)
next
  case (Some n)
  with assms onMessage_uplink[OF Some] that(2) show ?thesis by auto
qed

text \<open>The effects of forwarding: attempts to connect to the target's broker, then at most
  one publication.\<close>

lemma quiet_effects: "quiet b s t \<Longrightarrow> e \<in> set (new_effects s t) \<Longrightarrow> \<exists>cid r. e = EffDial b cid r"
  by (simp add: quiet_def)

lemma forward_payload_effects:
  assumes "forward_payload env pm topic tg s = (out, t)"
  obtains evs where "same_config s t" "extends s t" "pool_ok s \<longrightarrow> pool_ok t"
    "new_effects s t = evs" "out \<noteq> Forwarded"
    "\<forall>e \<in> set evs. \<exists>cid r. e = EffDial (target_broker tg) cid r"
  | evs c gw payload where "same_config s t" "extends s t" "pool_ok s \<longrightarrow> pool_ok t"
    "new_effects s t = evs @ [EffPublish c topic payload]"
    "\<forall>e \<in> set evs. \<exists>cid r. e = EffDial (target_broker tg) cid r"
    "hex_decode (target_gwid tg) = Some gw"
    "json_marshal env (modifyMap ''gatewayID'' (b64_encode gw) pm) = Some payload"
    "pool_ok s \<longrightarrow> dialled (target_broker tg) c t"
proof (use forward_payload_cases[OF assms] in \<open>elim disjE exE conjE\<close>)
  assume "quiet (target_broker tg) s t" "pool_ok s \<longrightarrow> pool_ok t" "out \<noteq> Forwarded"
  then show ?thesis using that(1)[OF _ _ _ refl] quietD quiet_effects by simp
next
  fix u c gw payload
  assume u: "quiet (target_broker tg) s u" and p: "pool_ok s \<longrightarrow> pool_ok u \<and> dialled (target_broker tg) c u"
    and gw: "hex_decode (target_gwid tg) = Some gw"
      "json_marshal env (modifyMap ''gatewayID'' (b64_encode gw) pm) = Some payload"
    and d: "do_publish env c topic payload u = (out, t)"
  note d' = do_publish_effects[OF d]
  have "new_effects s t = new_effects s u @ [EffPublish c topic payload]"
    using new_effects_trans[of s u t] quietD(2)[OF u] d'(2,3) by simp
  moreover have "same_config s t" "extends s t"
    using quietD[OF u] d'(1,3) by (blast intro: same_config_trans extends_trans)+
  moreover have "pool_ok s \<longrightarrow> pool_ok t \<and> dialled (target_broker tg) c t"
    using p d'(3,6) by (blast intro: dialled_extends)
  ultimately show ?thesis using that(2) gw u quiet_effects by blast
qed

section \<open>Runs of the module\<close>

text \<open>
  One step is one handler run to its end: an MQTT message, a configuration request that
  does not end the process, the body of a counter call, a subscription.
\<close>

inductive api_step :: "api_env \<Rightarrow> api_state \<Rightarrow> api_state \<Rightarrow> bool" for env where
  step_message: "onMessage env topic payload s = (out, t) \<Longrightarrow> api_step env s t"
| step_configure: "handleRequest env meth body s = (HttpStatus st resp, t) \<Longrightarrow> api_step env s t"
| step_increment: "incrementCounterBody env n s = (done, t) \<Longrightarrow> api_step env s t"
| step_subscribe: "subscribeToTopic env topic s = (True, t) \<Longrightarrow> api_step env s t"

lemma pool_ok_onMessage:
  assumes "onMessage env topic payload s = (out, t)" "pool_ok s"
  shows "pool_ok t \<and> extends s t"
proof (cases "uplink_netid env topic payload \<in> {None, Some ''01''}")
  case True
  then show ?thesis
  proof (cases rule: onMessage_home[where s = s])
    case (1 out')
    with assms show ?thesis by simp
  next
    case (2 pm)
    with assms have "forward_payload env pm (rewrite_topic s topic) (home_target s) s = (out, t)" by simp
    then show ?thesis using assms(2) by (cases rule: forward_payload_effects) auto
  qed
next
  case False
  then obtain n where n: "uplink_netid env topic payload = Some n" "n \<noteq> ''01''" by auto
  from onMessage_uplink[OF n(1), of s] n(2) assms(1) obtain pm where
    run: "(case route_foreign env n s of (Inl out, s1) \<Rightarrow> (out, s1)
      | (Inr t, s1) \<Rightarrow> forward_payload env pm (rewrite_topic s topic) t s1) = (out, t)" by auto
  have fwd: "pool_ok t \<and> extends s t"
    if "route_foreign env n s = (Inr tg, u)" "extends s u" "pool_ok u" for tg u
  proof -
    from run that(1) have "forward_payload env pm (rewrite_topic s topic) tg u = (out, t)" by simp
    then show ?thesis using that(2,3)
      by (cases rule: forward_payload_effects) (blast intro: extends_trans)+
  qed
  show ?thesis
  proof (cases "BlockchainEnabled s")
    case False
    then show ?thesis using fwd[of "fallback_target s" s] assms(2) by (simp add: route_foreign_def)
  next
    case True
    then show ?thesis
    proof (cases rule: route_foreign_cases[where n = n and env = env])
      case (fallback e u)
      then show ?thesis using fwd assms(2) by blast
    next
      case (reject r u)
      with run assms(2) show ?thesis by (auto simp: pool_ok_def intro: dialled_extends)
    next
      case (accept r u)
      then show ?thesis using fwd assms(2) by blast
    qed
  qed
qed

lemma pool_ok_http [simp]: "http_call env r s = (x, t) \<Longrightarrow> pool_ok s \<Longrightarrow> pool_ok t"
  by (auto simp: http_call_def)

lemma pool_ok_config_fields [simp]:
  "pool_ok (s\<lparr>BlockchainEnabled := x\<rparr>) = pool_ok s"
  "pool_ok (s\<lparr>BlockchainServiceURL := u\<rparr>) = pool_ok s"
  "pool_ok (s\<lparr>mqttClient := m\<rparr>) = pool_ok s"
  "pool_ok (store_config b s) = pool_ok s"
  by (simp_all add: pool_ok_def dialled_def store_config_def)

lemma pool_ok_check_blockchain: "pool_ok s \<Longrightarrow> pool_ok (check_blockchain env b s)"
  by (auto simp: check_blockchain_def Let_def split: prod.splits http_reply.splits
      dest: pool_ok_http[rotated, OF pool_ok_config_fields(2)[THEN iffD2]])

lemma pool_ok_preinit: "pool_ok s \<Longrightarrow> pool_ok (preinit_clients env s)"
  using pool_getOrCreate[of _ env] by (simp add: preinit_clients_def Let_def) (metis prod.collapse)

lemma pool_ok_step:
  assumes "pool_ok s" "api_step env s t"
  shows "pool_ok t"
  using assms(2)
proof (cases rule: api_step.cases)
  case (step_message topic payload out)
  then show ?thesis using pool_ok_onMessage assms(1) by blast
next
  case (step_configure meth body st resp)
  then show ?thesis using assms(1)
    by (auto simp: handleRequest_def initMQTTClient_def Let_def spawn_subscriptions_def
        split: if_splits option.splits intro!: pool_ok_emit pool_ok_preinit pool_ok_advance
          pool_ok_check_blockchain)
next
  case (step_increment n d)
  then show ?thesis using assms(1)
    by (auto simp: incrementCounterBody_def Let_def http_call_def
        split: if_splits http_reply.splits prod.splits)
next
  case (step_subscribe topic)
  then show ?thesis using assms(1)
    by (auto simp: subscribeToTopic_def ask_connected_def split: option.splits bool.splits)
qed

lemma pool_ok_init: "pool_ok init_api"
  by (simp add: init_api_def pool_ok_def)

interpretation api_pool: inductive_invariant "\<lambda>s. s = init_api" "api_step env" pool_ok for env
  by unfold_locales (auto intro: pool_ok_init pool_ok_step)

end
