(* ===== verification/RoamingProps.thy ===== *)
theory RoamingProps
  imports RoamingProofs
begin

text \<open>
  The properties of the roaming handler, each with a run of a small concrete environment
  that shows its hypotheses hold together.
\<close>

section \<open>A concrete environment\<close>

text \<open>
  Two messages: a packet of NetID 02 (DevAddr 04000001) and one of NetID 01 (DevAddr
  02000001). The service knows one state per instance of the environment. A JSON value is
  printed as its gateway ID, which is all a witness looks at.
\<close>

definition demo_payload :: "byte \<Rightarrow> json" where
  "demo_payload b = JObj [(''gatewayID'', JStr ''x''),
     (''phyPayload'', JStr (b64_encode [64, 1, 0, 0, b]))]"

definition demo_sla :: "string \<Rightarrow> string \<Rightarrow> SLACheckResponse" where
  "demo_sla st gw = \<lparr>sla_Status = ''ok'', sla_SLAState = st, sla_TokenBroker = ''tim:1884'',
     sla_GatewayID = gw, sla_Message = []\<rparr>"

definition demo_marshal :: "json \<Rightarrow> string option" where
  "demo_marshal j = (case j of
     JObj m \<Rightarrow> (case map_of m ''gatewayID'' of Some (JStr g) \<Rightarrow> Some g | _ \<Rightarrow> None) | _ \<Rightarrow> None)"

definition demo_env :: "SLACheckResponse option \<Rightarrow> api_env" where
  "demo_env r = \<lparr>is_connected = \<lambda>_ _. True, dial = \<lambda>_ _ _. Some 7, new_client = \<lambda>_ _. 5,
     publish = \<lambda>_ _ _ _. Delivered, subscribe_ok = \<lambda>_ _ _. True, now_nanos = \<lambda>n. n,
     request_ok = \<lambda>_. True, http_do = \<lambda>_ _. Reply 200 ''body'' False,
     json_unmarshal = (\<lambda>p. if p = ''tim'' then Some (demo_payload 4)
       else if p = ''home'' then Some (demo_payload 2)
       else if p = ''body'' then Some (JObj [(''initialized'', JBool True)]) else None),
     json_marshal = demo_marshal, unmarshal_sla = \<lambda>_. r, decode_body = \<lambda>_. None\<rparr>"

definition demo_topic :: string where
  "demo_topic = ''gateway/00000000000000aa/event/up''"

definition demo_state :: api_state where
  "demo_state = init_api\<lparr>AddedBroker := ''tcp://home'', NsIpAddress := ''tcp://ns'',
     GWid := ''00ff'', GWidForeign := ''00ee'', GwidTopicName := ''00ff'',
     BlockchainServiceURL := ''http://sla'', BlockchainEnabled := True\<rparr>"

lemma demo_env_fields [simp]:
  "unmarshal_sla (demo_env r) = (\<lambda>_. r)" "request_ok (demo_env r) = (\<lambda>_. True)"
  "http_do (demo_env r) = (\<lambda>_ _. Reply 200 ''body'' False)"
  "is_connected (demo_env r) = (\<lambda>_ _. True)" "dial (demo_env r) = (\<lambda>_ _ _. Some 7)"
  "publish (demo_env r) = (\<lambda>_ _ _ _. Delivered)" "json_marshal (demo_env r) = demo_marshal"
  "json_unmarshal (demo_env r) ''tim'' = Some (demo_payload 4)"
  "json_unmarshal (demo_env r) ''home'' = Some (demo_payload 2)"
  by (simp_all add: demo_env_def)

lemma demo_topic_parts [simp]:
  "split_char CHR ''/'' demo_topic = [''gateway'', ''00000000000000aa'', ''event'', ''up'']"
  by (simp add: demo_topic_def)

lemma demo_netid [simp]:
  "uplink_netid (demo_env r) demo_topic ''tim'' = Some ''02''"
  "uplink_netid (demo_env r) demo_topic ''home'' = Some ''01''"
  by (simp_all add: uplink_netid_def demo_payload_def b64_decode_encode hex_digit_def char_of_def bit_0
      del: b64_encode.simps)

lemma demo_state_fields [simp]:
  "BlockchainEnabled demo_state" "pool_ok demo_state" "publishClients demo_state = Map.empty"
  "BlockchainServiceURL demo_state = ''http://sla''" "NsIpAddress demo_state = ''tcp://ns''"
  "AddedBroker demo_state = ''tcp://home''" "GWid demo_state = ''00ff''"
  "effects demo_state = []" "GWidForeign demo_state = ''00ee''"
  by (simp_all add: demo_state_def init_api_def pool_ok_def)

lemma demo_check [simp]:
  "fst (checkSLAWithPythonService (demo_env (Some a)) n demo_state) = Inr a"
  "fst (checkSLAWithPythonService (demo_env None) n demo_state)
     = Inl (Wrap ''failed to parse response'' (LibErr ''json''))"
  by (simp_all add: checkSLAWithPythonService_def http_call_def Let_def)

section \<open>The SLA gate\<close>

text \<open>C2: With the blockchain enabled, a foreign packet whose SLA check is answered with a
  state other than Accept or Active SLA is dropped: the only effect of the handler is the
  check itself. Nothing is published, the counter is not started, the pool is untouched.\<close>

theorem sla_reject_drops:
  assumes "uplink_netid env topic payload = Some n" "n \<noteq> ''01''" "BlockchainEnabled s"
    and "fst (checkSLAWithPythonService env n s) = Inr r" "\<not> sla_accepted r"
  shows "\<exists>t. onMessage env topic payload s = (Dropped SlaRejected, t)
    \<and> new_effects s t = [EffHttp (sla_request s n)]
    \<and> publishClients t = publishClients s \<and> same_config s t"
proof -
  from onMessage_uplink[OF assms(1), of s] assms(2) obtain pm where
    run: "onMessage env topic payload s = (case route_foreign env n s of (Inl out, s1) \<Rightarrow> (out, s1)
      | (Inr t, s1) \<Rightarrow> forward_payload env pm (rewrite_topic s topic) t s1)" by auto
  show ?thesis using assms(3)
    by (cases rule: route_foreign_cases[where n = n and env = env]) (use run assms(4,5) in auto)
qed

theorem sla_reject_drops_witness:
  "\<exists>t. onMessage (demo_env (Some (demo_sla ''Banned'' ''00aa''))) demo_topic ''tim'' demo_state
      = (Dropped SlaRejected, t)
    \<and> new_effects demo_state t = [EffHttp (sla_request demo_state ''02'')]
    \<and> publishClients t = publishClients demo_state \<and> same_config demo_state t"
  by (rule sla_reject_drops[where r = "demo_sla ''Banned'' ''00aa''"])
    (simp_all add: sla_accepted_def demo_sla_def)

lemma published_foreign:
  assumes "uplink_netid env topic payload = Some n" "n \<noteq> ''01''" "BlockchainEnabled s"
    and "pool_ok s"
    and "onMessage env topic payload s = (out, t)"
    and "EffPublish c topic' payload' \<in> set (new_effects s t)"
  shows "\<exists>tg gw pm. (case fst (checkSLAWithPythonService env n s) of
        Inr r \<Rightarrow> sla_accepted r \<and> tg = sla_target s r
      | Inl e \<Rightarrow> tg = fallback_target s)
    \<and> dialled (target_broker tg) c t \<and> topic' = rewrite_topic s topic
    \<and> json_unmarshal env payload = Some pm \<and> hex_decode (target_gwid tg) = Some gw
    \<and> json_marshal env (modifyMap ''gatewayID'' (b64_encode gw) pm) = Some payload'"
proof -
  note pool = assms(4)
  from onMessage_uplink[OF assms(1), of s] assms(2,5) obtain pm where
    pm: "json_unmarshal env payload = Some pm" and
    run: "(case route_foreign env n s of (Inl out, s1) \<Rightarrow> (out, s1)
      | (Inr t, s1) \<Rightarrow> forward_payload env pm (rewrite_topic s topic) t s1) = (out, t)" by auto
  have fwd: "dialled (target_broker tg) c t \<and> topic' = rewrite_topic s topic
      \<and> (\<exists>gw. hex_decode (target_gwid tg) = Some gw
      \<and> json_marshal env (modifyMap ''gatewayID'' (b64_encode gw) pm) = Some payload')"
    if u: "route_foreign env n s = (Inr tg, u)" "extends s u" "pool_ok u"
      "\<forall>e \<in> set (new_effects s u). \<forall>c a b. e \<noteq> EffPublish c a b" for tg u
  proof -
    from run u(1) have f: "forward_payload env pm (rewrite_topic s topic) tg u = (out, t)" by simp
    have ext: "extends u t" using f by (cases rule: forward_payload_effects) auto
    have "EffPublish c topic' payload' \<in> set (new_effects u t)"
      using assms(6) new_effects_trans[OF u(2) ext] u(4) by auto
    with f u(3) show ?thesis by (cases rule: forward_payload_effects) auto
  qed
  show ?thesis using assms(3)
  proof (cases rule: route_foreign_cases[where n = n and env = env])
    case (fallback e u)
    then show ?thesis using fwd[of "fallback_target s" u] pool pm by auto
  next
    case (reject r u)
    with run assms(6) show ?thesis by auto
  next
    case (accept r u)
    then show ?thesis using fwd[of "sla_target s r" u] pool pm by auto
  qed
qed

text \<open>C3: What a foreign packet that leaves the bridge looks like. It was answered Accept or
  Active SLA and goes to the gateway and broker of that answer, or the service could not be
  asked and it goes to the configured fallback. It is published under the rewritten topic,
  through a client that was dialled for exactly that broker, and its payload is the received
  one with every gateway ID replaced by the target's.\<close>

theorem foreign_delivery:
  assumes "uplink_netid env topic payload = Some n" "n \<noteq> ''01''" "BlockchainEnabled s"
    and "pool_ok s"
    and "onMessage env topic payload s = (out, t)"
    and "EffPublish c topic' payload' \<in> set (new_effects s t)"
  shows "\<exists>tg gw pm. (case fst (checkSLAWithPythonService env n s) of
        Inr r \<Rightarrow> sla_accepted r \<and> tg = sla_target s r
      | Inl e \<Rightarrow> tg = fallback_target s)
    \<and> dialled (target_broker tg) c t \<and> topic' = rewrite_topic s topic
    \<and> json_unmarshal env payload = Some pm \<and> hex_decode (target_gwid tg) = Some gw
    \<and> json_marshal env (modifyMap ''gatewayID'' (b64_encode gw) pm) = Some payload'"
  by (rule published_foreign[OF assms])

theorem foreign_delivery_witness:
  "\<exists>tg gw pm t. tg = sla_target demo_state (demo_sla ''Accept'' ''00aa'')
    \<and> onMessage (demo_env (Some (demo_sla ''Accept'' ''00aa''))) demo_topic ''tim'' demo_state
        = (Forwarded, t)
    \<and> dialled (target_broker tg) 7 t
    \<and> json_unmarshal (demo_env (Some (demo_sla ''Accept'' ''00aa''))) ''tim'' = Some pm
    \<and> hex_decode (target_gwid tg) = Some gw
    \<and> demo_marshal (modifyMap ''gatewayID'' (b64_encode gw) pm) = Some ''AKo=''"
proof -
  let ?e = "demo_env (Some (demo_sla ''Accept'' ''00aa''))"
  obtain out t where run: "onMessage ?e demo_topic ''tim'' demo_state = (out, t)" by fastforce
  have hex: "hex_decode ''00aa'' = Some [0, 170]" by (simp add: unhex_def)
  have enc: "b64_encode [0, 170] = ''AKo=''" by (simp add: b64_char_def char_of_def bit_0)
  obtain pm where pm: "json_unmarshal ?e ''tim'' = Some pm"
    and m: "demo_marshal (modifyMap ''gatewayID'' ''AKo='' pm) = Some ''AKo=''"
    by (simp add: demo_payload_def demo_marshal_def)
  have acc: "sla_accepted (demo_sla ''Accept'' ''00aa'')"
    "sla_GatewayID (demo_sla ''Accept'' ''00aa'') = ''00aa''"
    by (simp_all add: sla_accepted_def demo_sla_def)
  have pub: "out = Forwarded" "EffPublish 7 (rewrite_topic demo_state demo_topic) ''AKo=''
      \<in> set (new_effects demo_state t)"
    using run pm hex m acc onMessage_uplink[where env = ?e and s = demo_state, OF demo_netid(1)]
    by (auto simp: enc route_foreign_def checkSLAWithPythonService_def http_call_def Let_def
        sla_target_def forward_payload_def publish_to_def getOrCreatePublishClient_def
        lockedPublishClient_def makePublishClient_def initPublishClient_def ask_connected_def
        do_publish_def incrementCounterWithPythonService_def new_effects_def advance_def emit_def
        simp del: b64_encode.simps split: if_splits)
  show ?thesis
    using foreign_delivery[OF demo_netid(1) _ _ _ run pub(2)] run pub(1) acc
    by (auto simp: sla_target_def)
qed

text \<open>C9: Every client in the pool was dialled for the broker it is filed under, in every
  state the module can reach, whatever the broker, the service and the clients answer. So a
  packet is never handed to a connection of another broker.\<close>

theorem pool_clients_dialled:
  assumes "reachable (\<lambda>s. s = init_api) (api_step env) s" "publishClients s b = Some c"
  shows "\<exists>cid. EffDial b cid (Some c) \<in> set (effects s)"
  using api_pool.inv_reachable[OF assms(1)] assms(2) by (auto simp: pool_ok_def dialled_def)

definition demo_body :: Body where
  "demo_body = \<lparr>body_AddedBroker = ''tcp://home'', body_BrokerIPHNS = [], body_GWIDToken = ''00ff'',
     body_GWIDTokenForeign = [], body_BlockchainServiceURL = [], body_MyNetID = [],
     body_MyProviderName = [], body_IsForwarder = False, body_AlgodAddress = [],
     body_AlgodToken = [], body_IndexerAddress = [], body_SCAppID = 0,
     body_PrivateKeyMnemonic = []\<rparr>"

lemmas configure_defs = handleRequest_def initMQTTClient_def check_blockchain_def store_config_def
  preinit_clients_def spawn_subscriptions_def getOrCreatePublishClient_def
  lockedPublishClient_def makePublishClient_def initPublishClient_def ask_connected_def
  advance_def emit_def Let_def

theorem pool_clients_dialled_witness:
  "\<exists>(t::api_state) cid. publishClients t ''tcp://home'' = Some 7 \<and> EffDial ''tcp://home'' cid (Some 7) \<in> set (effects t)"
proof -
  let ?e = "(demo_env None)\<lparr>decode_body := \<lambda>_. Some demo_body\<rparr>"
  obtain st resp t where run: "handleRequest ?e ''POST'' [] init_api = (HttpStatus st resp, t)"
    and c: "publishClients t ''tcp://home'' = Some 7"
    by (simp add: configure_defs demo_body_def init_api_def)
  have "reachable (\<lambda>s. s = init_api) (api_step ?e) t"
    by (rule reach_step[OF reach_init]) (auto intro: step_configure run)
  from pool_clients_dialled[OF this c] c show ?thesis by blast
qed

section \<open>Accounting\<close>

definition is_increment :: "api_effect \<Rightarrow> bool" where
  "is_increment e \<longleftrightarrow> (\<exists>n. e = EffSpawnIncrement n)"

lemma is_increment_simps [simp]:
  "is_increment (EffSpawnIncrement n)" "\<not> is_increment (EffHttp r)"
  "\<not> is_increment (EffDial b cid c)" "\<not> is_increment (EffPublish k topic payload)"
  by (simp_all add: is_increment_def)

lemma forward_no_increment:
  assumes "forward_payload env pm topic tg s = (out, t)"
  shows "filter is_increment (new_effects s t) = []" "extends s t"
  using assms by (cases rule: forward_payload_effects; fastforce simp: filter_empty_conv)+

lemma increments_then_forward:
  assumes "extends s u" "forward_payload env pm topic tg u = (out, t)"
  shows "filter is_increment (new_effects s t) = filter is_increment (new_effects s u)"
  using new_effects_trans[OF assms(1) forward_no_increment(2)[OF assms(2)]]
    forward_no_increment(1)[OF assms(2)] by simp

lemma foreign_increments:
  assumes "uplink_netid env topic payload = Some n" "n \<noteq> ''01''"
  shows "filter is_increment (new_effects s (snd (onMessage env topic payload s))) =
     (case fst (checkSLAWithPythonService env n s) of
        Inl e \<Rightarrow> []
      | Inr r \<Rightarrow> if BlockchainEnabled s \<and> sla_accepted r then [EffSpawnIncrement n] else [])"
proof -
  obtain out t where ot: "onMessage env topic payload s = (out, t)" by fastforce
  from onMessage_uplink[OF assms(1), of s] assms(2) ot obtain pm where
    run: "(case route_foreign env n s of (Inl out, s1) \<Rightarrow> (out, s1)
      | (Inr t, s1) \<Rightarrow> forward_payload env pm (rewrite_topic s topic) t s1) = (out, t)" by auto
  show ?thesis
  proof (cases "BlockchainEnabled s")
    case False
    then have "forward_payload env pm (rewrite_topic s topic) (fallback_target s) s = (out, t)"
      using run by (simp add: route_foreign_def)
    with False ot forward_no_increment(1)[OF this] show ?thesis by (auto split: sum.split)
  next
    case True
    then show ?thesis
    proof (cases rule: route_foreign_cases[where n = n and env = env])
      case (fallback e u)
      have "filter is_increment (new_effects s u) = []"
        using fallback(5) by (auto simp: filter_empty_conv)
      then show ?thesis using fallback run ot increments_then_forward[of s u] by fastforce
    next
      case (reject r u)
      then show ?thesis using run ot by auto
    next
      case (accept r u)
      then show ?thesis using run ot True increments_then_forward[of s u] by fastforce
    qed
  qed
qed

text \<open>C10: A message starts the counter of the service exactly once if it is a foreign
  packet whose SLA check, with the blockchain enabled, came back Accept or Active SLA, and
  then for that NetID; every other message starts none.\<close>

theorem counter_iff_accepted:
  "filter is_increment (new_effects s (snd (onMessage env topic payload s))) =
     (case uplink_netid env topic payload of
        None \<Rightarrow> []
      | Some n \<Rightarrow> (case fst (checkSLAWithPythonService env n s) of
          Inl e \<Rightarrow> []
        | Inr r \<Rightarrow> if n \<noteq> ''01'' \<and> BlockchainEnabled s \<and> sla_accepted r
            then [EffSpawnIncrement n] else []))"
proof (cases "uplink_netid env topic payload \<in> {None, Some ''01''}")
  case True
  then show ?thesis
  proof (cases rule: onMessage_home[where s = s])
    case (1 out)
    with True show ?thesis by (auto split: sum.split)
  next
    case (2 pm)
    obtain out t where "forward_payload env pm (rewrite_topic s topic) (home_target s) s = (out, t)"
      by fastforce
    with True 2 forward_no_increment(1)[OF this] show ?thesis by (auto split: sum.split)
  qed
next
  case False
  then obtain n where "uplink_netid env topic payload = Some n" "n \<noteq> ''01''" by auto
  with foreign_increments[OF this, of s] show ?thesis by (simp split: sum.split)
qed

text \<open>C15: The counter is started before the gateway ID of the answer is looked at: an accepted
  packet whose gateway ID is not hexadecimal is counted and then dropped, with no attempt to
  connect or publish.\<close>

theorem bad_gateway_id_counted_and_dropped:
  assumes "uplink_netid env topic payload = Some n" "n \<noteq> ''01''" "BlockchainEnabled s"
    and "fst (checkSLAWithPythonService env n s) = Inr r" "sla_accepted r"
    and "sla_GatewayID r \<notin> {'''', ''None''}" "hex_decode (sla_GatewayID r) = None"
  shows "\<exists>t. onMessage env topic payload s = (Dropped BadGatewayID, t)
    \<and> new_effects s t = [EffHttp (sla_request s n), EffSpawnIncrement n]"
proof -
  from onMessage_uplink[OF assms(1), of s] assms(2) obtain pm where
    run: "onMessage env topic payload s = (case route_foreign env n s of (Inl out, s1) \<Rightarrow> (out, s1)
      | (Inr t, s1) \<Rightarrow> forward_payload env pm (rewrite_topic s topic) t s1)" by auto
  show ?thesis using assms(3)
    by (cases rule: route_foreign_cases[where n = n and env = env])
      (use run assms in \<open>auto simp: forward_payload_def sla_target_def\<close>)
qed

theorem bad_gateway_id_counted_and_dropped_witness:
  "\<exists>t. onMessage (demo_env (Some (demo_sla ''Accept'' ''GW_TIM_001''))) demo_topic ''tim'' demo_state
      = (Dropped BadGatewayID, t)
    \<and> new_effects demo_state t = [EffHttp (sla_request demo_state ''02''), EffSpawnIncrement ''02'']"
  by (rule bad_gateway_id_counted_and_dropped[where r = "demo_sla ''Accept'' ''GW_TIM_001''"])
    (simp_all add: sla_accepted_def demo_sla_def unhex_def)

section \<open>Home traffic\<close>

text \<open>C16: A message that is not a foreign packet (home NetID, statistics, connection state, no
  physical payload) never leaves for another operator: the service is not asked, and the only
  effects are attempts to connect to the added broker and a publication under the rewritten
  topic, with the local gateway ID, through a client dialled for that broker.\<close>

theorem home_stays_home:
  assumes "uplink_netid env topic payload \<in> {None, Some ''01''}" "pool_ok s"
    and "onMessage env topic payload s = (out, t)" "e \<in> set (new_effects s t)"
  shows "(\<exists>cid c. e = EffDial (AddedBroker s) cid c)
    \<or> (\<exists>c pm gw payload'. e = EffPublish c (rewrite_topic s topic) payload'
         \<and> dialled (AddedBroker s) c t \<and> hex_decode (GWid s) = Some gw
         \<and> json_unmarshal env payload = Some pm
         \<and> json_marshal env (modifyMap ''gatewayID'' (b64_encode gw) pm) = Some payload')"
  using assms(1)
proof (cases rule: onMessage_home[where s = s])
  case (1 out')
  with assms show ?thesis by simp
next
  case (2 pm)
  then have "forward_payload env pm (rewrite_topic s topic) (home_target s) s = (out, t)"
    using assms(3) by simp
  then show ?thesis using assms(2,4) 2(1)
    by (cases rule: forward_payload_effects) (auto simp: home_target_def)
qed

theorem home_stays_home_witness:
  "\<exists>t. onMessage (demo_env None) demo_topic ''home'' demo_state = (Forwarded, t)
     \<and> (\<forall>e \<in> set (new_effects demo_state t). (\<exists>cid c. e = EffDial ''tcp://home'' cid c)
         \<or> (\<exists>c payload'. e = EffPublish c (rewrite_topic demo_state demo_topic) payload'
              \<and> dialled ''tcp://home'' c t))"
proof -
  let ?e = "demo_env None"
  obtain out t where run: "onMessage ?e demo_topic ''home'' demo_state = (out, t)" by fastforce
  have hex: "hex_decode ''00ff'' = Some [0, 255]" by (simp add: unhex_def)
  obtain pm p where pm: "json_unmarshal ?e ''home'' = Some pm"
    and m: "demo_marshal (modifyMap ''gatewayID'' (b64_encode [0, 255]) pm) = Some p"
    by (simp add: demo_payload_def demo_marshal_def del: b64_encode.simps)
  have "out = Forwarded"
    using run pm hex m onMessage_uplink[where env = ?e and s = demo_state, OF demo_netid(2)]
    by (auto simp: home_target_def forward_payload_def publish_to_def getOrCreatePublishClient_def
        lockedPublishClient_def makePublishClient_def initPublishClient_def ask_connected_def
        do_publish_def advance_def emit_def Let_def simp del: b64_encode.simps split: if_splits)
  with run home_stays_home[OF _ _ run] show ?thesis by fastforce
qed

end
