(* ===== verification/Ledger.thy ===== *)
theory Ledger
  imports Prelude
begin

text \<open>
  The chain the roaming contracts live on, and the catalogue contract of
  \<open>src/smart_contracts/_catalogo.py\<close>.

  A contract method takes the ledger and gives its return value with the ledger after it,
  or an error. A failed \<open>Assert\<close>, an overflow or a failed inner call aborts the whole
  transaction, so an error carries no ledger: \<open>submit\<close> keeps the old one. What the chain
  itself decides is the parameter record \<open>avm\<close>: the account of an application, whether a
  transaction may touch a box, whether a box can be paid for, and what a payment does to
  the balances. Sizes of ABI strings and logs are not modelled.
\<close>

type_synonym address = string
type_synonym app_id = u64

datatype avm_error =
    AssertFailed string
  | ArithmeticError
  | TypeMismatch
  | NoSuchApplication
  | SelfCall
  | Refused

section \<open>Arithmetic of the machine\<close>

text \<open>The machine panics where a 64-bit result does not fit.\<close>

definition add64 :: "u64 \<Rightarrow> u64 \<Rightarrow> avm_error + u64" where
  "add64 a b = (if unat a + unat b < 2 ^ 64 then Inr (a + b) else Inl ArithmeticError)"

definition sub64 :: "u64 \<Rightarrow> u64 \<Rightarrow> avm_error + u64" where
  "sub64 a b = (if b \<le> a then Inr (a - b) else Inl ArithmeticError)"

definition mul64 :: "u64 \<Rightarrow> u64 \<Rightarrow> avm_error + u64" where
  "mul64 a b = (if unat a * unat b < 2 ^ 64 then Inr (a * b) else Inl ArithmeticError)"

definition avm_bind :: "avm_error + 'a \<Rightarrow> ('a \<Rightarrow> avm_error + 'b) \<Rightarrow> avm_error + 'b" where
  "avm_bind r f = (case r of Inl e \<Rightarrow> Inl e | Inr x \<Rightarrow> f x)"

lemma avm_bind_simps [simp]:
  "avm_bind (Inl e) f = Inl e"
  "avm_bind (Inr x) f = f x"
  by (simp_all add: avm_bind_def)

lemma avm_bind_Inr_iff: "avm_bind r f = Inr y \<longleftrightarrow> (\<exists>x. r = Inr x \<and> f x = Inr y)"
  by (cases r) simp_all

lemma unat_add64: "add64 a b = Inr c \<Longrightarrow> unat c = unat a + unat b"
  using unat_add_lem[of a b] by (auto simp: add64_def split: if_splits)

lemma unat_sub64: "sub64 a b = Inr c \<Longrightarrow> unat c = unat a - unat b \<and> b \<le> a"
  by (auto simp: sub64_def unat_sub split: if_splits)

lemma unat_mul64: "mul64 a b = Inr c \<Longrightarrow> unat c = unat a * unat b"
  using unat_mult_lem[of a b] by (auto simp: mul64_def split: if_splits)

text \<open>\<open>Itob\<close>: the eight bytes of a number, most significant first.\<close>

definition itob :: "u64 \<Rightarrow> string" where
  "itob x = map (\<lambda>i. char_of (unat (drop_bit (8 * i) x AND 255))) [7, 6, 5, 4, 3, 2, 1, 0]"

section \<open>State\<close>

text \<open>The local state of an account: the three keys of \<open>Endpoint_list\<close>.\<close>

record Endpoint_local =
  local_NetID :: "string option"
  local_Name_Provider :: "string option"
  local_Endpoint_SC :: "u64 option"

type_synonym Endpoint_list = "address \<rightharpoonup> Endpoint_local"

record EndpointItem =
  item_NetID :: string
  item_Name_Provider :: string
  item_Endpoint_SC :: u64

record SLA_output =
  out_State_SLA :: string
  out_Token_broker :: string
  out_GW_id :: string

record SLAEntry =
  entry_NetID :: string
  entry_Name_provider :: string
  entry_State_SLA :: string
  entry_Price_contracting :: u64
  entry_Threshold_contracting :: u64
  entry_Packet_Counter :: u64
  entry_Token_broker :: string
  entry_GW_id :: string

text \<open>The boxes and the global state of one SLA contract; a key that was never set is absent.\<close>

record SLA_states =
  sla_entry :: "string \<rightharpoonup> SLAEntry"
  App_ID_catalogo :: "u64 option"
  Price_SLA :: "u64 option"
  Threshold :: "u64 option"
  Tolerance :: "u64 option"
  Payment_Tolerance :: "u64 option"
  Token_broker :: "string option"
  sc_GWid :: "string option"

record ledger =
  sla_apps :: "app_id \<rightharpoonup> SLA_states"
  catalogs :: "app_id \<rightharpoonup> Endpoint_list"
  creators :: "app_id \<Rightarrow> address"
  balances :: "address \<Rightarrow> u64"
  logs :: "(app_id \<times> string) list"

record avm =
  app_address :: "app_id \<Rightarrow> address"
  box_access :: "app_id \<Rightarrow> string \<Rightarrow> bool"
  box_room :: "app_id \<Rightarrow> string \<Rightarrow> SLAEntry \<Rightarrow> bool"
  transfer :: "address \<Rightarrow> address \<Rightarrow> u64 \<Rightarrow> (address \<Rightarrow> u64) \<Rightarrow> (address \<Rightarrow> u64) option"

type_synonym 'a call = "avm_error + ('a \<times> ledger)"

definition submit :: "(ledger \<Rightarrow> 'a call) \<Rightarrow> ledger \<Rightarrow> (avm_error + 'a) \<times> ledger" where
  "submit f L = (case f L of Inl e \<Rightarrow> (Inl e, L) | Inr (v, L') \<Rightarrow> (Inr v, L'))"

text \<open>\<open>app_global_get\<close> and \<open>app_local_get\<close> give the number 0 for an absent key; where text is
  expected that is a type error.\<close>

definition global_uint :: "u64 option \<Rightarrow> u64" where
  "global_uint k = (case k of None \<Rightarrow> 0 | Some v \<Rightarrow> v)"

definition stored_bytes :: "string option \<Rightarrow> avm_error + string" where
  "stored_bytes k = (case k of None \<Rightarrow> Inl TypeMismatch | Some v \<Rightarrow> Inr v)"

lemma global_uint_simps [simp]: "global_uint None = 0" "global_uint (Some v) = v"
  by (simp_all add: global_uint_def)

lemma stored_bytes_simps [simp]:
  "stored_bytes None = Inl TypeMismatch" "stored_bytes (Some v) = Inr v"
  by (simp_all add: stored_bytes_def)

definition log_line :: "app_id \<Rightarrow> string \<Rightarrow> ledger \<Rightarrow> ledger" where
  "log_line app line L = L\<lparr>logs := logs L @ [(app, line)]\<rparr>"

lemma log_line_fields [simp]:
  "sla_apps (log_line app line L) = sla_apps L" "catalogs (log_line app line L) = catalogs L"
  "creators (log_line app line L) = creators L" "balances (log_line app line L) = balances L"
  "logs (log_line app line L) = logs L @ [(app, line)]"
  by (simp_all add: log_line_def)

section \<open>The catalogue\<close>

definition PAYMENT_AMT :: u64 where "PAYMENT_AMT = 1000000"

definition ALGO_PARTICIPATION_AMT :: u64 where "ALGO_PARTICIPATION_AMT = 1"

text \<open>The entry of an account under its application; \<open>new\<close> is the number the chain gives.\<close>

definition cat_create :: "app_id \<Rightarrow> address \<Rightarrow> ledger \<Rightarrow> unit call" where
  "cat_create new sender L =
     Inr ((), L\<lparr>catalogs := (catalogs L)(new \<mapsto> Map.empty), creators := (creators L)(new := sender)\<rparr>)"

definition cat_delete :: "app_id \<Rightarrow> address \<Rightarrow> ledger \<Rightarrow> unit call" where
  "cat_delete app sender L =
     (case catalogs L app of None \<Rightarrow> Inl NoSuchApplication
      | Some C \<Rightarrow>
        if sender \<noteq> creators L app then Inl (AssertFailed ''unauthorized'')
        else Inr ((), L\<lparr>catalogs := (catalogs L)(app := None)\<rparr>))"

definition set_local :: "app_id \<Rightarrow> address \<Rightarrow> Endpoint_local option \<Rightarrow> ledger \<Rightarrow> ledger" where
  "set_local app acct e L =
     (case catalogs L app of None \<Rightarrow> L
      | Some C \<Rightarrow> L\<lparr>catalogs := (catalogs L)(app \<mapsto> C(acct := e))\<rparr>)"

text \<open>\<open>receiver\<close> and \<open>amount\<close> are those of the payment in front of the call in its group. An
  account that has opted in cannot do so again.\<close>

definition cat_opt_in :: "app_id \<Rightarrow> address \<Rightarrow> address \<Rightarrow> u64 \<Rightarrow> ledger \<Rightarrow> unit call" where
  "cat_opt_in app sender receiver amount L =
     (case catalogs L app of None \<Rightarrow> Inl NoSuchApplication
      | Some C \<Rightarrow>
        if C sender \<noteq> None then Inl Refused
        else if receiver \<noteq> creators L app
          then Inl (AssertFailed ''The receiver of payment is incorrect!'')
        else if \<not> PAYMENT_AMT * ALGO_PARTICIPATION_AMT \<le> amount
          then Inl (AssertFailed ''The amount of payment is too low!'')
        else Inr ((), set_local app sender (Some \<lparr>local_NetID = Some [],
          local_Name_Provider = Some [], local_Endpoint_SC = Some 0\<rparr>) L))"

definition opted_in :: "app_id \<Rightarrow> address \<Rightarrow> ledger \<Rightarrow> bool" where
  "opted_in app acct L =
     (case catalogs L app of None \<Rightarrow> False | Some C \<Rightarrow> C acct \<noteq> None)"

definition cat_close_out :: "app_id \<Rightarrow> address \<Rightarrow> ledger \<Rightarrow> unit call" where
  "cat_close_out app sender L =
     (if \<not> opted_in app sender L then Inl (AssertFailed ''unauthorized'')
      else Inr ((), set_local app sender None L))"

text \<open>A clear-state transaction is approved in any case.\<close>

definition cat_clear_state :: "app_id \<Rightarrow> address \<Rightarrow> ledger \<Rightarrow> unit call" where
  "cat_clear_state app sender L = Inr ((), set_local app sender None L)"

definition set_entry_provider ::
  "app_id \<Rightarrow> address \<Rightarrow> string \<Rightarrow> string \<Rightarrow> u64 \<Rightarrow> ledger \<Rightarrow> string call" where
  "set_entry_provider app sender NetID_Provider Name_Provider app_id_SC_Provider L =
     (if \<not> opted_in app sender L then Inl (AssertFailed ''unauthorized'')
      else if NetID_Provider = [] then Inl (AssertFailed ''NetID cannot be empty'')
      else if Name_Provider = [] then Inl (AssertFailed ''Provider name cannot be empty'')
      else if app_id_SC_Provider = 0 then Inl (AssertFailed ''App ID must be greater than 0'')
      else Inr (''Endpoint registered successfully!'',
        log_line app (''Provider registered: '' @ NetID_Provider @ '' - '' @ Name_Provider)
          (set_local app sender (Some \<lparr>local_NetID = Some NetID_Provider,
             local_Name_Provider = Some Name_Provider,
             local_Endpoint_SC = Some app_id_SC_Provider\<rparr>) L)))"

text \<open>A read of the local state of an account, absent when the account has not opted in.\<close>

definition local_state :: "app_id \<Rightarrow> address \<Rightarrow> ledger \<Rightarrow> Endpoint_local option" where
  "local_state app acct L = (case catalogs L app of None \<Rightarrow> None | Some C \<Rightarrow> C acct)"

definition get_entry_provider ::
  "app_id \<Rightarrow> address \<Rightarrow> ledger \<Rightarrow> avm_error + EndpointItem" where
  "get_entry_provider app provider L =
     (case catalogs L app of None \<Rightarrow> Inl NoSuchApplication
      | Some C \<Rightarrow> (case C provider of
          None \<Rightarrow> Inl (AssertFailed ''This provider not found!'')
        | Some e \<Rightarrow> (case local_Endpoint_SC e of
            None \<Rightarrow> Inl (AssertFailed ''This provider not found!'')
          | Some endpoint \<Rightarrow>
              avm_bind (stored_bytes (local_NetID e)) (\<lambda>netid.
              avm_bind (stored_bytes (local_Name_Provider e)) (\<lambda>nm.
                Inr \<lparr>item_NetID = netid, item_Name_Provider = nm, item_Endpoint_SC = endpoint\<rparr>)))))"

definition delete_endpoint :: "app_id \<Rightarrow> address \<Rightarrow> ledger \<Rightarrow> string call" where
  "delete_endpoint app sender L =
     (case local_state app sender L of
        None \<Rightarrow> Inl (AssertFailed ''unauthorized'')
      | Some e \<Rightarrow>
          if local_Endpoint_SC e = None then Inl (AssertFailed ''This provider not found!'')
          else avm_bind (stored_bytes (local_NetID e)) (\<lambda>netid.
            Inr (''Endpoint deleted successfully!'',
              set_local app sender (Some \<lparr>local_NetID = None, local_Name_Provider = None,
                  local_Endpoint_SC = None\<rparr>)
                (log_line app (''Provider deleted: '' @ netid) L))))"

definition provider_exists :: "app_id \<Rightarrow> address \<Rightarrow> ledger \<Rightarrow> avm_error + bool" where
  "provider_exists app provider L =
     (case catalogs L app of None \<Rightarrow> Inl NoSuchApplication
      | Some C \<Rightarrow> Inr (case C provider of None \<Rightarrow> False | Some e \<Rightarrow> local_Endpoint_SC e \<noteq> None))"

lemma set_local_fields [simp]:
  "sla_apps (set_local app acct e L) = sla_apps L" "creators (set_local app acct e L) = creators L"
  "balances (set_local app acct e L) = balances L" "logs (set_local app acct e L) = logs L"
  by (simp_all add: set_local_def split: option.split)

text \<open>What an account registers is what a later look-up of that account finds.\<close>

lemma get_after_set:
  assumes "set_entry_provider cat acct netid nm sc L = Inr (msg, L')"
  shows "get_entry_provider cat acct L' =
    Inr \<lparr>item_NetID = netid, item_Name_Provider = nm, item_Endpoint_SC = sc\<rparr>"
  using assms
  by (auto simp: set_entry_provider_def opted_in_def set_local_def get_entry_provider_def
      split: if_splits option.splits)

lemma set_entry_provider_frame:
  assumes "set_entry_provider cat acct netid nm sc L = Inr (msg, L')"
  shows "sla_apps L' = sla_apps L" "balances L' = balances L"
    and "acct' \<noteq> acct \<Longrightarrow> local_state cat acct' L' = local_state cat acct' L"
  using assms
  by (auto simp: set_entry_provider_def opted_in_def set_local_def local_state_def
      split: if_splits option.splits)

lemma get_after_delete:
  assumes "delete_endpoint cat acct L = Inr (msg, L')"
  shows "get_entry_provider cat acct L' = Inl (AssertFailed ''This provider not found!'')"
    and "provider_exists cat acct L' = Inr False"
  using assms
  by (auto simp: delete_endpoint_def local_state_def set_local_def get_entry_provider_def
      provider_exists_def avm_bind_def split: if_splits option.splits sum.splits)

end
