(* ===== verification/SlaContract.thy ===== *)
theory SlaContract
  imports Ledger
begin

text \<open>
  The SLA contract of \<open>src/smart_contracts/_SC.py\<close>. Every operator deploys one: as the
  forwarder of foreign packets it keeps a box \<open><NetID>_forward_box\<close> for each home operator,
  as the home of its own devices a box \<open><NetID>_home_box\<close> for each forwarder. \<open>sla_check\<close> of
  the forwarder calls \<open>handshake\<close> and \<open>pay\<close> of the home contract as inner transactions, which
  call the catalogue; an application cannot call itself.
\<close>

section \<open>Boxes and global state\<close>

definition get_box :: "app_id \<Rightarrow> string \<Rightarrow> ledger \<Rightarrow> SLAEntry option" where
  "get_box app name L = (case sla_apps L app of None \<Rightarrow> None | Some S \<Rightarrow> sla_entry S name)"

definition set_box :: "app_id \<Rightarrow> string \<Rightarrow> SLAEntry option \<Rightarrow> ledger \<Rightarrow> ledger" where
  "set_box app name e L =
     (case sla_apps L app of None \<Rightarrow> L
      | Some S \<Rightarrow> L\<lparr>sla_apps := (sla_apps L)(app \<mapsto> S\<lparr>sla_entry := (sla_entry S)(name := e)\<rparr>)\<rparr>)"

definition put_box :: "avm \<Rightarrow> app_id \<Rightarrow> string \<Rightarrow> SLAEntry \<Rightarrow> ledger \<Rightarrow> avm_error + ledger" where
  "put_box env app name e L =
     (if box_room env app name e then Inr (set_box app name (Some e) L) else Inl Refused)"

definition forward_box :: "string \<Rightarrow> string" where
  "forward_box NetID = NetID @ ''_forward_box''"

definition home_box :: "string \<Rightarrow> string" where
  "home_box NetID = NetID @ ''_home_box''"

text \<open>The box the methods with a \<open>type_op\<close> look at, after their assertions on it.\<close>

definition checked_box ::
  "avm \<Rightarrow> app_id \<Rightarrow> string \<Rightarrow> string \<Rightarrow> ledger \<Rightarrow> avm_error + SLAEntry" where
  "checked_box env app type_op NetID L =
     (if \<not> (type_op = ''_forward_box'' \<or> type_op = ''_home_box'')
        then Inl (AssertFailed ''Invalid operation type'')
      else if \<not> box_access env app (NetID @ type_op) then Inl Refused
      else (case get_box app (NetID @ type_op) L of
          None \<Rightarrow> Inl (AssertFailed ''SLA not found'')
        | Some e \<Rightarrow> Inr e))"

definition live_home_box ::
  "avm \<Rightarrow> app_id \<Rightarrow> string \<Rightarrow> ledger \<Rightarrow> avm_error + SLAEntry" where
  "live_home_box env app NetID L =
     (if \<not> box_access env app (home_box NetID) then Inl Refused
      else (case get_box app (home_box NetID) L of
          None \<Rightarrow> Inl (AssertFailed ''SLA not found'')
        | Some e \<Rightarrow>
            if entry_State_SLA e = ''Active SLA'' then Inr e
            else Inl (AssertFailed ''SLA not active'')))"

section \<open>Management\<close>

definition sla_create :: "app_id \<Rightarrow> address \<Rightarrow> ledger \<Rightarrow> unit call" where
  "sla_create new sender L =
     Inr ((), L\<lparr>sla_apps := (sla_apps L)(new \<mapsto> \<lparr>sla_entry = Map.empty, App_ID_catalogo = None,
         Price_SLA = None, Threshold = None, Tolerance = None, Payment_Tolerance = None,
         Token_broker = None, sc_GWid = None\<rparr>),
       creators := (creators L)(new := sender)\<rparr>)"

definition sla_delete :: "app_id \<Rightarrow> address \<Rightarrow> ledger \<Rightarrow> unit call" where
  "sla_delete app sender L =
     (if sla_apps L app = None then Inl NoSuchApplication
      else if sender \<noteq> creators L app then Inl (AssertFailed ''unauthorized'')
      else Inr ((), L\<lparr>sla_apps := (sla_apps L)(app := None)\<rparr>))"

definition sla_init ::
  "app_id \<Rightarrow> address \<Rightarrow> u64 \<Rightarrow> u64 \<Rightarrow> u64 \<Rightarrow> u64 \<Rightarrow> u64 \<Rightarrow> string \<Rightarrow> string \<Rightarrow> ledger \<Rightarrow> string call" where
  "sla_init app sender app_id_catalog price threshold tolerance payment_tolerance token gwid L =
     (case sla_apps L app of None \<Rightarrow> Inl NoSuchApplication
      | Some S \<Rightarrow>
        if sender \<noteq> creators L app then Inl (AssertFailed ''unauthorized'')
        else if \<not> 0 < app_id_catalog then Inl (AssertFailed ''Invalid catalog app ID'')
        else if \<not> 0 < price then Inl (AssertFailed ''Price must be greater than 0'')
        else if \<not> 0 < threshold then Inl (AssertFailed ''Threshold must be greater than 0'')
        else if \<not> tolerance \<le> 100 then Inl (AssertFailed ''Tolerance must be <= 100%'')
        else if \<not> payment_tolerance \<le> 100
          then Inl (AssertFailed ''Payment tolerance must be <= 100%'')
        else Inr (''Smart Contract initialized correctly!'',
          log_line app (''SC initialized - GW: '' @ gwid @ '' - Price: '' @ itob price)
            (L\<lparr>sla_apps := (sla_apps L)(app \<mapsto> S\<lparr>App_ID_catalogo := Some app_id_catalog,
              Price_SLA := Some price, Threshold := Some threshold, Tolerance := Some tolerance,
              Payment_Tolerance := Some payment_tolerance, Token_broker := Some token,
              sc_GWid := Some gwid\<rparr>)\<rparr>)))"

definition get_appID_cat :: "app_id \<Rightarrow> address \<Rightarrow> ledger \<Rightarrow> avm_error + u64" where
  "get_appID_cat app sender L =
     (case sla_apps L app of None \<Rightarrow> Inl NoSuchApplication
      | Some S \<Rightarrow>
        if sender \<noteq> creators L app then Inl (AssertFailed ''unauthorized'')
        else Inr (case App_ID_catalogo S of None \<Rightarrow> 0 | Some c \<Rightarrow> c))"

definition getSLA ::
  "avm \<Rightarrow> app_id \<Rightarrow> string \<Rightarrow> string \<Rightarrow> ledger \<Rightarrow> avm_error + SLAEntry" where
  "getSLA env app type_op NetID L =
     (if sla_apps L app = None then Inl NoSuchApplication
      else checked_box env app type_op NetID L)"

definition deleteSLA ::
  "avm \<Rightarrow> app_id \<Rightarrow> address \<Rightarrow> string \<Rightarrow> string \<Rightarrow> ledger \<Rightarrow> string call" where
  "deleteSLA env app sender type_op NetID L =
     (if sla_apps L app = None then Inl NoSuchApplication
      else if sender \<noteq> creators L app then Inl (AssertFailed ''unauthorized'')
      else avm_bind (checked_box env app type_op NetID L) (\<lambda>e.
        Inr (''SLA deleted successfully'',
          set_box app (NetID @ type_op) None
            (log_line app (''SLA deleted: '' @ NetID @ type_op) L))))"

definition get_sla_stats ::
  "avm \<Rightarrow> app_id \<Rightarrow> string \<Rightarrow> string \<Rightarrow> ledger \<Rightarrow> avm_error + string" where
  "get_sla_stats env app NetID type_op L =
     (if sla_apps L app = None then Inl NoSuchApplication
      else avm_bind (checked_box env app type_op NetID L) (\<lambda>e.
        Inr (''NetID:'' @ entry_NetID e @ ''|State:'' @ entry_State_SLA e
          @ ''|Count:'' @ itob (entry_Packet_Counter e)
          @ ''|Threshold:'' @ itob (entry_Threshold_contracting e)
          @ ''|Price:'' @ itob (entry_Price_contracting e))))"

definition sla_balance :: "app_id \<Rightarrow> address \<Rightarrow> address \<Rightarrow> ledger \<Rightarrow> avm_error + u64" where
  "sla_balance app sender receiver L =
     (if sla_apps L app = None then Inl NoSuchApplication
      else if sender \<noteq> creators L app then Inl (AssertFailed ''unauthorized'')
      else Inr (balances L receiver))"

section \<open>The home side\<close>

text \<open>\<open>caller\<close> is the application that made the inner call, 0 for a call from outside.\<close>

definition handshake ::
  "avm \<Rightarrow> app_id \<Rightarrow> app_id \<Rightarrow> app_id \<Rightarrow> address \<Rightarrow> u64 \<Rightarrow> u64 \<Rightarrow> ledger \<Rightarrow> SLA_output call" where
  "handshake env app caller app_id_catalog provider price_f threshold_f L =
     (case sla_apps L app of None \<Rightarrow> Inl NoSuchApplication
      | Some S \<Rightarrow>
        if app_id_catalog \<noteq> global_uint (App_ID_catalogo S)
          then Inl (AssertFailed ''Invalid catalog app ID'')
        else avm_bind (get_entry_provider app_id_catalog provider L) (\<lambda>it.
          if caller \<noteq> item_Endpoint_SC it then Inl (AssertFailed ''Caller app ID mismatch'')
          else
            let NetID_forwarder = item_NetID it; box_name = home_box NetID_forwarder in
            if \<not> box_access env app box_name then Inl Refused
            else if get_box app box_name L \<noteq> None then Inl (AssertFailed ''SLA already exists'')
            else
              let accepted = price_f \<le> global_uint (Price_SLA S)
                \<and> global_uint (Threshold S) \<le> threshold_f in
              avm_bind (if accepted then stored_bytes (Token_broker S) else Inr ''None'') (\<lambda>token.
              avm_bind (if accepted then stored_bytes (sc_GWid S) else Inr ''None'') (\<lambda>gw_id.
                let state = (if accepted then ''Active SLA'' else ''SLA rejected'');
                    L1 = log_line app (if accepted
                      then ''SLA accepted: '' @ NetID_forwarder @ '' - Price: '' @ itob price_f
                        @ '' - Threshold: '' @ itob threshold_f
                      else ''SLA rejected: '' @ NetID_forwarder @ '' - Price offered: ''
                        @ itob price_f @ '' - Price required: ''
                        @ itob (global_uint (Price_SLA S))) L in
                avm_bind (put_box env app box_name \<lparr>entry_NetID = NetID_forwarder,
                    entry_Name_provider = item_Name_Provider it, entry_State_SLA = state,
                    entry_Price_contracting = price_f, entry_Threshold_contracting = threshold_f,
                    entry_Packet_Counter = 0, entry_Token_broker = token, entry_GW_id = gw_id\<rparr> L1)
                  (\<lambda>L2. Inr (\<lparr>out_State_SLA = state, out_Token_broker = token,
                    out_GW_id = gw_id\<rparr>, L2))))))"

definition receive_packet_from_forwarder ::
  "avm \<Rightarrow> app_id \<Rightarrow> address \<Rightarrow> string \<Rightarrow> ledger \<Rightarrow> string call" where
  "receive_packet_from_forwarder env app sender NetID_forwarder L =
     (if sla_apps L app = None then Inl NoSuchApplication
      else if sender \<noteq> creators L app then Inl (AssertFailed ''unauthorized'')
      else avm_bind (live_home_box env app NetID_forwarder L) (\<lambda>e.
        avm_bind (add64 (entry_Packet_Counter e) 1) (\<lambda>current_count.
        avm_bind (put_box env app (home_box NetID_forwarder)
            (e\<lparr>entry_NetID := NetID_forwarder, entry_Packet_Counter := current_count\<rparr>) L) (\<lambda>L1.
          Inr (''Packet received'',
            log_line app (''Packet received from: '' @ NetID_forwarder @ '' - Count: ''
              @ itob current_count @ ''/'' @ itob (entry_Threshold_contracting e)) L1)))))"

definition ban_home_function ::
  "avm \<Rightarrow> app_id \<Rightarrow> address \<Rightarrow> string \<Rightarrow> ledger \<Rightarrow> string call" where
  "ban_home_function env app sender NetID_forwarder L =
     (if sla_apps L app = None then Inl NoSuchApplication
      else if sender \<noteq> creators L app then Inl (AssertFailed ''unauthorized'')
      else avm_bind (live_home_box env app NetID_forwarder L) (\<lambda>e.
        avm_bind (put_box env app (home_box NetID_forwarder)
            (e\<lparr>entry_NetID := NetID_forwarder, entry_State_SLA := ''Banned''\<rparr>) L) (\<lambda>L1.
          Inr (''Provider banned successfully'',
            log_line app (''Provider banned: '' @ NetID_forwarder @ '' - Reason: Manual ban'') L1))))"

text \<open>The number of packets that must have been counted before a payment is made.\<close>

definition min_packets :: "SLA_states \<Rightarrow> SLAEntry \<Rightarrow> avm_error + u64" where
  "min_packets S e =
     avm_bind (mul64 (entry_Threshold_contracting e) (global_uint (Tolerance S)))
       (\<lambda>m. Inr (m div 100))"

definition execute_payment ::
  "avm \<Rightarrow> app_id \<Rightarrow> address \<Rightarrow> string \<Rightarrow> SLAEntry \<Rightarrow> ledger \<Rightarrow> unit call" where
  "execute_payment env app receiver NetID_forwarder e L =
     (case transfer env (app_address env app) receiver (entry_Price_contracting e) (balances L) of
        None \<Rightarrow> Inl Refused
      | Some b \<Rightarrow>
          avm_bind (put_box env app (home_box NetID_forwarder)
              (e\<lparr>entry_NetID := NetID_forwarder, entry_Packet_Counter := 0\<rparr>) (L\<lparr>balances := b\<rparr>))
            (\<lambda>L1. Inr ((), log_line app (''Payment sent to: '' @ NetID_forwarder @ '' - Amount: ''
              @ itob (entry_Price_contracting e) @ '' - Packets: '' @ itob 0) L1)))"

definition pay ::
  "avm \<Rightarrow> app_id \<Rightarrow> app_id \<Rightarrow> app_id \<Rightarrow> address \<Rightarrow> ledger \<Rightarrow> unit call" where
  "pay env app caller app_id_catalog receiver L =
     (case sla_apps L app of None \<Rightarrow> Inl NoSuchApplication
      | Some S \<Rightarrow>
        if app_id_catalog \<noteq> global_uint (App_ID_catalogo S)
          then Inl (AssertFailed ''Invalid catalog app ID'')
        else avm_bind (get_entry_provider app_id_catalog receiver L) (\<lambda>it.
          if caller \<noteq> item_Endpoint_SC it then Inl (AssertFailed ''Caller app ID mismatch'')
          else if \<not> box_access env app (home_box (item_NetID it)) then Inl Refused
          else (case get_box app (home_box (item_NetID it)) L of
              None \<Rightarrow> Inl (AssertFailed ''SLA not found'')
            | Some e \<Rightarrow>
                avm_bind (min_packets S e) (\<lambda>m.
                  if m \<le> entry_Packet_Counter e \<and> entry_State_SLA e = ''Active SLA''
                  then execute_payment env app receiver (item_NetID it) e L
                  else Inr ((), L)))))"

section \<open>The forwarder side\<close>

text \<open>An inner call: the application must exist and must not be the caller itself.\<close>

definition inner_pay ::
  "avm \<Rightarrow> app_id \<Rightarrow> app_id \<Rightarrow> app_id \<Rightarrow> address \<Rightarrow> ledger \<Rightarrow> unit call" where
  "inner_pay env caller app cat_ref provider L =
     (if app = caller then Inl SelfCall else pay env app caller cat_ref provider L)"

definition inner_handshake ::
  "avm \<Rightarrow> app_id \<Rightarrow> app_id \<Rightarrow> app_id \<Rightarrow> address \<Rightarrow> u64 \<Rightarrow> u64 \<Rightarrow> ledger \<Rightarrow> SLA_output call" where
  "inner_handshake env caller app cat_ref provider price_f threshold_f L =
     (if app = caller then Inl SelfCall
      else handshake env app caller cat_ref provider price_f threshold_f L)"

text \<open>
  The payment of a used-up SLA: the balance of the sender before and after the call of the
  home contract decides whether the SLA goes on, with its counter at zero, or is banned.
\<close>

definition collect_payment ::
  "avm \<Rightarrow> app_id \<Rightarrow> address \<Rightarrow> string \<Rightarrow> address \<Rightarrow> app_id \<Rightarrow> app_id \<Rightarrow> SLAEntry \<Rightarrow> ledger
     \<Rightarrow> (string \<times> u64) call" where
  "collect_payment env app sender NetID_home provider cat_ref Endpoint_home_SC e L =
     (let current_balance = balances L sender in
      avm_bind (inner_pay env app Endpoint_home_SC cat_ref provider L) (\<lambda>(_, L1).
        let after_balance = balances L1 sender;
            tol = (case sla_apps L1 app of None \<Rightarrow> 0 | Some S \<Rightarrow> global_uint (Payment_Tolerance S)) in
        avm_bind (mul64 (entry_Price_contracting e) tol) (\<lambda>m.
        avm_bind (add64 current_balance (m div 100)) (\<lambda>min_expected.
        avm_bind (sub64 after_balance current_balance) (\<lambda>received.
          if min_expected \<le> after_balance
          then Inr ((''Active SLA'', 0), log_line app (''Payment received from: '' @ NetID_home
            @ '' - Amount: '' @ itob received) L1)
          else Inr ((''Banned'', entry_Packet_Counter e), log_line app (''Payment failed from: ''
            @ NetID_home @ '' - Expected: '' @ itob min_expected @ '' - Received: ''
            @ itob received) L1))))))"

definition sla_reply :: "string \<Rightarrow> SLAEntry \<Rightarrow> SLA_output" where
  "sla_reply st e = \<lparr>out_State_SLA = st, out_Token_broker = entry_Token_broker e,
     out_GW_id = entry_GW_id e\<rparr>"

definition check_active ::
  "avm \<Rightarrow> app_id \<Rightarrow> address \<Rightarrow> string \<Rightarrow> address \<Rightarrow> app_id \<Rightarrow> app_id \<Rightarrow> SLAEntry \<Rightarrow> ledger
     \<Rightarrow> SLA_output call" where
  "check_active env app sender NetID_home provider cat_ref Endpoint_home_SC e L =
     avm_bind
       (if entry_Packet_Counter e = entry_Threshold_contracting e
        then collect_payment env app sender NetID_home provider cat_ref Endpoint_home_SC e L
        else avm_bind (add64 (entry_Packet_Counter e) 1) (\<lambda>n. Inr ((''Active SLA'', n), L)))
       (\<lambda>((state, n), L1).
         avm_bind (put_box env app (forward_box NetID_home)
             (e\<lparr>entry_NetID := NetID_home, entry_State_SLA := state, entry_Packet_Counter := n\<rparr>) L1)
           (\<lambda>L2. Inr (sla_reply (if state = ''Active SLA'' then ''Accept'' else ''Reject'') e, L2)))"

definition check_new ::
  "avm \<Rightarrow> app_id \<Rightarrow> SLA_states \<Rightarrow> string \<Rightarrow> address \<Rightarrow> app_id \<Rightarrow> string \<Rightarrow> app_id \<Rightarrow> ledger
     \<Rightarrow> SLA_output call" where
  "check_new env app S NetID_home provider cat_ref Name_home_Provider Endpoint_home_SC L =
     (let price_f = global_uint (Price_SLA S); threshold_f = global_uint (Threshold S) in
      avm_bind (inner_handshake env app Endpoint_home_SC cat_ref provider price_f threshold_f L)
        (\<lambda>(sla_out, L1).
          avm_bind (put_box env app (forward_box NetID_home) \<lparr>entry_NetID = NetID_home,
              entry_Name_provider = Name_home_Provider, entry_State_SLA = out_State_SLA sla_out,
              entry_Price_contracting = price_f, entry_Threshold_contracting = threshold_f,
              entry_Packet_Counter = 0, entry_Token_broker = out_Token_broker sla_out,
              entry_GW_id = out_GW_id sla_out\<rparr> L1)
            (\<lambda>L2. Inr (sla_out, log_line app (''New SLA created: '' @ NetID_home @ '' - State: ''
              @ out_State_SLA sla_out) L2))))"

definition sla_check ::
  "avm \<Rightarrow> app_id \<Rightarrow> address \<Rightarrow> string \<Rightarrow> address \<Rightarrow> app_id \<Rightarrow> string \<Rightarrow> app_id \<Rightarrow> ledger
     \<Rightarrow> SLA_output call" where
  "sla_check env app sender NetID_home provider cat_ref Name_home_Provider Endpoint_home_SC L =
     (case sla_apps L app of None \<Rightarrow> Inl NoSuchApplication
      | Some S \<Rightarrow>
        if sender \<noteq> creators L app then Inl (AssertFailed ''unauthorized'')
        else if \<not> box_access env app (forward_box NetID_home) then Inl Refused
        else (case get_box app (forward_box NetID_home) L of
            Some e \<Rightarrow>
              if entry_State_SLA e = ''Active SLA''
              then check_active env app sender NetID_home provider cat_ref Endpoint_home_SC e L
              else Inr (sla_reply ''Reject'' e, L)
          | None \<Rightarrow>
              check_new env app S NetID_home provider cat_ref Name_home_Provider
                Endpoint_home_SC L))"

end
