(* ===== verification/BlockchainService.thy ===== *)
theory BlockchainService
  imports Complex_Main SlaContract "HOL-Library.AList"
begin

text \<open>
  The service of \<open>src/blockchain_service.py\<close> between the bridge and the chain: three caches
  with their ages, the local index of the catalogue, and the routes.

  The world record holds the process and the ledger it talks to. Outside the repository are
  the clock, the indexer, the node, the text level of base64 and UTF-8, and the keys made
  from a mnemonic, the texts of errors and of values printed in a message: the functions of \<open>service_env\<close>. As in the model of the bridge they take
  the number of questions asked so far. A request is handled as one step; the interleaving of
  requests inside the thread pool is not modelled. Strings are read as ASCII.
\<close>

section \<open>Values and state\<close>

datatype pyjson =
    PyNone
  | PyBool bool
  | PyInt int
  | PyStr string
  | PyList "pyjson list"
  | PyDict "(string \<times> pyjson) list"

type_synonym pydict = "(string \<times> pyjson) list"

datatype response = Json int pyjson | ServerError

datatype py_error = PyException string | KeyError string | LibraryError

type_synonym 'a py = "py_error + 'a"

fun truthy :: "pyjson \<Rightarrow> bool" where
  "truthy PyNone = False"
| "truthy (PyBool b) = b"
| "truthy (PyInt n) = (n \<noteq> 0)"
| "truthy (PyStr s) = (s \<noteq> [])"
| "truthy (PyList xs) = (xs \<noteq> [])"
| "truthy (PyDict m) = (m \<noteq> [])"

text \<open>An account as the indexer reports it, its local states and their key-value pairs.\<close>

record kv_item =
  kv_key :: string
  kv_bytes :: string
  kv_uint :: u64

record app_local_state =
  als_id :: "u64 option"
  als_key_value :: "kv_item list"

record account_data =
  acc_address :: string
  acc_local_states :: "app_local_state list option"

text \<open>Address, name and endpoint; the last two are absent when the keys are.\<close>

type_synonym provider = "string \<times> string option \<times> u64 option"

datatype node_answer = Answered | NotSent | AnswerLost

record service_env =
  py_time :: "nat \<Rightarrow> real"
  indexer_accounts :: "nat \<Rightarrow> app_id \<Rightarrow> account_data list option"
  node_call :: "nat \<Rightarrow> node_answer"
  b64_utf8 :: "string \<Rightarrow> string option"
  utf8_ok :: "string \<Rightarrow> bool"
  mnemonic_account :: "string \<Rightarrow> address option"
  error_text :: "py_error \<Rightarrow> string"
  py_format :: "pyjson \<Rightarrow> string"
  chain :: avm

record svc_config =
  my_netid :: pyjson
  my_provider_name :: pyjson
  my_role :: string
  account :: address
  sc_app_id :: app_id
  catalog_app_id :: app_id

record world =
  CONFIG :: "svc_config option"
  catalog_cache :: "string \<rightharpoonup> provider \<times> real"
  sla_cache :: "string \<rightharpoonup> SLA_output \<times> real"
  config_cache :: "string \<rightharpoonup> pydict \<times> real"
  provider_index :: "(string \<times> provider) list"
  last_update :: real
  w_tick :: nat
  w_ledger :: ledger

definition service_start :: "ledger \<Rightarrow> world" where
  "service_start L = \<lparr>CONFIG = None, catalog_cache = Map.empty, sla_cache = Map.empty,
     config_cache = Map.empty, provider_index = [], last_update = 0, w_tick = 0, w_ledger = L\<rparr>"

definition clock :: "service_env \<Rightarrow> world \<Rightarrow> real \<times> world" where
  "clock env w = (py_time env (w_tick w), w\<lparr>w_tick := Suc (w_tick w)\<rparr>)"

section \<open>CacheManager\<close>

definition CATALOG_TTL :: real where "CATALOG_TTL = 300"
definition SLA_TTL :: real where "SLA_TTL = 60"
definition CONFIG_TTL :: real where "CONFIG_TTL = 600"

text \<open>A look-up reads the clock only if there is an entry.\<close>

definition cached ::
  "service_env \<Rightarrow> real \<Rightarrow> ('a \<times> real) option \<Rightarrow> world \<Rightarrow> 'a option \<times> world" where
  "cached env ttl entry w =
     (case entry of None \<Rightarrow> (None, w)
      | Some (data, timestamp) \<Rightarrow> (case clock env w of (now, w1) \<Rightarrow>
          (if now - timestamp < ttl then Some data else None, w1)))"

definition get_catalog :: "service_env \<Rightarrow> string \<Rightarrow> world \<Rightarrow> provider option \<times> world" where
  "get_catalog env netid w = cached env CATALOG_TTL (catalog_cache w netid) w"

definition set_catalog :: "service_env \<Rightarrow> string \<Rightarrow> provider \<Rightarrow> world \<Rightarrow> world" where
  "set_catalog env netid data w = (case clock env w of (now, w1) \<Rightarrow>
     w1\<lparr>catalog_cache := (catalog_cache w1)(netid \<mapsto> (data, now))\<rparr>)"

definition get_sla :: "service_env \<Rightarrow> string \<Rightarrow> world \<Rightarrow> SLA_output option \<times> world" where
  "get_sla env netid w = cached env SLA_TTL (sla_cache w netid) w"

definition set_sla :: "service_env \<Rightarrow> string \<Rightarrow> SLA_output \<Rightarrow> world \<Rightarrow> world" where
  "set_sla env netid data w = (case clock env w of (now, w1) \<Rightarrow>
     w1\<lparr>sla_cache := (sla_cache w1)(netid \<mapsto> (data, now))\<rparr>)"

definition get_config :: "service_env \<Rightarrow> string \<Rightarrow> world \<Rightarrow> pydict option \<times> world" where
  "get_config env key w = cached env CONFIG_TTL (config_cache w key) w"

definition set_config :: "service_env \<Rightarrow> string \<Rightarrow> pydict \<Rightarrow> world \<Rightarrow> world" where
  "set_config env key data w = (case clock env w of (now, w1) \<Rightarrow>
     w1\<lparr>config_cache := (config_cache w1)(key \<mapsto> (data, now))\<rparr>)"

definition clear_all :: "world \<Rightarrow> world" where
  "clear_all w = w\<lparr>catalog_cache := Map.empty, sla_cache := Map.empty, config_cache := Map.empty\<rparr>"

section \<open>The entries of the catalogue\<close>

type_synonym kv_fields = "string option \<times> string option \<times> u64 option"

definition parse_item :: "service_env \<Rightarrow> kv_item \<Rightarrow> kv_fields \<Rightarrow> kv_fields option" where
  "parse_item env item f =
     (case f of (netid, nm, endpoint) \<Rightarrow>
       (case b64_utf8 env (kv_key item) of None \<Rightarrow> None
        | Some key \<Rightarrow>
            if key = ''NetID'' then
              (case b64_utf8 env (kv_bytes item) of None \<Rightarrow> None
               | Some v \<Rightarrow> Some (Some v, nm, endpoint))
            else if key = ''Provider Name'' then
              (case b64_utf8 env (kv_bytes item) of None \<Rightarrow> None
               | Some v \<Rightarrow> Some (netid, Some v, endpoint))
            else if key = ''Endpoint of Smart Contract'' then
              Some (netid, nm, Some (kv_uint item))
            else Some f))"

fun parse_kv :: "service_env \<Rightarrow> kv_item list \<Rightarrow> kv_fields \<Rightarrow> kv_fields option" where
  "parse_kv env [] f = Some f"
| "parse_kv env (i # is) f =
     (case parse_item env i f of None \<Rightarrow> None | Some f1 \<Rightarrow> parse_kv env is f1)"

text \<open>The loops of \<open>build_index\<close>: a later entry for a NetID replaces an earlier one, in its place.\<close>

fun index_states ::
  "service_env \<Rightarrow> app_id \<Rightarrow> string \<Rightarrow> app_local_state list \<Rightarrow> (string \<times> provider) list
     \<Rightarrow> (string \<times> provider) list option" where
  "index_states env cat addr [] idx = Some idx"
| "index_states env cat addr (st # sts) idx =
     (if als_id st = Some cat then
        (case parse_kv env (als_key_value st) (None, None, None) of
           None \<Rightarrow> None
         | Some (netid, nm, endpoint) \<Rightarrow>
             index_states env cat addr sts
               (case netid of
                  Some (c # cs) \<Rightarrow> AList.update (c # cs) (addr, nm, endpoint) idx
                | _ \<Rightarrow> idx))
      else index_states env cat addr sts idx)"

fun index_accounts ::
  "service_env \<Rightarrow> app_id \<Rightarrow> account_data list \<Rightarrow> (string \<times> provider) list
     \<Rightarrow> (string \<times> provider) list option" where
  "index_accounts env cat [] idx = Some idx"
| "index_accounts env cat (a # as) idx =
     (case acc_local_states a of
        None \<Rightarrow> index_accounts env cat as idx
      | Some sts \<Rightarrow> (case index_states env cat (acc_address a) sts idx of
            None \<Rightarrow> None
          | Some idx1 \<Rightarrow> index_accounts env cat as idx1))"

text \<open>The loops of the direct search stop at the first entry with the NetID.\<close>

fun search_states ::
  "service_env \<Rightarrow> app_id \<Rightarrow> string \<Rightarrow> string \<Rightarrow> app_local_state list \<Rightarrow> provider option py" where
  "search_states env cat netid addr [] = Inr None"
| "search_states env cat netid addr (st # sts) =
     (if als_id st = Some cat then
        (case parse_kv env (als_key_value st) (None, None, None) of
           None \<Rightarrow> Inl LibraryError
         | Some (found, nm, endpoint) \<Rightarrow>
             if found = Some netid then Inr (Some (addr, nm, endpoint))
             else search_states env cat netid addr sts)
      else search_states env cat netid addr sts)"

fun search_accounts ::
  "service_env \<Rightarrow> app_id \<Rightarrow> string \<Rightarrow> account_data list \<Rightarrow> provider option py" where
  "search_accounts env cat netid [] = Inr None"
| "search_accounts env cat netid (a # as) =
     (case acc_local_states a of
        None \<Rightarrow> search_accounts env cat netid as
      | Some sts \<Rightarrow> (case search_states env cat netid (acc_address a) sts of
            Inl e \<Rightarrow> Inl e
          | Inr (Some p) \<Rightarrow> Inr (Some p)
          | Inr None \<Rightarrow> search_accounts env cat netid as))"

definition ask_indexer ::
  "service_env \<Rightarrow> app_id \<Rightarrow> world \<Rightarrow> account_data list option \<times> world" where
  "ask_indexer env cat w = (indexer_accounts env (w_tick w) cat, w\<lparr>w_tick := Suc (w_tick w)\<rparr>)"

section \<open>CatalogIndex\<close>

definition update_interval :: real where "update_interval = 300"

definition needs_update :: "service_env \<Rightarrow> world \<Rightarrow> bool \<times> world" where
  "needs_update env w = (case clock env w of (now, w1) \<Rightarrow> (update_interval < now - last_update w1, w1))"

text \<open>\<open>False\<close> when anything fails; the old index and its time then stay.\<close>

definition build_index :: "service_env \<Rightarrow> app_id \<Rightarrow> world \<Rightarrow> bool \<times> world" where
  "build_index env cat w =
     (case clock env w of (start_time, w1) \<Rightarrow>
      (case ask_indexer env cat w1 of
         (None, w2) \<Rightarrow> (False, w2)
       | (Some accounts, w2) \<Rightarrow>
           (case index_accounts env cat accounts [] of
              None \<Rightarrow> (False, w2)
            | Some new_index \<Rightarrow> (case clock env w2 of (now, w3) \<Rightarrow>
                (True, snd (clock env (w3\<lparr>provider_index := new_index, last_update := now\<rparr>)))))))"

definition get_provider :: "string \<Rightarrow> world \<Rightarrow> provider option" where
  "get_provider netid w = map_of (provider_index w) netid"

section \<open>Finding a provider\<close>

definition find_provider_direct_search ::
  "service_env \<Rightarrow> string \<Rightarrow> world \<Rightarrow> provider py \<times> world" where
  "find_provider_direct_search env netid w =
     (case CONFIG w of None \<Rightarrow> (Inl (PyException ''Service not initialized''), w)
      | Some cfg \<Rightarrow>
        (case ask_indexer env (catalog_app_id cfg) w of
           (None, w1) \<Rightarrow> (Inl LibraryError, w1)
         | (Some accounts, w1) \<Rightarrow>
             (case search_accounts env (catalog_app_id cfg) netid accounts of
                Inl e \<Rightarrow> (Inl e, w1)
              | Inr (Some p) \<Rightarrow> (Inr p, set_catalog env netid p w1)
              | Inr None \<Rightarrow>
                  (Inl (PyException (''Provider with NetID '' @ netid @ '' not found'')), w1))))"

text \<open>Step 2: the index, if it is fresh.\<close>

definition find_in_fresh_index ::
  "service_env \<Rightarrow> string \<Rightarrow> world \<Rightarrow> provider option \<times> world" where
  "find_in_fresh_index env netid w =
     (case needs_update env w of
        (True, w1) \<Rightarrow> (None, w1)
      | (False, w1) \<Rightarrow> (case get_provider netid w1 of
            None \<Rightarrow> (None, w1)
          | Some p \<Rightarrow> (Some p, set_catalog env netid p w1)))"

text \<open>Step 3: a stale index is rebuilt, and looked at whether that worked or not.\<close>

definition find_in_rebuilt_index ::
  "service_env \<Rightarrow> app_id \<Rightarrow> string \<Rightarrow> world \<Rightarrow> provider option \<times> world" where
  "find_in_rebuilt_index env cat netid w =
     (case needs_update env w of
        (False, w1) \<Rightarrow> (None, w1)
      | (True, w1) \<Rightarrow> (case build_index env cat w1 of (ok, w2) \<Rightarrow>
          (case get_provider netid w2 of
             None \<Rightarrow> (None, w2)
           | Some p \<Rightarrow> (Some p, set_catalog env netid p w2))))"

definition find_provider_by_netid_sync ::
  "service_env \<Rightarrow> svc_config \<Rightarrow> string \<Rightarrow> world \<Rightarrow> provider py \<times> world" where
  "find_provider_by_netid_sync env cfg netid w =
     (case get_catalog env netid w of
        (Some p, w1) \<Rightarrow> (Inr p, w1)
      | (None, w1) \<Rightarrow> (case find_in_fresh_index env netid w1 of
            (Some p, w2) \<Rightarrow> (Inr p, w2)
          | (None, w2) \<Rightarrow> (case find_in_rebuilt_index env (catalog_app_id cfg) netid w2 of
                (Some p, w3) \<Rightarrow> (Inr p, w3)
              | (None, w3) \<Rightarrow> find_provider_direct_search env netid w3)))"

section \<open>The check\<close>

text \<open>
  A transaction through the node. When the answer is lost the transaction has been made, but
  the service sees an exception.
\<close>

definition chain_call ::
  "service_env \<Rightarrow> (ledger \<Rightarrow> 'a call) \<Rightarrow> world \<Rightarrow> 'a py \<times> world" where
  "chain_call env f w =
     (let w1 = w\<lparr>w_tick := Suc (w_tick w)\<rparr> in
      if node_call env (w_tick w) = NotSent then (Inl LibraryError, w1)
      else (case submit f (w_ledger w) of
          (Inl e, L) \<Rightarrow> (Inl LibraryError, w1\<lparr>w_ledger := L\<rparr>)
        | (Inr v, L) \<Rightarrow>
            (if node_call env (w_tick w) = AnswerLost then Inl LibraryError else Inr v,
             w1\<lparr>w_ledger := L\<rparr>)))"

text \<open>A transaction reaches only the boxes it names.\<close>

definition with_boxes :: "(app_id \<times> string) list \<Rightarrow> avm \<Rightarrow> avm" where
  "with_boxes boxes env = env\<lparr>box_access := \<lambda>a n. box_access env a n \<and> (a, n) \<in> set boxes\<rparr>"

definition check_sla_sync ::
  "service_env \<Rightarrow> svc_config \<Rightarrow> string \<Rightarrow> provider \<Rightarrow> world \<Rightarrow> SLA_output py \<times> world" where
  "check_sla_sync env cfg netid_full p w =
     (case get_sla env netid_full w of
        (Some sla, w1) \<Rightarrow> (Inr sla, w1)
      | (None, w1) \<Rightarrow>
          (case (p, my_netid cfg) of
             ((addr, Some provider_name, Some endpoint_sc), PyStr own) \<Rightarrow>
               (case chain_call env (sla_check
                   (with_boxes [(sc_app_id cfg, netid_full @ ''_forward_box''),
                      (endpoint_sc, own @ ''_home_box'')] (chain env))
                   (sc_app_id cfg) (account cfg) netid_full (account cfg) (catalog_app_id cfg)
                   provider_name endpoint_sc) w1 of
                 (Inl e, w2) \<Rightarrow> (Inl e, w2)
               | (Inr sla, w2) \<Rightarrow> (Inr sla, set_sla env netid_full sla w2))
           | _ \<Rightarrow> (Inl LibraryError, w1)))"

section \<open>Routes\<close>

text \<open>\<open>str.zfill\<close>: a leading sign stays in front of the zeros.\<close>

definition zfill :: "nat \<Rightarrow> string \<Rightarrow> string" where
  "zfill n s =
     (case s of
        c # cs \<Rightarrow>
          if c = CHR ''+'' \<or> c = CHR ''-''
          then c # replicate (n - length s) CHR ''0'' @ cs
          else replicate (n - length s) CHR ''0'' @ s
      | [] \<Rightarrow> replicate n CHR ''0'')"

definition not_initialized :: response where
  "not_initialized = Json 400 (PyDict [(''status'', PyStr ''error''),
     (''message'', PyStr ''Service not initialized'')])"

definition py_str :: "string option \<Rightarrow> pyjson" where
  "py_str s = (case s of None \<Rightarrow> PyNone | Some t \<Rightarrow> PyStr t)"

text \<open>\<open>int\<close> of a float cuts towards zero.\<close>

definition py_int :: "real \<Rightarrow> pyjson" where
  "py_int x = PyInt (if 0 \<le> x then \<lfloor>x\<rfloor> else \<lceil>x\<rceil>)"

definition millis :: "real \<Rightarrow> pyjson" where
  "millis x = py_int (x * 1000)"

text \<open>The provider is looked up, then the contract asked; the first error ends it.\<close>

definition find_and_check ::
  "service_env \<Rightarrow> svc_config \<Rightarrow> string \<Rightarrow> world
     \<Rightarrow> (provider \<times> SLA_output \<times> real \<times> real) py \<times> world" where
  "find_and_check env cfg netid_full w =
     (case find_provider_by_netid_sync env cfg netid_full w of
        (Inl e, w1) \<Rightarrow> (Inl e, w1)
      | (Inr p, w1) \<Rightarrow> (case clock env w1 of (found_at, w2) \<Rightarrow>
          (case clock env w2 of (sla_start, w3) \<Rightarrow>
            (case check_sla_sync env cfg netid_full p w3 of
               (Inl e, w4) \<Rightarrow> (Inl e, w4)
             | (Inr sla, w4) \<Rightarrow> (case clock env w4 of (done_at, w5) \<Rightarrow>
                 (Inr (p, sla, found_at, done_at - sla_start), w5))))))"

definition sla_ok_response :: "provider \<Rightarrow> SLA_output \<Rightarrow> real \<Rightarrow> real \<Rightarrow> real \<Rightarrow> response" where
  "sla_ok_response p sla find_time sla_time total_time =
     Json 200 (PyDict [(''status'', PyStr ''ok''), (''sla_state'', PyStr (out_State_SLA sla)),
       (''token_broker'', PyStr (out_Token_broker sla)), (''gateway_id'', PyStr (out_GW_id sla)),
       (''message'', PyStr (''SLA check completed for ''
          @ (case fst (snd p) of None \<Rightarrow> ''None'' | Some nm \<Rightarrow> nm))),
       (''performance'', PyDict [(''find_time_ms'', millis find_time),
          (''sla_time_ms'', millis sla_time), (''total_time_ms'', millis total_time)])])"

definition sla_error_response :: "service_env \<Rightarrow> py_error \<Rightarrow> response" where
  "sla_error_response env e =
     Json 400 (PyDict [(''status'', PyStr ''error''), (''sla_state'', PyStr ''Reject''),
       (''token_broker'', PyStr ''None''), (''gateway_id'', PyStr ''None''),
       (''message'', PyStr (error_text env e))])"

definition check_sla :: "service_env \<Rightarrow> pydict \<Rightarrow> world \<Rightarrow> response \<times> world" where
  "check_sla env data w =
     (case CONFIG w of None \<Rightarrow> (not_initialized, w)
      | Some cfg \<Rightarrow>
        (case map_of data ''netid'' of
           Some (PyStr netid_short) \<Rightarrow>
             (case clock env w of (start_time, w1) \<Rightarrow>
               (case find_and_check env cfg (zfill 8 netid_short) w1 of
                  (Inl e, w2) \<Rightarrow> (sla_error_response env e, w2)
                | (Inr (p, sla, found_at, sla_time), w2) \<Rightarrow>
                    (case clock env w2 of (now, w3) \<Rightarrow>
                      (sla_ok_response p sla (found_at - start_time) sla_time (now - start_time), w3))))
         | _ \<Rightarrow> (ServerError, w)))"

text \<open>\<open>increment_counter\<close> only prints.\<close>

definition increment_counter :: "pydict \<Rightarrow> world \<Rightarrow> response \<times> world" where
  "increment_counter data w = (Json 200 (PyDict [(''status'', PyStr ''ok'')]), w)"

end
