(* ===== verification/ServiceRoutes.thy ===== *)
theory ServiceRoutes
  imports BlockchainService
begin

text \<open>
  The other routes of \<open>src/blockchain_service.py\<close>: the initialisation, the batch of checks, the
  statistics of an SLA, the configuration read from the contract, and the management of the
  caches and of the index. The checks of a batch run in a thread pool; here they run one after
  another in the order of the request.
\<close>

definition json_error :: "int \<Rightarrow> string \<Rightarrow> response" where
  "json_error code message =
     Json code (PyDict [(''status'', PyStr ''error''), (''message'', PyStr message)])"

definition py_count :: "('k \<rightharpoonup> 'v) \<Rightarrow> pyjson" where
  "py_count m = PyInt (int (card (dom m)))"

definition py_len :: "'a list \<Rightarrow> pyjson" where
  "py_len xs = PyInt (int (length xs))"

definition to_upper_str :: "string \<Rightarrow> string" where
  "to_upper_str s = map (\<lambda>c. if 97 \<le> (of_char c :: nat) \<and> (of_char c :: nat) \<le> 122
     then char_of ((of_char c :: nat) - 32) else c) s"

text \<open>\<open>data[key]\<close> on a request body.\<close>

definition item :: "string \<Rightarrow> pydict \<Rightarrow> pyjson py" where
  "item key data = (case map_of data key of None \<Rightarrow> Inl (KeyError key) | Some v \<Rightarrow> Inr v)"

section \<open>Status\<close>

definition endpoints :: pydict where
  "endpoints =
     [(''POST /init'', PyStr ''Initialize service with blockchain credentials''),
      (''GET /health'', PyStr ''Check service health''),
      (''POST /check_sla'', PyStr ''Check SLA for a NetID (ASYNC)''),
      (''POST /check_sla_batch'', PyStr ''Check multiple SLAs in parallel (NEW)''),
      (''POST /increment_counter'', PyStr ''Increment packet counter''),
      (''POST /get_sla_stats'', PyStr ''Get SLA statistics''),
      (''GET /auto_config'', PyStr ''Get auto-configuration from blockchain''),
      (''POST /cache/invalidate'', PyStr ''Invalidate cache (NEW)''),
      (''GET /catalog/list'', PyStr ''List all providers in catalog (NEW)'')]"

definition index_route :: "service_env \<Rightarrow> world \<Rightarrow> response \<times> world" where
  "index_route env w =
     (case (if last_update w = 0 then (PyInt 0, w)
            else (case clock env w of (now, w1) \<Rightarrow> (py_int (now - last_update w), w1))) of
        (age, w1) \<Rightarrow>
          (Json 200 (PyDict [(''service'', PyStr ''LoRaWAN Blockchain Service''),
             (''version'', PyStr ''3.0-OPTIMIZED''), (''initialized'', PyBool (CONFIG w \<noteq> None)),
             (''cache_stats'', PyDict [(''catalog_entries'', py_count (catalog_cache w)),
                (''sla_entries'', py_count (sla_cache w)),
                (''index_providers'', py_len (provider_index w)), (''index_age_seconds'', age)]),
             (''endpoints'', PyDict endpoints)]), w1))"

definition health :: "world \<Rightarrow> response" where
  "health w =
     Json 200 (PyDict ([(''status'', PyStr ''ok''), (''initialized'', PyBool (CONFIG w \<noteq> None))]
       @ (case CONFIG w of
            None \<Rightarrow> [(''my_netid'', PyNone), (''my_provider'', PyNone), (''role'', PyNone),
              (''catalog_app_id'', PyNone)]
          | Some cfg \<Rightarrow> [(''my_netid'', my_netid cfg), (''my_provider'', my_provider_name cfg),
              (''role'', PyStr (my_role cfg)), (''catalog_app_id'', PyInt (uint (catalog_app_id cfg)))])
       @ [(''cache_stats'', PyDict [(''catalog_entries'', py_count (catalog_cache w)),
            (''sla_entries'', py_count (sla_cache w)),
            (''index_providers'', py_len (provider_index w))])]))"

section \<open>Initialisation\<close>

text \<open>Everything up to the new configuration; what fails on the way is an exception.\<close>

definition init_account :: "service_env \<Rightarrow> pydict \<Rightarrow> address py" where
  "init_account env data =
     (case (item ''algod_address'' data, item ''algod_token'' data, item ''indexer_address'' data,
         item ''private_key_mnemonic'' data) of
        (Inl e, _) \<Rightarrow> Inl e
      | (Inr _, Inl e, _) \<Rightarrow> Inl e
      | (Inr _, Inr _, Inl e, _) \<Rightarrow> Inl e
      | (Inr _, Inr _, Inr _, Inl e) \<Rightarrow> Inl e
      | (Inr _, Inr _, Inr _, Inr (PyStr words)) \<Rightarrow>
          (case mnemonic_account env words of None \<Rightarrow> Inl LibraryError | Some a \<Rightarrow> Inr a)
      | _ \<Rightarrow> Inl LibraryError)"

definition init_app :: "pydict \<Rightarrow> app_id py" where
  "init_app data =
     (case item ''sc_app_id'' data of
        Inl e \<Rightarrow> Inl e
      | Inr (PyInt n) \<Rightarrow> if 0 \<le> n \<and> n < 2 ^ 64 then Inr (word_of_int n) else Inl LibraryError
      | Inr _ \<Rightarrow> Inl LibraryError)"

definition init_identity :: "pydict \<Rightarrow> (pyjson \<times> pyjson) py" where
  "init_identity data =
     (case (item ''my_netid'' data, item ''my_provider_name'' data) of
        (Inl e, _) \<Rightarrow> Inl e
      | (Inr _, Inl e) \<Rightarrow> Inl e
      | (Inr n, Inr p) \<Rightarrow> Inr (n, p))"

definition init_response :: "svc_config \<Rightarrow> world \<Rightarrow> response" where
  "init_response cfg w =
     Json 200 (PyDict [(''status'', PyStr ''ok''), (''address'', PyStr (account cfg)),
       (''sc_app_id'', PyInt (uint (sc_app_id cfg))),
       (''catalog_app_id'', PyInt (uint (catalog_app_id cfg))), (''my_netid'', my_netid cfg),
       (''my_provider_name'', my_provider_name cfg), (''role'', PyStr (to_upper_str (my_role cfg))),
       (''catalog_providers'', py_len (provider_index w))])"

definition initialize :: "service_env \<Rightarrow> pydict \<Rightarrow> world \<Rightarrow> response \<times> world" where
  "initialize env data w =
     (case init_account env data of
        Inl e \<Rightarrow> (json_error 500 (error_text env e), w)
      | Inr acct \<Rightarrow> (case init_app data of
          Inl e \<Rightarrow> (json_error 500 (error_text env e), w)
        | Inr app \<Rightarrow>
          (case chain_call env (\<lambda>L. avm_bind (get_appID_cat app acct L) (\<lambda>c. Inr (c, L))) w of
             (Inl e, w1) \<Rightarrow> (json_error 500 (error_text env e), w1)
           | (Inr cat, w1) \<Rightarrow>
               if cat = 0
               then (json_error 400 ''Smart Contract not initialized. Run Option 6 first.'', w1)
               else (case init_identity data of
                   Inl e \<Rightarrow> (json_error 500 (error_text env e), w1)
                 | Inr (netid, nm) \<Rightarrow>
                     let cfg = \<lparr>my_netid = netid, my_provider_name = nm,
                           my_role = (case map_of data ''is_forwarder'' of
                              Some v \<Rightarrow> if truthy v then ''forwarder'' else ''home''
                            | None \<Rightarrow> ''home''),
                           account = acct, sc_app_id = app, catalog_app_id = cat\<rparr> in
                     (case build_index env cat (w1\<lparr>CONFIG := Some cfg\<rparr>) of
                        (ok, w2) \<Rightarrow> (init_response cfg w2, w2))))))"

section \<open>Checks in a batch\<close>

definition check_one_sla ::
  "service_env \<Rightarrow> svc_config \<Rightarrow> pyjson \<Rightarrow> world \<Rightarrow> (bool \<times> pyjson) \<times> world" where
  "check_one_sla env cfg netid_short w =
     (case (case netid_short of
          PyStr s \<Rightarrow> (case find_provider_by_netid_sync env cfg (zfill 8 s) w of
              (Inl e, w1) \<Rightarrow> (Inl e, w1)
            | (Inr p, w1) \<Rightarrow> (case check_sla_sync env cfg (zfill 8 s) p w1 of
                (Inl e, w2) \<Rightarrow> (Inl e, w2) | (Inr sla, w2) \<Rightarrow> (Inr (p, sla), w2)))
        | _ \<Rightarrow> (Inl LibraryError, w)) of
        (Inl e, w1) \<Rightarrow> ((False, PyDict [(''netid'', netid_short), (''status'', PyStr ''error''),
          (''message'', PyStr (error_text env e))]), w1)
      | (Inr (p, sla), w1) \<Rightarrow> ((True, PyDict [(''netid'', netid_short), (''status'', PyStr ''ok''),
          (''sla_state'', PyStr (out_State_SLA sla)), (''token_broker'', PyStr (out_Token_broker sla)),
          (''gateway_id'', PyStr (out_GW_id sla)), (''provider_name'', py_str (fst (snd p)))]), w1))"

fun check_all ::
  "service_env \<Rightarrow> svc_config \<Rightarrow> pyjson list \<Rightarrow> world \<Rightarrow> (bool \<times> pyjson) list \<times> world" where
  "check_all env cfg [] w = ([], w)"
| "check_all env cfg (n # ns) w =
     (case check_one_sla env cfg n w of (r, w1) \<Rightarrow>
       (case check_all env cfg ns w1 of (rs, w2) \<Rightarrow> (r # rs, w2)))"

text \<open>What a loop over a value runs through; \<open>None\<close> is a type error.\<close>

definition elements :: "pyjson \<Rightarrow> pyjson list option" where
  "elements v = (case v of
       PyList xs \<Rightarrow> Some xs
     | PyStr s \<Rightarrow> Some (map (\<lambda>c. PyStr [c]) s)
     | PyDict m \<Rightarrow> Some (map (\<lambda>(k, v). PyStr k) m)
     | _ \<Rightarrow> None)"

definition check_sla_batch :: "service_env \<Rightarrow> pydict \<Rightarrow> world \<Rightarrow> response \<times> world" where
  "check_sla_batch env data w =
     (case CONFIG w of None \<Rightarrow> (not_initialized, w)
      | Some cfg \<Rightarrow>
        let netids = (case map_of data ''netids'' of None \<Rightarrow> PyList [] | Some v \<Rightarrow> v) in
        if \<not> truthy netids then (json_error 400 ''No netids provided'', w)
        else (case elements netids of
          None \<Rightarrow> (ServerError, w)
        | Some ns \<Rightarrow>
            (case clock env w of (start_time, w1) \<Rightarrow>
            (case check_all env cfg ns w1 of (results, w2) \<Rightarrow>
            (case clock env w2 of (now, w3) \<Rightarrow>
              let total = now - start_time; count = length (filter fst results) in
              (Json 200 (PyDict [(''status'', PyStr ''ok''), (''total'', py_len ns),
                 (''successful'', PyInt (int count)),
                 (''failed'', PyInt (int (length ns) - int count)),
                 (''results'', PyList (map snd results)), (''total_time_ms'', millis total),
                 (''avg_time_ms'', millis (total / real (length ns)))]), w3))))))"

section \<open>Reading the contract\<close>

definition get_sla_stats_route :: "service_env \<Rightarrow> pydict \<Rightarrow> world \<Rightarrow> response \<times> world" where
  "get_sla_stats_route env data w =
     (case CONFIG w of None \<Rightarrow> (json_error 400 ''Not initialized'', w)
      | Some cfg \<Rightarrow>
        (case (map_of data ''netid'', map_of data ''type_op'') of
           (Some (PyStr netid_short), Some (PyStr type_op)) \<Rightarrow>
             (case chain_call env (\<lambda>L. avm_bind (get_sla_stats
                  (with_boxes [(sc_app_id cfg, zfill 8 netid_short @ type_op)] (chain env))
                  (sc_app_id cfg) (zfill 8 netid_short) type_op L) (\<lambda>s. Inr (s, L))) w of
                (Inl e, w1) \<Rightarrow> (json_error 400 (error_text env e), w1)
              | (Inr s, w1) \<Rightarrow>
                  if utf8_ok env s then (Json 200 (PyStr s), w1)
                  else (json_error 400 (error_text env LibraryError), w1))
         | (Some (PyStr netid_short), Some v) \<Rightarrow> (json_error 400 (error_text env LibraryError), w)
         | _ \<Rightarrow> (ServerError, w)))"

definition auto_config_result :: "svc_config \<Rightarrow> SLA_states \<Rightarrow> pydict" where
  "auto_config_result cfg S =
     [(''status'', PyStr ''ok''), (''provider_name'', my_provider_name cfg),
      (''netid'', my_netid cfg), (''role'', PyStr (my_role cfg)),
      (''local_broker'', PyStr ''tcp://localhost:1883''),
      (''foreign_broker'', PyStr ''tcp://localhost:1884''),
      (''local_gateway_id'', py_str (sc_GWid S)), (''token'', py_str (Token_broker S)),
      (''catalog_app_id'', PyInt (uint (catalog_app_id cfg))),
      (''message'', PyStr ''Configuration loaded from blockchain'')]"

text \<open>The node is asked for the global state of the own contract.\<close>

definition auto_config :: "service_env \<Rightarrow> world \<Rightarrow> response \<times> world" where
  "auto_config env w =
     (case CONFIG w of
        None \<Rightarrow> (json_error 400 ''Service not initialized. Call /init first.'', w)
      | Some cfg \<Rightarrow>
        (case get_config env ''auto_config'' w of
           (Some d, w1) \<Rightarrow> (Json 200 (PyDict d), w1)
         | (None, w1) \<Rightarrow>
             let w2 = w1\<lparr>w_tick := Suc (w_tick w1)\<rparr> in
             (case (node_call env (w_tick w1), sla_apps (w_ledger w1) (sc_app_id cfg)) of
                (Answered, Some S) \<Rightarrow>
                  if (\<forall>t\<in>set_option (Token_broker S). utf8_ok env t)
                    \<and> (\<forall>g\<in>set_option (sc_GWid S). utf8_ok env g)
                  then (Json 200 (PyDict (auto_config_result cfg S)),
                        set_config env ''auto_config'' (auto_config_result cfg S) w2)
                  else (json_error 500 (error_text env LibraryError), w2)
              | _ \<Rightarrow> (json_error 500 (error_text env LibraryError), w2))))"

section \<open>Caches and index\<close>

text \<open>\<open>pop\<close> with a default: only a list or an object cannot be a key.\<close>

definition py_pop :: "pyjson \<Rightarrow> (string \<rightharpoonup> 'a) \<Rightarrow> (string \<rightharpoonup> 'a) option" where
  "py_pop key m = (case key of
       PyStr k \<Rightarrow> Some (m(k := None))
     | PyList xs \<Rightarrow> None
     | PyDict d \<Rightarrow> None
     | _ \<Rightarrow> Some m)"

definition drop_cached :: "pyjson \<Rightarrow> (string \<rightharpoonup> 'a) \<Rightarrow> (string \<rightharpoonup> 'a) option" where
  "drop_cached netid m = (if truthy netid then py_pop netid m else Some Map.empty)"

definition invalidate_catalog :: "pyjson \<Rightarrow> world \<Rightarrow> world option" where
  "invalidate_catalog netid w =
     map_option (\<lambda>m. w\<lparr>catalog_cache := m\<rparr>) (drop_cached netid (catalog_cache w))"

definition invalidate_cache :: "service_env \<Rightarrow> pydict \<Rightarrow> world \<Rightarrow> response \<times> world" where
  "invalidate_cache env data w =
     (let cache_type = (case map_of data ''type'' of None \<Rightarrow> PyStr ''all'' | Some v \<Rightarrow> v);
          netid = (case map_of data ''netid'' of None \<Rightarrow> PyNone | Some v \<Rightarrow> v);
          after_drop =
            (if cache_type = PyStr ''catalog'' then
               invalidate_catalog netid w
             else if cache_type = PyStr ''sla'' then
               map_option (\<lambda>m. w\<lparr>sla_cache := m\<rparr>) (drop_cached netid (sla_cache w))
             else if cache_type = PyStr ''config'' then Some (w\<lparr>config_cache := Map.empty\<rparr>)
             else if cache_type = PyStr ''all'' then Some (clear_all w)
             else Some w) in
      case after_drop of None \<Rightarrow> (ServerError, w)
      | Some w1 \<Rightarrow> (Json 200 (PyDict [(''status'', PyStr ''ok''), (''message'',
         PyStr (''Cache '' @ (case cache_type of PyStr t \<Rightarrow> t | v \<Rightarrow> py_format env v)
           @ '' invalidated''))]), w1))"

definition provider_json :: "string \<times> provider \<Rightarrow> pyjson" where
  "provider_json e = (case e of (netid, addr, nm, endpoint) \<Rightarrow>
     PyDict [(''netid'', PyStr netid), (''address'', PyStr addr), (''name'', py_str nm),
       (''endpoint'', case endpoint of None \<Rightarrow> PyNone | Some n \<Rightarrow> PyInt (uint n))])"

definition list_catalog :: "service_env \<Rightarrow> world \<Rightarrow> response \<times> world" where
  "list_catalog env w =
     (case CONFIG w of None \<Rightarrow> (not_initialized, w)
      | Some cfg \<Rightarrow>
        (case needs_update env w of (stale, w1) \<Rightarrow>
        (case (if stale then build_index env (catalog_app_id cfg) w1 else (True, w1)) of (ok, w2) \<Rightarrow>
        (case clock env w2 of (now, w3) \<Rightarrow>
          (Json 200 (PyDict [(''status'', PyStr ''ok''), (''total'', py_len (provider_index w2)),
             (''providers'', PyList (map provider_json (provider_index w2))),
             (''index_age_seconds'', py_int (now - last_update w2))]), w3)))))"

end
