(* ===== verification/SlaProofs.thy ===== *)
theory SlaProofs
  imports SlaContract
begin

text \<open>
  What the methods of the SLA contract do to the boxes, method by method, and the runs of a
  ledger on which anybody calls anything. The lemmas are collected in \<open>box_simps\<close> (reads
  after writes) and in one elimination lemma per method.
\<close>

named_theorems box_simps \<open>reading boxes after an operation\<close>

section \<open>Reads after writes\<close>

lemma get_box_set_box [box_simps]:
  "get_box a n (set_box app name e L) =
     (if a = app \<and> n = name \<and> sla_apps L app \<noteq> None then e else get_box a n L)"
  by (auto simp: get_box_def set_box_def split: option.split)

lemma set_box_fields [simp]:
  "catalogs (set_box app name e L) = catalogs L" "creators (set_box app name e L) = creators L"
  "balances (set_box app name e L) = balances L" "logs (set_box app name e L) = logs L"
  "sla_apps (set_box app name e L) a = None \<longleftrightarrow> sla_apps L a = None"
  by (auto simp: set_box_def split: option.split)

lemma get_box_log_line [simp]: "get_box a n (log_line app line L) = get_box a n L"
  by (simp add: get_box_def)

lemma get_box_balances [simp]: "get_box a n (L\<lparr>balances := b\<rparr>) = get_box a n L"
  by (simp add: get_box_def)

lemma get_box_no_app [simp]: "sla_apps L app = None \<Longrightarrow> get_box app name L = None"
  by (simp add: get_box_def)

lemma get_box_app: "get_box app name L = Some e \<Longrightarrow> \<exists>S. sla_apps L app = Some S"
  by (auto simp: get_box_def split: option.splits)

lemma get_box_cong: "sla_apps L' = sla_apps L \<Longrightarrow> get_box a n L' = get_box a n L"
  by (simp add: get_box_def)

lemma sla_apps_set_box [box_simps]:
  "sla_apps (set_box app name e L) a = (if a = app
     then map_option (\<lambda>S. S\<lparr>sla_entry := (sla_entry S)(name := e)\<rparr>) (sla_apps L a)
     else sla_apps L a)"
  by (auto simp: set_box_def split: option.split)

lemma put_box_Inr_iff [box_simps]:
  "put_box env app name e L = Inr L' \<longleftrightarrow> box_room env app name e \<and> L' = set_box app name (Some e) L"
  by (auto simp: put_box_def)

section \<open>The names of boxes\<close>

lemma forward_box_inject [simp]: "forward_box x = forward_box y \<longleftrightarrow> x = y"
  by (simp add: forward_box_def)

lemma home_box_inject [simp]: "home_box x = home_box y \<longleftrightarrow> x = y"
  by (simp add: home_box_def)

lemma forward_box_neq_home_box [simp]: "forward_box x \<noteq> home_box y" "home_box y \<noteq> forward_box x"
proof -
  have "rev (forward_box x) \<noteq> rev (home_box y)" by (simp add: forward_box_def home_box_def)
  then show "forward_box x \<noteq> home_box y" "home_box y \<noteq> forward_box x" by auto
qed

section \<open>One lemma per method\<close>

lemma checked_box_InrD:
  "checked_box env app type_op NetID L = Inr e \<Longrightarrow> get_box app (NetID @ type_op) L = Some e
     \<and> (NetID @ type_op = forward_box NetID \<or> NetID @ type_op = home_box NetID)"
  by (auto simp: checked_box_def forward_box_def home_box_def split: if_splits option.splits)

lemma live_home_box_Inr_iff:
  "live_home_box env app NetID L = Inr e \<longleftrightarrow> box_access env app (home_box NetID)
     \<and> get_box app (home_box NetID) L = Some e \<and> entry_State_SLA e = ''Active SLA''"
  by (auto simp: live_home_box_def split: if_splits option.splits)

lemma deleteSLA_InrD:
  assumes "deleteSLA env app sender type_op NetID L = Inr (msg, L')"
  obtains e where "get_box app (NetID @ type_op) L = Some e"
    "\<And>a n. get_box a n L' = (if a = app \<and> n = NetID @ type_op then None else get_box a n L)"
  using assms get_box_app
  by (fastforce simp: deleteSLA_def avm_bind_Inr_iff box_simps split: if_splits
      dest: checked_box_InrD)

lemma receive_packet_InrD:
  assumes "receive_packet_from_forwarder env app sender NetID L = Inr (msg, L')"
  obtains e n where "get_box app (home_box NetID) L = Some e" "entry_State_SLA e = ''Active SLA''"
    "add64 (entry_Packet_Counter e) 1 = Inr n"
    "\<And>a m. get_box a m L' = (if a = app \<and> m = home_box NetID
       then Some (e\<lparr>entry_NetID := NetID, entry_Packet_Counter := n\<rparr>) else get_box a m L)"
  using assms get_box_app
  by (fastforce simp: receive_packet_from_forwarder_def avm_bind_Inr_iff live_home_box_Inr_iff
      box_simps split: if_splits)

lemma ban_InrD:
  assumes "ban_home_function env app sender NetID L = Inr (msg, L')"
  obtains e where "get_box app (home_box NetID) L = Some e" "entry_State_SLA e = ''Active SLA''"
    "\<And>a m. get_box a m L' = (if a = app \<and> m = home_box NetID
       then Some (e\<lparr>entry_NetID := NetID, entry_State_SLA := ''Banned''\<rparr>) else get_box a m L)"
  using assms get_box_app
  by (fastforce simp: ban_home_function_def avm_bind_Inr_iff live_home_box_Inr_iff
      box_simps split: if_splits)

text \<open>The entry both sides of a handshake write, from the answer and the terms offered.\<close>

definition agreed :: "string \<Rightarrow> string \<Rightarrow> u64 \<Rightarrow> u64 \<Rightarrow> SLA_output \<Rightarrow> SLAEntry" where
  "agreed NetID nm price_f threshold_f out =
     \<lparr>entry_NetID = NetID, entry_Name_provider = nm, entry_State_SLA = out_State_SLA out,
      entry_Price_contracting = price_f, entry_Threshold_contracting = threshold_f,
      entry_Packet_Counter = 0, entry_Token_broker = out_Token_broker out,
      entry_GW_id = out_GW_id out\<rparr>"

lemma agreed_fields [simp]:
  "entry_NetID (agreed NetID nm p t out) = NetID"
  "entry_Name_provider (agreed NetID nm p t out) = nm"
  "entry_State_SLA (agreed NetID nm p t out) = out_State_SLA out"
  "entry_Price_contracting (agreed NetID nm p t out) = p"
  "entry_Threshold_contracting (agreed NetID nm p t out) = t"
  "entry_Packet_Counter (agreed NetID nm p t out) = 0"
  "entry_Token_broker (agreed NetID nm p t out) = out_Token_broker out"
  "entry_GW_id (agreed NetID nm p t out) = out_GW_id out"
  by (simp_all add: agreed_def)

definition terms_met :: "SLA_states \<Rightarrow> u64 \<Rightarrow> u64 \<Rightarrow> bool" where
  "terms_met S price_f threshold_f \<longleftrightarrow>
     price_f \<le> global_uint (Price_SLA S) \<and> global_uint (Threshold S) \<le> threshold_f"

definition answer_to_terms :: "SLA_states \<Rightarrow> u64 \<Rightarrow> u64 \<Rightarrow> SLA_output \<Rightarrow> bool" where
  "answer_to_terms S price_f threshold_f out \<longleftrightarrow>
     (if terms_met S price_f threshold_f
      then out_State_SLA out = ''Active SLA'' \<and> Token_broker S = Some (out_Token_broker out)
        \<and> sc_GWid S = Some (out_GW_id out)
      else out = \<lparr>out_State_SLA = ''SLA rejected'', out_Token_broker = ''None'', out_GW_id = ''None''\<rparr>)"

lemma stored_bytes_Inr_iff [simp]: "stored_bytes k = Inr v \<longleftrightarrow> k = Some v"
  by (cases k) simp_all

lemma handshake_InrD:
  assumes "handshake env app caller cat provider price_f threshold_f L = Inr (out, L')"
  obtains S it line where "sla_apps L app = Some S" "cat = global_uint (App_ID_catalogo S)"
    "get_entry_provider cat provider L = Inr it" "caller = item_Endpoint_SC it"
    "get_box app (home_box (item_NetID it)) L = None" "answer_to_terms S price_f threshold_f out"
    "L' = set_box app (home_box (item_NetID it)) (Some (agreed (item_NetID it)
       (item_Name_Provider it) price_f threshold_f out)) (log_line app line L)"
proof -
  from assms obtain S where S: "sla_apps L app = Some S"
    by (auto simp: handshake_def split: option.splits)
  from assms S obtain it where it: "get_entry_provider cat provider L = Inr it"
    "cat = global_uint (App_ID_catalogo S)" "caller = item_Endpoint_SC it"
    "get_box app (home_box (item_NetID it)) L = None"
    by (auto simp: handshake_def avm_bind_Inr_iff Let_def split: if_splits)
  show thesis
  proof (cases "terms_met S price_f threshold_f")
    case True
    with assms S it show thesis
      by (intro that[OF S it(2) it(1) it(3) it(4)])
        (auto simp: handshake_def avm_bind_Inr_iff Let_def box_simps terms_met_def
          answer_to_terms_def agreed_def split: if_splits)
  next
    case False
    with assms S it show thesis
      by (intro that[OF S it(2) it(1) it(3) it(4)])
        (auto simp: handshake_def avm_bind_Inr_iff Let_def box_simps terms_met_def
          answer_to_terms_def agreed_def split: if_splits)
  qed
qed

text \<open>A payment call either pays, with the home box counted down, or does nothing at all.\<close>

definition pays_out ::
  "avm \<Rightarrow> app_id \<Rightarrow> address \<Rightarrow> string \<Rightarrow> SLAEntry \<Rightarrow> ledger \<Rightarrow> ledger \<Rightarrow> bool" where
  "pays_out env app receiver NetID e L L' \<longleftrightarrow> (\<exists>b line.
     transfer env (app_address env app) receiver (entry_Price_contracting e) (balances L) = Some b
     \<and> L' = log_line app line (set_box app (home_box NetID)
         (Some (e\<lparr>entry_NetID := NetID, entry_Packet_Counter := 0\<rparr>)) (L\<lparr>balances := b\<rparr>)))"

lemma execute_payment_InrD:
  "execute_payment env app receiver NetID e L = Inr (u, L') \<Longrightarrow> pays_out env app receiver NetID e L L'"
  by (auto simp: execute_payment_def pays_out_def avm_bind_Inr_iff box_simps split: option.splits)

lemma pay_InrD:
  assumes "pay env app caller cat receiver L = Inr (u, L')"
  obtains S it e m where "sla_apps L app = Some S" "cat = global_uint (App_ID_catalogo S)"
    "get_entry_provider cat receiver L = Inr it" "caller = item_Endpoint_SC it"
    "get_box app (home_box (item_NetID it)) L = Some e" "min_packets S e = Inr m"
    "if m \<le> entry_Packet_Counter e \<and> entry_State_SLA e = ''Active SLA''
     then pays_out env app receiver (item_NetID it) e L L' else L' = L"
  using assms
  by (force simp: pay_def avm_bind_Inr_iff split: if_splits option.splits
      dest: execute_payment_InrD)

lemma pays_out_box:
  assumes "pays_out env app receiver NetID e L L'" "get_box app (home_box NetID) L = Some e"
  shows "get_box a n L' = (if a = app \<and> n = home_box NetID
    then Some (e\<lparr>entry_NetID := NetID, entry_Packet_Counter := 0\<rparr>) else get_box a n L)"
  using assms get_box_app by (fastforce simp: pays_out_def box_simps)

lemma pay_cases:
  assumes "pay env app caller cat receiver L = Inr (u, L')"
  shows "L' = L \<or> (\<exists>NetID e. pays_out env app receiver NetID e L L'
    \<and> get_box app (home_box NetID) L = Some e \<and> entry_State_SLA e = ''Active SLA'')"
  using assms by (elim pay_InrD) (auto split: if_splits)

text \<open>A call of the home contract leaves the boxes of every other contract alone.\<close>

lemma pay_other_apps:
  assumes "pay env app caller cat receiver L = Inr (u, L')" "a \<noteq> app"
  shows "sla_apps L' a = sla_apps L a"
  using pay_cases[OF assms(1)] assms(2) by (auto simp: pays_out_def box_simps)

lemma pay_frame:
  assumes "pay env app caller cat receiver L = Inr (u, L')"
  shows "catalogs L' = catalogs L" "creators L' = creators L"
    and "sla_apps L' a = None \<longleftrightarrow> sla_apps L a = None"
  using pay_cases[OF assms] by (auto simp: pays_out_def)

text \<open>A payment asked for by the forwarder: what its balance says afterwards.\<close>

lemma collect_payment_InrD:
  assumes "collect_payment env app sender NetID provider cat home e L = Inr ((st, n), L')"
    and "sla_apps L app = Some S"
  obtains L1 m line where "pay env home app cat provider L = Inr ((), L1)" "home \<noteq> app"
    "mul64 (entry_Price_contracting e) (global_uint (Payment_Tolerance S)) = Inr m"
    "balances L sender \<le> balances L1 sender"
    "(st, n) = (if unat (balances L sender) + unat (m div 100) \<le> unat (balances L1 sender)
       then (''Active SLA'', 0) else (''Banned'', entry_Packet_Counter e))"
    "L' = log_line app line L1"
proof -
  from assms(1) obtain L1 where run: "inner_pay env app home cat provider L = Inr ((), L1)"
    by (auto simp: collect_payment_def avm_bind_Inr_iff Let_def)
  then have p: "pay env home app cat provider L = Inr ((), L1)" and ne: "home \<noteq> app"
    by (auto simp: inner_pay_def split: if_splits)
  from pay_other_apps[OF p, of app] ne assms(2) have S1: "sla_apps L1 app = Some S" by simp
  from assms(1) run S1 obtain m mn r where
    m: "mul64 (entry_Price_contracting e) (global_uint (Payment_Tolerance S)) = Inr m"
    and mn: "add64 (balances L sender) (m div 100) = Inr mn"
    and r: "sub64 (balances L1 sender) (balances L sender) = Inr r"
    and res: "(if mn \<le> balances L1 sender
          then Inr ((''Active SLA'', 0), log_line app (''Payment received from: '' @ NetID
            @ '' - Amount: '' @ itob r) L1)
          else Inr ((''Banned'', entry_Packet_Counter e), log_line app (''Payment failed from: ''
            @ NetID @ '' - Expected: '' @ itob mn @ '' - Received: '' @ itob r) L1))
        = (Inr ((st, n), L') :: avm_error + (string \<times> u64) \<times> ledger)"
    by (auto simp: collect_payment_def avm_bind_Inr_iff Let_def)
  from unat_add64[OF mn] have "mn \<le> balances L1 sender \<longleftrightarrow>
      unat (balances L sender) + unat (m div 100) \<le> unat (balances L1 sender)"
    by (simp add: word_le_nat_alt)
  moreover from unat_sub64[OF r] have "balances L sender \<le> balances L1 sender" by simp
  ultimately show thesis using that[OF p ne m] res by (auto split: if_splits)
qed

section \<open>The check\<close>

text \<open>The entry a check of an active SLA writes back.\<close>

definition checked_entry :: "string \<Rightarrow> string \<Rightarrow> u64 \<Rightarrow> SLAEntry \<Rightarrow> SLAEntry" where
  "checked_entry NetID st n e =
     e\<lparr>entry_NetID := NetID, entry_State_SLA := st, entry_Packet_Counter := n\<rparr>"

lemma checked_entry_fields [simp]:
  "entry_NetID (checked_entry NetID st n e) = NetID"
  "entry_State_SLA (checked_entry NetID st n e) = st"
  "entry_Packet_Counter (checked_entry NetID st n e) = n"
  "entry_Price_contracting (checked_entry NetID st n e) = entry_Price_contracting e"
  "entry_Threshold_contracting (checked_entry NetID st n e) = entry_Threshold_contracting e"
  "entry_Token_broker (checked_entry NetID st n e) = entry_Token_broker e"
  "entry_GW_id (checked_entry NetID st n e) = entry_GW_id e"
  "entry_Name_provider (checked_entry NetID st n e) = entry_Name_provider e"
  by (simp_all add: checked_entry_def)

lemma sla_reply_fields [simp]:
  "out_State_SLA (sla_reply st e) = st" "out_Token_broker (sla_reply st e) = entry_Token_broker e"
  "out_GW_id (sla_reply st e) = entry_GW_id e"
  by (simp_all add: sla_reply_def)

definition verdict :: "string \<Rightarrow> string" where
  "verdict st = (if st = ''Active SLA'' then ''Accept'' else ''Reject'')"

lemma check_active_InrD:
  assumes "check_active env app sender NetID provider cat home e L = Inr (out, L')"
  obtains (count) n where "entry_Packet_Counter e \<noteq> entry_Threshold_contracting e"
      "add64 (entry_Packet_Counter e) 1 = Inr n" "out = sla_reply ''Accept'' e"
      "L' = set_box app (forward_box NetID) (Some (checked_entry NetID ''Active SLA'' n e)) L"
    | (collect) st n L1 where "entry_Packet_Counter e = entry_Threshold_contracting e"
      "collect_payment env app sender NetID provider cat home e L = Inr ((st, n), L1)"
      "out = sla_reply (verdict st) e"
      "L' = set_box app (forward_box NetID) (Some (checked_entry NetID st n e)) L1"
proof (cases "entry_Packet_Counter e = entry_Threshold_contracting e")
  case True
  with assms obtain st n L1 where
    c: "collect_payment env app sender NetID provider cat home e L = Inr ((st, n), L1)"
    by (auto simp: check_active_def avm_bind_Inr_iff)
  from assms True c show thesis
    by (intro collect[OF True c])
      (auto simp: check_active_def box_simps checked_entry_def verdict_def avm_bind_Inr_iff)
next
  case False
  with assms obtain n where n: "add64 (entry_Packet_Counter e) 1 = Inr n"
    by (auto simp: check_active_def avm_bind_Inr_iff)
  from assms False n show thesis
    by (intro count[OF False n])
      (auto simp: check_active_def box_simps checked_entry_def avm_bind_Inr_iff)
qed

lemma check_new_InrD:
  assumes "check_new env app S NetID provider cat nm home L = Inr (out, L')"
  obtains L1 line where "home \<noteq> app"
    "handshake env home app cat provider (global_uint (Price_SLA S)) (global_uint (Threshold S)) L
       = Inr (out, L1)"
    "L' = log_line app line (set_box app (forward_box NetID) (Some (agreed NetID nm
       (global_uint (Price_SLA S)) (global_uint (Threshold S)) out)) L1)"
  using assms
  by (auto simp: check_new_def inner_handshake_def avm_bind_Inr_iff box_simps Let_def agreed_def
      split: if_splits)

lemma sla_check_InrD:
  assumes "sla_check env app sender NetID provider cat nm home L = Inr (out, L')"
  obtains (reject) e where "get_box app (forward_box NetID) L = Some e"
      "entry_State_SLA e \<noteq> ''Active SLA''" "out = sla_reply ''Reject'' e" "L' = L"
    | (active) e where "get_box app (forward_box NetID) L = Some e"
      "entry_State_SLA e = ''Active SLA''"
      "check_active env app sender NetID provider cat home e L = Inr (out, L')"
    | (fresh) S where "sla_apps L app = Some S" "get_box app (forward_box NetID) L = None"
      "check_new env app S NetID provider cat nm home L = Inr (out, L')"
  using assms by (auto simp: sla_check_def split: option.splits if_splits)

end
