(* ===== verification/SlaInv.thy ===== *)
theory SlaInv
  imports SlaProofs
begin

text \<open>
  Runs of the ledger: anybody calls any method of the catalogue and of any SLA contract, in
  any order, with any arguments, from outside or from a contract of their own. Every step is
  seen from one box as an \<open>entry_step\<close>; the invariant of the boxes and the abstract life of an
  SLA follow from that relation alone.
\<close>

section \<open>Steps\<close>

text \<open>\<open>caller\<close> of a direct \<open>handshake\<close> or \<open>pay\<close> is 0 or some other application: the SLA
  contracts themselves call them only in \<open>sla_check\<close>. Balances change by themselves.\<close>

inductive ledger_step :: "avm \<Rightarrow> ledger \<Rightarrow> ledger \<Rightarrow> bool" for env where
  ls_cat_create: "catalogs L new = None \<Longrightarrow> sla_apps L new = None \<Longrightarrow> new \<noteq> 0
    \<Longrightarrow> cat_create new sender L = Inr (u, L') \<Longrightarrow> ledger_step env L L'"
| ls_cat_delete: "cat_delete app sender L = Inr (u, L') \<Longrightarrow> ledger_step env L L'"
| ls_cat_opt_in: "cat_opt_in app sender receiver amount L = Inr (u, L') \<Longrightarrow> ledger_step env L L'"
| ls_cat_close_out: "cat_close_out app sender L = Inr (u, L') \<Longrightarrow> ledger_step env L L'"
| ls_cat_clear_state: "cat_clear_state app sender L = Inr (u, L') \<Longrightarrow> ledger_step env L L'"
| ls_set_entry: "set_entry_provider app sender NetID nm sc L = Inr (msg, L') \<Longrightarrow> ledger_step env L L'"
| ls_delete_endpoint: "delete_endpoint app sender L = Inr (msg, L') \<Longrightarrow> ledger_step env L L'"
| ls_sla_create: "catalogs L new = None \<Longrightarrow> sla_apps L new = None \<Longrightarrow> new \<noteq> 0
    \<Longrightarrow> sla_create new sender L = Inr (u, L') \<Longrightarrow> ledger_step env L L'"
| ls_sla_delete: "sla_delete app sender L = Inr (u, L') \<Longrightarrow> ledger_step env L L'"
| ls_sla_init: "sla_init app sender cat price threshold tol ptol token gw L = Inr (msg, L')
    \<Longrightarrow> ledger_step env L L'"
| ls_deleteSLA: "deleteSLA env app sender type_op NetID L = Inr (msg, L') \<Longrightarrow> ledger_step env L L'"
| ls_sla_check: "sla_check env app sender NetID provider cat nm home L = Inr (out, L')
    \<Longrightarrow> ledger_step env L L'"
| ls_handshake: "sla_apps L caller = None
    \<Longrightarrow> handshake env app caller cat provider price threshold L = Inr (out, L')
    \<Longrightarrow> ledger_step env L L'"
| ls_receive: "receive_packet_from_forwarder env app sender NetID L = Inr (msg, L')
    \<Longrightarrow> ledger_step env L L'"
| ls_pay: "sla_apps L caller = None \<Longrightarrow> pay env app caller cat receiver L = Inr (u, L')
    \<Longrightarrow> ledger_step env L L'"
| ls_ban: "ban_home_function env app sender NetID L = Inr (msg, L') \<Longrightarrow> ledger_step env L L'"
| ls_balances: "ledger_step env L (L\<lparr>balances := b\<rparr>)"

definition genesis :: "ledger \<Rightarrow> bool" where
  "genesis L \<longleftrightarrow> sla_apps L = Map.empty \<and> catalogs L = Map.empty"

section \<open>What a step does to one box\<close>

datatype side = Forward | Home

definition box_name :: "side \<Rightarrow> string \<Rightarrow> string" where
  "box_name s NetID = (case s of Forward \<Rightarrow> forward_box NetID | Home \<Rightarrow> home_box NetID)"

lemma box_name_simps [simp]:
  "box_name Forward N = forward_box N" "box_name Home N = home_box N"
  by (simp_all add: box_name_def)

lemma box_name_inject [simp]: "box_name s N = box_name s' N' \<longleftrightarrow> s = s' \<and> N = N'"
  by (cases s; cases s') (auto simp: box_name_def)

lemma forward_home_box_name:
  "forward_box N = box_name s N' \<longleftrightarrow> s = Forward \<and> N = N'"
  "home_box N = box_name s N' \<longleftrightarrow> s = Home \<and> N = N'"
  "box_name s N' = forward_box N \<longleftrightarrow> s = Forward \<and> N = N'"
  "box_name s N' = home_box N \<longleftrightarrow> s = Home \<and> N = N'"
  by (cases s; auto simp: box_name_def)+

definition answered :: "SLA_output \<Rightarrow> bool" where
  "answered out \<longleftrightarrow> out_State_SLA out = ''Active SLA''
     \<or> out = \<lparr>out_State_SLA = ''SLA rejected'', out_Token_broker = ''None'', out_GW_id = ''None''\<rparr>"

inductive entry_step :: "side \<Rightarrow> string \<Rightarrow> SLAEntry option \<Rightarrow> SLAEntry option \<Rightarrow> bool"
  where
  es_same: "entry_step s NetID b b"
| es_delete: "entry_step s NetID b None"
| es_open: "answered out \<Longrightarrow> entry_step s NetID None (Some (agreed NetID nm p t out))"
| es_count: "entry_State_SLA e = ''Active SLA'' \<Longrightarrow> add64 (entry_Packet_Counter e) 1 = Inr n
    \<Longrightarrow> s = Forward \<longrightarrow> entry_Packet_Counter e \<noteq> entry_Threshold_contracting e
    \<Longrightarrow> entry_step s NetID (Some e) (Some (checked_entry NetID ''Active SLA'' n e))"
| es_reset: "entry_State_SLA e = ''Active SLA''
    \<Longrightarrow> s = Forward \<longrightarrow> entry_Packet_Counter e = entry_Threshold_contracting e
    \<Longrightarrow> entry_step s NetID (Some e) (Some (checked_entry NetID ''Active SLA'' 0 e))"
| es_ban: "entry_State_SLA e = ''Active SLA''
    \<Longrightarrow> s = Forward \<longrightarrow> entry_Packet_Counter e = entry_Threshold_contracting e
    \<Longrightarrow> entry_step s NetID (Some e)
         (Some (checked_entry NetID ''Banned'' (entry_Packet_Counter e) e))"

declare es_same [simp, intro!] es_delete [simp, intro!]

lemma entry_step_home:
  "entry_State_SLA e = ''Active SLA'' \<Longrightarrow> add64 (entry_Packet_Counter e) 1 = Inr n
    \<Longrightarrow> entry_step Home N (Some e) (Some (checked_entry N ''Active SLA'' n e))"
  "entry_State_SLA e = ''Active SLA''
    \<Longrightarrow> entry_step Home N (Some e) (Some (checked_entry N ''Active SLA'' 0 e))"
  "entry_State_SLA e = ''Active SLA''
    \<Longrightarrow> entry_step Home N (Some e) (Some (checked_entry N ''Banned'' (entry_Packet_Counter e) e))"
  by (auto intro: es_count es_reset es_ban)

lemma entry_step_forward:
  assumes "entry_State_SLA e = ''Active SLA''"
  shows "entry_Packet_Counter e \<noteq> entry_Threshold_contracting e \<Longrightarrow>
      add64 (entry_Packet_Counter e) 1 = Inr n \<Longrightarrow>
      entry_step Forward N (Some e) (Some (checked_entry N ''Active SLA'' n e))"
    and "entry_Packet_Counter e = entry_Threshold_contracting e \<Longrightarrow>
      (st, n) = (''Active SLA'', 0) \<or> (st, n) = (''Banned'', entry_Packet_Counter e) \<Longrightarrow>
      entry_step Forward N (Some e) (Some (checked_entry N st n e))"
  using assms es_ban[of e Forward N] by (auto intro: es_count es_reset)

inductive_simps entry_step_from_None: "entry_step s NetID None b"
inductive_simps entry_step_from_Some: "entry_step s NetID (Some e) b"

lemma answer_to_terms_answered: "answer_to_terms S p t out \<Longrightarrow> answered out"
  by (auto simp: answer_to_terms_def answered_def split: if_splits)

lemma update_as_checked:
  "entry_State_SLA e = st \<Longrightarrow> e\<lparr>entry_NetID := N, entry_Packet_Counter := n\<rparr> = checked_entry N st n e"
  "e\<lparr>entry_NetID := N, entry_State_SLA := st\<rparr> = checked_entry N st (entry_Packet_Counter e) e"
  by (cases e, simp add: checked_entry_def)+

text \<open>Only the methods on boxes move them.\<close>

lemma catalogue_keeps_boxes:
  "cat_create new sender L = Inr (u, L') \<Longrightarrow> sla_apps L' = sla_apps L"
  "cat_delete app sender L = Inr (u, L') \<Longrightarrow> sla_apps L' = sla_apps L"
  "cat_opt_in app sender receiver amount L = Inr (u, L') \<Longrightarrow> sla_apps L' = sla_apps L"
  "cat_close_out app sender L = Inr (u, L') \<Longrightarrow> sla_apps L' = sla_apps L"
  "cat_clear_state app sender L = Inr (u, L') \<Longrightarrow> sla_apps L' = sla_apps L"
  "set_entry_provider app sender NetID nm sc L = Inr (msg, L') \<Longrightarrow> sla_apps L' = sla_apps L"
  "delete_endpoint app sender L = Inr (msg, L') \<Longrightarrow> sla_apps L' = sla_apps L"
  by (auto simp: cat_create_def cat_delete_def cat_opt_in_def cat_close_out_def cat_clear_state_def
      set_entry_provider_def delete_endpoint_def avm_bind_Inr_iff split: option.splits if_splits)

lemma box_same: "get_box a n L' = get_box a n L \<Longrightarrow> entry_step s N (get_box a n L) (get_box a n L')"
  by (simp add: es_same)

lemma box_gone: "get_box a n L' = None \<Longrightarrow> entry_step s N (get_box a n L) (get_box a n L')"
  by (simp add: es_delete)

lemma handshake_box:
  assumes "handshake env app caller cat provider p t L = Inr (out, L')"
  shows "entry_step s N (get_box a (box_name s N) L) (get_box a (box_name s N) L')" "answered out"
proof -
  from assms obtain S it line where
    "sla_apps L app = Some S" "cat = global_uint (App_ID_catalogo S)"
    "get_entry_provider cat provider L = Inr it" "caller = item_Endpoint_SC it"
    "get_box app (home_box (item_NetID it)) L = None" "answer_to_terms S p t out" and L': "L' = set_box app (home_box (item_NetID it))
       (Some (agreed (item_NetID it) (item_Name_Provider it) p t out)) (log_line app line L)"
    by (rule handshake_InrD)
  moreover from this show "answered out" by (simp add: answer_to_terms_answered)
  ultimately show "entry_step s N (get_box a (box_name s N) L) (get_box a (box_name s N) L')"
    by (auto simp: box_simps forward_home_box_name es_open)
qed

lemma pay_box:
  assumes "pay env app caller cat receiver L = Inr (u, L')"
  shows "entry_step s N (get_box a (box_name s N) L) (get_box a (box_name s N) L')"
  using pay_cases[OF assms]
proof
  assume "\<exists>NetID e. pays_out env app receiver NetID e L L'
    \<and> get_box app (home_box NetID) L = Some e \<and> entry_State_SLA e = ''Active SLA''"
  then show ?thesis
    by (auto simp: pays_out_box forward_home_box_name update_as_checked entry_step_home)
qed (simp add: es_same)

lemma collect_payment_box:
  assumes "collect_payment env app sender NetID provider cat home e L = Inr ((st, n), L')"
    and "sla_apps L app = Some S"
  shows "get_box app m L' = get_box app m L"
    and "entry_step s N (get_box a (box_name s N) L) (get_box a (box_name s N) L')"
    and "(st, n) = (''Active SLA'', 0) \<or> (st, n) = (''Banned'', entry_Packet_Counter e)"
    and "sla_apps L' app = Some S"
proof -
  from assms obtain L1 line where p: "pay env home app cat provider L = Inr ((), L1)" "home \<noteq> app"
    and L': "L' = log_line app line L1"
    and st: "(st, n) = (''Active SLA'', 0) \<or> (st, n) = (''Banned'', entry_Packet_Counter e)"
    by (elim collect_payment_InrD) (auto split: if_splits)
  from pay_other_apps[OF p(1), of app] p(2) have "sla_apps L1 app = sla_apps L app" by simp
  then show "get_box app m L' = get_box app m L" "sla_apps L' app = Some S"
    using assms(2) by (simp_all add: L' get_box_def)
  show "entry_step s N (get_box a (box_name s N) L) (get_box a (box_name s N) L')"
    using pay_box[OF p(1)] by (simp add: L')
  show "(st, n) = (''Active SLA'', 0) \<or> (st, n) = (''Banned'', entry_Packet_Counter e)" by (fact st)
qed

lemma check_active_box:
  assumes "check_active env app sender NetID provider cat home e L = Inr (out, L')"
    and "get_box app (forward_box NetID) L = Some e" "entry_State_SLA e = ''Active SLA''"
  shows "entry_step s N (get_box a (box_name s N) L) (get_box a (box_name s N) L')"
  using assms(1)
proof (cases rule: check_active_InrD)
  case (count n)
  then show ?thesis using assms get_box_app[OF assms(2)]
    by (auto simp: box_simps forward_home_box_name entry_step_forward(1))
next
  case (collect st n L1)
  from get_box_app[OF assms(2)] obtain S where S: "sla_apps L app = Some S" by blast
  note pb = collect_payment_box[OF collect(2) S]
  show ?thesis
  proof (cases "a = app \<and> box_name s N = forward_box NetID")
    case True
    then have "get_box a (box_name s N) L' = Some (checked_entry NetID st n e)"
      using collect(4) pb(4) by (simp add: box_simps)
    moreover from True have "s = Forward" "N = NetID" by (simp_all add: forward_home_box_name)
    ultimately show ?thesis using pb(3) collect(1) assms(2,3) True
      by (simp add: entry_step_forward(2))
  next
    case False
    then have "get_box a (box_name s N) L' = get_box a (box_name s N) L1"
      using collect(4) by (auto simp: box_simps)
    then show ?thesis using pb(2) by simp
  qed
qed

lemma check_new_box:
  assumes "check_new env app S NetID provider cat nm home L = Inr (out, L')"
    and "get_box app (forward_box NetID) L = None" "sla_apps L app = Some S"
  shows "entry_step s N (get_box a (box_name s N) L) (get_box a (box_name s N) L')"
proof -
  from assms(1) obtain L1 line where ne: "home \<noteq> app" and
    h: "handshake env home app cat provider (global_uint (Price_SLA S)) (global_uint (Threshold S)) L
       = Inr (out, L1)" and
    L': "L' = log_line app line (set_box app (forward_box NetID) (Some (agreed NetID nm
       (global_uint (Price_SLA S)) (global_uint (Threshold S)) out)) L1)"
    by (rule check_new_InrD)
  from h ne assms(3) have app: "sla_apps L1 app = Some S"
    by (elim handshake_InrD) (simp add: box_simps)
  show ?thesis
  proof (cases "a = app \<and> box_name s N = forward_box NetID")
    case True
    then show ?thesis using assms(2) L' app handshake_box(2)[OF h]
      by (auto simp: box_simps forward_home_box_name es_open)
  next
    case False
    then have "get_box a (box_name s N) L' = get_box a (box_name s N) L1"
      using L' by (auto simp: box_simps)
    then show ?thesis using handshake_box(1)[OF h] by simp
  qed
qed

lemma sla_check_box:
  assumes "sla_check env app sender NetID provider cat nm home L = Inr (out, L')"
  shows "entry_step s N (get_box a (box_name s N) L) (get_box a (box_name s N) L')"
  using assms
proof (cases rule: sla_check_InrD)
  case (reject e)
  then show ?thesis by (simp add: es_same)
next
  case (active e)
  then show ?thesis by (intro check_active_box)
next
  case (fresh S)
  then show ?thesis by (intro check_new_box)
qed

lemma receive_packet_box:
  assumes "receive_packet_from_forwarder env app sender NetID L = Inr (msg, L')"
  shows "entry_step s N (get_box a (box_name s N) L) (get_box a (box_name s N) L')"
  using assms
  by (elim receive_packet_InrD)
    (auto simp: forward_home_box_name update_as_checked entry_step_home)

lemma ban_box:
  assumes "ban_home_function env app sender NetID L = Inr (msg, L')"
  shows "entry_step s N (get_box a (box_name s N) L) (get_box a (box_name s N) L')"
  using assms
  by (elim ban_InrD) (auto simp: forward_home_box_name update_as_checked entry_step_home)

lemma deleteSLA_box:
  assumes "deleteSLA env app sender type_op NetID L = Inr (msg, L')"
  shows "entry_step s N (get_box a (box_name s N) L) (get_box a (box_name s N) L')"
  using assms by (elim deleteSLA_InrD) auto

theorem ledger_step_box:
  assumes "ledger_step env L L'"
  shows "entry_step s N (get_box a (box_name s N) L) (get_box a (box_name s N) L')"
  using assms
proof cases
  case (ls_sla_create new sender u)
  then show ?thesis by (auto simp: sla_create_def get_box_def)
next
  case (ls_sla_delete app sender u)
  then show ?thesis
    by (auto simp: sla_delete_def get_box_def split: if_splits)
next
  case (ls_sla_init app sender cat price threshold tol ptol token gw msg)
  then show ?thesis
    by (intro box_same) (auto simp: sla_init_def get_box_def split: if_splits option.splits)
qed (auto intro: box_same get_box_cong dest: catalogue_keeps_boxes sla_check_box handshake_box(1)
    receive_packet_box pay_box ban_box deleteSLA_box)

end
