(* ===== verification/SlaDemo.thy ===== *)
theory SlaDemo
  imports SlaInv
begin

text \<open>
  The scenario of \<open>src/smart_contracts/README.md\<close>: the catalogue 1 of the LoRa manager, the
  contract 2 of Vodafone (price 2000, threshold 5) and the contract 3 of Tim (price 3000,
  threshold 3), Vodafone registered, and the first check of Vodafone for Tim. The token and
  gateway ID of Tim are a broker address and a hexadecimal ID, which the bridge can use. It is
  a run of the model, and the concrete input of the witnesses.
\<close>

definition demo_transfer ::
  "address \<Rightarrow> address \<Rightarrow> u64 \<Rightarrow> (address \<Rightarrow> u64) \<Rightarrow> (address \<Rightarrow> u64) option" where
  "demo_transfer src dst n b = (if n \<le> b src
     then Some ((b(src := b src - n))(dst := (b(src := b src - n)) dst + n)) else None)"

definition demo_avm :: avm where
  "demo_avm = \<lparr>app_address = \<lambda>a. if a = 2 then ''app2'' else if a = 3 then ''app3'' else ''app'',
     box_access = \<lambda>_ _. True, box_room = \<lambda>_ _ _. True, transfer = demo_transfer\<rparr>"

lemma demo_avm_fields [simp]:
  "app_address demo_avm 2 = ''app2''" "app_address demo_avm 3 = ''app3''"
  "box_access demo_avm a n" "box_room demo_avm a n e" "transfer demo_avm = demo_transfer"
  by (simp_all add: demo_avm_def)

definition after :: "ledger \<Rightarrow> 'a call \<Rightarrow> ledger" where
  "after L r = (case r of Inl e \<Rightarrow> L | Inr (v, L') \<Rightarrow> L')"

lemma after_Inr [simp]: "after L (Inr (v, L')) = L'"
  by (simp add: after_def)

definition demo0 :: ledger where
  "demo0 = \<lparr>sla_apps = Map.empty, catalogs = Map.empty, creators = \<lambda>_. '''',
     balances = \<lambda>_. 100000, logs = []\<rparr>"

definition demo1 :: ledger where "demo1 = after demo0 (cat_create 1 ''lora'' demo0)"
definition demo2 :: ledger where "demo2 = after demo1 (sla_create 2 ''vf'' demo1)"
definition demo3 :: ledger where "demo3 = after demo2 (sla_create 3 ''tim'' demo2)"
definition demo4 :: ledger where
  "demo4 = after demo3 (sla_init 2 ''vf'' 1 2000 5 80 95 ''VODAFONE_TOKEN'' ''GW_VODAFONE_001'' demo3)"
definition demo5 :: ledger where
  "demo5 = after demo4 (sla_init 3 ''tim'' 1 3000 3 75 95 ''tim:1884'' ''00aa'' demo4)"
definition demo6 :: ledger where
  "demo6 = after demo5 (cat_opt_in 1 ''vf'' ''lora'' 1000000 demo5)"
definition demo7 :: ledger where
  "demo7 = after demo6 (set_entry_provider 1 ''vf'' ''00000001'' ''Vodafone'' 2 demo6)"

definition demo_vf :: SLA_states where
  "demo_vf = \<lparr>sla_entry = Map.empty, App_ID_catalogo = Some 1, Price_SLA = Some 2000,
     Threshold = Some 5, Tolerance = Some 80, Payment_Tolerance = Some 95,
     Token_broker = Some ''VODAFONE_TOKEN'', sc_GWid = Some ''GW_VODAFONE_001''\<rparr>"

definition demo_tim :: SLA_states where
  "demo_tim = \<lparr>sla_entry = Map.empty, App_ID_catalogo = Some 1, Price_SLA = Some 3000,
     Threshold = Some 3, Tolerance = Some 75, Payment_Tolerance = Some 95,
     Token_broker = Some ''tim:1884'', sc_GWid = Some ''00aa''\<rparr>"

lemma demo_contract_fields [simp]:
  "sla_entry demo_vf = Map.empty" "App_ID_catalogo demo_vf = Some 1" "Price_SLA demo_vf = Some 2000"
  "Threshold demo_vf = Some 5" "Payment_Tolerance demo_vf = Some 95"
  "sla_entry demo_tim = Map.empty" "App_ID_catalogo demo_tim = Some 1"
  "Price_SLA demo_tim = Some 3000" "Threshold demo_tim = Some 3" "Tolerance demo_tim = Some 75"
  "Token_broker demo_tim = Some ''tim:1884''" "sc_GWid demo_tim = Some ''00aa''"
  by (simp_all add: demo_vf_def demo_tim_def)

lemma demo_apps:
  "sla_apps demo7 2 = Some demo_vf" "sla_apps demo7 3 = Some demo_tim"
  "get_entry_provider 1 ''vf'' demo7 = Inr \<lparr>item_NetID = ''00000001'',
     item_Name_Provider = ''Vodafone'', item_Endpoint_SC = 2\<rparr>"
  "creators demo7 2 = ''vf''" "creators demo7 3 = ''tim''" "balances demo7 = (\<lambda>_. 100000)"
  by (simp_all add: demo_vf_def demo_tim_def
      demo0_def demo1_def demo2_def demo3_def demo4_def demo5_def demo6_def demo7_def
      cat_create_def sla_create_def sla_init_def cat_opt_in_def set_entry_provider_def opted_in_def
      set_local_def get_entry_provider_def log_line_def PAYMENT_AMT_def ALGO_PARTICIPATION_AMT_def)

lemma demo_calls:
  "cat_create 1 ''lora'' demo0 = Inr ((), demo1)"
  "sla_create 2 ''vf'' demo1 = Inr ((), demo2)" "sla_create 3 ''tim'' demo2 = Inr ((), demo3)"
  "sla_init 2 ''vf'' 1 2000 5 80 95 ''VODAFONE_TOKEN'' ''GW_VODAFONE_001'' demo3
     = Inr (''Smart Contract initialized correctly!'', demo4)"
  "sla_init 3 ''tim'' 1 3000 3 75 95 ''tim:1884'' ''00aa'' demo4
     = Inr (''Smart Contract initialized correctly!'', demo5)"
  "cat_opt_in 1 ''vf'' ''lora'' 1000000 demo5 = Inr ((), demo6)"
  "set_entry_provider 1 ''vf'' ''00000001'' ''Vodafone'' 2 demo6
     = Inr (''Endpoint registered successfully!'', demo7)"
  by (simp_all add: demo0_def demo1_def demo2_def demo3_def demo4_def demo5_def demo6_def demo7_def
      cat_create_def sla_create_def sla_init_def cat_opt_in_def set_entry_provider_def opted_in_def
      set_local_def log_line_def PAYMENT_AMT_def ALGO_PARTICIPATION_AMT_def)

lemma demo_reachable: "reachable genesis (ledger_step demo_avm) demo7"
proof -
  have "reachable genesis (ledger_step demo_avm) demo0"
    by (rule reach_init) (simp add: genesis_def demo0_def)
  then have "reachable genesis (ledger_step demo_avm) demo1"
    by (rule reach_step, intro ls_cat_create[OF _ _ _ demo_calls(1)]) (simp_all add: demo0_def)
  then have "reachable genesis (ledger_step demo_avm) demo2"
    by (rule reach_step, intro ls_sla_create[OF _ _ _ demo_calls(2)])
      (simp_all add: demo0_def demo1_def cat_create_def)
  then have "reachable genesis (ledger_step demo_avm) demo3"
    by (rule reach_step, intro ls_sla_create[OF _ _ _ demo_calls(3)])
      (simp_all add: demo0_def demo1_def demo2_def cat_create_def sla_create_def)
  then have "reachable genesis (ledger_step demo_avm) demo4"
    by (rule reach_step, intro ls_sla_init[OF demo_calls(4)])
  then have "reachable genesis (ledger_step demo_avm) demo5"
    by (rule reach_step, intro ls_sla_init[OF demo_calls(5)])
  then have "reachable genesis (ledger_step demo_avm) demo6"
    by (rule reach_step, intro ls_cat_opt_in[OF demo_calls(6)])
  then show ?thesis
    by (rule reach_step, intro ls_set_entry[OF demo_calls(7)])
qed

text \<open>The first check of Vodafone for Tim: the handshake.\<close>

definition demo_out :: SLA_output where
  "demo_out = \<lparr>out_State_SLA = ''Active SLA'', out_Token_broker = ''tim:1884'',
     out_GW_id = ''00aa''\<rparr>"

definition demo8 :: ledger where
  "demo8 = after demo7 (sla_check demo_avm 2 ''vf'' ''00000002'' ''vf'' 1 ''Tim'' 3 demo7)"

text \<open>Both entries, with some packets counted by each side.\<close>

definition demo_forward :: "u64 \<Rightarrow> SLAEntry" where
  "demo_forward n = (agreed ''00000002'' ''Tim'' 2000 5 demo_out)\<lparr>entry_Packet_Counter := n\<rparr>"

definition demo_home :: "u64 \<Rightarrow> SLAEntry" where
  "demo_home n = (agreed ''00000001'' ''Vodafone'' 2000 5 demo_out)\<lparr>entry_Packet_Counter := n\<rparr>"

lemma demo_check_run:
  "sla_check demo_avm 2 ''vf'' ''00000002'' ''vf'' 1 ''Tim'' 3 demo7 = Inr (demo_out, demo8)"
  by (simp add: demo8_def sla_check_def check_new_def inner_handshake_def handshake_def demo_apps
      get_box_def put_box_def Let_def demo_out_def)

lemma demo_first_check:
  "get_box 2 (forward_box ''00000002'') demo8 = Some (demo_forward 0)"
  "get_box 3 (home_box ''00000001'') demo8 = Some (demo_home 0)"
  by (simp_all add: demo8_def sla_check_def check_new_def inner_handshake_def handshake_def demo_apps
      get_box_def put_box_def Let_def demo_out_def demo_forward_def demo_home_def agreed_def
      set_box_def)

lemma demo_no_box: "get_box 2 (forward_box ''00000002'') demo7 = None"
  by (simp add: get_box_def demo_apps)

text \<open>The ledger after some packets: five counted by Vodafone make the SLA due.\<close>

definition demo_counted :: "u64 \<Rightarrow> u64 \<Rightarrow> ledger" where
  "demo_counted cf ch = set_box 3 (home_box ''00000001'') (Some (demo_home ch))
     (set_box 2 (forward_box ''00000002'') (Some (demo_forward cf)) demo7)"

lemma demo_counted_boxes [simp]:
  "get_box 2 (forward_box ''00000002'') (demo_counted cf ch) = Some (demo_forward cf)"
  "get_box 3 (home_box ''00000001'') (demo_counted cf ch) = Some (demo_home ch)"
  "sla_apps (demo_counted cf ch) 2
     = Some (demo_vf\<lparr>sla_entry := [forward_box ''00000002'' \<mapsto> demo_forward cf]\<rparr>)"
  "sla_apps (demo_counted cf ch) 3
     = Some (demo_tim\<lparr>sla_entry := [home_box ''00000001'' \<mapsto> demo_home ch]\<rparr>)"
  "creators (demo_counted cf ch) = creators demo7" "balances (demo_counted cf ch) = (\<lambda>_. 100000)"
  "get_entry_provider 1 ''vf'' (demo_counted cf ch) = Inr \<lparr>item_NetID = ''00000001'',
     item_Name_Provider = ''Vodafone'', item_Endpoint_SC = 2\<rparr>"
  using demo_apps(3) by (simp_all add: demo_counted_def box_simps demo_apps get_entry_provider_def)

lemma demo_entry_fields [simp]:
  "entry_State_SLA (demo_forward n) = ''Active SLA''" "entry_Packet_Counter (demo_forward n) = n"
  "entry_Threshold_contracting (demo_forward n) = 5" "entry_Price_contracting (demo_forward n) = 2000"
  "entry_State_SLA (demo_home n) = ''Active SLA''" "entry_Packet_Counter (demo_home n) = n"
  "entry_Threshold_contracting (demo_home n) = 5" "entry_Price_contracting (demo_home n) = 2000"
  by (simp_all add: demo_forward_def demo_home_def demo_out_def)

lemma demo8_reachable: "reachable genesis (ledger_step demo_avm) demo8"
  using demo_reachable by (rule reach_step) (rule ls_sla_check[OF demo_check_run])

lemma demo7_to_demo8: "(ledger_step demo_avm)\<^sup>*\<^sup>* demo7 demo8"
  by (rule r_into_rtranclp) (rule ls_sla_check[OF demo_check_run])

text \<open>The balances after Tim has paid.\<close>

definition demo_paid :: "address \<Rightarrow> u64" where
  "demo_paid = ((\<lambda>_. 100000)(''app3'' := 98000))(''vf'' := 102000)"

lemma demo_transfer_run [simp]:
  "demo_transfer ''app3'' ''vf'' 2000 (\<lambda>_. 100000) = Some demo_paid"
  by (simp add: demo_transfer_def demo_paid_def)

text \<open>The check of a due SLA, four packets counted by Tim.\<close>

definition demo_settled :: ledger where
  "demo_settled = after (demo_counted 5 4)
     (sla_check demo_avm 2 ''vf'' ''00000002'' ''vf'' 1 ''Tim'' 3 (demo_counted 5 4))"

lemma demo_pay_run:
  "pay demo_avm 3 2 1 ''vf'' (demo_counted 5 4) = Inr ((), log_line 3 (''Payment sent to: ''
     @ ''00000001'' @ '' - Amount: '' @ itob 2000 @ '' - Packets: '' @ itob 0)
     (set_box 3 (home_box ''00000001'') (Some ((demo_home 4)\<lparr>entry_NetID := ''00000001'',
        entry_Packet_Counter := 0\<rparr>)) ((demo_counted 5 4)\<lparr>balances := demo_paid\<rparr>)))"
  by (simp add: pay_def min_packets_def mul64_def execute_payment_def put_box_def)

lemma demo_settling_check:
  "sla_check demo_avm 2 ''vf'' ''00000002'' ''vf'' 1 ''Tim'' 3 (demo_counted 5 4)
     = Inr (sla_reply ''Accept'' (demo_forward 5), demo_settled)"
  by (simp add: demo_settled_def sla_check_def check_active_def collect_payment_def inner_pay_def
      demo_pay_run demo_apps box_simps mul64_def add64_def sub64_def demo_paid_def put_box_def Let_def)

end
