(* ===== verification/ServiceDemo.thy ===== *)
theory ServiceDemo
  imports ServiceRoutes SlaDemo
begin

text \<open>
  A service in front of the demonstration contracts: Vodafone's service, an indexer that
  reports the accounts it is given, a node that answers, and a clock that stands still.
\<close>

definition demo_account :: "string \<Rightarrow> string \<Rightarrow> string \<Rightarrow> u64 \<Rightarrow> account_data" where
  "demo_account addr netid nm endpoint = \<lparr>acc_address = addr,
     acc_local_states = Some [\<lparr>als_id = Some 1, als_key_value =
       [\<lparr>kv_key = ''NetID'', kv_bytes = netid, kv_uint = 0\<rparr>,
        \<lparr>kv_key = ''Provider Name'', kv_bytes = nm, kv_uint = 0\<rparr>,
        \<lparr>kv_key = ''Endpoint of Smart Contract'', kv_bytes = [], kv_uint = endpoint\<rparr>]\<rparr>]\<rparr>"

definition tim_account :: account_data where
  "tim_account = demo_account ''tim'' ''00000002'' ''Tim'' 3"

text \<open>An account that registers the NetID of somebody else.\<close>

definition eve_account :: account_data where
  "eve_account = demo_account ''eve'' ''00000002'' ''Eve'' 9"

definition demo_senv :: "account_data list \<Rightarrow> service_env" where
  "demo_senv accs = \<lparr>py_time = \<lambda>_. 1000, indexer_accounts = \<lambda>_ _. Some accs,
     node_call = \<lambda>_. Answered, b64_utf8 = Some, utf8_ok = \<lambda>_. True,
     mnemonic_account = \<lambda>_. Some ''vf'', error_text = \<lambda>_. ''error'', py_format = \<lambda>_. [],
     chain = demo_avm\<rparr>"

lemma demo_senv_fields [simp]:
  "py_time (demo_senv accs) i = 1000" "indexer_accounts (demo_senv accs) t c = Some accs"
  "node_call (demo_senv accs) t = Answered" "b64_utf8 (demo_senv accs) = Some"
  "mnemonic_account (demo_senv accs) m = Some ''vf''" "chain (demo_senv accs) = demo_avm"
  by (simp_all add: demo_senv_def)

definition demo_init :: pydict where
  "demo_init = [(''algod_address'', PyStr ''http://localhost:4001''), (''algod_token'', PyStr ''a''),
     (''indexer_address'', PyStr ''http://localhost:8980''),
     (''private_key_mnemonic'', PyStr ''words''), (''sc_app_id'', PyInt 2),
     (''my_netid'', PyStr ''00000001''), (''my_provider_name'', PyStr ''Vodafone''),
     (''is_forwarder'', PyBool True)]"

definition demo_cfg :: svc_config where
  "demo_cfg = \<lparr>my_netid = PyStr ''00000001'', my_provider_name = PyStr ''Vodafone'',
     my_role = ''forwarder'', account = ''vf'', sc_app_id = 2, catalog_app_id = 1\<rparr>"

lemma demo_cfg_fields [simp]:
  "my_netid demo_cfg = PyStr ''00000001''" "account demo_cfg = ''vf''" "sc_app_id demo_cfg = 2"
  "catalog_app_id demo_cfg = 1"
  by (simp_all add: demo_cfg_def)

definition demo_ready :: world where
  "demo_ready = snd (initialize (demo_senv [tim_account]) demo_init (service_start demo7))"

lemma demo_ready_fields [simp]:
  "CONFIG demo_ready = Some demo_cfg" "catalog_cache demo_ready = Map.empty"
  "sla_cache demo_ready = Map.empty" "last_update demo_ready = 1000"
  "provider_index demo_ready = [(''00000002'', (''tim'', Some ''Tim'', Some 3))]"
  "w_ledger demo_ready = demo7"
  by (simp_all add: demo_ready_def initialize_def init_account_def init_app_def init_identity_def
      item_def demo_init_def chain_call_def submit_def get_appID_cat_def service_start_def demo_apps
      build_index_def clock_def ask_indexer_def tim_account_def demo_account_def parse_item_def
      demo_cfg_def Let_def)

lemma zfill_02 [simp]: "zfill 8 ''02'' = ''00000002''"
  by (simp add: zfill_def numeral_eq_Suc)

text \<open>The check of Vodafone for Tim through the service.\<close>

lemma demo_service_call:
  "sla_check (with_boxes [(2, ''00000002'' @ ''_forward_box''), (3, ''00000001'' @ ''_home_box'')]
     demo_avm) 2 ''vf'' ''00000002'' ''vf'' 1 ''Tim'' 3 demo7 = Inr (demo_out, demo8)"
  by (simp add: demo8_def sla_check_def check_new_def inner_handshake_def handshake_def demo_apps
      get_box_def put_box_def Let_def demo_out_def with_boxes_def forward_box_def home_box_def)

definition demo_asked :: world where
  "demo_asked = snd (check_sla (demo_senv [tim_account]) [(''netid'', PyStr ''02'')] demo_ready)"

lemma demo_find_and_check:
  "\<exists>a b w'. find_and_check (demo_senv [tim_account]) demo_cfg ''00000002'' demo_ready
     = (Inr ((''tim'', Some ''Tim'', Some 3), demo_out, a, b), w')"
  using demo_service_call
  by (simp add: find_and_check_def find_provider_by_netid_sync_def get_catalog_def cached_def
      find_in_fresh_index_def needs_update_def update_interval_def get_provider_def set_catalog_def
      clock_def check_sla_sync_def get_sla_def chain_call_def submit_def set_sla_def Let_def)

lemma demo_check_sla:
  "check_sla (demo_senv [tim_account]) [(''netid'', PyStr ''02'')] demo_ready
     = (sla_ok_response (''tim'', Some ''Tim'', Some 3) demo_out 0 0 0, demo_asked)"
  "CONFIG demo_asked = Some demo_cfg" "w_ledger demo_asked = demo8"
  "sla_cache demo_asked ''00000002'' = Some (demo_out, 1000)"
  "catalog_cache demo_asked ''00000002'' = Some ((''tim'', Some ''Tim'', Some 3), 1000)"
  using demo_service_call
  by (simp_all add: demo_asked_def check_sla_def find_and_check_def find_provider_by_netid_sync_def
      get_catalog_def cached_def find_in_fresh_index_def needs_update_def update_interval_def
      get_provider_def set_catalog_def clock_def check_sla_sync_def get_sla_def chain_call_def
      submit_def set_sla_def Let_def)

end
