(* ===== verification/ServiceCache.thy ===== *)
theory ServiceCache
  imports BlockchainService
begin

text \<open>
  The contract the three caches of the service share: a look-up finds what was stored under
  the key while it is younger than the life time of the cache, and neither a look-up nor a
  store touches anything else the answers of the service depend on.
\<close>

text \<open>Steps that leave the caches and the index alone.\<close>

definition same_answers :: "world \<Rightarrow> world \<Rightarrow> bool" where
  "same_answers w w' \<longleftrightarrow> catalog_cache w' = catalog_cache w \<and> provider_index w' = provider_index w
     \<and> sla_cache w' = sla_cache w"

lemma same_answers_refl [simp]: "same_answers w w"
  by (simp add: same_answers_def)

lemma same_answers_trans: "same_answers w w1 \<Longrightarrow> same_answers w1 w2 \<Longrightarrow> same_answers w w2"
  by (simp add: same_answers_def)

lemma clock_same: "clock env w = (now, w') \<Longrightarrow> same_answers w w' \<and> CONFIG w' = CONFIG w
    \<and> w_ledger w' = w_ledger w \<and> now = py_time env (w_tick w) \<and> w_tick w' = Suc (w_tick w)
    \<and> last_update w' = last_update w"
  by (auto simp: clock_def same_answers_def)

locale timed_cache =
  fixes look :: "service_env \<Rightarrow> string \<Rightarrow> world \<Rightarrow> 'a option \<times> world"
    and store :: "service_env \<Rightarrow> string \<Rightarrow> 'a \<Rightarrow> world \<Rightarrow> world"
    and entries :: "world \<Rightarrow> string \<Rightarrow> ('a \<times> real) option"
    and ttl :: real
  assumes look_is: "look env k w = cached env ttl (entries w k) w"
    and store_entries: "entries (store env k d w) = (entries w)(k \<mapsto> (d, py_time env (w_tick w)))"
    and store_tick: "w_tick (store env k d w) = Suc (w_tick w)"
begin

lemma look_frame:
  assumes "look env k w = (r, w')"
  shows "same_answers w w'" "w_ledger w' = w_ledger w" "CONFIG w' = CONFIG w"
  using assms
  by (auto simp: look_is cached_def clock_def same_answers_def split: option.splits)

lemma look_Some:
  assumes "look env k w = (Some d, w')"
  obtains ts where "entries w k = Some (d, ts)" "py_time env (w_tick w) - ts < ttl"
    "w_tick w' = Suc (w_tick w)"
  using assms by (auto simp: look_is cached_def clock_def split: option.splits if_splits)

lemma look_hit:
  assumes "entries w k = Some (d, ts)" "py_time env (w_tick w) - ts < ttl"
  shows "look env k w = (Some d, w\<lparr>w_tick := Suc (w_tick w)\<rparr>)"
  using assms by (simp add: look_is cached_def clock_def)

lemma look_expired:
  assumes "entries w k = Some (d, ts)" "ttl \<le> py_time env (w_tick w) - ts"
  shows "fst (look env k w) = None"
  using assms by (simp add: look_is cached_def clock_def)

text \<open>What is stored is found until its time is over, and other keys are not affected.\<close>

lemma look_after_store:
  assumes "py_time env (Suc (w_tick w)) - py_time env (w_tick w) < ttl"
  shows "fst (look env k (store env k d w)) = Some d"
  using assms by (subst look_hit) (simp_all add: store_entries store_tick)

lemma store_other: "k' \<noteq> k \<Longrightarrow> entries (store env k d w) k' = entries w k'"
  by (simp add: store_entries)

end

interpretation catalog_ttl: timed_cache get_catalog set_catalog catalog_cache CATALOG_TTL
  by unfold_locales (simp_all add: get_catalog_def set_catalog_def clock_def)

interpretation sla_ttl: timed_cache get_sla set_sla sla_cache SLA_TTL
  by unfold_locales (simp_all add: get_sla_def set_sla_def clock_def)

interpretation config_ttl: timed_cache get_config set_config config_cache CONFIG_TTL
  by unfold_locales (simp_all add: get_config_def set_config_def clock_def)

end
