(* ===== verification/SlaProps.thy ===== *)
theory SlaProps
  imports SlaDemo
begin

text \<open>
  The properties of the SLA contract: what every stored entry looks like, the life of an SLA,
  what both sides of a handshake agree on, how many packets are accepted for how much money,
  and what a payment does on both sides.
\<close>

section \<open>Entries\<close>

definition entry_ok :: "side \<Rightarrow> string \<Rightarrow> SLAEntry \<Rightarrow> bool" where
  "entry_ok s NetID e \<longleftrightarrow> entry_NetID e = NetID
     \<and> (s = Forward \<longrightarrow> entry_Packet_Counter e \<le> entry_Threshold_contracting e)
     \<and> (entry_State_SLA e = ''Active SLA'' \<or> entry_State_SLA e = ''Banned''
        \<or> entry_State_SLA e = ''SLA rejected'' \<and> entry_Packet_Counter e = 0
          \<and> entry_Token_broker e = ''None'' \<and> entry_GW_id e = ''None'')"

definition boxes_ok :: "ledger \<Rightarrow> bool" where
  "boxes_ok L \<longleftrightarrow> (\<forall>app s N e. get_box app (box_name s N) L = Some e \<longrightarrow> entry_ok s N e)"

lemma unat_below: "a \<noteq> b \<Longrightarrow> a \<le> b \<Longrightarrow> unat a < unat (b :: u64)"
  by (simp add: unat_mono)

lemma counter_below: "a \<noteq> b \<Longrightarrow> a \<le> b \<Longrightarrow> add64 a 1 = Inr n \<Longrightarrow> n \<le> b"
  by (drule unat_add64, drule (1) unat_below) (simp add: word_le_nat_alt)

lemma entry_step_ok:
  assumes "entry_step s N b b'" "\<And>e. b = Some e \<Longrightarrow> entry_ok s N e" "b' = Some e'"
  shows "entry_ok s N e'"
  using assms
proof cases
  case (es_count e n)
  then show ?thesis using assms(2,3) by (auto simp: entry_ok_def intro: counter_below)
qed (auto simp: entry_ok_def answered_def)

interpretation sla_boxes: inductive_invariant genesis "ledger_step env" boxes_ok for env
proof unfold_locales
  show "boxes_ok L" if "genesis L" for L
    using that by (simp add: genesis_def boxes_ok_def get_box_def)
  show "boxes_ok L'" if "boxes_ok L" "ledger_step env L L'" for L L'
    using that entry_step_ok[OF ledger_step_box[OF that(2)]] unfolding boxes_ok_def by blast
qed

text \<open>C12: Whoever calls whatever in whatever order, every box of every SLA contract holds an
  entry of the intended shape: the NetID it is filed under, one of the three states, no token
  and no packets for a rejected SLA, and on the forwarder's side never more packets than the
  threshold.\<close>

theorem sla_entries_typed:
  assumes "reachable genesis (ledger_step env) L" "get_box app (box_name s N) L = Some e"
  shows "entry_ok s N e"
  using sla_boxes.inv_reachable[OF assms(1)] assms(2) by (simp add: boxes_ok_def)

theorem sla_entries_typed_witness: "entry_ok Forward ''00000002'' (demo_forward 0)"
  using sla_entries_typed[OF demo8_reachable, of 2 Forward "''00000002''"] demo_first_check by simp

section \<open>The life of an SLA\<close>

text \<open>An SLA seen from one side: its threshold and the packets counted so far.\<close>

datatype phase = NoSLA | ActiveSLA nat nat | RejectedSLA | BannedSLA

definition phase_of :: "SLAEntry option \<Rightarrow> phase" where
  "phase_of b = (case b of None \<Rightarrow> NoSLA
     | Some e \<Rightarrow>
         if entry_State_SLA e = ''Active SLA''
         then ActiveSLA (unat (entry_Threshold_contracting e)) (unat (entry_Packet_Counter e))
         else if entry_State_SLA e = ''Banned'' then BannedSLA else RejectedSLA)"

text \<open>
  The specification. A forwarder counts up to the threshold and then either gets its money
  and starts again, or bans; the home counts as long as packets come in, pays when it is
  asked to, and may ban at any time. A refused or banned SLA can only be deleted.
\<close>

inductive sla_life :: "side \<Rightarrow> phase \<Rightarrow> phase \<Rightarrow> bool" where
  life_open: "sla_life s NoSLA (ActiveSLA T 0)"
| life_refuse: "sla_life s NoSLA RejectedSLA"
| life_count: "s = Forward \<longrightarrow> n < T \<Longrightarrow> sla_life s (ActiveSLA T n) (ActiveSLA T (Suc n))"
| life_reset: "s = Forward \<longrightarrow> n = T \<Longrightarrow> sla_life s (ActiveSLA T n) (ActiveSLA T 0)"
| life_ban: "s = Forward \<longrightarrow> n = T \<Longrightarrow> sla_life s (ActiveSLA T n) BannedSLA"
| life_delete: "sla_life s p NoSLA"

inductive_cases sla_life_from_banned: "sla_life s BannedSLA p"
inductive_cases sla_life_from_rejected: "sla_life s RejectedSLA p"

lemma phase_of_simps [simp]:
  "phase_of None = NoSLA"
  "entry_State_SLA e = ''Active SLA'' \<Longrightarrow> phase_of (Some e) =
     ActiveSLA (unat (entry_Threshold_contracting e)) (unat (entry_Packet_Counter e))"
  "entry_State_SLA e = ''Banned'' \<Longrightarrow> phase_of (Some e) = BannedSLA"
  "entry_State_SLA e = ''SLA rejected'' \<Longrightarrow> phase_of (Some e) = RejectedSLA"
  by (simp_all add: phase_of_def)





section \<open>The handshake\<close>

text \<open>C6: A first check of a home operator that goes through leaves the same agreement on both
  sides, under the forwarder's terms: the answer, price, threshold, token and gateway ID are
  equal, nothing is counted yet, no money has moved. It is active exactly if the price is at
  most the home's and the threshold at least the home's. The home files it under the NetID the
  provider has registered in the catalogue, for the calling contract only. The state is
  handed back as it is stored, not as Accept or Reject.\<close>

theorem handshake_agreement:
  assumes "sla_check env app sender N provider cat nm home L = Inr (out, L')"
    and "get_box app (forward_box N) L = None"
  shows "\<exists>S H it. sla_apps L app = Some S \<and> sla_apps L home = Some H
    \<and> get_entry_provider cat provider L = Inr it \<and> item_Endpoint_SC it = app
    \<and> cat = global_uint (App_ID_catalogo H)
    \<and> (let p = global_uint (Price_SLA S); t = global_uint (Threshold S) in
         answer_to_terms H p t out
         \<and> get_box app (forward_box N) L' = Some (agreed N nm p t out)
         \<and> get_box home (home_box (item_NetID it)) L'
             = Some (agreed (item_NetID it) (item_Name_Provider it) p t out))
    \<and> balances L' = balances L"
  using assms(1)
proof (cases rule: sla_check_InrD)
  case (fresh S)
  from fresh(3) obtain L1 line where ne: "home \<noteq> app" and
    h: "handshake env home app cat provider (global_uint (Price_SLA S)) (global_uint (Threshold S)) L
       = Inr (out, L1)" and
    L': "L' = log_line app line (set_box app (forward_box N) (Some (agreed N nm
       (global_uint (Price_SLA S)) (global_uint (Threshold S)) out)) L1)"
    by (rule check_new_InrD)
  from h obtain H it line1 where H: "sla_apps L home = Some H"
      "cat = global_uint (App_ID_catalogo H)" "get_entry_provider cat provider L = Inr it"
      "app = item_Endpoint_SC it" "get_box home (home_box (item_NetID it)) L = None"
      "answer_to_terms H (global_uint (Price_SLA S)) (global_uint (Threshold S)) out"
      "L1 = set_box home (home_box (item_NetID it)) (Some (agreed (item_NetID it)
         (item_Name_Provider it) (global_uint (Price_SLA S)) (global_uint (Threshold S)) out))
         (log_line home line1 L)"
    by (rule handshake_InrD)
  have app1: "sla_apps L1 app = Some S" using H(7) ne fresh(1) by (simp add: box_simps)
  have "get_box app (forward_box N) L' = Some (agreed N nm (global_uint (Price_SLA S))
      (global_uint (Threshold S)) out)"
    using L' app1 by (simp add: box_simps)
  moreover have "get_box home (home_box (item_NetID it)) L' = Some (agreed (item_NetID it)
      (item_Name_Provider it) (global_uint (Price_SLA S)) (global_uint (Threshold S)) out)"
    using L' H(1,7) ne by (simp add: box_simps)
  moreover have "balances L' = balances L" using L' H(7) by simp
  ultimately show ?thesis using fresh(1) H(1-4,6) by (metis (no_types, lifting))
qed (use assms(2) in simp_all)

theorem handshake_agreement_witness:
  "\<exists>it. get_entry_provider 1 ''vf'' demo7 = Inr it
     \<and> get_box 3 (home_box (item_NetID it)) demo8
         = Some (agreed (item_NetID it) (item_Name_Provider it) 2000 5 demo_out)"
  using handshake_agreement[OF demo_check_run demo_no_box] by (auto simp: demo_apps Let_def)

section \<open>Packets for money\<close>

text \<open>The same check again and again, as long as none fails.\<close>

fun run_checks ::
  "avm \<Rightarrow> app_id \<Rightarrow> address \<Rightarrow> string \<Rightarrow> address \<Rightarrow> app_id \<Rightarrow> string \<Rightarrow> app_id \<Rightarrow> nat \<Rightarrow> ledger
     \<Rightarrow> SLA_output list call" where
  "run_checks env app sender N provider cat nm home 0 L = Inr ([], L)"
| "run_checks env app sender N provider cat nm home (Suc k) L =
     avm_bind (sla_check env app sender N provider cat nm home L) (\<lambda>(out, L1).
     avm_bind (run_checks env app sender N provider cat nm home k L1) (\<lambda>(outs, L2).
       Inr (out # outs, L2)))"

text \<open>The least a payment must bring, in whole units.\<close>

definition share :: "SLA_states \<Rightarrow> SLAEntry \<Rightarrow> nat" where
  "share S e = unat (entry_Price_contracting e) * unat (global_uint (Payment_Tolerance S)) div 100"

lemma unat_share:
  assumes "mul64 (entry_Price_contracting e) (global_uint (Payment_Tolerance S)) = Inr m"
  shows "unat (m div 100) = share S e"
  using unat_mul64[OF assms] by (simp add: share_def unat_div)

lemma accept_step:
  assumes "sla_check env app sender N provider cat nm home L = Inr (out, L1)"
    and "get_box app (forward_box N) L = Some e" "entry_State_SLA e = ''Active SLA''"
    and "sla_apps L app = Some S" "out_State_SLA out = ''Accept''"
  obtains n S1 where "get_box app (forward_box N) L1 = Some (checked_entry N ''Active SLA'' n e)"
    "sla_apps L1 app = Some S1" "Payment_Tolerance S1 = Payment_Tolerance S"
    "unat n = Suc (unat (entry_Packet_Counter e)) \<and> balances L1 = balances L
       \<and> entry_Packet_Counter e \<noteq> entry_Threshold_contracting e
     \<or> n = 0 \<and> entry_Packet_Counter e = entry_Threshold_contracting e
       \<and> unat (balances L sender) + share S e \<le> unat (balances L1 sender)"
proof -
  from assms(1-3) have "check_active env app sender N provider cat home e L = Inr (out, L1)"
    by (cases rule: sla_check_InrD) simp_all
  then show thesis
  proof (cases rule: check_active_InrD)
    case (count n)
    then show thesis using assms(4) unat_add64[OF count(2)]
      by (intro that[of n "S\<lparr>sla_entry := (sla_entry S)(forward_box N
            \<mapsto> checked_entry N ''Active SLA'' n e)\<rparr>"]) (simp_all add: box_simps)
  next
    case (collect st n L2)
    from collect(3) assms(5) have st: "st = ''Active SLA''"
      by (simp add: verdict_def split: if_splits)
    note pb = collect_payment_box[OF collect(2) assms(4)]
    from collect(2) assms(4) obtain L3 m line where p: "mul64 (entry_Price_contracting e)
          (global_uint (Payment_Tolerance S)) = Inr m"
        "(st, n) = (if unat (balances L sender) + unat (m div 100) \<le> unat (balances L3 sender)
           then (''Active SLA'', 0) else (''Banned'', entry_Packet_Counter e))"
        "L2 = log_line app line L3"
      by (elim collect_payment_InrD) blast
    from p(2) st have "n = 0" "unat (balances L sender) + unat (m div 100) \<le> unat (balances L3 sender)"
      by (simp_all split: if_splits)
    with p(3) collect(4) unat_share[OF p(1)] have "n = 0"
        "unat (balances L sender) + share S e \<le> unat (balances L1 sender)"
      by simp_all
    then show thesis using collect(1,4) pb(4) st
      by (intro that[of n "S\<lparr>sla_entry := (sla_entry S)(forward_box N
            \<mapsto> checked_entry N ''Active SLA'' n e)\<rparr>"]) (simp_all add: box_simps)
  qed
qed

lemma counted_modulo:
  fixes T c k :: nat
  shows "Suc c \<le> T \<Longrightarrow> (Suc c + k) mod Suc T = (c + Suc k) mod Suc T"
    and "(0 + k) mod Suc T = (T + Suc k) mod Suc T"
    and "Suc ((0 + k) div Suc T) = (T + Suc k) div Suc T"
proof -
  have "T + Suc k = k + Suc T" by simp
  then show "(0 + k) mod Suc T = (T + Suc k) mod Suc T"
    and "Suc ((0 + k) div Suc T) = (T + Suc k) div Suc T"
    by (simp_all only: mod_add_self2 div_add_self2 add_0)
qed simp

text \<open>One accepted check in front of a run: the counter modulo, and the balance.\<close>

lemma counted_next:
  fixes T c k n q :: nat
  assumes "n = Suc c \<and> b1 = b \<and> c < T \<or> n = 0 \<and> c = T \<and> b + q \<le> b1"
    and "b1 + (n + k) div Suc T * q \<le> b'"
  shows "(n + k) mod Suc T = (c + Suc k) mod Suc T" "b + (c + Suc k) div Suc T * q \<le> b'"
proof -
  have "(n + k) mod Suc T = (c + Suc k) mod Suc T \<and> b + (c + Suc k) div Suc T * q \<le> b'"
    using assms(1)
  proof
    assume "n = Suc c \<and> b1 = b \<and> c < T"
    with assms(2) show ?thesis by simp
  next
    assume paid: "n = 0 \<and> c = T \<and> b + q \<le> b1"
    then have "b + Suc ((0 + k) div Suc T) * q \<le> b'" using assms(2) by simp
    with paid counted_modulo(2,3)[of k T] show ?thesis by simp
  qed
  then show "(n + k) mod Suc T = (c + Suc k) mod Suc T" "b + (c + Suc k) div Suc T * q \<le> b'" by auto
qed

text \<open>C4: What accepted packets cost. When a forwarder's SLA with c packets counted answers k
  checks in a row with Accept, the counter then stands at c + k modulo T + 1, where T is the
  threshold, and once for every T + 1 packets the balance of the operator went up by at least
  the agreed price less the tolerance. So at most T packets are ever unpaid.\<close>

theorem accepted_packets_paid:
  assumes "run_checks env app sender N provider cat nm home k L = Inr (outs, L')"
    and "\<forall>out\<in>set outs. out_State_SLA out = ''Accept''"
    and "get_box app (forward_box N) L = Some e" "entry_State_SLA e = ''Active SLA''"
    and "sla_apps L app = Some S" "entry_Packet_Counter e \<le> entry_Threshold_contracting e"
  defines "T \<equiv> unat (entry_Threshold_contracting e)" and "c \<equiv> unat (entry_Packet_Counter e)"
  shows "\<exists>e'. get_box app (forward_box N) L' = Some e' \<and> entry_State_SLA e' = ''Active SLA''
    \<and> unat (entry_Packet_Counter e') = (c + k) mod Suc T
    \<and> unat (balances L sender) + (c + k) div Suc T * share S e \<le> unat (balances L' sender)"
  using assms(1-6) unfolding T_def c_def
proof (induction k arbitrary: L e S outs)
  case 0
  then show ?case by (simp add: word_le_nat_alt)
next
  case (Suc k)
  from Suc.prems(1) obtain out L1 outs1 where
    one: "sla_check env app sender N provider cat nm home L = Inr (out, L1)" and
    rest: "run_checks env app sender N provider cat nm home k L1 = Inr (outs1, L')" and
    outs: "outs = out # outs1"
    by (auto simp: avm_bind_Inr_iff)
  let ?T = "unat (entry_Threshold_contracting e)" and ?c = "unat (entry_Packet_Counter e)"
  from outs Suc.prems(2) have acc: "out_State_SLA out = ''Accept''" by simp
  obtain n S1 where n: "get_box app (forward_box N) L1 = Some (checked_entry N ''Active SLA'' n e)"
    "sla_apps L1 app = Some S1" "Payment_Tolerance S1 = Payment_Tolerance S" and
    cases: "unat n = Suc ?c \<and> balances L1 = balances L
       \<and> entry_Packet_Counter e \<noteq> entry_Threshold_contracting e
     \<or> n = 0 \<and> entry_Packet_Counter e = entry_Threshold_contracting e
       \<and> unat (balances L sender) + share S e \<le> unat (balances L1 sender)"
    by (rule accept_step[OF one Suc.prems(3,4,5) acc])
  have below: "n \<le> entry_Threshold_contracting e"
    using cases unat_below[OF _ Suc.prems(6)] by (auto simp: word_le_nat_alt)
  have sh: "share S1 (checked_entry N ''Active SLA'' n e) = share S e"
    using n(3) by (simp add: share_def)
  from Suc.IH[OF rest _ n(1) _ n(2)] outs Suc.prems(2) below sh obtain e' where
    e': "get_box app (forward_box N) L' = Some e'" "entry_State_SLA e' = ''Active SLA''"
      "unat (entry_Packet_Counter e') = (unat n + k) mod Suc ?T" and
    bal: "unat (balances L1 sender) + (unat n + k) div Suc ?T * share S e \<le> unat (balances L' sender)"
    by auto
  have "unat n = Suc ?c \<and> unat (balances L1 sender) = unat (balances L sender) \<and> ?c < ?T
     \<or> unat n = 0 \<and> ?c = ?T \<and> unat (balances L sender) + share S e \<le> unat (balances L1 sender)"
    using cases unat_below[OF _ Suc.prems(6)] by auto
  from counted_next[OF this bal] e' show ?case by simp
qed

theorem accepted_packets_paid_witness:
  "\<exists>L' e'. run_checks demo_avm 2 ''vf'' ''00000002'' ''vf'' 1 ''Tim'' 3 1 (demo_counted 5 4)
       = Inr ([sla_reply ''Accept'' (demo_forward 5)], L')
     \<and> get_box 2 (forward_box ''00000002'') L' = Some e' \<and> entry_Packet_Counter e' = 0
     \<and> 100000 + 1900 \<le> unat (balances L' ''vf'')"
proof -
  have run: "run_checks demo_avm 2 ''vf'' ''00000002'' ''vf'' 1 ''Tim'' 3 1 (demo_counted 5 4)
      = Inr ([sla_reply ''Accept'' (demo_forward 5)], demo_settled)"
    by (simp add: demo_settling_check numeral_eq_Suc)
  from accepted_packets_paid[OF run _ demo_counted_boxes(1) _ demo_counted_boxes(3)]
  show ?thesis using run by (auto simp: share_def unat_eq_0)
qed

section \<open>Payments\<close>

text \<open>Both sides of an SLA that is due, as the catalogue and the boxes show it.\<close>

definition due ::
  "avm \<Rightarrow> app_id \<Rightarrow> app_id \<Rightarrow> app_id \<Rightarrow> address \<Rightarrow> string \<Rightarrow> EndpointItem \<Rightarrow> SLA_states \<Rightarrow> SLA_states
     \<Rightarrow> SLAEntry \<Rightarrow> SLAEntry \<Rightarrow> ledger \<Rightarrow> bool" where
  "due env app home cat sender N it S H e h L \<longleftrightarrow>
     app \<noteq> home \<and> sla_apps L app = Some S \<and> sla_apps L home = Some H \<and> creators L app = sender
     \<and> get_entry_provider cat sender L = Inr it \<and> item_Endpoint_SC it = app
     \<and> cat = global_uint (App_ID_catalogo H)
     \<and> get_box app (forward_box N) L = Some e \<and> entry_State_SLA e = ''Active SLA''
     \<and> entry_Packet_Counter e = entry_Threshold_contracting e
     \<and> get_box home (home_box (item_NetID it)) L = Some h \<and> entry_State_SLA h = ''Active SLA''
     \<and> entry_Price_contracting h = entry_Price_contracting e
     \<and> box_access env app (forward_box N) \<and> box_access env home (home_box (item_NetID it))
     \<and> (\<forall>a n x. box_room env a n x)"

lemma dueD:
  assumes "due env app home cat sender N it S H e h L"
  shows "app \<noteq> home" "sla_apps L app = Some S" "sla_apps L home = Some H" "creators L app = sender"
    and "get_entry_provider cat sender L = Inr it" "item_Endpoint_SC it = app"
    and "global_uint (App_ID_catalogo H) = cat"
    and "get_box app (forward_box N) L = Some e" "entry_State_SLA e = ''Active SLA''"
    and "entry_Packet_Counter e = entry_Threshold_contracting e"
    and "get_box home (home_box (item_NetID it)) L = Some h" "entry_State_SLA h = ''Active SLA''"
    and "entry_Price_contracting h = entry_Price_contracting e"
    and "box_access env app (forward_box N)" "box_access env home (home_box (item_NetID it))"
    and "box_room env a n x"
  using assms unfolding due_def by blast+

lemma pay_due:
  assumes "due env app home cat sender N it S H e h L" "min_packets H h = Inr m"
    and "transfer env (app_address env home) sender (entry_Price_contracting e) (balances L) = Some b"
  obtains L1 where "pay env home app cat sender L = Inr ((), L1)"
    "balances L1 = (if m \<le> entry_Packet_Counter h then b else balances L)"
    "get_box home (home_box (item_NetID it)) L1 = Some (if m \<le> entry_Packet_Counter h
       then checked_entry (item_NetID it) ''Active SLA'' 0 h else h)"
proof -
  note d = dueD[OF assms(1)]
  have run: "pay env home app cat sender L = (if m \<le> entry_Packet_Counter h
      then execute_payment env home sender (item_NetID it) h L else Inr ((), L))"
    by (simp add: pay_def d assms(2))
  have put: "put_box env home nm x K = Inr (set_box home nm (Some x) K)" for nm x K
    using d(16) by (simp add: put_box_def)
  show thesis
  proof (cases "m \<le> entry_Packet_Counter h")
    case True
    obtain line where "pay env home app cat sender L = Inr ((), log_line home line
        (set_box home (home_box (item_NetID it))
          (Some (checked_entry (item_NetID it) ''Active SLA'' 0 h)) (L\<lparr>balances := b\<rparr>)))"
      using True by (simp add: run execute_payment_def assms(3) d(12,13) put update_as_checked(1))
    from that[OF this] show thesis using True d(3) by (simp add: box_simps)
  next
    case False
    then show thesis using run d(11) by (intro that[of L]) simp_all
  qed
qed

lemma collect_payment_due:
  assumes "due env app home cat sender N it S H e h L"
    and "pay env home app cat sender L = Inr ((), L1)"
    and "unat (entry_Price_contracting e) * unat (global_uint (Payment_Tolerance S)) < 2 ^ 64"
    and "unat (balances L sender) + share S e < 2 ^ 64" "balances L sender \<le> balances L1 sender"
  obtains line where "collect_payment env app sender N sender cat home e L =
    Inr (if unat (balances L sender) + share S e \<le> unat (balances L1 sender)
         then (''Active SLA'', 0) else (''Banned'', entry_Packet_Counter e), log_line app line L1)"
proof -
  let ?tol = "global_uint (Payment_Tolerance S)"
  define m where "m = entry_Price_contracting e * ?tol"
  have mul: "mul64 (entry_Price_contracting e) ?tol = Inr m"
    using assms(3) by (simp add: mul64_def m_def)
  note sh = unat_share[OF mul]
  define mn where "mn = balances L sender + m div 100"
  have add: "add64 (balances L sender) (m div 100) = Inr mn"
    using assms(4) sh by (simp add: add64_def mn_def)
  have mn: "unat mn = unat (balances L sender) + share S e" using unat_add64[OF add] sh by simp
  have sub: "sub64 (balances L1 sender) (balances L sender)
      = Inr (balances L1 sender - balances L sender)"
    using assms(5) by (simp add: sub64_def)
  have ne: "home \<noteq> app" "sla_apps L1 app = Some S"
    using dueD(1,2)[OF assms(1)] pay_other_apps[OF assms(2), of app] by simp_all
  have inner: "inner_pay env app home cat sender L = Inr ((), L1)"
    using assms(2) ne by (simp add: inner_pay_def)
  show thesis
    by (cases "unat (balances L sender) + share S e \<le> unat (balances L1 sender)"; rule that;
      simp add: collect_payment_def inner ne(2) mul add sub mn word_le_nat_alt)
qed

text \<open>C7: A check of an SLA that is due, between two contracts whose boxes agree on the price,
  always goes through. If the home has counted its minimum of packets, the operator is paid,
  both counters are back at zero and the packet is accepted. If it has not, no money moves,
  the home's entry stays as it is, the forwarder bans the home and the packet is rejected.\<close>

theorem settlement:
  assumes "due env app home cat sender N it S H e h L" "min_packets H h = Inr m"
    and "transfer env (app_address env home) sender (entry_Price_contracting e) (balances L) = Some b"
    and "unat (b sender) = unat (balances L sender) + unat (entry_Price_contracting e)"
    and "unat (entry_Price_contracting e) * unat (global_uint (Payment_Tolerance S)) < 2 ^ 64"
    and "global_uint (Payment_Tolerance S) \<le> 100" "0 < share S e"
  defines "paid \<equiv> m \<le> entry_Packet_Counter h"
  shows "\<exists>L'. sla_check env app sender N sender cat nm home L
      = Inr (sla_reply (if paid then ''Accept'' else ''Reject'') e, L')
    \<and> balances L' = (if paid then b else balances L)
    \<and> get_box app (forward_box N) L' = Some (if paid then checked_entry N ''Active SLA'' 0 e
        else checked_entry N ''Banned'' (entry_Packet_Counter e) e)
    \<and> get_box home (home_box (item_NetID it)) L' = Some (if paid
        then checked_entry (item_NetID it) ''Active SLA'' 0 h else h)"
proof -
  note d = dueD[OF assms(1)]
  obtain L1 where p: "pay env home app cat sender L = Inr ((), L1)"
    and bal: "balances L1 = (if paid then b else balances L)"
    and hb: "get_box home (home_box (item_NetID it)) L1 = Some (if paid
       then checked_entry (item_NetID it) ''Active SLA'' 0 h else h)"
    unfolding paid_def by (rule pay_due[OF assms(1,2,3)])
  have "share S e \<le> unat (entry_Price_contracting e) * 100 div 100"
    unfolding share_def using assms(6) by (intro div_le_mono mult_le_mono2) (simp add: word_le_nat_alt)
  then have le: "share S e \<le> unat (entry_Price_contracting e)" by simp
  have room: "unat (balances L sender) + share S e < 2 ^ 64"
    using le assms(4) unsigned_less[of "b sender", where ?'a = nat] by simp
  have up: "balances L sender \<le> balances L1 sender"
    using bal assms(4) by (simp add: word_le_nat_alt)
  obtain line where c: "collect_payment env app sender N sender cat home e L =
    Inr (if paid then (''Active SLA'', 0) else (''Banned'', entry_Packet_Counter e), log_line app line L1)"
  proof (rule collect_payment_due[OF assms(1) p assms(5) room up])
    fix line
    assume "collect_payment env app sender N sender cat home e L =
      Inr (if unat (balances L sender) + share S e \<le> unat (balances L1 sender)
           then (''Active SLA'', 0) else (''Banned'', entry_Packet_Counter e), log_line app line L1)"
    moreover have "unat (balances L sender) + share S e \<le> unat (balances L1 sender) \<longleftrightarrow> paid"
      using bal le assms(4,7) by simp
    ultimately show thesis using that by simp
  qed
  define e' where "e' = (if paid then checked_entry N ''Active SLA'' 0 e
    else checked_entry N ''Banned'' (entry_Packet_Counter e) e)"
  have "sla_check env app sender N sender cat nm home L
      = Inr (sla_reply (if paid then ''Accept'' else ''Reject'') e,
          set_box app (forward_box N) (Some e') (log_line app line L1))"
    using d(10) by (simp add: sla_check_def d check_active_def c put_box_def e'_def checked_entry_def)
  moreover have "sla_apps L1 app = Some S" using pay_other_apps[OF p, of app] d(1,2) by simp
  ultimately show ?thesis using bal hb d(1) by (auto simp: box_simps e'_def)
qed

lemma demo_due: "due demo_avm 2 3 1 ''vf'' ''00000002'' \<lparr>item_NetID = ''00000001'',
     item_Name_Provider = ''Vodafone'', item_Endpoint_SC = 2\<rparr>
   (demo_vf\<lparr>sla_entry := [forward_box ''00000002'' \<mapsto> demo_forward 5]\<rparr>)
   (demo_tim\<lparr>sla_entry := [home_box ''00000001'' \<mapsto> demo_home ch]\<rparr>)
   (demo_forward 5) (demo_home ch) (demo_counted 5 ch)"
  by (simp add: due_def demo_apps)

text \<open>Tim has counted two packets of the five, three are required.\<close>

theorem settlement_witness:
  "\<exists>L'. sla_check demo_avm 2 ''vf'' ''00000002'' ''vf'' 1 ''Tim'' 3 (demo_counted 5 2)
      = Inr (sla_reply ''Reject'' (demo_forward 5), L')
    \<and> balances L' = (\<lambda>_. 100000)"
  using settlement[OF demo_due[of 2], of 3 demo_paid "''Tim''"]
  by (auto simp: min_packets_def mul64_def share_def demo_paid_def)

lemma pay_run:
  assumes "sla_apps L home = Some H" "cat = global_uint (App_ID_catalogo H)"
    and "get_entry_provider cat receiver L = Inr it" "caller = item_Endpoint_SC it"
    and "box_access env home (home_box (item_NetID it))"
    and "get_box home (home_box (item_NetID it)) L = Some h" "min_packets H h = Inr m"
    and "entry_State_SLA h = ''Active SLA''"
  shows "pay env home caller cat receiver L = (if m \<le> entry_Packet_Counter h
    then execute_payment env home receiver (item_NetID it) h L else Inr ((), L))"
  using assms(3-8) by (simp add: pay_def assms(1,2))

lemma pay_access:
  assumes "pay env home caller cat receiver L = Inr (u, L')" "get_entry_provider cat receiver L = Inr it"
  shows "box_access env home (home_box (item_NetID it))"
  using assms by (auto simp: pay_def split: option.splits if_splits)

lemma get_entry_provider_cong:
  "catalogs L' = catalogs L \<Longrightarrow> get_entry_provider cat acct L' = get_entry_provider cat acct L"
  by (simp add: get_entry_provider_def)

text \<open>C14: A payment call for an SLA that was just paid pays nothing more, exactly if the minimum
  of packets is not zero. When the threshold times the tolerance is below 100 the minimum is
  zero, and every further call, with no packet in between, is paid out again.\<close>

theorem paid_only_once:
  assumes "pay env home caller cat receiver L = Inr ((), L1)" "L1 \<noteq> L"
    and "get_entry_provider cat receiver L = Inr it" "sla_apps L home = Some H"
    and "get_box home (home_box (item_NetID it)) L = Some h" "min_packets H h = Inr m"
    and "transfer env (app_address env home) receiver (entry_Price_contracting h) (balances L1) = Some b"
    and "\<forall>a n x. box_room env a n x"
  shows "\<exists>L2. pay env home caller cat receiver L1 = Inr ((), L2)
    \<and> balances L2 = (if m = 0 then b else balances L1)"
proof -
  from assms(1) obtain H' it' h' m' where x: "sla_apps L home = Some H'"
    "cat = global_uint (App_ID_catalogo H')" "get_entry_provider cat receiver L = Inr it'"
    "caller = item_Endpoint_SC it'" "get_box home (home_box (item_NetID it')) L = Some h'"
    "min_packets H' h' = Inr m'"
    "if m' \<le> entry_Packet_Counter h' \<and> entry_State_SLA h' = ''Active SLA''
     then pays_out env home receiver (item_NetID it') h' L L1 else L1 = L"
    by (rule pay_InrD)
  from x assms(3-6) have same: "H' = H" "it' = it" "h' = h" "m' = m" by simp_all
  from x(7) assms(2) have out: "pays_out env home receiver (item_NetID it) h L L1"
    and st: "entry_State_SLA h = ''Active SLA''"
    by (simp_all add: same split: if_splits)
  let ?h1 = "checked_entry (item_NetID it) ''Active SLA'' 0 h"
  have box: "get_box home (home_box (item_NetID it)) L1 = Some ?h1"
    using pays_out_box[OF out assms(5)] by (simp add: update_as_checked(1)[OF st])
  obtain H1 where H1: "sla_apps L1 home = Some H1" "App_ID_catalogo H1 = App_ID_catalogo H"
    "Tolerance H1 = Tolerance H"
    using out assms(4) by (auto simp: pays_out_def box_simps)
  have entry: "get_entry_provider cat receiver L1 = Inr it"
    using assms(3) get_entry_provider_cong[OF pay_frame(1)[OF assms(1)]] by simp
  have min1: "min_packets H1 ?h1 = Inr m" using assms(6) H1(3) by (simp add: min_packets_def)
  have run: "pay env home caller cat receiver L1 = (if m \<le> 0
      then execute_payment env home receiver (item_NetID it) ?h1 L1 else Inr ((), L1))"
    using pay_run[OF H1(1) _ entry _ pay_access[OF assms(1,3)] box min1] x(2,4) H1(2)
    by (simp add: same)
  show ?thesis
  proof (cases "m = 0")
    case True
    then show ?thesis using assms(7,8)
      by (simp add: run execute_payment_def put_box_def)
  next
    case False
    then show ?thesis by (simp add: run)
  qed
qed

theorem paid_only_once_witness:
  "\<exists>L1 L2. pay demo_avm 3 2 1 ''vf'' (demo_counted 5 4) = Inr ((), L1) \<and> balances L1 = demo_paid
    \<and> pay demo_avm 3 2 1 ''vf'' L1 = Inr ((), L2) \<and> balances L2 = demo_paid"
proof -
  obtain L1 where L1: "pay demo_avm 3 2 1 ''vf'' (demo_counted 5 4) = Inr ((), L1)"
    "balances L1 = demo_paid"
    using demo_pay_run by simp
  have "L1 \<noteq> demo_counted 5 4"
  proof
    assume "L1 = demo_counted 5 4"
    with L1(2) have "demo_paid = (\<lambda>_. 100000)" by simp
    from fun_cong[OF this, of "''vf''"] show False by (simp add: demo_paid_def)
  qed
  from paid_only_once[OF L1(1) this demo_counted_boxes(7) demo_counted_boxes(4), of "demo_home 4" 3]
  show ?thesis using L1
    by (auto simp: min_packets_def mul64_def demo_transfer_def demo_paid_def)
qed

section \<open>One side forgets\<close>

text \<open>C39: When the forwarder deletes its side of an SLA while the home keeps its own, the next
  check of that home does not make a new SLA: the handshake finds the box of the home and the
  whole call is aborted with nothing changed, so the one after it fails in the same way.\<close>

theorem one_sided_deletion:
  assumes "deleteSLA env app sender ''_forward_box'' N L = Inr (msg, L1)"
    and "sla_apps L1 home = Some H" "global_uint (App_ID_catalogo H) = cat"
    and "get_entry_provider cat provider L1 = Inr it" "item_Endpoint_SC it = app"
    and "get_box home (home_box (item_NetID it)) L1 = Some h" "home \<noteq> app"
    and "box_access env home (home_box (item_NetID it))"
  shows "submit (sla_check env app sender N provider cat nm home) L1
    = (Inl (AssertFailed ''SLA already exists''), L1)"
proof -
  from assms(1) have acc: "box_access env app (forward_box N)" and cr: "creators L1 app = sender"
    and S: "sla_apps L1 app \<noteq> None"
    by (auto simp: deleteSLA_def avm_bind_Inr_iff checked_box_def forward_box_def box_simps
        split: if_splits option.splits)
  from assms(1) have none: "get_box app (forward_box N) L1 = None"
    by (elim deleteSLA_InrD) (simp add: forward_box_def)
  have "handshake env home app cat provider p t L1 = Inl (AssertFailed ''SLA already exists'')" for p t
    by (simp add: handshake_def assms)
  then show ?thesis using S
    by (auto simp: submit_def sla_check_def cr acc none check_new_def inner_handshake_def assms(7)
        Let_def split: option.split)
qed

theorem one_sided_deletion_witness:
  "\<exists>msg L1. deleteSLA demo_avm 2 ''vf'' ''_forward_box'' ''00000002'' (demo_counted 1 1) = Inr (msg, L1)
    \<and> submit (sla_check demo_avm 2 ''vf'' ''00000002'' ''vf'' 1 ''Tim'' 3) L1
        = (Inl (AssertFailed ''SLA already exists''), L1)"
proof -
  define L1 where "L1 = set_box 2 (forward_box ''00000002'') None
    (log_line 2 (''SLA deleted: '' @ ''00000002'' @ ''_forward_box'') (demo_counted 1 1))"
  have run: "deleteSLA demo_avm 2 ''vf'' ''_forward_box'' ''00000002'' (demo_counted 1 1)
      = Inr (''SLA deleted successfully'', L1)"
    using demo_counted_boxes(1)[of 1 1]
    by (simp add: deleteSLA_def checked_box_def L1_def forward_box_def demo_apps)
  have L1: "get_box 3 (home_box ''00000001'') L1 = Some (demo_home 1)"
    "sla_apps L1 3 = Some (demo_tim\<lparr>sla_entry := [home_box ''00000001'' \<mapsto> demo_home 1]\<rparr>)"
    by (simp_all add: L1_def box_simps)
  have entry: "get_entry_provider 1 ''vf'' L1 = Inr \<lparr>item_NetID = ''00000001'',
      item_Name_Provider = ''Vodafone'', item_Endpoint_SC = 2\<rparr>"
    using demo_counted_boxes(7)[of 1 1] by (simp add: L1_def get_entry_provider_def)
  from one_sided_deletion[OF run L1(2) _ entry] L1(1) run show ?thesis by auto
qed

end
