(* ===== verification/ServiceProps.thy ===== *)
theory ServiceProps
  imports ServiceDemo ServiceCache SlaProps
begin

text \<open>
  The properties of the blockchain service: what the index and the direct search find, where
  every provider and every cached answer comes from in any run of the service, and what the
  cache of answers means for the counter on the chain.
\<close>

text \<open>Quantified triples stay triples.\<close>

declare split_paired_All [simp del] split_paired_Ex [simp del]

section \<open>Registrations\<close>

text \<open>Every entry of the catalogue with a NetID, in the order of the indexer.\<close>

definition registered_states ::
  "service_env \<Rightarrow> app_id \<Rightarrow> string \<Rightarrow> app_local_state list \<Rightarrow> (string \<times> provider) list" where
  "registered_states env cat addr sts = concat (map (\<lambda>st.
     if als_id st = Some cat
     then (case parse_kv env (als_key_value st) (None, None, None) of
         Some (Some (c # cs), nm, endpoint) \<Rightarrow> [(c # cs, (addr, nm, endpoint))]
       | _ \<Rightarrow> [])
     else []) sts)"

definition registrations ::
  "service_env \<Rightarrow> app_id \<Rightarrow> account_data list \<Rightarrow> (string \<times> provider) list" where
  "registrations env cat accs = concat (map (\<lambda>a.
     case acc_local_states a of None \<Rightarrow> []
     | Some sts \<Rightarrow> registered_states env cat (acc_address a) sts) accs)"

lemma registered_states_simps [simp]:
  "registered_states env cat addr [] = []"
  "registered_states env cat addr (st # sts) =
     (if als_id st = Some cat
      then (case parse_kv env (als_key_value st) (None, None, None) of
         Some (Some (c # cs), nm, endpoint) \<Rightarrow> [(c # cs, (addr, nm, endpoint))]
       | _ \<Rightarrow> [])
      else []) @ registered_states env cat addr sts"
  by (simp_all add: registered_states_def)

lemma registrations_simps [simp]:
  "registrations env cat [] = []"
  "registrations env cat (a # as) =
     (case acc_local_states a of None \<Rightarrow> []
      | Some sts \<Rightarrow> registered_states env cat (acc_address a) sts) @ registrations env cat as"
  by (simp_all add: registrations_def)

lemma index_states_last:
  "index_states env cat addr sts idx = Some idx' \<Longrightarrow>
     map_of idx' = map_of idx ++ map_of (rev (registered_states env cat addr sts))"
proof (induction env cat addr sts idx rule: index_states.induct)
  case (2 env cat addr st sts idx)
  show ?case
  proof (cases "als_id st = Some cat")
    case False
    with 2 show ?thesis by simp
  next
    case True
    with "2.prems" obtain f nm ep where
      f: "parse_kv env (als_key_value st) (None, None, None) = Some (f, nm, ep)"
      by (auto split: option.splits)
    show ?thesis
    proof (cases "f = None \<or> f = Some []")
      case True
      with f "2.prems" "2.IH"(1)[OF \<open>als_id st = Some cat\<close> f] \<open>als_id st = Some cat\<close>
      show ?thesis by auto
    next
      case False
      then obtain c cs where cs: "f = Some (c # cs)" by (cases f; cases "the f") auto
      with f "2.prems" "2.IH"(1)[OF \<open>als_id st = Some cat\<close> f] \<open>als_id st = Some cat\<close>
      have "map_of idx' = map_of (AList.update (c # cs) (addr, nm, ep) idx)
          ++ map_of (rev (registered_states env cat addr sts))"
        by simp
      with f cs \<open>als_id st = Some cat\<close> show ?thesis by (simp add: update_conv')
    qed
  qed
qed simp

lemma index_accounts_last:
  "index_accounts env cat accs idx = Some idx' \<Longrightarrow>
     map_of idx' = map_of idx ++ map_of (rev (registrations env cat accs))"
proof (induction env cat accs idx rule: index_accounts.induct)
  case (2 env cat a as idx)
  then show ?case by (auto simp: index_states_last split: option.splits)
qed simp

lemma index_states_search:
  assumes "index_states env cat addr sts idx = Some idx'" "netid \<noteq> []"
  shows "search_states env cat netid addr sts = Inr (map_of (registered_states env cat addr sts) netid)"
  using assms
proof (induction env cat addr sts idx rule: index_states.induct)
  case (2 env cat addr st sts idx)
  show ?case
  proof (cases "als_id st = Some cat")
    case True
    with "2.prems" obtain f nm ep where
      f: "parse_kv env (als_key_value st) (None, None, None) = Some (f, nm, ep)"
      by (auto split: option.splits)
    with True "2.prems" have "search_states env cat netid addr sts
        = Inr (map_of (registered_states env cat addr sts) netid)"
      by (intro "2.IH"(1)[OF True f refl refl]) simp_all
    with True f "2.prems"(2) show ?thesis by (auto split: option.split list.split)
  qed (use 2 in simp)
qed simp

lemma index_accounts_search:
  assumes "index_accounts env cat accs idx = Some idx'" "netid \<noteq> []"
  shows "search_accounts env cat netid accs = Inr (map_of (registrations env cat accs) netid)"
  using assms
proof (induction env cat accs idx rule: index_accounts.induct)
  case (2 env cat a as idx)
  then show ?case
    by (auto simp: index_states_search map_add_def split: option.splits)
qed simp

text \<open>C40: Two accounts may register the same NetID. The index then holds the last registration
  in the order of the indexer, while the direct search of the same answer returns the first:
  which operator a packet belongs to depends on which of the two finds it.\<close>

theorem duplicate_registration:
  assumes "index_accounts env cat accs [] = Some idx" "netid \<noteq> []"
  shows "map_of idx netid = map_of (rev (registrations env cat accs)) netid
    \<and> search_accounts env cat netid accs = Inr (map_of (registrations env cat accs) netid)"
  using index_accounts_last[OF assms(1)] index_accounts_search[OF assms] by simp_all

theorem duplicate_registration_witness:
  "\<exists>idx. index_accounts (demo_senv []) 1 [tim_account, eve_account] [] = Some idx
    \<and> map_of idx ''00000002'' = Some (''eve'', Some ''Eve'', Some 9)
    \<and> search_accounts (demo_senv []) 1 ''00000002'' [tim_account, eve_account]
        = Inr (Some (''tim'', Some ''Tim'', Some 3))"
proof -
  obtain idx where "index_accounts (demo_senv []) 1 [tim_account, eve_account] [] = Some idx"
    by (simp add: tim_account_def eve_account_def demo_account_def parse_item_def)
  with duplicate_registration[OF this, of "''00000002''"] show ?thesis
    by (simp add: tim_account_def eve_account_def demo_account_def parse_item_def)
qed

section \<open>Where answers come from\<close>

definition registered :: "service_env \<Rightarrow> string \<Rightarrow> provider \<Rightarrow> bool" where
  "registered env netid p \<longleftrightarrow> (\<exists>t cat accs. indexer_accounts env t cat = Some accs
     \<and> (netid, p) \<in> set (registrations env cat accs))"

definition contract_answer :: "service_env \<Rightarrow> string \<Rightarrow> SLA_output \<Rightarrow> bool" where
  "contract_answer env netid sla \<longleftrightarrow> (\<exists>boxes app sender acct cat nm home L L'.
     sla_check (with_boxes boxes (chain env)) app sender netid acct cat nm home L = Inr (sla, L'))"

definition svc_ok :: "service_env \<Rightarrow> world \<Rightarrow> bool" where
  "svc_ok env w \<longleftrightarrow> (\<forall>n p ts. catalog_cache w n = Some (p, ts) \<longrightarrow> registered env n p)
     \<and> (\<forall>n p. map_of (provider_index w) n = Some p \<longrightarrow> registered env n p)
     \<and> (\<forall>n sla ts. sla_cache w n = Some (sla, ts) \<longrightarrow> contract_answer env n sla)"





lemma svc_ok_set_config [simp]: "svc_ok env (set_config env k d w) = svc_ok env w"
  by (simp add: svc_ok_def set_config_def clock_def)

lemma svc_ok_tick [simp]: "svc_ok env (w\<lparr>w_tick := n\<rparr>) = svc_ok env w"
  "svc_ok env (w\<lparr>w_ledger := L\<rparr>) = svc_ok env w" "svc_ok env (w\<lparr>CONFIG := c\<rparr>) = svc_ok env w"
  by (simp_all add: svc_ok_def)
















lemma zfill_not_empty [simp]: "zfill 8 s \<noteq> []"
  by (cases s) (auto simp: zfill_def)


section \<open>Runs of the service\<close>





text \<open>Dropping entries of a cache.\<close>

definition fewer :: "('k \<rightharpoonup> 'v) \<Rightarrow> ('k \<rightharpoonup> 'v) \<Rightarrow> bool" where
  "fewer m m' \<longleftrightarrow> (\<forall>k v. m k = Some v \<longrightarrow> m' k = Some v)"



lemma fewer_simps [simp]: "fewer m m" "fewer Map.empty m"
  by (simp_all add: fewer_def)












section \<open>Packets that are not counted\<close>

definition response_state :: "response \<Rightarrow> string option" where
  "response_state r = (case r of
     Json c (PyDict m) \<Rightarrow> (case map_of m ''sla_state'' of Some (PyStr s) \<Rightarrow> Some s | _ \<Rightarrow> None)
   | _ \<Rightarrow> None)"

text \<open>What the bridge asks for \<open>k\<close> packets of one network: a check and a count for each.\<close>

fun serve_packets :: "service_env \<Rightarrow> pydict \<Rightarrow> nat \<Rightarrow> world \<Rightarrow> response list \<times> world" where
  "serve_packets env data 0 w = ([], w)"
| "serve_packets env data (Suc k) w =
     (case check_sla env data w of (r, w1) \<Rightarrow>
      (case increment_counter data w1 of (r1, w2) \<Rightarrow>
       (case serve_packets env data k w2 of (rs, w3) \<Rightarrow> (r # rs, w3))))"

lemma check_sla_hit:
  assumes "CONFIG w = Some cfg" "map_of data ''netid'' = Some (PyStr n)"
    and "catalog_cache w (zfill 8 n) = Some (p, tp)" "sla_cache w (zfill 8 n) = Some (sla, ts)"
    and "py_time env (w_tick w + 1) < tp + CATALOG_TTL" "py_time env (w_tick w + 4) < ts + SLA_TTL"
  shows "\<exists>r. check_sla env data w = (r, w\<lparr>w_tick := w_tick w + 7\<rparr>)
    \<and> response_state r = Some (out_State_SLA sla)"
proof -
  define N where "N = zfill 8 n"
  have cat: "get_catalog env N (w\<lparr>w_tick := Suc (w_tick w)\<rparr>)
      = (Some p, w\<lparr>w_tick := Suc (Suc (w_tick w))\<rparr>)"
    using assms(3,5)[folded N_def] by (subst catalog_ttl.look_hit) (simp_all add: algebra_simps)
  have sla: "get_sla env N (w\<lparr>w_tick := Suc (Suc (Suc (Suc (w_tick w))))\<rparr>)
      = (Some sla, w\<lparr>w_tick := Suc (Suc (Suc (Suc (Suc (w_tick w)))))\<rparr>)"
    using assms(4,6)[folded N_def] by (subst sla_ttl.look_hit) (simp_all add: numeral_eq_Suc algebra_simps)
  have seven: "w_tick w + 7 = Suc (Suc (Suc (Suc (Suc (Suc (Suc (w_tick w)))))))" by simp
  show ?thesis
    using assms(1,2)
    by (simp add: check_sla_def N_def[symmetric] find_and_check_def find_provider_by_netid_sync_def cat sla
        check_sla_sync_def clock_def sla_ok_response_def response_state_def seven)
qed

text \<open>C0: While an answer of the contract is in the cache of the service, and the provider too
  (a packet takes seven readings of the clock), any number of packets gets that same answer
  without a transaction: the ledger does not move, so neither the packets nor the calls of
  \<open>increment_counter\<close> are counted, and no payment ever becomes due for them.\<close>

theorem cached_packets_uncounted:
  assumes "CONFIG w = Some cfg" "map_of data ''netid'' = Some (PyStr n)"
    and "catalog_cache w (zfill 8 n) = Some (p, tp)" "sla_cache w (zfill 8 n) = Some (sla, ts)"
    and "serve_packets env data k w = (rs, w')"
    and "\<forall>i. w_tick w \<le> i \<and> i < w_tick w + 7 * k \<longrightarrow>
      py_time env i < tp + CATALOG_TTL \<and> py_time env i < ts + SLA_TTL"
  shows "w_ledger w' = w_ledger w \<and> length rs = k
    \<and> (\<forall>r\<in>set rs. response_state r = Some (out_State_SLA sla))"
  using assms
proof (induction k arbitrary: w rs)
  case (Suc k)
  have times: "py_time env (w_tick w + 1) < tp + CATALOG_TTL"
    "py_time env (w_tick w + 4) < ts + SLA_TTL"
    using Suc.prems(6) by simp_all
  obtain r where r: "check_sla env data w = (r, w\<lparr>w_tick := w_tick w + 7\<rparr>)"
    "response_state r = Some (out_State_SLA sla)"
    using check_sla_hit[OF Suc.prems(1-4) times] by blast
  obtain rs1 where rest: "serve_packets env data k (w\<lparr>w_tick := w_tick w + 7\<rparr>) = (rs1, w')"
    and rs: "rs = r # rs1"
    using Suc.prems(5) r(1) by (auto simp: increment_counter_def split: prod.splits)
  have later: "\<forall>i. w_tick (w\<lparr>w_tick := w_tick w + 7\<rparr>) \<le> i
      \<and> i < w_tick (w\<lparr>w_tick := w_tick w + 7\<rparr>) + 7 * k \<longrightarrow>
      py_time env i < tp + CATALOG_TTL \<and> py_time env i < ts + SLA_TTL"
    using Suc.prems(6) by simp
  from Suc.IH[OF _ Suc.prems(2) _ _ rest later] Suc.prems(1,3,4) rs r(2) show ?case by simp
qed simp

theorem cached_packets_uncounted_witness:
  "\<exists>rs w'. serve_packets (demo_senv [tim_account]) [(''netid'', PyStr ''02'')] 100 demo_asked = (rs, w')
    \<and> length rs = 100 \<and> w_ledger w' = demo8
    \<and> (\<forall>r\<in>set rs. response_state r = Some ''Active SLA'')"
proof -
  obtain rs w' where run: "serve_packets (demo_senv [tim_account]) [(''netid'', PyStr ''02'')] 100
    demo_asked = (rs, w')" by (rule prod.exhaust)
  show ?thesis
    using cached_packets_uncounted[OF demo_check_sla(2), of "[(''netid'', PyStr ''02'')]" "''02''",
      simplified, OF demo_check_sla(5,4) run] demo_check_sla(3) run
    by (simp add: CATALOG_TTL_def SLA_TTL_def demo_out_def)
qed

end
