(* ===== verification/RoamingChain.thy ===== *)
theory RoamingChain
  imports RoamingProps ServiceProps
begin

text \<open>
  The whole way of a foreign packet: the handler of the bridge asks the service, the service
  asks its cache or the contract, and the contract's box of the home operator decides.
\<close>

section \<open>What acceptance means on the chain\<close>


section \<open>What the route answers\<close>





section \<open>The whole way\<close>







end
