(* ===== verification/RoamingConfig.thy ===== *)
theory RoamingConfig
  imports RoamingProps
begin

text \<open>
  The parts the routing rests on: how a topic is rewritten, which NetID a frame belongs to,
  what the JSON rewriting keeps, when a publish client is reused, and what a configuration
  request leaves behind.
\<close>

section \<open>Topics\<close>

lemma replace_gateway_id:
  assumes "CHR ''/'' \<notin> set g" "8 \<le> length g"
  shows "replace_first g new (''gateway/'' @ g @ r) = ''gateway/'' @ new @ r"
proof (rule replace_first_skip)
  fix p q :: string
  assume pq: "''gateway/'' = p @ q" and q: "q \<noteq> []"
  show "\<not> has_prefix g (q @ g @ r)"
  proof
    assume "has_prefix g (q @ g @ r)"
    then obtain t where t: "q @ g @ r = g @ t" by (auto simp: has_prefix_iff)
    have len: "length q \<le> 8" using arg_cong[OF pq, of length] by simp
    have "last q = last ''gateway/''" using pq q by (metis last_appendR)
    then have "CHR ''/'' \<in> set q" using q by (metis last_in_set last.simps list.discI)
    moreover have "q = take (length q) g"
      using arg_cong[OF t, of "take (length q)"] len assms(2) by simp
    then have "set q \<subseteq> set g" by (metis set_take_subset)
    ultimately show False using assms(1) by blast
  qed
qed

text \<open>For the topics of this bridge, gateway/ID/rest with an ID of at least eight
  characters, exactly the ID is replaced by the configured name.\<close>

lemma rewrite_topic_replaces_id:
  assumes "CHR ''/'' \<notin> set g" "8 \<le> length g"
  shows "rewrite_topic s (''gateway/'' @ g @ CHR ''/'' # r)
    = ''gateway/'' @ GwidTopicName s @ CHR ''/'' # r"
proof -
  have "split_char CHR ''/'' (''gateway/'' @ g @ CHR ''/'' # r)
      = ''gateway'' # g # split_char CHR ''/'' r"
    using split_char_append[of "CHR ''/''" "''gateway''" "g @ CHR ''/'' # r"]
      split_char_append[OF assms(1), of r] by simp
  then show ?thesis by (simp only: rewrite_topic_def nth_Cons_Suc nth_Cons_0 One_nat_def
        replace_gateway_id[OF assms])
qed

section \<open>NetIDs\<close>

lemma drop_bit_1_byte: "drop_bit 1 (x :: byte) = k \<longleftrightarrow> unat x div 2 = unat k"
proof -
  have "unat (drop_bit 1 x) = unat x div 2"
    by (simp only: unat_drop_bit_eq) (simp add: drop_bit_eq_div)
  then show ?thesis by (simp only: word_unat_eq_iff)
qed

text \<open>The handler reads the NetID of a frame off its device address as the documentation
  gives it: an address whose first byte is twice k, or one more, belongs to NetID k. The
  address travels with its bytes in reverse order after the header byte.\<close>

theorem netid_of_frame:
  assumes "length da = 4" "k < 128"
  shows "Option.bind (getDevAddr (mhdr # rev da @ rest)) calculateNetID = Some [of_nat k]
    \<longleftrightarrow> unat (da ! 0) = 2 * k \<or> unat (da ! 0) = 2 * k + 1"
proof -
  from assms(1) obtain a b c d where da: "da = [a, b, c, d]"
    by (auto simp: length_Suc_conv eval_nat_numeral)
  have k: "unat (of_nat k :: byte) = k" using assms(2) by (simp add: unat_of_nat)
  have "Option.bind (getDevAddr (mhdr # rev da @ rest)) calculateNetID = Some [drop_bit 1 a]"
    by (simp add: da getDevAddr_eq calculateNetID_def)
  moreover have "drop_bit 1 a = of_nat k \<longleftrightarrow> unat a = 2 * k \<or> unat a = 2 * k + 1"
    unfolding drop_bit_1_byte k by presburger
  ultimately show ?thesis by (simp add: da)
qed

theorem netid_of_frame_witness:
  "Option.bind (getDevAddr (64 # rev [4, 0, 0, 1] @ [0, 7])) calculateNetID = Some [of_nat 2]"
  by (subst netid_of_frame) simp_all

section \<open>Rewriting a payload\<close>

text \<open>The rewriting of a payload reaches every value stored under the key, at any depth
  and in lists as well, and touches nothing else: blanking the values under the key makes the
  old and the new payload equal. A second rewriting undoes the first.\<close>

theorem modifyMap_exact:
  "all_set key val (modifyMap key val j) \<and> blank key (modifyMap key val j) = blank key j
    \<and> modifyMap key val (modifyMap key val' j) = modifyMap key val j"
proof (intro conjI all_set_modifyMap blank_modifyMap)
  show "modifyMap key val (modifyMap key val' j) = modifyMap key val j"
    by (induction key val j rule: modifyMap.induct) auto
qed

section \<open>Publish clients\<close>

lemma make_spec:
  assumes "makePublishClient env b s = (r, t)" "publishClients s b = None"
  shows "publishClients t = (publishClients s)(b := r)
    \<and> (if b = [] then r = None \<and> effects t = effects s
       else \<exists>cid. effects t = effects s @ [EffDial b cid r])"
  using assms
  by (auto simp: makePublishClient_def initPublishClient_def Let_def advance_def emit_def
      fun_eq_iff split: option.splits if_splits)

text \<open>C17: Asking for a client of a broker either hands out the pooled client, if it is
  connected at that moment, and dials nobody; or it dials that broker exactly once and the
  pool entry becomes what the dial gave, so a dead client never stays in the pool. No other
  broker's entry changes, and the empty address is never dialled.\<close>

theorem getOrCreate_reuse_or_dial:
  assumes "getOrCreatePublishClient env b s = (r, t)"
  shows "(\<exists>c. publishClients s b = Some c \<and> is_connected env (tick s) c \<and> r = Some c \<and> t = advance s)
    \<or> (\<forall>c. publishClients s b = Some c \<longrightarrow> \<not> is_connected env (tick s) c)
      \<and> publishClients t = (publishClients s)(b := r)
      \<and> (if b = [] then r = None \<and> effects t = effects s
         else \<exists>cid. effects t = effects s @ [EffDial b cid r])"
proof (cases "publishClients s b")
  case None
  then show ?thesis using assms make_spec[of env b s r t]
    by (simp add: getOrCreatePublishClient_def lockedPublishClient_def)
next
  case (Some c)
  let ?d = "dropPublishClient b (advance s)"
  have d: "publishClients ?d = (publishClients s)(b := None)" "effects ?d = effects s"
    by (simp_all add: dropPublishClient_def advance_def)
  show ?thesis
  proof (cases "is_connected env (tick s) c")
    case True
    then have "r = Some c \<and> t = advance s"
      using assms Some by (simp add: getOrCreatePublishClient_def ask_connected_def)
    with True Some show ?thesis by blast
  next
    case False
    then have "makePublishClient env b ?d = (r, t)"
      using assms Some d(1) by (simp add: getOrCreatePublishClient_def ask_connected_def lockedPublishClient_def)
    from make_spec[OF this] d(1) False Some show ?thesis unfolding d(2) by (simp split: if_splits)
  qed
qed

theorem getOrCreate_reuse_or_dial_witness:
  "\<exists>cid t. getOrCreatePublishClient (demo_env None) ''tcp://ns'' demo_state = (Some 7, t)
    \<and> publishClients t = [''tcp://ns'' \<mapsto> 7] \<and> effects t = [EffDial ''tcp://ns'' cid (Some 7)]"
proof -
  obtain t where run: "getOrCreatePublishClient (demo_env None) ''tcp://ns'' demo_state = (Some 7, t)"
    by (simp add: getOrCreatePublishClient_def lockedPublishClient_def makePublishClient_def
        initPublishClient_def Let_def)
  from getOrCreate_reuse_or_dial[OF this] run show ?thesis by simp
qed

section \<open>The configuration endpoint\<close>

lemma same_config_preinit: "same_config s (preinit_clients env s)"
proof -
  have q: "same_config u (snd (getOrCreatePublishClient env b u))" for u b
    using quiet_getOrCreate quietD(1) by blast
  then show ?thesis by (auto simp: preinit_clients_def Let_def intro: same_config_trans)
qed

definition health_reply :: "api_env \<Rightarrow> Body \<Rightarrow> nat \<Rightarrow> http_reply" where
  "health_reply env b n = http_do env n (HttpGet (body_BlockchainServiceURL b @ ''/health''))"

lemma check_blockchain_enabled:
  "BlockchainEnabled (check_blockchain env b s) \<longleftrightarrow> body_BlockchainServiceURL b \<noteq> []
     \<and> request_ok env (body_BlockchainServiceURL b @ ''/health'')
     \<and> (\<exists>st body br. health_reply env b (tick s) = Reply st body br \<and> healthy (json_unmarshal env body))"
  by (auto simp: check_blockchain_def Let_def http_call_def emit_def health_reply_def
      split: http_reply.splits)

lemma check_blockchain_fields [simp]:
  "AddedBroker (check_blockchain env b s) = AddedBroker s"
  "NsIpAddress (check_blockchain env b s) = NsIpAddress s"
  "GWid (check_blockchain env b s) = GWid s"
  "GWidForeign (check_blockchain env b s) = GWidForeign s"
  "GwidTopicName (check_blockchain env b s) = GwidTopicName s"
  by (auto simp: check_blockchain_def Let_def http_call_def emit_def advance_def
      split: http_reply.splits)

text \<open>C18: A configuration request that is answered 200 was a POST with a readable body and a
  broker address. It leaves exactly that configuration in force, the local gateway ID standing
  in for a missing foreign one, and the blockchain is enabled exactly if the service could be
  asked and reported itself initialized: never on an error.\<close>

theorem configure_result:
  assumes "handleRequest env meth body s = (HttpStatus 200 resp, t)"
  shows "\<exists>b. meth = ''POST'' \<and> decode_body env body = Some b \<and> body_AddedBroker b \<noteq> []
    \<and> AddedBroker t = body_AddedBroker b \<and> NsIpAddress t = body_BrokerIPHNS b
    \<and> GWid t = body_GWIDToken b \<and> GwidTopicName t = body_GWIDToken b
    \<and> GWidForeign t = (if body_GWIDTokenForeign b = [] then body_GWIDToken b
                       else body_GWIDTokenForeign b)
    \<and> (BlockchainEnabled t \<longleftrightarrow> body_BlockchainServiceURL b \<noteq> []
        \<and> request_ok env (body_BlockchainServiceURL b @ ''/health'')
        \<and> (\<exists>st body' br. health_reply env b (tick s) = Reply st body' br
             \<and> healthy (json_unmarshal env body')))"
proof -
  from assms obtain b where b: "meth = ''POST''" "decode_body env body = Some b"
    by (auto simp: handleRequest_def split: if_splits option.splits)
  let ?s1 = "check_blockchain env b (store_config b s)"
  have ab: "AddedBroker ?s1 = body_AddedBroker b" by (simp add: store_config_def)
  from assms b obtain s2 where s2: "initMQTTClient env (AddedBroker ?s1) ?s1 = (True, s2)"
    and t: "t = spawn_subscriptions (preinit_clients env s2)"
    by (auto simp: handleRequest_def Let_def split: prod.splits bool.splits)
  from s2 ab have ne: "body_AddedBroker b \<noteq> []"
    and f: "AddedBroker s2 = AddedBroker ?s1" "NsIpAddress s2 = NsIpAddress ?s1" "GWid s2 = GWid ?s1"
      "GWidForeign s2 = GWidForeign ?s1" "GwidTopicName s2 = GwidTopicName ?s1"
      "BlockchainEnabled s2 = BlockchainEnabled ?s1"
    by (auto simp: initMQTTClient_def advance_def split: if_splits)
  have c: "same_config s2 (spawn_subscriptions (preinit_clients env s2))"
    using same_config_preinit[of s2 env]
    by (simp add: same_config_def spawn_subscriptions_def emit_def)
  have tk: "tick (store_config b s) = tick s" by (simp add: store_config_def)
  show ?thesis using b ne c f check_blockchain_enabled[of env b "store_config b s"]
    by (simp add: t same_config_def tk) (simp add: store_config_def)
qed

theorem configure_result_witness:
  "\<exists>(t::api_state) resp. handleRequest ((demo_env None)\<lparr>decode_body := \<lambda>_. Some demo_body\<rparr>) ''POST'' [] init_api
      = (HttpStatus 200 resp, t) \<and> GWidForeign t = ''00ff'' \<and> \<not> BlockchainEnabled t"
proof -
  let ?e = "(demo_env None)\<lparr>decode_body := \<lambda>_. Some demo_body\<rparr>"
  obtain resp and t :: api_state where
    run: "handleRequest ?e ''POST'' [] init_api = (HttpStatus 200 resp, t)"
    by (simp add: configure_defs demo_body_def init_api_def)
  from configure_result[OF run] run show ?thesis by (auto simp: demo_body_def)
qed

end
