(* ===== verification/Gw.thy ===== *)
theory Gw
  imports Prelude "HOL-Library.Signed_Division"
begin

text \<open>
  The messages of \<open>chirpstack-api/go/v3/gw\<close> and \<open>common\<close> the bridge exchanges with the
  network server, restricted to the fields its code reads or writes. The package is generated
  from protobuf files that are not part of the repository, so only the shape of its data is
  stated here. A nil pointer is \<open>None\<close>; a oneof field is a datatype with a case for unset.

  The functions of packages outside the repository are the fields of \<open>lib\<close>: the zero values
  and names of enumerations, the conversions between times and their protobuf forms,
  \<open>gps\<close> of the lorawan package, and the arithmetic of float64.
\<close>

section \<open>Time\<close>

text \<open>
  An instant is the number of nanoseconds since Go's zero time. A \<open>time.Duration\<close> is a
  64-bit count of nanoseconds; division truncates and the remainder has the sign of the
  dividend.
\<close>

type_synonym gotime = int
type_synonym timestamp = int
type_synonym go_duration = u64

record pb_duration =
  pbd_seconds :: u64
  pbd_nanos :: u32

definition go_div :: "go_duration \<Rightarrow> int \<Rightarrow> go_duration" where
  "go_div d n = word_of_int (sint d sdiv n)"

definition go_mod :: "go_duration \<Rightarrow> int \<Rightarrow> go_duration" where
  "go_mod d n = word_of_int (sint d smod n)"

abbreviation (input) Nanosecond :: int where "Nanosecond \<equiv> 1"
abbreviation (input) Microsecond :: int where "Microsecond \<equiv> 1000"
abbreviation (input) Millisecond :: int where "Millisecond \<equiv> 1000000"
abbreviation (input) Second :: int where "Second \<equiv> 1000000000"

lemma go_div_nonneg:
  assumes "0 \<le> sint d" "0 < n"
  shows "go_div d n = word_of_int (sint d div n)"
proof -
  have "sint d sdiv n = sint d div n"
    using assms by (cases "sint d = 0") (simp_all add: signed_divide_int_def)
  then show ?thesis by (simp add: go_div_def)
qed

text \<open>\<open>Time.Add\<close>.\<close>

definition time_Add :: "gotime \<Rightarrow> go_duration \<Rightarrow> gotime" where
  "time_Add t d = t + sint d"

text \<open>A \<open>lorawan.EUI64\<close> is an array of eight bytes.\<close>

type_synonym EUI64 = bytes

section \<open>Enumerations\<close>

datatype modulation = LORA | FSK | LR_FHSS | OtherModulation int
datatype downlink_timing = IMMEDIATELY | DELAY | GPS_EPOCH | OtherTiming int
datatype crc_status = CRC_OK | BAD_CRC | NO_CRC | OtherCRC int
datatype location_source = LOC_GPS | OtherSource int
datatype fine_type = FT_PLAIN | FT_ENCRYPTED | OtherFineType int
datatype tx_ack_status = TX_OK | TX_IGNORED | TX_OTHER int

section \<open>Messages\<close>

record LoRaModulationInfo =
  l_Bandwidth :: u32
  l_SpreadingFactor :: u32
  l_CodeRate :: string
  l_PolarizationInversion :: bool

record FSKModulationInfo =
  f_FrequencyDeviation :: u32
  f_Datarate :: u32

record LRFHSSModulationInfo =
  h_OperatingChannelWidth :: u32
  h_CodeRate :: string
  h_GridSteps :: u32

datatype modulation_info =
    NoModulationInfo
  | LoraInfo LoRaModulationInfo
  | FskInfo FSKModulationInfo
  | LrFhssInfo LRFHSSModulationInfo

fun GetLoraModulationInfo :: "modulation_info \<Rightarrow> LoRaModulationInfo option" where
  "GetLoraModulationInfo (LoraInfo i) = Some i"
| "GetLoraModulationInfo _ = None"

fun GetFskModulationInfo :: "modulation_info \<Rightarrow> FSKModulationInfo option" where
  "GetFskModulationInfo (FskInfo i) = Some i"
| "GetFskModulationInfo _ = None"

fun GetLrFhssModulationInfo :: "modulation_info \<Rightarrow> LRFHSSModulationInfo option" where
  "GetLrFhssModulationInfo (LrFhssInfo i) = Some i"
| "GetLrFhssModulationInfo _ = None"

record UplinkTXInfo =
  ut_Frequency :: u32
  ut_Modulation :: modulation
  ut_ModulationInfo :: modulation_info

datatype fine_timestamp =
    NoFineTimestamp
  | PlainFineTimestamp timestamp
  | EncryptedFineTimestamp bytes u32

record UplinkRXInfo =
  rx_GatewayId :: bytes
  rx_Time :: "timestamp option"
  rx_TimeSinceGpsEpoch :: "pb_duration option"
  rx_Rssi :: u32
  rx_LoraSnr :: float64
  rx_Channel :: u32
  rx_RfChain :: u32
  rx_Board :: u32
  rx_Antenna :: u32
  rx_Context :: bytes
  rx_CrcStatus :: crc_status
  rx_FineTimestampType :: fine_type
  rx_FineTimestamp :: fine_timestamp
  rx_UplinkId :: bytes

record UplinkFrame =
  up_PhyPayload :: bytes
  up_TxInfo :: "UplinkTXInfo option"
  up_RxInfo :: "UplinkRXInfo option"

datatype timing_info =
    NoTimingInfo
  | ImmediatelyTimingInfo
  | DelayTimingInfo "pb_duration option"
  | GpsEpochTimingInfo "pb_duration option"

fun GetDelayTimingInfo :: "timing_info \<Rightarrow> pb_duration option option" where
  "GetDelayTimingInfo (DelayTimingInfo d) = Some d"
| "GetDelayTimingInfo _ = None"

fun GetGpsEpochTimingInfo :: "timing_info \<Rightarrow> pb_duration option option" where
  "GetGpsEpochTimingInfo (GpsEpochTimingInfo d) = Some d"
| "GetGpsEpochTimingInfo _ = None"

record DownlinkTXInfo =
  dt_GatewayId :: bytes
  dt_Frequency :: u32
  dt_Power :: u32
  dt_Modulation :: modulation
  dt_ModulationInfo :: modulation_info
  dt_Board :: u32
  dt_Antenna :: u32
  dt_Timing :: downlink_timing
  dt_TimingInfo :: timing_info
  dt_Context :: bytes

record DownlinkFrameItem =
  di_PhyPayload :: bytes
  di_TxInfo :: "DownlinkTXInfo option"

text \<open>\<open>PhyPayload\<close> and \<open>TxInfo\<close> of the frame itself are the deprecated single-item form.\<close>

record DownlinkFrame =
  df_Token :: u32
  df_DownlinkId :: bytes
  df_GatewayId :: bytes
  df_Items :: "DownlinkFrameItem list"
  df_PhyPayload :: bytes
  df_TxInfo :: "DownlinkTXInfo option"

record DownlinkTXAck =
  ack_GatewayId :: bytes
  ack_Token :: u32
  ack_DownlinkId :: bytes
  ack_Error :: string
  ack_Items :: "tx_ack_status list"

record Location =
  loc_Latitude :: float64
  loc_Longitude :: float64
  loc_Altitude :: float64
  loc_Source :: location_source

text \<open>The counts per modulation are a list whose order carries no meaning.\<close>

record GatewayStats =
  st_GatewayId :: bytes
  st_Ip :: string
  st_Time :: "timestamp option"
  st_Location :: "Location option"
  st_StatsId :: bytes
  st_RxPacketsReceived :: u32
  st_RxPacketsReceivedOk :: u32
  st_TxPacketsReceived :: u32
  st_TxPacketsEmitted :: u32
  st_RxPacketsPerFrequency :: "u32 \<rightharpoonup> u32"
  st_TxPacketsPerFrequency :: "u32 \<rightharpoonup> u32"
  st_RxPacketsPerModulation :: "(modulation_info \<times> u32) list"
  st_TxPacketsPerModulation :: "(modulation_info \<times> u32) list"
  st_TxPacketsPerStatus :: "string \<rightharpoonup> u32"
  st_MetaData :: "(string \<rightharpoonup> string) option"

record LoRaModulationConfig =
  lc_Bandwidth :: u32
  lc_SpreadingFactors :: "u32 list"

record FSKModulationConfig =
  fc_Bandwidth :: u32
  fc_Bitrate :: u32

datatype modulation_config =
    NoModulationConfig
  | LoraConfig LoRaModulationConfig
  | FskConfig FSKModulationConfig

fun GetLoraModulationConfig :: "modulation_config \<Rightarrow> LoRaModulationConfig option" where
  "GetLoraModulationConfig (LoraConfig c) = Some c"
| "GetLoraModulationConfig _ = None"

fun GetFskModulationConfig :: "modulation_config \<Rightarrow> FSKModulationConfig option" where
  "GetFskModulationConfig (FskConfig c) = Some c"
| "GetFskModulationConfig _ = None"

record ChannelConfiguration =
  ch_Frequency :: u32
  ch_Modulation :: modulation
  ch_ModulationConfig :: modulation_config

record RawPacketForwarderEvent =
  re_GatewayId :: bytes
  re_RawId :: bytes
  re_Payload :: bytes

record RawPacketForwarderCommand =
  rcmd_GatewayId :: bytes
  rcmd_RawId :: bytes
  rcmd_Payload :: bytes

record GatewayConfiguration =
  gc_GatewayId :: bytes
  gc_Version :: string
  gc_Channels :: "ChannelConfiguration list"

text \<open>The environment is a map; its list is the order in which it is iterated over.\<close>

record GatewayCommandExecRequest =
  xq_GatewayId :: bytes
  xq_Command :: string
  xq_ExecId :: bytes
  xq_Stdin :: bytes
  xq_Environment :: "(string \<times> string) list"

record GatewayCommandExecResponse =
  xr_GatewayId :: bytes
  xr_ExecId :: bytes
  xr_Stdout :: bytes
  xr_Stderr :: bytes
  xr_Error :: string

datatype conn_state = ONLINE | OFFLINE

record ConnState =
  cs_GatewayId :: bytes
  cs_State :: conn_state

text \<open>The messages that are passed as \<open>proto.Message\<close>.\<close>

datatype proto_msg =
    PmUplink UplinkFrame
  | PmStats GatewayStats
  | PmTxAck DownlinkTXAck
  | PmRaw RawPacketForwarderEvent
  | PmExec GatewayCommandExecResponse
  | PmConn ConnState
  | PmDownlink DownlinkFrame
  | PmConfig GatewayConfiguration

section \<open>The packages outside the repository\<close>

record lib =
  zero_modulation :: modulation
  zero_timing :: downlink_timing
  zero_fine_type :: fine_type
  modulation_String :: "modulation \<Rightarrow> string"
  timing_String :: "downlink_timing \<Rightarrow> string"
  status_String :: "tx_ack_status \<Rightarrow> string"
  status_value :: "string \<Rightarrow> tx_ack_status option"
  ptypes_Duration :: "pb_duration option \<Rightarrow> go_duration option"
  ptypes_DurationProto :: "go_duration \<Rightarrow> pb_duration"
  ptypes_TimestampProto :: "gotime \<Rightarrow> timestamp option"
  gps_NewTime :: "go_duration \<Rightarrow> gotime"
  mhz_of_hz :: "u32 \<Rightarrow> float64"
  hz_of_mhz :: "float64 \<Rightarrow> u32"
  f64_of_i32 :: "u32 \<Rightarrow> float64"

text \<open>The nil-safe getters of a downlink item's transmission info.\<close>

definition nil_DownlinkTXInfo :: "lib \<Rightarrow> DownlinkTXInfo" where
  "nil_DownlinkTXInfo L = \<lparr>dt_GatewayId = [], dt_Frequency = 0, dt_Power = 0,
     dt_Modulation = zero_modulation L, dt_ModulationInfo = NoModulationInfo, dt_Board = 0,
     dt_Antenna = 0, dt_Timing = zero_timing L, dt_TimingInfo = NoTimingInfo, dt_Context = []\<rparr>"

definition GetTxInfo :: "lib \<Rightarrow> DownlinkFrameItem \<Rightarrow> DownlinkTXInfo" where
  "GetTxInfo L item = (case di_TxInfo item of Some t \<Rightarrow> t | None \<Rightarrow> nil_DownlinkTXInfo L)"

text \<open>One instance, for the witnesses. Floats are whatever bits the frequency has.\<close>

definition demo_lib :: lib where
  "demo_lib = \<lparr>zero_modulation = LORA, zero_timing = IMMEDIATELY, zero_fine_type = OtherFineType 0,
     modulation_String = (\<lambda>_. ''LORA''), timing_String = (\<lambda>_. ''IMMEDIATELY''),
     status_String = (\<lambda>s. if s = TX_OK then ''OK'' else ''TOO_LATE''),
     status_value = (\<lambda>s. if s = ''TOO_LATE'' then Some (TX_OTHER 2) else None),
     ptypes_Duration = map_option (\<lambda>d. pbd_seconds d * 1000000000 + ucast (pbd_nanos d)),
     ptypes_DurationProto = (\<lambda>d. \<lparr>pbd_seconds = go_div d Second, pbd_nanos = ucast (go_mod d Second)\<rparr>),
     ptypes_TimestampProto = Some, gps_NewTime = sint, mhz_of_hz = ucast, hz_of_mhz = ucast,
     f64_of_i32 = ucast\<rparr>"

lemma demo_lib_fields [simp]:
  "zero_modulation demo_lib = LORA" "modulation_String demo_lib = (\<lambda>_. ''LORA'')"
  "ptypes_Duration demo_lib = map_option (\<lambda>d. pbd_seconds d * 1000000000 + ucast (pbd_nanos d))"
  "ptypes_TimestampProto demo_lib = Some" "mhz_of_hz demo_lib = ucast" "hz_of_mhz demo_lib = ucast"
  "status_value demo_lib ''TOO_LATE'' = Some (TX_OTHER 2)"
  by (simp_all add: demo_lib_def)

end
