(* ===== verification/Stats.thy ===== *)
theory Stats
  imports Gw Encoding "HOL-Library.AList"
begin

text \<open>
  The statistics collector of a gateway (\<open>internal/backend/stats\<close>): counts of received and
  transmitted frames, in total, per frequency, per modulation and per acknowledgement
  status, handed out and reset by \<open>ExportStats\<close>.

  A modulation is counted under the hexadecimal text of its protobuf encoding; \<open>pm\<close> and
  \<open>pu\<close> are \<open>proto.Marshal\<close> and \<open>proto.Unmarshal\<close> of that message. The map per modulation
  is an association list with distinct keys, since the export walks it.
\<close>

record Collector =
  rxCount :: u32
  txCount :: u32
  rxPerFreqCount :: "u32 \<rightharpoonup> u32"
  txPerFreqCount :: "u32 \<rightharpoonup> u32"
  rxPerModulationCount :: "(string \<times> u32) list"
  txPerModulationCount :: "(string \<times> u32) list"
  txStatusCount :: "string \<rightharpoonup> u32"

definition reset :: "Collector \<Rightarrow> Collector" where
  "reset c = c\<lparr>rxCount := 0, txCount := 0, rxPerFreqCount := Map.empty,
     txPerFreqCount := Map.empty, rxPerModulationCount := [], txPerModulationCount := [],
     txStatusCount := Map.empty\<rparr>"

definition NewCollector :: Collector where
  "NewCollector = reset \<lparr>rxCount = 0, txCount = 0, rxPerFreqCount = Map.empty,
     txPerFreqCount = Map.empty, rxPerModulationCount = [], txPerModulationCount = [],
     txStatusCount = Map.empty\<rparr>"

definition bump_al :: "(string \<times> u32) list \<Rightarrow> string \<Rightarrow> (string \<times> u32) list" where
  "bump_al m k = AList.update k (get0 (map_of m) k + 1) m"

definition uplink_modulation :: "modulation_info \<Rightarrow> modulation_info" where
  "uplink_modulation i = (case GetLrFhssModulationInfo i of Some p \<Rightarrow> LrFhssInfo p
     | None \<Rightarrow> (case GetFskModulationInfo i of Some p \<Rightarrow> FskInfo p
     | None \<Rightarrow> (case GetLoraModulationInfo i of Some p \<Rightarrow> LoraInfo p | None \<Rightarrow> NoModulationInfo)))"

definition downlink_modulation :: "modulation_info \<Rightarrow> modulation_info" where
  "downlink_modulation i = (case GetFskModulationInfo i of Some p \<Rightarrow> FskInfo p
     | None \<Rightarrow> (case GetLoraModulationInfo i of Some p \<Rightarrow> LoraInfo p | None \<Rightarrow> NoModulationInfo))"

text \<open>Reading the frequency of a frame without transmission info dereferences nil.\<close>

definition CountUplink :: "(modulation_info \<Rightarrow> bytes option) \<Rightarrow> UplinkFrame \<Rightarrow> Collector \<Rightarrow> Collector result" where
  "CountUplink pm uf c =
     (case pm (case up_TxInfo uf of None \<Rightarrow> NoModulationInfo
           | Some t \<Rightarrow> uplink_modulation (ut_ModulationInfo t)) of
        None \<Rightarrow> Inr c
      | Some b \<Rightarrow>
          (case up_TxInfo uf of
             None \<Rightarrow> Inl (GoPanic ''nil pointer dereference'')
           | Some t \<Rightarrow> Inr (c\<lparr>rxCount := rxCount c + 1,
               rxPerFreqCount := bump (rxPerFreqCount c) (ut_Frequency t),
               rxPerModulationCount := bump_al (rxPerModulationCount c) (hex_encode b)\<rparr>)))"

definition count_tx :: "DownlinkTXInfo \<Rightarrow> bytes \<Rightarrow> Collector \<Rightarrow> Collector" where
  "count_tx t b c = c\<lparr>txCount := txCount c + 1,
     txPerFreqCount := bump (txPerFreqCount c) (dt_Frequency t),
     txPerModulationCount := bump_al (txPerModulationCount c) (hex_encode b)\<rparr>"

text \<open>The loop over the acknowledgement items; a failing marshal ends it.\<close>

fun count_items ::
  "lib \<Rightarrow> (modulation_info \<Rightarrow> bytes option) \<Rightarrow> DownlinkFrame \<Rightarrow> nat \<Rightarrow> tx_ack_status list
     \<Rightarrow> Collector \<Rightarrow> Collector result" where
  "count_items L pm dl i [] c = Inr c"
| "count_items L pm dl i (status # items) c =
     (if status = TX_IGNORED then count_items L pm dl (i + 1) items c
      else
        let c1 = c\<lparr>txStatusCount := bump (txStatusCount c) (status_String L status)\<rparr> in
        if status = TX_OK \<and> i < length (df_Items dl) then
          (case pm (case di_TxInfo (df_Items dl ! i) of None \<Rightarrow> NoModulationInfo
                | Some t \<Rightarrow> downlink_modulation (dt_ModulationInfo t)) of
             None \<Rightarrow> Inr c1
           | Some b \<Rightarrow>
               (case di_TxInfo (df_Items dl ! i) of
                  None \<Rightarrow> Inl (GoPanic ''nil pointer dereference'')
                | Some t \<Rightarrow> count_items L pm dl (i + 1) items (count_tx t b c1)))
        else count_items L pm dl (i + 1) items c1)"

definition CountDownlink ::
  "lib \<Rightarrow> (modulation_info \<Rightarrow> bytes option) \<Rightarrow> DownlinkFrame \<Rightarrow> DownlinkTXAck \<Rightarrow> Collector \<Rightarrow> Collector result" where
  "CountDownlink L pm dl ack c = count_items L pm dl 0 (ack_Items ack) c"

text \<open>A key that does not decode leaves the zero message.\<close>

definition export_modulations ::
  "(bytes \<Rightarrow> modulation_info) \<Rightarrow> (string \<times> u32) list \<Rightarrow> (modulation_info \<times> u32) list" where
  "export_modulations pu m = map (\<lambda>(bStr, n). (pu (case hex_decode bStr of None \<Rightarrow> [] | Some b \<Rightarrow> b), n)) m"

definition ExportStats :: "(bytes \<Rightarrow> modulation_info) \<Rightarrow> Collector \<Rightarrow> GatewayStats \<times> Collector" where
  "ExportStats pu c =
     (\<lparr>st_GatewayId = [], st_Ip = [], st_Time = None, st_Location = None, st_StatsId = [],
       st_RxPacketsReceived = rxCount c, st_RxPacketsReceivedOk = rxCount c,
       st_TxPacketsReceived = txCount c, st_TxPacketsEmitted = txCount c,
       st_RxPacketsPerFrequency = rxPerFreqCount c, st_TxPacketsPerFrequency = txPerFreqCount c,
       st_RxPacketsPerModulation = export_modulations pu (rxPerModulationCount c),
       st_TxPacketsPerModulation = export_modulations pu (txPerModulationCount c),
       st_TxPacketsPerStatus = txStatusCount c, st_MetaData = None\<rparr>, reset c)"

section \<open>Consistency of the counts\<close>

definition total_al :: "('k \<times> u32) list \<Rightarrow> u32" where
  "total_al m = sum_list (map snd m)"

lemma total_al_update:
  "distinct (map fst m) \<Longrightarrow> total_al (AList.update k v m) + get0 (map_of m) k = total_al m + v"
  by (induction m) (auto simp: total_al_def get0_def algebra_simps split: option.split
      dest: map_of_SomeD_set)

lemma total_al_bump [simp]: "distinct (map fst m) \<Longrightarrow> total_al (bump_al m k) = total_al m + 1"
  using total_al_update[of m k "get0 (map_of m) k + 1"]
  by (simp add: bump_al_def algebra_simps)

lemma distinct_bump_al [simp]: "distinct (map fst m) \<Longrightarrow> distinct (map fst (bump_al m k))"
  by (simp add: bump_al_def distinct_update)

lemma total_al_export [simp]: "total_al (export_modulations pu m) = total_al m"
  by (induction m) (auto simp: total_al_def export_modulations_def)

definition collector_ok :: "Collector \<Rightarrow> bool" where
  "collector_ok c \<longleftrightarrow> finite (dom (rxPerFreqCount c)) \<and> finite (dom (txPerFreqCount c))
     \<and> distinct (map fst (rxPerModulationCount c)) \<and> distinct (map fst (txPerModulationCount c))
     \<and> total (rxPerFreqCount c) = rxCount c \<and> total_al (rxPerModulationCount c) = rxCount c
     \<and> total (txPerFreqCount c) = txCount c \<and> total_al (txPerModulationCount c) = txCount c"

lemma reset_ok [simp, inv_intros]: "collector_ok (reset c)"
  by (simp add: collector_ok_def reset_def total_al_def)

lemma NewCollector_ok [simp, inv_intros]: "collector_ok NewCollector"
  by (simp add: NewCollector_def)

lemma CountUplink_ok [inv_intros]: "CountUplink pm uf c = Inr c' \<Longrightarrow> collector_ok c \<Longrightarrow> collector_ok c'"
  by (auto simp: CountUplink_def collector_ok_def split: option.splits)

lemma count_tx_ok: "collector_ok c \<Longrightarrow> collector_ok (count_tx t b c)"
  by (simp add: count_tx_def collector_ok_def)

lemma status_ok: "collector_ok (c\<lparr>txStatusCount := m\<rparr>) \<longleftrightarrow> collector_ok c"
  by (simp add: collector_ok_def)

lemma count_items_ok: "count_items L pm dl i items c = Inr c' \<Longrightarrow> collector_ok c \<Longrightarrow> collector_ok c'"
  by (induction L pm dl i items c rule: count_items.induct)
    (auto simp: Let_def status_ok count_tx_ok split: if_splits option.splits)

lemma CountDownlink_ok [inv_intros]:
  "CountDownlink L pm dl ack c = Inr c' \<Longrightarrow> collector_ok c \<Longrightarrow> collector_ok c'"
  by (auto simp: CountDownlink_def intro: count_items_ok)

inductive collector_step ::
  "lib \<Rightarrow> (modulation_info \<Rightarrow> bytes option) \<Rightarrow> (bytes \<Rightarrow> modulation_info) \<Rightarrow> Collector \<Rightarrow> Collector \<Rightarrow> bool"
  for L pm pu where
  step_uplink: "CountUplink pm uf c = Inr c' \<Longrightarrow> collector_step L pm pu c c'"
| step_downlink: "CountDownlink L pm dl ack c = Inr c' \<Longrightarrow> collector_step L pm pu c c'"
| step_export: "ExportStats pu c = (st, c') \<Longrightarrow> collector_step L pm pu c c'"

interpretation collector: inductive_invariant "\<lambda>c. c = NewCollector" "collector_step L pm pu" collector_ok
  for L pm pu
  by unfold_locales (auto elim!: collector_step.cases intro: inv_intros simp: ExportStats_def)

end
