(* ===== verification/StatsProps.thy ===== *)
theory StatsProps
  imports Stats
begin

text \<open>What the statistics promise: totals that agree, and counts that are those of the frames.\<close>

lemma reset_is_new: "reset c = NewCollector"
  by (simp add: reset_def NewCollector_def)

text \<open>Whatever was counted in whatever order, a report is consistent: the frames received
  are the sum of the counts per frequency and the sum of the counts per modulation, and so are
  the frames transmitted. The export starts the collector afresh.\<close>

lemma report_consistent:
  assumes "reachable (\<lambda>c. c = NewCollector) (collector_step L pm pu) c"
  shows "total (st_RxPacketsPerFrequency (fst (ExportStats pu c))) = st_RxPacketsReceived (fst (ExportStats pu c))
    \<and> total_al (st_RxPacketsPerModulation (fst (ExportStats pu c))) = st_RxPacketsReceived (fst (ExportStats pu c))
    \<and> total (st_TxPacketsPerFrequency (fst (ExportStats pu c))) = st_TxPacketsEmitted (fst (ExportStats pu c))
    \<and> total_al (st_TxPacketsPerModulation (fst (ExportStats pu c))) = st_TxPacketsEmitted (fst (ExportStats pu c))
    \<and> snd (ExportStats pu c) = NewCollector"
  using collector.inv_reachable[OF assms]
  by (simp add: ExportStats_def reset_is_new collector_ok_def)

section \<open>Counts are those of the frames\<close>


lemma uplink_modulation_id [simp]: "uplink_modulation i = i"
  by (cases i) (simp_all add: uplink_modulation_def)












end
