(* ===== verification/Sx1301.thy ===== *)
theory Sx1301
  imports Gw Encoding "HOL-Library.Multiset"
begin

text \<open>
  Placing channels on the two radios of a concentrator (\<open>internal/config/sx1301v1\<close>), in
  32-bit arithmetic as the code has it. \<open>sort.Sort\<close> is not stable, so the order of channels
  with equal keys is not determined: the sorting function is an argument, and \<open>sorts\<close> is
  what its documentation promises.

  The main lemma is \<open>radio_for_every_channel\<close>: when the radio frequencies can be determined,
  every channel is covered by a radio. It holds for channels whose bounds do not wrap.
\<close>

section \<open>The code\<close>

type_synonym channel_sort = "ChannelConfiguration list \<Rightarrow> ChannelConfiguration list"

definition radioBandwidthPerChannelBandwidth :: "u32 \<Rightarrow> u32 option" where
  "radioBandwidthPerChannelBandwidth bw =
     (if bw = 500000 then Some 1100000 else if bw = 250000 then Some 1000000
      else if bw = 125000 then Some 925000 else None)"

definition defaultRadioBandwidth :: u32 where "defaultRadioBandwidth = 925000"

definition channelBandwidth :: "ChannelConfiguration \<Rightarrow> u32" where
  "channelBandwidth c = (case ch_Modulation c of
     LORA \<Rightarrow> (case GetLoraModulationConfig (ch_ModulationConfig c) of
         Some m \<Rightarrow> lc_Bandwidth m * 1000 | None \<Rightarrow> 0)
   | FSK \<Rightarrow> (case GetFskModulationConfig (ch_ModulationConfig c) of
         Some m \<Rightarrow> fc_Bandwidth m * 1000 | None \<Rightarrow> 0)
   | _ \<Rightarrow> 0)"

definition radioBandwidth :: "ChannelConfiguration \<Rightarrow> u32" where
  "radioBandwidth c = (case radioBandwidthPerChannelBandwidth (channelBandwidth c) of
     Some w \<Rightarrow> w | None \<Rightarrow> defaultRadioBandwidth)"

definition minRadioCenterFreq :: "ChannelConfiguration \<Rightarrow> u32" where
  "minRadioCenterFreq c = ch_Frequency c - channelBandwidth c div 2 + radioBandwidth c div 2"

definition channelMax :: "ChannelConfiguration \<Rightarrow> u32" where
  "channelMax c = ch_Frequency c + channelBandwidth c div 2"

definition channelMin :: "ChannelConfiguration \<Rightarrow> u32" where
  "channelMin c = ch_Frequency c - channelBandwidth c div 2"

definition channel_error :: "ChannelConfiguration \<Rightarrow> go_err" where
  "channel_error c = ErrMsg (''channel '' @ show_dec (unat (ch_Frequency c))
     @ '' does not fit in radio bandwidth'')"

text \<open>One channel is placed: on a radio that covers it so far, or it defines the next one.\<close>

fun place :: "ChannelConfiguration \<Rightarrow> u32 list \<Rightarrow> u32 list result" where
  "place c [] = Inr []"
| "place c (r # rs) =
     (if r = 0 then Inr (minRadioCenterFreq c # rs)
      else if channelMax c \<le> r + radioBandwidth c div 2 then Inr (r # rs)
      else if rs = [] then Inl (channel_error c)
      else bind_res (place c rs) (\<lambda>rs'. Inr (r # rs')))"

fun place_all :: "ChannelConfiguration list \<Rightarrow> u32 list \<Rightarrow> u32 list result" where
  "place_all [] radios = Inr radios"
| "place_all (c # cs) radios = bind_res (place c radios) (place_all cs)"

text \<open>The channels are sorted in place: the caller's list is in the new order afterwards.\<close>

definition GetRadioFrequencies ::
  "channel_sort \<Rightarrow> ChannelConfiguration list \<Rightarrow> u32 list result \<times> ChannelConfiguration list" where
  "GetRadioFrequencies srt channels =
     (let cs = srt channels in (place_all cs [0, 0], cs))"

fun first_radio :: "ChannelConfiguration \<Rightarrow> nat \<Rightarrow> u32 list \<Rightarrow> nat option" where
  "first_radio c i [] = None"
| "first_radio c i (f # fs) =
     (if f - radioBandwidth c div 2 \<le> channelMin c \<and> channelMax c \<le> f + radioBandwidth c div 2
      then Some i else first_radio c (i + 1) fs)"

definition GetRadioForChannel :: "u32 list \<Rightarrow> ChannelConfiguration \<Rightarrow> nat result" where
  "GetRadioForChannel radios c = (case first_radio c 0 radios of
     Some i \<Rightarrow> Inr i | None \<Rightarrow> Inl (channel_error c))"

section \<open>Every placed channel has its radio\<close>

definition sorts :: "(ChannelConfiguration \<Rightarrow> 'k::linorder) \<Rightarrow> channel_sort \<Rightarrow> bool" where
  "sorts key srt \<longleftrightarrow> (\<forall>xs. mset (srt xs) = mset xs \<and> sorted (map key (srt xs)))"

lemma sorts_sort_key: "sorts key (sort_key key)"
  by (simp add: sorts_def)

text \<open>
  Channels whose bounds, and those of a radio placed on them, stay clear of the ends of
  the 32-bit range.
\<close>

definition plain_channel :: "ChannelConfiguration \<Rightarrow> bool" where
  "plain_channel c \<longleftrightarrow> channelBandwidth c \<le> 925000 \<and> 2000000 \<le> ch_Frequency c
     \<and> ch_Frequency c \<le> 4290000000"

lemma unat_div_2: "unat ((w :: u32) div 2) = unat w div 2"
  by (simp add: unat_div)

lemma bandwidths:
  assumes "plain_channel c"
  shows "unat (radioBandwidth c) \<in> {1100000, 1000000, 925000}"
    "unat (channelBandwidth c) \<le> unat (radioBandwidth c)" "unat (channelBandwidth c) \<le> 925000"
  using assms by (auto simp: plain_channel_def radioBandwidth_def radioBandwidthPerChannelBandwidth_def
      defaultRadioBandwidth_def word_le_nat_alt)

text \<open>A radio frequency that can be set is far enough from the ends of the range.\<close>

definition good_radio :: "u32 \<Rightarrow> bool" where
  "good_radio r \<longleftrightarrow> 1000000 \<le> unat r \<and> unat r \<le> 4290550000"

definition covers :: "ChannelConfiguration \<Rightarrow> u32 \<Rightarrow> bool" where
  "covers c f \<longleftrightarrow> f - radioBandwidth c div 2 \<le> channelMin c \<and> channelMax c \<le> f + radioBandwidth c div 2"

lemma plain_unat:
  assumes "plain_channel c"
  shows "unat (channelMin c) = unat (ch_Frequency c) - unat (channelBandwidth c) div 2"
    "unat (channelMax c) = unat (ch_Frequency c) + unat (channelBandwidth c) div 2"
    "unat (minRadioCenterFreq c) = unat (ch_Frequency c) - unat (channelBandwidth c) div 2
       + unat (radioBandwidth c) div 2"
proof -
  have b: "unat (channelBandwidth c) div 2 \<le> 462500" "unat (radioBandwidth c) div 2 \<le> 550000"
    using bandwidths[OF assms] by auto
  have f: "2000000 \<le> unat (ch_Frequency c)" "unat (ch_Frequency c) \<le> 4290000000"
    using assms by (auto simp: plain_channel_def word_le_nat_alt)
  have le: "channelBandwidth c div 2 \<le> ch_Frequency c"
    using b f by (simp add: word_le_nat_alt unat_div_2)
  show min: "unat (channelMin c) = unat (ch_Frequency c) - unat (channelBandwidth c) div 2"
    unfolding channelMin_def by (simp add: unat_sub[OF le] unat_div_2)
  show "unat (channelMax c) = unat (ch_Frequency c) + unat (channelBandwidth c) div 2"
    unfolding channelMax_def using b f by (simp add: unat_word_ariths(1) unat_div_2)
  have "minRadioCenterFreq c = channelMin c + radioBandwidth c div 2"
    by (simp add: minRadioCenterFreq_def channelMin_def)
  then show "unat (minRadioCenterFreq c) = unat (ch_Frequency c) - unat (channelBandwidth c) div 2
       + unat (radioBandwidth c) div 2"
    using b f min by (simp add: unat_word_ariths(1) unat_div_2)
qed

lemma center_good: "plain_channel c \<Longrightarrow> good_radio (minRadioCenterFreq c)"
  using bandwidths[of c] by (auto simp: good_radio_def plain_unat plain_channel_def word_le_nat_alt)

text \<open>The left bound is kept by the order of the channels.\<close>

lemma covers_iff:
  assumes "plain_channel c" "good_radio r"
  shows "covers c r \<longleftrightarrow> r \<le> minRadioCenterFreq c \<and> channelMax c \<le> r + radioBandwidth c div 2"
proof -
  have b: "unat (radioBandwidth c) div 2 \<le> 550000" using bandwidths[OF assms(1)] by auto
  have le: "radioBandwidth c div 2 \<le> r"
    using b assms(2) by (simp add: word_le_nat_alt unat_div_2 good_radio_def)
  have sub: "unat (r - radioBandwidth c div 2) = unat r - unat (radioBandwidth c) div 2"
    by (simp add: unat_sub[OF le] unat_div_2)
  have "r - radioBandwidth c div 2 \<le> channelMin c \<longleftrightarrow> r \<le> minRadioCenterFreq c"
    unfolding word_le_nat_alt sub plain_unat[OF assms(1)] by linarith
  then show ?thesis by (simp add: covers_def)
qed

lemma covers_center:
  assumes "plain_channel c"
  shows "covers c (minRadioCenterFreq c)"
proof -
  have b: "unat (radioBandwidth c) div 2 \<le> 550000" using bandwidths[OF assms] by auto
  have f: "2000000 \<le> unat (ch_Frequency c)"
    using assms by (simp add: plain_channel_def word_le_nat_alt)
  have "unat (minRadioCenterFreq c + radioBandwidth c div 2)
      = unat (minRadioCenterFreq c) + unat (radioBandwidth c) div 2"
    using b center_good[OF assms] by (simp add: unat_word_ariths(1) unat_div_2 good_radio_def)
  then have "channelMax c \<le> minRadioCenterFreq c + radioBandwidth c div 2"
    unfolding word_le_nat_alt using plain_unat[OF assms] bandwidths[OF assms] f
    by (elim insertE emptyE) (simp, linarith)+
  then show ?thesis by (simp add: covers_iff[OF assms center_good[OF assms]])
qed

text \<open>Radios that are set stay, and they lie below the channels still to come.\<close>

definition radios_below :: "u32 list \<Rightarrow> u32 \<Rightarrow> bool" where
  "radios_below rs k \<longleftrightarrow> (\<forall>r \<in> set rs. r = 0 \<or> (good_radio r \<and> r \<le> k))"

lemma radios_below_Cons: "radios_below (r # rs) k \<longleftrightarrow>
    (r = 0 \<or> (good_radio r \<and> r \<le> k)) \<and> radios_below rs k"
  by (auto simp: radios_below_def)

lemma radios_below_mono: "radios_below rs k \<Longrightarrow> k \<le> k' \<Longrightarrow> radios_below rs k'"
  by (auto simp: radios_below_def)

lemma place_spec:
  assumes "place c rs = Inr rs'" "plain_channel c" "radios_below rs (minRadioCenterFreq c)" "rs \<noteq> []"
  shows "length rs' = length rs \<and> radios_below rs' (minRadioCenterFreq c)
    \<and> set rs - {0} \<subseteq> set rs' \<and> (\<exists>r \<in> set rs' - {0}. covers c r)"
  using assms
proof (induction c rs arbitrary: rs' rule: place.induct)
  case (2 c r rs)
  have zero: "minRadioCenterFreq c \<noteq> 0" using center_good[OF "2.prems"(2)] by (auto simp: good_radio_def)
  consider "r = 0" | "r \<noteq> 0" "channelMax c \<le> r + radioBandwidth c div 2"
    | "r \<noteq> 0" "\<not> channelMax c \<le> r + radioBandwidth c div 2" by blast
  then show ?case
  proof cases
    case 1
    with "2.prems" zero show ?thesis
      by (auto simp: radios_below_Cons center_good intro!: bexI[of _ "minRadioCenterFreq c"] covers_center)
  next
    case 2
    with "2.prems" show ?thesis
      by (auto simp: radios_below_Cons covers_iff intro!: bexI[of _ r])
  next
    case 3
    with "2.prems"(1) obtain rs1 where rs1: "rs \<noteq> []" "place c rs = Inr rs1" "rs' = r # rs1"
      by (auto simp: bind_res_Inr_iff split: if_splits)
    from "2.IH"[OF 3 rs1(1,2) "2.prems"(2) _ rs1(1)] "2.prems"(3) rs1(3) show ?thesis
      by (auto simp: radios_below_Cons)
  qed
qed simp

lemma place_all_spec:
  assumes "place_all cs rs = Inr rs'" "\<forall>c \<in> set cs. plain_channel c"
    and "sorted (map minRadioCenterFreq cs)" "rs \<noteq> []"
    and "\<forall>c \<in> set cs. radios_below rs (minRadioCenterFreq c)"
  shows "length rs' = length rs \<and> set rs - {0} \<subseteq> set rs' \<and> (\<forall>c \<in> set cs. \<exists>r \<in> set rs'. covers c r)"
  using assms
proof (induction cs arbitrary: rs)
  case (Cons c cs)
  obtain rs1 where rs1: "place c rs = Inr rs1" "place_all cs rs1 = Inr rs'"
    using Cons.prems(1) by (auto simp: bind_res_Inr_iff)
  have p: "length rs1 = length rs \<and> radios_below rs1 (minRadioCenterFreq c)
    \<and> set rs - {0} \<subseteq> set rs1 \<and> (\<exists>r \<in> set rs1 - {0}. covers c r)"
    by (rule place_spec[OF rs1(1)]) (use Cons.prems in auto)
  have "length rs' = length rs1 \<and> set rs1 - {0} \<subseteq> set rs' \<and> (\<forall>c \<in> set cs. \<exists>r \<in> set rs'. covers c r)"
    by (rule Cons.IH[OF rs1(2)]) (use Cons.prems p in \<open>auto intro: radios_below_mono\<close>)
  with p show ?case by auto
qed simp

lemma first_radio_spec:
  "\<exists>r \<in> set fs. covers c r \<Longrightarrow>
     \<exists>i. first_radio c k fs = Some i \<and> k \<le> i \<and> i < k + length fs \<and> covers c (fs ! (i - k))"
proof (induction c k fs rule: first_radio.induct)
  case (2 c k f fs)
  show ?case
  proof (cases "covers c f")
    case True
    then show ?thesis by (simp add: covers_def)
  next
    case False
    with 2 obtain i where "first_radio c (k + 1) fs = Some i" "k + 1 \<le> i" "i < k + 1 + length fs"
      "covers c (fs ! (i - (k + 1)))" by (auto simp: covers_def)
    with False show ?thesis by (auto simp: covers_def nth_Cons' Suc_le_eq)
  qed
qed simp

lemma place_good: "place c rs = Inr rs' \<Longrightarrow> plain_channel c \<Longrightarrow>
    \<forall>r \<in> set rs. r = 0 \<or> good_radio r \<Longrightarrow> \<forall>r \<in> set rs'. r = 0 \<or> good_radio r"
  by (induction c rs arbitrary: rs' rule: place.induct)
    (auto simp: bind_res_Inr_iff center_good split: if_splits)

lemma place_all_good: "place_all cs rs = Inr rs' \<Longrightarrow> \<forall>c \<in> set cs. plain_channel c \<Longrightarrow>
    \<forall>r \<in> set rs. r = 0 \<or> good_radio r \<Longrightarrow> \<forall>r \<in> set rs'. r = 0 \<or> good_radio r"
  by (induction cs arbitrary: rs) (auto simp: bind_res_Inr_iff dest!: place_good)

lemma not_covers_0: "plain_channel c \<Longrightarrow> \<not> covers c 0"
proof
  assume c: "plain_channel c" "covers c 0"
  have "radioBandwidth c \<in> {1100000, 1000000, 925000}"
    by (simp add: radioBandwidth_def radioBandwidthPerChannelBandwidth_def defaultRadioBandwidth_def)
  then have "unat (0 - radioBandwidth c div 2) \<ge> 4294000000" by auto
  moreover have "unat (channelMin c) \<le> 4290000000"
    using plain_unat(1)[OF c(1)] c(1) by (simp add: plain_channel_def word_le_nat_alt) linarith
  ultimately show False using c(2) by (simp add: covers_def word_le_nat_alt)
qed

lemma covers_unat:
  assumes "plain_channel c" "good_radio r" "covers c r"
  shows "unat r + unat (channelBandwidth c) div 2 \<le> unat (ch_Frequency c) + unat (radioBandwidth c) div 2
    \<and> unat (ch_Frequency c) + unat (channelBandwidth c) div 2 \<le> unat r + unat (radioBandwidth c) div 2"
proof -
  have b: "unat (radioBandwidth c) div 2 \<le> 550000" "unat (channelBandwidth c) div 2 \<le> 462500"
    using bandwidths[OF assms(1)] by auto
  have f: "2000000 \<le> unat (ch_Frequency c)"
    using assms(1) by (simp add: plain_channel_def word_le_nat_alt)
  have r: "unat (r + radioBandwidth c div 2) = unat r + unat (radioBandwidth c) div 2"
    using b assms(2) by (simp add: unat_word_ariths(1) unat_div_2 good_radio_def)
  show ?thesis
    using assms(3) b f
    unfolding covers_iff[OF assms(1,2)] word_le_nat_alt plain_unat[OF assms(1)] r by linarith
qed

lemma radio_for_every_channel:
  assumes "sorts minRadioCenterFreq srt" "GetRadioFrequencies srt channels = (Inr radios, cs)"
    and "\<forall>c \<in> set channels. plain_channel c" "c \<in> set channels"
  shows "\<exists>i < 2. GetRadioForChannel radios c = Inr i \<and> covers c (radios ! i) \<and> good_radio (radios ! i)"
proof -
  have cs: "cs = srt channels" "place_all cs [0, 0] = Inr radios"
    using assms(2) by (auto simp: GetRadioFrequencies_def Let_def)
  have s: "set cs = set channels" "sorted (map minRadioCenterFreq cs)"
    using assms(1) cs(1) by (auto simp: sorts_def dest: mset_eq_setD)
  have p: "length radios = length [0, 0 :: u32] \<and> set [0, 0 :: u32] - {0} \<subseteq> set radios
    \<and> (\<forall>c \<in> set cs. \<exists>r \<in> set radios. covers c r)"
    by (rule place_all_spec[OF cs(2)]) (use assms(3) s in \<open>auto simp: radios_below_def\<close>)
  have good: "\<forall>r \<in> set radios. r = 0 \<or> good_radio r"
    by (rule place_all_good[OF cs(2)]) (use assms(3) s in auto)
  from p assms(4) s(1) have "\<exists>r \<in> set radios. covers c r" by blast
  from first_radio_spec[OF this, of 0] p obtain i where
    "GetRadioForChannel radios c = Inr i" "i < 2" "i < length radios" "covers c (radios ! i)"
    by (auto simp: GetRadioForChannel_def)
  moreover from this good have "good_radio (radios ! i)"
    using not_covers_0 assms(3,4) by (metis nth_mem)
  ultimately show ?thesis by blast
qed

end
