(* ===== verification/Registry.thy ===== *)
theory Registry
  imports Stats
begin

text \<open>
  The gateway registries of both backends and the contract they share.

  A registry maps gateway IDs to connections and tells a subscriber, if there is one, when a
  gateway comes and goes (\<open>internal/backend/events\<close>). \<open>semtechudp/registry.go\<close> learns of
  gateways by their PULL_DATA and forgets them when they fall silent;
  \<open>basicstation/gateway.go\<close> follows websocket connections. The contract \<open>gateway_registry\<close>
  says that the subscriber can always rebuild the set of registered gateways from the
  events, in order.
\<close>


record Subscribe =
  sub_Subscribe :: bool
  sub_GatewayID :: EUI64

definition errGatewayDoesNotExist :: go_err where
  "errGatewayDoesNotExist = ErrMsg ''gateway does not exist''"

section \<open>The contract\<close>

text \<open>What a subscriber does with the events it is given.\<close>

definition apply_event :: "Subscribe \<Rightarrow> EUI64 set \<Rightarrow> EUI64 set" where
  "apply_event e S = (if sub_Subscribe e then insert (sub_GatewayID e) S else S - {sub_GatewayID e})"

definition replay :: "Subscribe list \<Rightarrow> EUI64 set \<Rightarrow> EUI64 set" where
  "replay es S = fold apply_event es S"

lemma replay_simps [simp]:
  "replay [] S = S"
  "replay (e # es) S = replay es (apply_event e S)"
  "replay (es @ fs) S = replay fs (replay es S)"
  by (simp_all add: replay_def)

text \<open>
  A registry has a domain, a look-up and operations; one run of an operation yields the
  events it sent. Looking up succeeds exactly on the domain, and the events of an operation
  describe what it did to the domain.
\<close>

locale gateway_registry =
  fixes valid :: "'r \<Rightarrow> bool" and registered :: "'r \<Rightarrow> EUI64 set"
    and find :: "'r \<Rightarrow> EUI64 \<Rightarrow> 'c option" and run :: "'op \<Rightarrow> 'r \<Rightarrow> 'r \<times> Subscribe list"
  assumes find_iff: "find r g = None \<longleftrightarrow> g \<notin> registered r"
    and run_valid: "valid r \<Longrightarrow> run op r = (r', es) \<Longrightarrow> valid r'"
    and run_events: "valid r \<Longrightarrow> run op r = (r', es) \<Longrightarrow> replay es (registered r) = registered r'"
begin

fun run_all :: "'op list \<Rightarrow> 'r \<Rightarrow> 'r \<times> Subscribe list" where
  "run_all [] r = (r, [])"
| "run_all (op # ops) r = (case run op r of (r1, es) \<Rightarrow>
     (case run_all ops r1 of (r2, fs) \<Rightarrow> (r2, es @ fs)))"

lemma run_all_events:
  "valid r \<Longrightarrow> run_all ops r = (r', es) \<Longrightarrow> replay es (registered r) = registered r'"
proof (induction ops arbitrary: r r' es)
  case (Cons op ops)
  obtain r1 es1 where 1: "run op r = (r1, es1)" by fastforce
  obtain r2 es2 where 2: "run_all ops r1 = (r2, es2)" by fastforce
  from Cons.prems(2) 1 2 have "r' = r2" "es = es1 @ es2" by auto
  with Cons.IH[OF run_valid[OF Cons.prems(1) 1] 2] run_events[OF Cons.prems(1) 1] show ?case by simp
qed simp

lemma find_after_events:
  assumes "valid r" "run_all ops r = (r', es)"
  shows "find r' g \<noteq> None \<longleftrightarrow> g \<in> replay es (registered r)"
  using run_all_events[OF assms] find_iff[of r' g] by auto

end

section \<open>Semtech UDP\<close>

record gateway =
  gw_stats :: Collector
  gw_addr :: string
  gw_lastSeen :: gotime
  gw_protocolVersion :: u8

type_synonym gateways = "(EUI64 \<times> gateway) list"

definition gateways_get :: "gateways \<Rightarrow> EUI64 \<Rightarrow> gateway result" where
  "gateways_get c mac = (case map_of c mac of None \<Rightarrow> Inl errGatewayDoesNotExist | Some gw \<Rightarrow> Inr gw)"

text \<open>The clock is read once for the pass over the registry, which is in the order of the list (a
  Go map has none). A known gateway keeps its statistics, a new one starts fresh ones.\<close>

definition gateways_set :: "bool \<Rightarrow> EUI64 \<Rightarrow> gateway \<Rightarrow> gateways \<Rightarrow> gateways \<times> Subscribe list" where
  "gateways_set subscriber gatewayID gw c =
     (let gw1 = (case map_of c gatewayID of
            None \<Rightarrow> gw\<lparr>gw_stats := NewCollector\<rparr>
          | Some gww \<Rightarrow> gw\<lparr>gw_stats := gw_stats gww\<rparr>) in
      (AList.update gatewayID gw1 c,
       if subscriber then [\<lparr>sub_Subscribe = True, sub_GatewayID = gatewayID\<rparr>] else []))"

definition gatewayCleanupDuration :: int where
  "gatewayCleanupDuration = - (60 * Second)"

definition expired :: "gotime \<Rightarrow> gateway \<Rightarrow> bool" where
  "expired now gw \<longleftrightarrow> gw_lastSeen gw < now + gatewayCleanupDuration"

definition gateways_cleanup :: "bool \<Rightarrow> gotime \<Rightarrow> gateways \<Rightarrow> gateways \<times> Subscribe list" where
  "gateways_cleanup subscriber now c =
     (filter (\<lambda>(g, gw). \<not> expired now gw) c,
      if subscriber then map (\<lambda>(g, gw). \<lparr>sub_Subscribe = False, sub_GatewayID = g\<rparr>)
        (filter (\<lambda>(g, gw). expired now gw) c) else [])"

datatype semtech_op = OpSet EUI64 gateway | OpCleanup gotime

fun semtech_run :: "semtech_op \<Rightarrow> gateways \<Rightarrow> gateways \<times> Subscribe list" where
  "semtech_run (OpSet g gw) c = gateways_set True g gw c"
| "semtech_run (OpCleanup now) c = gateways_cleanup True now c"

lemma distinct_gateways_set: "distinct (map fst c) \<Longrightarrow> distinct (map fst (fst (gateways_set b g gw c)))"
  by (simp add: gateways_set_def Let_def distinct_update)

lemma distinct_gateways_cleanup: "distinct (map fst c) \<Longrightarrow> distinct (map fst (fst (gateways_cleanup b now c)))"
  by (simp add: gateways_cleanup_def distinct_map_filter)

lemma get_set_same:
  "gateways_get (fst (gateways_set b g gw c)) g = Inr (gw\<lparr>gw_stats :=
     (case map_of c g of None \<Rightarrow> NewCollector | Some gww \<Rightarrow> gw_stats gww)\<rparr>)"
  by (simp add: gateways_get_def gateways_set_def Let_def update_conv' split: option.split)

lemma get_set_other: "h \<noteq> g \<Longrightarrow> gateways_get (fst (gateways_set b g gw c)) h = gateways_get c h"
  by (simp add: gateways_get_def gateways_set_def Let_def update_conv')

lemma map_of_filter_distinct:
  "distinct (map fst c) \<Longrightarrow> map_of (filter (\<lambda>(k, v). P v) c) k =
     (case map_of c k of None \<Rightarrow> None | Some v \<Rightarrow> if P v then Some v else None)"
proof (induction c)
  case (Cons p c)
  obtain j v where p: "p = (j, v)" by fastforce
  have "j = k \<Longrightarrow> map_of c k = None" using Cons.prems p by (simp add: map_of_eq_None_iff)
  with Cons p show ?case by (auto split: option.split)
qed simp

lemma get_cleanup:
  "distinct (map fst c) \<Longrightarrow> gateways_get (fst (gateways_cleanup b now c)) g =
     (case map_of c g of None \<Rightarrow> Inl errGatewayDoesNotExist
      | Some gw \<Rightarrow> if expired now gw then Inl errGatewayDoesNotExist else Inr gw)"
  using map_of_filter_distinct[of c "\<lambda>gw. \<not> expired now gw" g]
  by (simp add: gateways_get_def gateways_cleanup_def split: option.split)

lemma gateways_get_None: "ok_result (gateways_get c g) = None \<longleftrightarrow> g \<notin> fst ` set c"
  by (simp add: gateways_get_def map_of_eq_None_iff split: option.split)
    (metis map_of_eq_None_iff option.distinct(1))

lemma replay_removals: "replay (map (\<lambda>(g, gw). \<lparr>sub_Subscribe = False, sub_GatewayID = g\<rparr>) xs) S
    = S - fst ` set xs"
  by (induction xs arbitrary: S) (auto simp: apply_event_def)

lemma replay_cleanup:
  assumes "distinct (map fst c)"
  shows "fst ` set c - fst ` set (filter (\<lambda>(g, gw). expired now gw) c)
    = fst ` set (filter (\<lambda>(g, gw). \<not> expired now gw) c)"
  using assms
proof (induction c)
  case (Cons p c)
  obtain g gw where p: "p = (g, gw)" by fastforce
  have sub: "fst ` set (filter (\<lambda>(g, gw). expired now gw) c) \<subseteq> fst ` set c" by auto
  have g: "g \<notin> fst ` set c" using Cons.prems p by simp
  have "fst ` set c - fst ` set (filter (\<lambda>(g, gw). expired now gw) c)
      = fst ` set (filter (\<lambda>(g, gw). \<not> expired now gw) c)"
    using Cons by simp
  then show ?case using g sub
    by (cases "expired now gw") (simp_all add: p insert_Diff_if del: set_filter, blast+)
qed simp

interpretation semtech: gateway_registry "\<lambda>c. distinct (map fst c)" "\<lambda>c. fst ` set c"
  "\<lambda>c g. ok_result (gateways_get c g)" semtech_run
proof unfold_locales
  fix r r' op es
  assume "distinct (map fst (r :: gateways))" and run: "semtech_run op r = (r', es)"
  then show "distinct (map fst r')"
    using distinct_gateways_set[of r True] distinct_gateways_cleanup[of r True]
    by (cases op) (simp_all, metis fst_conv, metis fst_conv)
  show "replay es (fst ` set r) = fst ` set r'"
    using run replay_cleanup[OF \<open>distinct (map fst r)\<close>]
    by (cases op) (clarsimp simp: gateways_set_def gateways_cleanup_def Let_def dom_update apply_event_def
        replay_removals simp del: set_filter)+
qed (rule gateways_get_None)

section \<open>Basic Station\<close>

text \<open>The websocket itself is a number; the statistics belong to the connection.\<close>

record connection =
  bc_conn :: nat
  bc_stats :: Collector
  bc_lastTimesync :: gotime

type_synonym connections = "(EUI64 \<times> connection) list"

definition bs_get :: "connections \<Rightarrow> EUI64 \<Rightarrow> connection result" where
  "bs_get g i = (case map_of g i of None \<Rightarrow> Inl errGatewayDoesNotExist | Some gw \<Rightarrow> Inr gw)"

definition bs_set :: "bool \<Rightarrow> EUI64 \<Rightarrow> connection \<Rightarrow> connections \<Rightarrow> connections \<times> Subscribe list" where
  "bs_set subscriber i c g =
     (AList.update i c g, if subscriber then [\<lparr>sub_Subscribe = True, sub_GatewayID = i\<rparr>] else [])"

definition bs_getLastTimesync :: "connections \<Rightarrow> EUI64 \<Rightarrow> gotime result" where
  "bs_getLastTimesync g i = (case map_of g i of None \<Rightarrow> Inl errGatewayDoesNotExist
     | Some gw \<Rightarrow> Inr (bc_lastTimesync gw))"

definition bs_setLastTimesync :: "EUI64 \<Rightarrow> gotime \<Rightarrow> connections \<Rightarrow> go_err option \<times> connections" where
  "bs_setLastTimesync i ts g = (case map_of g i of None \<Rightarrow> (Some errGatewayDoesNotExist, g)
     | Some gw \<Rightarrow> (None, AList.update i (gw\<lparr>bc_lastTimesync := ts\<rparr>) g))"

definition bs_remove :: "bool \<Rightarrow> EUI64 \<Rightarrow> connections \<Rightarrow> connections \<times> Subscribe list" where
  "bs_remove subscriber i g =
     (AList.delete i g, if subscriber then [\<lparr>sub_Subscribe = False, sub_GatewayID = i\<rparr>] else [])"

datatype bs_op = OpConnect EUI64 connection | OpRemove EUI64 | OpTimesync EUI64 gotime

fun bs_run :: "bs_op \<Rightarrow> connections \<Rightarrow> connections \<times> Subscribe list" where
  "bs_run (OpConnect i c) g = bs_set True i c g"
| "bs_run (OpRemove i) g = bs_remove True i g"
| "bs_run (OpTimesync i ts) g = (snd (bs_setLastTimesync i ts g), [])"

lemma delete_keys': "fst ` set (AList.delete k g) = fst ` set g - {k}"
  by (auto simp: AList.delete_eq)

lemma bs_get_None: "ok_result (bs_get c g) = None \<longleftrightarrow> g \<notin> fst ` set c"
  by (simp add: bs_get_def map_of_eq_None_iff split: option.split)
    (metis map_of_eq_None_iff option.distinct(1))

interpretation bs: gateway_registry "\<lambda>c. distinct (map fst c)" "\<lambda>c. fst ` set c"
  "\<lambda>c g. ok_result (bs_get c g)" bs_run
proof unfold_locales
  fix r r' op es
  assume d: "distinct (map fst (r :: connections))" and run: "bs_run op r = (r', es)"
  then show "distinct (map fst r')"
    by (cases op) (auto simp: bs_set_def bs_remove_def bs_setLastTimesync_def distinct_update
        distinct_delete split: option.splits)
  show "replay es (fst ` set r) = fst ` set r'"
    using run d by (cases op) (clarsimp simp: bs_set_def bs_remove_def bs_setLastTimesync_def dom_update
        delete_keys' apply_event_def insert_absorb rev_image_eqI dest!: map_of_SomeD split: option.splits)+
qed (rule bs_get_None)

end
