(* ===== verification/Structs.thy ===== *)
theory Structs
  imports Gw Encoding Registry
begin

text \<open>
  Basic Station's messages and their translation (\<open>basicstation/structs\<close>): uplinks, joins,
  proprietary frames and transmission confirmations become messages for the network server,
  a downlink becomes a \<open>dnmsg\<close>.

  The band plan is \<open>lorawan/band\<close>, an argument: the data-rate of an index, and the index of
  a data-rate. So are the conversions of floating-point numbers. The JSON forms of the
  messages are their records; the field names follow the tags.

  Slicing a Go slice beyond its length reads what lies between its length and its capacity.
  \<open>spare\<close> gives these bytes for the context of a downlink, the one place where that happens.
\<close>

section \<open>Data\<close>

datatype band_modulation = LoRaModulation | FSKModulation | OtherBandModulation string

record DataRate =
  dr_Modulation :: band_modulation
  dr_SpreadFactor :: int
  dr_Bandwidth :: int
  dr_BitRate :: int

record band =
  GetDataRate :: "int \<Rightarrow> DataRate option"
  GetDataRateIndex :: "bool \<Rightarrow> DataRate \<Rightarrow> int option"

record bs_lib =
  bl_lib :: lib
  bl_band :: band
  i32_of_f32 :: "32 word \<Rightarrow> u32"
  f64_of_f32 :: "32 word \<Rightarrow> float64"
  math_Modf :: "float64 \<Rightarrow> float64 \<times> float64"
  i64_of_f64 :: "float64 \<Rightarrow> u64"

datatype MessageType =
    VersionMessage | RouterConfigMessage | JoinRequestMessage | UplinkDataFrameMessage
  | ProprietaryDataFrameMessage | DownlinkMessage | DownlinkTransmittedMessage | TimeSyncMessage
  | OtherMessage string

definition message_type_names :: "(string \<times> MessageType) list" where
  "message_type_names = [(''version'', VersionMessage), (''router_config'', RouterConfigMessage),
     (''jreq'', JoinRequestMessage), (''updf'', UplinkDataFrameMessage),
     (''propdf'', ProprietaryDataFrameMessage), (''dnmsg'', DownlinkMessage),
     (''dntxed'', DownlinkTransmittedMessage), (''timesync'', TimeSyncMessage)]"

text \<open>\<open>msgtype\<close> is the \<open>msgtype\<close> field of a JSON text, empty when it has none.\<close>

definition GetMessageType :: "(bytes \<Rightarrow> string option) \<Rightarrow> bytes \<Rightarrow> MessageType result" where
  "GetMessageType msgtype b = (case msgtype b of
     None \<Rightarrow> Inl (Wrap ''unmarshal message-type error'' (LibErr ''json''))
   | Some t \<Rightarrow> Inr (case map_of message_type_names t of Some mt \<Rightarrow> mt | None \<Rightarrow> OtherMessage t))"

record RadioMetaDataUpInfo =
  ui_RxTime :: float64
  ui_RCtx :: u64
  ui_XTime :: u64
  ui_GPSTime :: u64
  ui_RSSI :: "32 word"
  ui_SNR :: "32 word"

record RadioMetaData =
  rmd_DR :: int
  rmd_Frequency :: u32
  rmd_UpInfo :: RadioMetaDataUpInfo

record UplinkDataFrame =
  updf_RadioMetaData :: RadioMetaData
  updf_MHDR :: u8
  updf_DevAddr :: u32
  updf_FCtrl :: u8
  updf_FCnt :: u16
  updf_FOpts :: string
  updf_FPort :: int
  updf_FRMPayload :: string
  updf_MIC :: u32

record JoinRequest =
  jr_RadioMetaData :: RadioMetaData
  jr_MHDR :: u8
  jr_JoinEUI :: EUI64
  jr_DevEUI :: EUI64
  jr_DevNonce :: u16
  jr_MIC :: u32

record UplinkProprietaryFrame =
  uppf_RadioMetaData :: RadioMetaData
  uppf_FRMPayload :: string

record DownlinkTransmitted =
  dnt_DIID :: u32

record TimeSyncRequest =
  tsr_TxTime :: u64

record TimeSyncResponse =
  tsp_TxTime :: u64
  tsp_GPSTime :: u64

record TimeSyncGPSTimeTransfer =
  tst_XTime :: u64
  tst_GPSTime :: u64

section \<open>Uplinks\<close>

text \<open>\<open>time.Unix\<close>, as nanoseconds since Go's zero time.\<close>

definition time_Unix :: "u64 \<Rightarrow> u64 \<Rightarrow> gotime" where
  "time_Unix sec nsec = (62135596800 + sint sec) * Second + sint nsec"

definition uplink_txinfo :: "DataRate \<Rightarrow> u32 \<Rightarrow> lib \<Rightarrow> UplinkTXInfo" where
  "uplink_txinfo dr freq L = (case dr_Modulation dr of
     LoRaModulation \<Rightarrow> \<lparr>ut_Frequency = freq, ut_Modulation = LORA,
       ut_ModulationInfo = LoraInfo \<lparr>l_Bandwidth = word_of_int (dr_Bandwidth dr),
         l_SpreadingFactor = word_of_int (dr_SpreadFactor dr), l_CodeRate = ''4/5'',
         l_PolarizationInversion = False\<rparr>\<rparr>
   | FSKModulation \<Rightarrow> \<lparr>ut_Frequency = freq, ut_Modulation = FSK,
       ut_ModulationInfo = FskInfo \<lparr>f_FrequencyDeviation = 0,
         f_Datarate = word_of_int (dr_BitRate dr)\<rparr>\<rparr>
   | _ \<Rightarrow> \<lparr>ut_Frequency = freq, ut_Modulation = zero_modulation L,
       ut_ModulationInfo = NoModulationInfo\<rparr>)"

definition set_rxtime :: "bs_lib \<Rightarrow> float64 \<Rightarrow> UplinkRXInfo \<Rightarrow> UplinkRXInfo result" where
  "set_rxtime B rxTime rx =
     (if f64_is_zero rxTime then Inr rx
      else case math_Modf B rxTime of (sec, nsec) \<Rightarrow>
        if f64_is_zero sec then Inr rx
        else (case ptypes_TimestampProto (bl_lib B) (time_Unix (i64_of_f64 B sec) (i64_of_f64 B nsec)) of
            None \<Rightarrow> Inl (Wrap ''rxtime/timestamp proto error'' (LibErr ''ptypes''))
          | Some t \<Rightarrow> Inr (rx\<lparr>rx_Time := Some t\<rparr>)))"

definition set_gpstime :: "bs_lib \<Rightarrow> u64 \<Rightarrow> UplinkRXInfo \<Rightarrow> UplinkRXInfo result" where
  "set_gpstime B gpsTime rx =
     (if gpsTime = 0 then Inr rx
      else let dur = gpsTime * 1000 in
        (case ptypes_TimestampProto (bl_lib B) (gps_NewTime (bl_lib B) dur) of
            None \<Rightarrow> Inl (Wrap ''GPSTime/timestamp proto error'' (LibErr ''ptypes''))
          | Some t \<Rightarrow> Inr (rx\<lparr>rx_TimeSinceGpsEpoch := Some (ptypes_DurationProto (bl_lib B) dur),
              rx_Time := Some t\<rparr>)))"

definition put_context :: "u64 \<Rightarrow> u64 \<Rightarrow> bytes" where
  "put_context rctx xtime = put_be 8 rctx @ put_be 8 xtime"

text \<open>The frame starts out zero; only the radio meta-data is set here.\<close>

definition SetRadioMetaDataToProto ::
  "bs_lib \<Rightarrow> EUI64 \<Rightarrow> RadioMetaData \<Rightarrow> UplinkFrame \<Rightarrow> UplinkFrame result" where
  "SetRadioMetaDataToProto B gatewayID rmd pb =
     (case GetDataRate (bl_band B) (rmd_DR rmd) of
        None \<Rightarrow> Inl (Wrap ''get data-rate error'' (LibErr ''band''))
      | Some dr \<Rightarrow>
          let ui = rmd_UpInfo rmd;
            rx = \<lparr>rx_GatewayId = gatewayID, rx_Time = None, rx_TimeSinceGpsEpoch = None,
              rx_Rssi = i32_of_f32 B (ui_RSSI ui), rx_LoraSnr = f64_of_f32 B (ui_SNR ui),
              rx_Channel = 0, rx_RfChain = 0, rx_Board = 0, rx_Antenna = 0, rx_Context = [],
              rx_CrcStatus = CRC_OK, rx_FineTimestampType = zero_fine_type (bl_lib B),
              rx_FineTimestamp = NoFineTimestamp, rx_UplinkId = []\<rparr> in
          bind_res (bind_res (set_rxtime B (ui_RxTime ui) rx) (set_gpstime B (ui_GPSTime ui)))
            (\<lambda>rx2. Inr (pb\<lparr>up_TxInfo := Some (uplink_txinfo dr (rmd_Frequency rmd) (bl_lib B)),
               up_RxInfo := Some (rx2\<lparr>rx_Context := put_context (ui_RCtx ui) (ui_XTime ui)\<rparr>)\<rparr>)))"

definition empty_uplink :: UplinkFrame where
  "empty_uplink = \<lparr>up_PhyPayload = [], up_TxInfo = None, up_RxInfo = None\<rparr>"

definition radio_frame :: "bs_lib \<Rightarrow> EUI64 \<Rightarrow> RadioMetaData \<Rightarrow> UplinkFrame result" where
  "radio_frame B gatewayID rmd =
     wrap_err ''set radio meta-data error'' (SetRadioMetaDataToProto B gatewayID rmd empty_uplink)"

definition append_phy :: "bytes \<Rightarrow> UplinkFrame \<Rightarrow> UplinkFrame" where
  "append_phy b pb = pb\<lparr>up_PhyPayload := up_PhyPayload pb @ b\<rparr>"

definition decode_field :: "string \<Rightarrow> string \<Rightarrow> bytes result" where
  "decode_field msg s = (case hex_decode s of
     None \<Rightarrow> Inl (Wrap msg (LibErr ''hex'')) | Some b \<Rightarrow> Inr b)"

definition updf_port :: "UplinkDataFrame \<Rightarrow> bytes result" where
  "updf_port v = (if updf_FPort v = -1 then Inr []
     else bind_res (if updf_FRMPayload v = [] then Inr []
                    else decode_field ''decode FRMPayload error'' (updf_FRMPayload v))
       (\<lambda>b. Inr (word_of_int (updf_FPort v) # b)))"

definition UplinkDataFrameToProto :: "bs_lib \<Rightarrow> EUI64 \<Rightarrow> UplinkDataFrame \<Rightarrow> UplinkFrame result" where
  "UplinkDataFrameToProto B gatewayID v =
     bind_res (radio_frame B gatewayID (updf_RadioMetaData v)) (\<lambda>pb.
     bind_res (decode_field ''decode FOpts error'' (updf_FOpts v)) (\<lambda>fOpts.
     bind_res (updf_port v) (\<lambda>port.
       Inr (append_phy ([updf_MHDR v] @ put_le 4 (updf_DevAddr v) @ [updf_FCtrl v]
         @ put_le 2 (updf_FCnt v) @ fOpts @ port @ put_le 4 (updf_MIC v)) pb))))"

definition JoinRequestToProto :: "bs_lib \<Rightarrow> EUI64 \<Rightarrow> JoinRequest \<Rightarrow> UplinkFrame result" where
  "JoinRequestToProto B gatewayID v =
     bind_res (radio_frame B gatewayID (jr_RadioMetaData v)) (\<lambda>pb.
       Inr (append_phy ([jr_MHDR v] @ rev (jr_JoinEUI v) @ rev (jr_DevEUI v)
         @ put_le 2 (jr_DevNonce v) @ put_le 4 (jr_MIC v)) pb))"

definition UplinkProprietaryFrameToProto ::
  "bs_lib \<Rightarrow> EUI64 \<Rightarrow> UplinkProprietaryFrame \<Rightarrow> UplinkFrame result" where
  "UplinkProprietaryFrameToProto B gatewayID v =
     bind_res (radio_frame B gatewayID (uppf_RadioMetaData v)) (\<lambda>pb.
     bind_res (decode_field ''decode FRMPayload field error'' (uppf_FRMPayload v)) (\<lambda>b.
       Inr (append_phy b pb)))"

definition DownlinkTransmittedToProto :: "EUI64 \<Rightarrow> DownlinkTransmitted \<Rightarrow> DownlinkTXAck" where
  "DownlinkTransmittedToProto gatewayID dt = \<lparr>ack_GatewayId = gatewayID, ack_Token = dnt_DIID dt,
     ack_DownlinkId = [], ack_Error = [], ack_Items = [TX_OK]\<rparr>"

section \<open>Downlinks\<close>

record BSDownlinkFrame =
  dn_DevEui :: string
  dn_DC :: int
  dn_DIID :: u32
  dn_PDU :: string
  dn_Priority :: int
  dn_RxDelay :: "int option"
  dn_RX1DR :: "int option"
  dn_RX1Freq :: "u32 option"
  dn_RX2DR :: "int option"
  dn_RX2Freq :: "u32 option"
  dn_DR :: "int option"
  dn_Freq :: "u32 option"
  dn_GPSTime :: "u64 option"
  dn_XTime :: "u64 option"
  dn_RCtx :: "u64 option"

definition downlink_base :: "u32 \<Rightarrow> bytes \<Rightarrow> BSDownlinkFrame" where
  "downlink_base token phy = \<lparr>dn_DevEui = ''01-01-01-01-01-01-01-01'', dn_DC = 0, dn_DIID = token,
     dn_PDU = hex_encode phy, dn_Priority = 1, dn_RxDelay = None, dn_RX1DR = None,
     dn_RX1Freq = None, dn_RX2DR = None, dn_RX2Freq = None, dn_DR = None, dn_Freq = None,
     dn_GPSTime = None, dn_XTime = None, dn_RCtx = None\<rparr>"

definition set_context :: "(bytes \<Rightarrow> bytes) \<Rightarrow> bytes \<Rightarrow> BSDownlinkFrame \<Rightarrow> BSDownlinkFrame result" where
  "set_context spare ctx out =
     (if length ctx < 8 then Inr out
      else if length (ctx @ spare ctx) < 16 then Inl (GoPanic ''slice bounds out of range'')
      else Inr (out\<lparr>dn_RCtx := Some (get_be (slice 0 8 ctx)),
        dn_XTime := Some (get_be (slice 8 16 (ctx @ spare ctx)))\<rparr>))"

definition lora_index :: "bs_lib \<Rightarrow> LoRaModulationInfo \<Rightarrow> int result" where
  "lora_index B i = (case GetDataRateIndex (bl_band B) False
       \<lparr>dr_Modulation = LoRaModulation, dr_SpreadFactor = uint (l_SpreadingFactor i),
         dr_Bandwidth = uint (l_Bandwidth i), dr_BitRate = 0\<rparr> of
     None \<Rightarrow> Inl (Wrap ''get data-rate index error'' (LibErr ''band'')) | Some dr \<Rightarrow> Inr dr)"

definition fsk_index :: "bs_lib \<Rightarrow> FSKModulationInfo \<Rightarrow> int result" where
  "fsk_index B i = (case GetDataRateIndex (bl_band B) False
       \<lparr>dr_Modulation = FSKModulation, dr_SpreadFactor = 0, dr_Bandwidth = 0,
         dr_BitRate = uint (f_Datarate i)\<rparr> of
     None \<Rightarrow> Inl (Wrap ''get data-rate index error'' (LibErr ''band'')) | Some dr \<Rightarrow> Inr dr)"

definition item_index :: "bs_lib \<Rightarrow> DownlinkTXInfo \<Rightarrow> int result" where
  "item_index B t = (case dt_Modulation t of
     LORA \<Rightarrow> (case GetLoraModulationInfo (dt_ModulationInfo t) of
         None \<Rightarrow> Inl (ErrMsg ''lora_modulation_info is missing'') | Some i \<Rightarrow> lora_index B i)
   | FSK \<Rightarrow> (case GetFskModulationInfo (dt_ModulationInfo t) of
         None \<Rightarrow> Inl (ErrMsg ''fsk_modulation_info is missing'') | Some i \<Rightarrow> fsk_index B i)
   | m \<Rightarrow> Inl (ErrMsg (''unexpected modulation: '' @ modulation_String (bl_lib B) m)))"

text \<open>Class C at once, class A after a delay of whole seconds, class B at a GPS time.\<close>

definition set_timing :: "bs_lib \<Rightarrow> DownlinkTXInfo \<Rightarrow> int \<Rightarrow> BSDownlinkFrame \<Rightarrow> BSDownlinkFrame result" where
  "set_timing B t dr out = (case dt_Timing t of
     IMMEDIATELY \<Rightarrow> Inr (out\<lparr>dn_DC := 2, dn_RX2DR := Some dr, dn_RX2Freq := Some (dt_Frequency t)\<rparr>)
   | DELAY \<Rightarrow> (case GetDelayTimingInfo (dt_TimingInfo t) of
         None \<Rightarrow> Inl (ErrMsg ''delay_timing_info must not be nil'')
       | Some d \<Rightarrow> (case ptypes_Duration (bl_lib B) d of
             None \<Rightarrow> Inl (Wrap ''get delay duration error'' (LibErr ''ptypes''))
           | Some delay \<Rightarrow> Inr (out\<lparr>dn_DC := 0, dn_RxDelay := Some (sint (go_div delay Second)),
               dn_RX1DR := Some dr, dn_RX1Freq := Some (dt_Frequency t)\<rparr>)))
   | GPS_EPOCH \<Rightarrow> (case GetGpsEpochTimingInfo (dt_TimingInfo t) of
         None \<Rightarrow> Inl (ErrMsg ''gps_epoch_timing_info must not be nil'')
       | Some d \<Rightarrow> (case ptypes_Duration (bl_lib B) d of
             None \<Rightarrow> Inl (Wrap ''get time since gps epoch error'' (LibErr ''ptypes''))
           | Some gps \<Rightarrow> Inr (out\<lparr>dn_DC := 1, dn_DR := Some dr, dn_Freq := Some (dt_Frequency t),
               dn_GPSTime := Some (go_div gps Microsecond)\<rparr>)))
   | timing \<Rightarrow> Inl (ErrMsg (''unexpected downlink timing: '' @ timing_String (bl_lib B) timing)))"

text \<open>A second item is the second receive window, when it has a delay.\<close>

definition set_rx2 :: "bs_lib \<Rightarrow> DownlinkFrameItem list \<Rightarrow> BSDownlinkFrame \<Rightarrow> BSDownlinkFrame result" where
  "set_rx2 B items out = (case items of
     [_, item] \<Rightarrow>
       (let t = GetTxInfo (bl_lib B) item in
        if GetDelayTimingInfo (dt_TimingInfo t) = None then Inr out
        else bind_res (case GetLoraModulationInfo (dt_ModulationInfo t) of None \<Rightarrow> Inr out
            | Some i \<Rightarrow> bind_res (lora_index B i) (\<lambda>dr.
                Inr (out\<lparr>dn_RX2Freq := Some (dt_Frequency t), dn_RX2DR := Some dr\<rparr>))) (\<lambda>out.
          case GetFskModulationInfo (dt_ModulationInfo t) of None \<Rightarrow> Inr out
            | Some i \<Rightarrow> bind_res (fsk_index B i) (\<lambda>dr.
                Inr (out\<lparr>dn_RX2Freq := Some (dt_Frequency t), dn_RX2DR := Some dr\<rparr>))))
   | _ \<Rightarrow> Inr out)"

text \<open>The fields of the first item's transmission info are read without a nil check.\<close>

definition DownlinkFrameFromProto ::
  "bs_lib \<Rightarrow> (bytes \<Rightarrow> bytes) \<Rightarrow> DownlinkFrame \<Rightarrow> BSDownlinkFrame result" where
  "DownlinkFrameFromProto B spare pb = (case df_Items pb of
     [] \<Rightarrow> Inl (ErrMsg ''items must contain at least one item'')
   | item # _ \<Rightarrow> (case di_TxInfo item of
       None \<Rightarrow> Inl (GoPanic ''nil pointer dereference'')
     | Some t \<Rightarrow>
         bind_res (set_context spare (dt_Context t) (downlink_base (df_Token pb) (di_PhyPayload item)))
           (\<lambda>out. bind_res (item_index B t) (\<lambda>dr. bind_res (set_timing B t dr out)
             (set_rx2 B (df_Items pb))))))"

section \<open>What the translations keep\<close>

lemma set_rxtime_keeps: "set_rxtime B x rx = Inr rx' \<Longrightarrow> rx_GatewayId rx' = rx_GatewayId rx
    \<and> rx_CrcStatus rx' = rx_CrcStatus rx \<and> rx_UplinkId rx' = rx_UplinkId rx"
  by (auto simp: set_rxtime_def split: if_splits option.splits prod.splits)

lemma set_gpstime_keeps: "set_gpstime B x rx = Inr rx' \<Longrightarrow> rx_GatewayId rx' = rx_GatewayId rx
    \<and> rx_CrcStatus rx' = rx_CrcStatus rx \<and> rx_UplinkId rx' = rx_UplinkId rx"
  by (auto simp: set_gpstime_def Let_def split: if_splits option.splits)

text \<open>What every frame built from radio meta-data has.\<close>

definition radio_ok :: "bs_lib \<Rightarrow> EUI64 \<Rightarrow> RadioMetaData \<Rightarrow> UplinkFrame \<Rightarrow> bool" where
  "radio_ok B g rmd pb \<longleftrightarrow> (\<exists>dr rx. GetDataRate (bl_band B) (rmd_DR rmd) = Some dr
     \<and> up_TxInfo pb = Some (uplink_txinfo dr (rmd_Frequency rmd) (bl_lib B))
     \<and> up_RxInfo pb = Some rx \<and> rx_GatewayId rx = g \<and> rx_CrcStatus rx = CRC_OK
     \<and> rx_Context rx = put_context (ui_RCtx (rmd_UpInfo rmd)) (ui_XTime (rmd_UpInfo rmd)))"

lemma radio_frame_ok: "radio_frame B g rmd = Inr pb \<Longrightarrow> radio_ok B g rmd pb \<and> up_PhyPayload pb = []"
  by (auto simp: radio_frame_def SetRadioMetaDataToProto_def radio_ok_def empty_uplink_def Let_def
      bind_res_Inr_iff split: option.splits dest!: set_rxtime_keeps set_gpstime_keeps)

lemma append_phy_simps [simp]:
  "up_PhyPayload (append_phy b pb) = up_PhyPayload pb @ b"
  "radio_ok B g rmd (append_phy b pb) = radio_ok B g rmd pb"
  by (simp_all add: append_phy_def radio_ok_def)

lemma updf_toproto:
  assumes "UplinkDataFrameToProto B g v = Inr pb"
  obtains fOpts port where "hex_decode (updf_FOpts v) = Some fOpts" "updf_port v = Inr port"
    "up_PhyPayload pb = [updf_MHDR v] @ put_le 4 (updf_DevAddr v) @ [updf_FCtrl v]
       @ put_le 2 (updf_FCnt v) @ fOpts @ port @ put_le 4 (updf_MIC v)"
    "radio_ok B g (updf_RadioMetaData v) pb"
  using assms that
  by (auto simp: UplinkDataFrameToProto_def decode_field_def bind_res_Inr_iff simp del: put_le_numeral
      dest!: radio_frame_ok split: option.splits)

end
