(* ===== verification/RouterConfig.thy ===== *)
theory RouterConfig
  imports Sx1301 Structs
begin

text \<open>
  The router configuration sent to a Basic Station gateway (\<open>structs/router_config.go\<close>): the
  filters, the data-rates of the region and, per concentrator, which channel is tuned to
  which radio. \<open>SX1301Conf\<close> has its eight multi spreading-factor channels as a list here;
  channel \<open>chan_multiSF_i\<close> is at position i.
\<close>

record BasicStationConcentrator =
  bc_MultiSF_Frequencies :: "u32 list"
  bc_LoRaSTD_Frequency :: u32
  bc_LoRaSTD_Bandwidth :: u32
  bc_LoRaSTD_SpreadingFactor :: u32
  bc_FSK_Frequency :: u32

record SX1301ConfRadio =
  ra_Enable :: bool
  ra_Freq :: u32

record SX1301ConfChanLoRaStd =
  ls_Enable :: bool
  ls_Radio :: nat
  ls_IF :: int
  ls_Bandwidth :: u32
  ls_SpreadingFactor :: u32

record SX1301ConfChanMultiSF =
  ms_Enable :: bool
  ms_Radio :: nat
  ms_IF :: int

record SX1301Conf =
  sx_Radio0 :: SX1301ConfRadio
  sx_Radio1 :: SX1301ConfRadio
  sx_ChanFSK_Enable :: bool
  sx_ChanLoRaStd :: SX1301ConfChanLoRaStd
  sx_ChanMultiSF :: "SX1301ConfChanMultiSF list"

record RouterConfig =
  rc_NetID :: "u32 list"
  rc_JoinEui :: "(u64 \<times> u64) list"
  rc_Region :: string
  rc_HWSpec :: string
  rc_FreqRange :: "u32 list"
  rc_DRs :: "int list list"
  rc_SX1301Conf :: "SX1301Conf list"

text \<open>The keys are the names of the regions in \<open>lorawan/band\<close>. An unknown one has no name.\<close>

definition regionNameMapping :: "(string \<times> string) list" where
  "regionNameMapping = [(''AS923'', ''AS923''), (''AU915'', ''AU915''), (''CN470'', ''CN470''),
     (''CN779'', ''CN779''), (''EU433'', ''EU433''), (''EU868'', ''EU863''), (''IN865'', ''IN865''),
     (''KR920'', ''KR920''), (''US915'', ''US902''), (''RU864'', ''RU864'')]"

definition data_rate_entry :: "band \<Rightarrow> int \<Rightarrow> int list" where
  "data_rate_entry b i = (case GetDataRate b i of
     None \<Rightarrow> [-1, 0, 0]
   | Some dr \<Rightarrow>
       if dr_Modulation dr \<noteq> LoRaModulation \<and> dr_Modulation dr \<noteq> FSKModulation then [-1, 0, 0]
       else [dr_SpreadFactor dr, dr_Bandwidth dr, if GetDataRateIndex b True dr = None then 1 else 0])"

definition lora_channel :: "u32 \<Rightarrow> u32 \<Rightarrow> u32 list \<Rightarrow> ChannelConfiguration" where
  "lora_channel freq bw sfs = \<lparr>ch_Frequency = freq, ch_Modulation = LORA,
     ch_ModulationConfig = LoraConfig \<lparr>lc_Bandwidth = bw, lc_SpreadingFactors = sfs\<rparr>\<rparr>"

definition fsk_channel :: "u32 \<Rightarrow> ChannelConfiguration" where
  "fsk_channel freq = \<lparr>ch_Frequency = freq, ch_Modulation = FSK,
     ch_ModulationConfig = FskConfig \<lparr>fc_Bandwidth = 125, fc_Bitrate = 50000\<rparr>\<rparr>"

definition concentrator_channels :: "BasicStationConcentrator \<Rightarrow> ChannelConfiguration list" where
  "concentrator_channels conf =
     map (\<lambda>freq. lora_channel freq 125 [7, 8, 9, 10, 11, 12]) (bc_MultiSF_Frequencies conf)
     @ (if bc_FSK_Frequency conf \<noteq> 0 then [fsk_channel (bc_FSK_Frequency conf)] else [])
     @ (if bc_LoRaSTD_Frequency conf \<noteq> 0
        then [lora_channel (bc_LoRaSTD_Frequency conf) (bc_LoRaSTD_Bandwidth conf div 1000)
               [bc_LoRaSTD_SpreadingFactor conf]] else [])"

definition empty_SX1301Conf :: SX1301Conf where
  "empty_SX1301Conf = \<lparr>sx_Radio0 = \<lparr>ra_Enable = False, ra_Freq = 0\<rparr>,
     sx_Radio1 = \<lparr>ra_Enable = False, ra_Freq = 0\<rparr>, sx_ChanFSK_Enable = False,
     sx_ChanLoRaStd = \<lparr>ls_Enable = False, ls_Radio = 0, ls_IF = 0, ls_Bandwidth = 0,
       ls_SpreadingFactor = 0\<rparr>,
     sx_ChanMultiSF = replicate 8 \<lparr>ms_Enable = False, ms_Radio = 0, ms_IF = 0\<rparr>\<rparr>"

definition set_radios :: "u32 list \<Rightarrow> SX1301Conf \<Rightarrow> SX1301Conf" where
  "set_radios radios conf = conf\<lparr>
     sx_Radio0 := \<lparr>ra_Enable = radios ! 0 \<noteq> 0, ra_Freq = radios ! 0\<rparr>,
     sx_Radio1 := \<lparr>ra_Enable = radios ! 1 \<noteq> 0, ra_Freq = radios ! 1\<rparr>\<rparr>"

text \<open>
  One channel, assigned to radio r; \<open>n\<close> counts the multi spreading-factor channels so far.
  The ninth and later ones have no place and are left out.
\<close>

definition set_channel ::
  "u32 list \<Rightarrow> nat \<Rightarrow> ChannelConfiguration \<Rightarrow> nat \<times> SX1301Conf \<Rightarrow> nat \<times> SX1301Conf" where
  "set_channel radios r c st = (case st of (n, conf) \<Rightarrow>
     (case ch_Modulation c of
        LORA \<Rightarrow> (case GetLoraModulationConfig (ch_ModulationConfig c) of
            None \<Rightarrow> (n, conf)
          | Some m \<Rightarrow> (case lc_SpreadingFactors m of
              [sf] \<Rightarrow> (n, conf\<lparr>sx_ChanLoRaStd := \<lparr>ls_Enable = True, ls_Radio = r,
                  ls_IF = uint (ch_Frequency c) - uint (radios ! r),
                  ls_Bandwidth = lc_Bandwidth m * 1000, ls_SpreadingFactor = sf\<rparr>\<rparr>)
            | _ \<Rightarrow> (n + 1, conf\<lparr>sx_ChanMultiSF := (sx_ChanMultiSF conf)[n := \<lparr>ms_Enable = True,
                  ms_Radio = r, ms_IF = uint (ch_Frequency c) - uint (radios ! r)\<rparr>]\<rparr>)))
      | FSK \<Rightarrow> (n, conf\<lparr>sx_ChanFSK_Enable := True\<rparr>)
      | _ \<Rightarrow> (n, conf)))"

fun set_channels ::
  "u32 list \<Rightarrow> ChannelConfiguration list \<Rightarrow> nat \<times> SX1301Conf \<Rightarrow> SX1301Conf result" where
  "set_channels radios [] st = Inr (snd st)"
| "set_channels radios (c # cs) st =
     (case GetRadioForChannel radios c of
        Inl e \<Rightarrow> Inl (Wrap ''get radio for channel error'' e)
      | Inr r \<Rightarrow> set_channels radios cs (set_channel radios r c st))"

definition configure_concentrator ::
  "channel_sort \<Rightarrow> BasicStationConcentrator \<Rightarrow> SX1301Conf result" where
  "configure_concentrator srt conf =
     (case GetRadioFrequencies srt (concentrator_channels conf) of
        (Inl e, cs) \<Rightarrow> Inl (Wrap ''get radio frequencies error'' e)
      | (Inr radios, cs) \<Rightarrow> set_channels radios cs (0, set_radios radios empty_SX1301Conf))"

fun configure_all ::
  "channel_sort \<Rightarrow> BasicStationConcentrator list \<Rightarrow> SX1301Conf list result" where
  "configure_all srt [] = Inr []"
| "configure_all srt (conf # confs) = bind_res (configure_concentrator srt conf) (\<lambda>c.
     bind_res (configure_all srt confs) (\<lambda>cs. Inr (c # cs)))"

definition GetRouterConfig ::
  "channel_sort \<Rightarrow> (string \<Rightarrow> band option) \<Rightarrow> string \<Rightarrow> bytes list \<Rightarrow> (EUI64 \<times> EUI64) list
     \<Rightarrow> u32 \<Rightarrow> u32 \<Rightarrow> BasicStationConcentrator list \<Rightarrow> RouterConfig result" where
  "GetRouterConfig srt GetConfig region netIDs joinEUIs freqMin freqMax concentrators =
     (case GetConfig region of
        None \<Rightarrow> Inl (Wrap ''get band config error'' (LibErr ''band''))
      | Some b \<Rightarrow> bind_res (configure_all srt concentrators) (\<lambda>confs.
          Inr \<lparr>rc_NetID = map (\<lambda>n. get_be (0 # n)) netIDs,
            rc_JoinEui = map (\<lambda>(lo, hi). (get_be lo, get_be hi)) joinEUIs,
            rc_Region = (case map_of regionNameMapping region of None \<Rightarrow> [] | Some n \<Rightarrow> n),
            rc_HWSpec = ''sx1301/'' @ show_dec (length concentrators),
            rc_FreqRange = [freqMin, freqMax],
            rc_DRs = map (\<lambda>i. data_rate_entry b (int i)) [0..<16],
            rc_SX1301Conf = confs\<rparr>))"

section \<open>What the configuration tunes to\<close>

text \<open>The frequency a channel entry stands for, with the centre frequency of its radio.\<close>

definition radio_freq :: "SX1301Conf \<Rightarrow> nat \<Rightarrow> int" where
  "radio_freq conf r = uint (ra_Freq (if r = 0 then sx_Radio0 conf else sx_Radio1 conf))"

definition multi_tuned :: "SX1301Conf \<Rightarrow> int list" where
  "multi_tuned conf = map (\<lambda>m. radio_freq conf (ms_Radio m) + ms_IF m)
     (filter ms_Enable (sx_ChanMultiSF conf))"

definition std_tuned :: "SX1301Conf \<Rightarrow> int option" where
  "std_tuned conf = (if ls_Enable (sx_ChanLoRaStd conf)
     then Some (radio_freq conf (ls_Radio (sx_ChanLoRaStd conf)) + ls_IF (sx_ChanLoRaStd conf)) else None)"

definition single_sf :: "ChannelConfiguration \<Rightarrow> bool" where
  "single_sf c \<longleftrightarrow> ch_Modulation c = LORA \<and> (case GetLoraModulationConfig (ch_ModulationConfig c) of
     None \<Rightarrow> False | Some m \<Rightarrow> length (lc_SpreadingFactors m) = 1)"

definition multi_sf :: "ChannelConfiguration \<Rightarrow> bool" where
  "multi_sf c \<longleftrightarrow> ch_Modulation c = LORA \<and> (case GetLoraModulationConfig (ch_ModulationConfig c) of
     None \<Rightarrow> False | Some m \<Rightarrow> length (lc_SpreadingFactors m) \<noteq> 1)"

text \<open>Entry by entry: what one channel changes.\<close>

lemma set_channel_multi: "multi_sf c \<Longrightarrow> set_channel radios r c (n, conf) = (n + 1,
    conf\<lparr>sx_ChanMultiSF := (sx_ChanMultiSF conf)[n := \<lparr>ms_Enable = True, ms_Radio = r,
      ms_IF = uint (ch_Frequency c) - uint (radios ! r)\<rparr>]\<rparr>)"
  by (auto simp: set_channel_def multi_sf_def split: option.splits list.split)

lemma set_channel_single: "single_sf c \<Longrightarrow> \<exists>bw sf. set_channel radios r c (n, conf) = (n,
    conf\<lparr>sx_ChanLoRaStd := \<lparr>ls_Enable = True, ls_Radio = r,
      ls_IF = uint (ch_Frequency c) - uint (radios ! r), ls_Bandwidth = bw, ls_SpreadingFactor = sf\<rparr>\<rparr>)"
  by (clarsimp simp: set_channel_def single_sf_def length_Suc_conv split: option.splits)
    (intro exI, rule refl)

lemma set_channel_other: "\<not> single_sf c \<Longrightarrow> \<not> multi_sf c \<Longrightarrow>
    \<exists>b. set_channel radios r c (n, conf) = (n, conf\<lparr>sx_ChanFSK_Enable := b\<rparr>)"
  by (cases "ch_Modulation c") (auto simp: set_channel_def single_sf_def multi_sf_def
      intro: exI[of _ True] exI[of _ "sx_ChanFSK_Enable conf"] split: option.splits)

lemma single_not_multi: "single_sf c \<Longrightarrow> \<not> multi_sf c"
  by (auto simp: multi_sf_def single_sf_def split: option.splits)

text \<open>An entry is right when it tunes to the frequency of its channel.\<close>

definition entry_for :: "u32 list \<Rightarrow> SX1301ConfChanMultiSF \<Rightarrow> ChannelConfiguration \<Rightarrow> bool" where
  "entry_for radios m c \<longleftrightarrow> ms_Enable m \<and> ms_Radio m < length radios
     \<and> uint (radios ! ms_Radio m) + ms_IF m = uint (ch_Frequency c)"

definition std_for :: "u32 list \<Rightarrow> SX1301ConfChanLoRaStd \<Rightarrow> ChannelConfiguration set \<Rightarrow> bool" where
  "std_for radios ls C \<longleftrightarrow> ls_Enable ls \<and> ls_Radio ls < length radios
     \<and> (\<exists>c \<in> C. uint (radios ! ls_Radio ls) + ls_IF ls = uint (ch_Frequency c))"

lemma first_radio_bound: "first_radio c k fs = Some i \<Longrightarrow> i < k + length fs"
  by (induction c k fs rule: first_radio.induct) (auto split: if_splits)

lemma radio_bound: "GetRadioForChannel radios c = Inr r \<Longrightarrow> r < length radios"
  using first_radio_bound[of c 0 radios r] by (auto simp: GetRadioForChannel_def split: option.splits)

lemma set_channels_spec:
  assumes "set_channels radios cs (n, conf) = Inr conf'"
    and "n + length (filter multi_sf cs) \<le> length (sx_ChanMultiSF conf)"
  shows "sx_Radio0 conf' = sx_Radio0 conf \<and> sx_Radio1 conf' = sx_Radio1 conf
    \<and> (\<exists>es. list_all2 (entry_for radios) es (filter multi_sf cs)
        \<and> sx_ChanMultiSF conf' = take n (sx_ChanMultiSF conf) @ es
            @ drop (n + length es) (sx_ChanMultiSF conf))
    \<and> (if filter single_sf cs = [] then sx_ChanLoRaStd conf' = sx_ChanLoRaStd conf
       else std_for radios (sx_ChanLoRaStd conf') (set (filter single_sf cs)))"
  using assms
proof (induction cs arbitrary: n conf)
  case Nil
  then show ?case by auto
next
  case (Cons c cs)
  from Cons.prems(1) obtain r n1 conf1 where r: "GetRadioForChannel radios c = Inr r"
    "set_channel radios r c (n, conf) = (n1, conf1)" "set_channels radios cs (n1, conf1) = Inr conf'"
    by (auto split: sum.splits) (metis surj_pair)
  note rb = radio_bound[OF r(1)]
  consider (multi) "multi_sf c" "n1 = n + 1" "conf1 = conf\<lparr>sx_ChanMultiSF :=
       (sx_ChanMultiSF conf)[n := \<lparr>ms_Enable = True, ms_Radio = r,
          ms_IF = uint (ch_Frequency c) - uint (radios ! r)\<rparr>]\<rparr>"
    | (single) bw sf where "single_sf c" "\<not> multi_sf c" "n1 = n" "conf1 = conf\<lparr>sx_ChanLoRaStd :=
       \<lparr>ls_Enable = True, ls_Radio = r, ls_IF = uint (ch_Frequency c) - uint (radios ! r),
        ls_Bandwidth = bw, ls_SpreadingFactor = sf\<rparr>\<rparr>"
    | (other) b where "\<not> single_sf c" "\<not> multi_sf c" "n1 = n"
        "conf1 = conf\<lparr>sx_ChanFSK_Enable := b\<rparr>"
    using set_channel_multi[of c radios r n conf] set_channel_single[of c radios r n conf]
      set_channel_other[of c radios r n conf] single_not_multi[of c] r(2) by (metis Pair_inject)
  then show ?case
  proof cases
    case multi
    then have "\<not> single_sf c" using single_not_multi by blast
    let ?e = "\<lparr>ms_Enable = True, ms_Radio = r, ms_IF = uint (ch_Frequency c) - uint (radios ! r)\<rparr>"
    have len: "n < length (sx_ChanMultiSF conf)" using multi Cons.prems(2) by simp
    from Cons.IH[OF r(3)] multi Cons.prems(2) obtain es where es:
      "list_all2 (entry_for radios) es (filter multi_sf cs)"
      "sx_ChanMultiSF conf' = take (n + 1) (sx_ChanMultiSF conf1) @ es
         @ drop (n + 1 + length es) (sx_ChanMultiSF conf1)" by auto
    have "sx_ChanMultiSF conf' = take n (sx_ChanMultiSF conf) @ (?e # es)
         @ drop (n + length (?e # es)) (sx_ChanMultiSF conf)"
      using es(2) multi len by (simp add: take_Suc_conv_app_nth)
    moreover have "list_all2 (entry_for radios) (?e # es) (filter multi_sf (c # cs))"
      using es(1) multi rb by (simp add: entry_for_def)
    ultimately show ?thesis
      using Cons.IH[OF r(3)] multi Cons.prems(2) \<open>\<not> single_sf c\<close> by auto
  next
    case single
    then show ?thesis using Cons.IH[OF r(3)] Cons.prems(2) rb
      by (auto simp: std_for_def split: if_splits)
  next
    case other
    then show ?thesis using Cons.IH[OF r(3)] Cons.prems(2) by auto
  qed
qed

lemma place_length: "place c rs = Inr rs' \<Longrightarrow> length rs' = length rs"
  by (induction c rs arbitrary: rs' rule: place.induct) (auto simp: bind_res_Inr_iff split: if_splits)

lemma place_all_length: "place_all cs rs = Inr rs' \<Longrightarrow> length rs' = length rs"
  by (induction cs arbitrary: rs) (auto simp: bind_res_Inr_iff dest: place_length)

lemma list_all2_tuned:
  assumes "list_all2 (entry_for radios) es cs" "length radios = 2"
    and "sx_Radio0 conf = \<lparr>ra_Enable = b0, ra_Freq = radios ! 0\<rparr>"
    and "sx_Radio1 conf = \<lparr>ra_Enable = b1, ra_Freq = radios ! 1\<rparr>"
  shows "map (\<lambda>m. radio_freq conf (ms_Radio m) + ms_IF m) es = map (\<lambda>c. uint (ch_Frequency c)) cs
    \<and> filter ms_Enable es = es"
  using assms
proof (induction es cs rule: list_all2_induct)
  case (Cons m es c cs)
  then have "ms_Radio m = 0 \<or> ms_Radio m = 1" by (auto simp: entry_for_def)
  with Cons show ?case by (auto simp: entry_for_def radio_freq_def)
qed simp

lemma concentrator_filters:
  "filter multi_sf (concentrator_channels conf)
     = map (\<lambda>freq. lora_channel freq 125 [7, 8, 9, 10, 11, 12]) (bc_MultiSF_Frequencies conf)"
  "filter single_sf (concentrator_channels conf) = (if bc_LoRaSTD_Frequency conf \<noteq> 0
     then [lora_channel (bc_LoRaSTD_Frequency conf) (bc_LoRaSTD_Bandwidth conf div 1000)
       [bc_LoRaSTD_SpreadingFactor conf]] else [])"
  by (simp_all add: concentrator_channels_def multi_sf_def single_sf_def lora_channel_def
      fsk_channel_def filter_map o_def)

lemma sorted_filter_mset:
  "sorts key srt \<Longrightarrow> mset (filter P (srt xs)) = mset (filter P xs)"
  by (simp add: sorts_def)

lemma configure_concentrator_spec:
  assumes "configure_concentrator srt conf = Inr sx" "sorts minRadioCenterFreq srt"
    and "length (bc_MultiSF_Frequencies conf) \<le> 8"
  shows "mset (multi_tuned sx) = mset (map uint (bc_MultiSF_Frequencies conf))
    \<and> std_tuned sx = (if bc_LoRaSTD_Frequency conf = 0 then None
        else Some (uint (bc_LoRaSTD_Frequency conf)))"
proof -
  let ?chs = "concentrator_channels conf"
  obtain radios where r: "place_all (srt ?chs) [0, 0] = Inr radios"
    "set_channels radios (srt ?chs) (0, set_radios radios empty_SX1301Conf) = Inr sx"
    using assms(1) by (auto simp: configure_concentrator_def GetRadioFrequencies_def Let_def
        split: sum.splits)
  have len: "length radios = 2" using place_all_length[OF r(1)] by simp
  have multi: "mset (filter multi_sf (srt ?chs)) = mset (filter multi_sf ?chs)"
    and single: "mset (filter single_sf (srt ?chs)) = mset (filter single_sf ?chs)"
    using sorted_filter_mset[OF assms(2)] by blast+
  have n: "length (filter multi_sf (srt ?chs)) \<le> 8"
    using mset_eq_length[OF multi] assms(3) by (simp add: concentrator_filters)
  have spec: "sx_Radio0 sx = sx_Radio0 (set_radios radios empty_SX1301Conf)
    \<and> sx_Radio1 sx = sx_Radio1 (set_radios radios empty_SX1301Conf)
    \<and> (\<exists>es. list_all2 (entry_for radios) es (filter multi_sf (srt ?chs))
        \<and> sx_ChanMultiSF sx = take 0 (sx_ChanMultiSF (set_radios radios empty_SX1301Conf)) @ es
            @ drop (0 + length es) (sx_ChanMultiSF (set_radios radios empty_SX1301Conf)))
    \<and> (if filter single_sf (srt ?chs) = []
       then sx_ChanLoRaStd sx = sx_ChanLoRaStd (set_radios radios empty_SX1301Conf)
       else std_for radios (sx_ChanLoRaStd sx) (set (filter single_sf (srt ?chs))))"
    by (rule set_channels_spec[OF r(2)]) (use n in \<open>simp add: set_radios_def empty_SX1301Conf_def\<close>)
  then obtain es where es: "list_all2 (entry_for radios) es (filter multi_sf (srt ?chs))"
    "sx_ChanMultiSF sx = es @ drop (length es) (replicate 8 \<lparr>ms_Enable = False, ms_Radio = 0, ms_IF = 0\<rparr>)"
    by (auto simp: set_radios_def empty_SX1301Conf_def)
  have radio: "sx_Radio0 sx = \<lparr>ra_Enable = radios ! 0 \<noteq> 0, ra_Freq = radios ! 0\<rparr>"
    "sx_Radio1 sx = \<lparr>ra_Enable = radios ! 1 \<noteq> 0, ra_Freq = radios ! 1\<rparr>"
    using spec by (simp_all add: set_radios_def)
  have tuned: "multi_tuned sx = map (\<lambda>c. uint (ch_Frequency c)) (filter multi_sf (srt ?chs))"
    using list_all2_tuned[OF es(1) len radio] es(2) by (simp add: multi_tuned_def)
  have "mset (multi_tuned sx) = image_mset (\<lambda>c. uint (ch_Frequency c)) (mset (filter multi_sf ?chs))"
    unfolding tuned mset_map multi ..
  then have 1: "mset (multi_tuned sx) = mset (map uint (bc_MultiSF_Frequencies conf))"
    by (simp add: concentrator_filters lora_channel_def image_mset.compositionality o_def)
  have 2: "std_tuned sx = (if bc_LoRaSTD_Frequency conf = 0 then None
        else Some (uint (bc_LoRaSTD_Frequency conf)))"
  proof (cases "bc_LoRaSTD_Frequency conf = 0")
    case True
    then have "filter single_sf (srt ?chs) = []" using single by (simp add: concentrator_filters)
    then show ?thesis using spec True
      by (simp add: std_tuned_def set_radios_def empty_SX1301Conf_def)
  next
    case False
    let ?c = "lora_channel (bc_LoRaSTD_Frequency conf) (bc_LoRaSTD_Bandwidth conf div 1000)
       [bc_LoRaSTD_SpreadingFactor conf]"
    have "mset (filter single_sf (srt ?chs)) = {#?c#}"
      unfolding single using False by (simp add: concentrator_filters del: mset_filter)
    then have "filter single_sf (srt ?chs) = [?c]" by (simp only: mset_single_iff)
    then have std: "std_for radios (sx_ChanLoRaStd sx) {?c}" using spec by simp
    then have "ls_Radio (sx_ChanLoRaStd sx) = 0 \<or> ls_Radio (sx_ChanLoRaStd sx) = 1"
      using len by (auto simp: std_for_def)
    then show ?thesis using std False radio
      by (auto simp: std_tuned_def std_for_def radio_freq_def lora_channel_def)
  qed
  from 1 2 show ?thesis ..
qed

lemma configure_all_nth:
  "configure_all srt confs = Inr cs \<Longrightarrow> length cs = length confs
    \<and> (\<forall>i < length confs. configure_concentrator srt (confs ! i) = Inr (cs ! i))"
  by (induction confs arbitrary: cs) (auto simp: bind_res_Inr_iff nth_Cons split: nat.splits)

text \<open>C29: The channels a Basic Station gateway is configured with: on every concentrator the
  enabled multi spreading-factor channels tune, radio frequency plus offset, to exactly the
  configured frequencies (up to eight of them), and the single spreading-factor channel to
  its frequency when there is one.\<close>

theorem router_config_channels:
  assumes "GetRouterConfig srt GetConfig region netIDs joinEUIs freqMin freqMax confs = Inr c"
    and "sorts minRadioCenterFreq srt" "i < length confs"
    and "length (bc_MultiSF_Frequencies (confs ! i)) \<le> 8"
  shows "length (rc_SX1301Conf c) = length confs
    \<and> mset (multi_tuned (rc_SX1301Conf c ! i)) = mset (map uint (bc_MultiSF_Frequencies (confs ! i)))
    \<and> std_tuned (rc_SX1301Conf c ! i) = (if bc_LoRaSTD_Frequency (confs ! i) = 0 then None
        else Some (uint (bc_LoRaSTD_Frequency (confs ! i))))"
proof -
  have "configure_all srt confs = Inr (rc_SX1301Conf c)"
    using assms(1) by (auto simp: GetRouterConfig_def bind_res_Inr_iff split: option.splits)
  from configure_all_nth[OF this] assms(3) show ?thesis
    using configure_concentrator_spec[OF _ assms(2,4)] by auto
qed

definition demo_concentrator :: BasicStationConcentrator where
  "demo_concentrator = \<lparr>bc_MultiSF_Frequencies = [868500000, 868100000], bc_LoRaSTD_Frequency = 0,
     bc_LoRaSTD_Bandwidth = 0, bc_LoRaSTD_SpreadingFactor = 0, bc_FSK_Frequency = 868800000\<rparr>"

lemma demo_router_config: "\<exists>c. GetRouterConfig (sort_key minRadioCenterFreq)
    (\<lambda>_. Some \<lparr>GetDataRate = \<lambda>_. None, GetDataRateIndex = \<lambda>_ _. None\<rparr>) ''EU868'' [] [] 863000000
    870000000 [demo_concentrator] = Inr c"
  by (simp add: GetRouterConfig_def configure_concentrator_def GetRadioFrequencies_def Let_def
      demo_concentrator_def concentrator_channels_def lora_channel_def fsk_channel_def
      minRadioCenterFreq_def channelBandwidth_def radioBandwidth_def channelMax_def channelMin_def
      radioBandwidthPerChannelBandwidth_def defaultRadioBandwidth_def GetRadioForChannel_def
      set_radios_def empty_SX1301Conf_def set_channel_def word_le_nat_alt)

theorem router_config_channels_witness:
  "\<exists>c. GetRouterConfig (sort_key minRadioCenterFreq)
      (\<lambda>_. Some \<lparr>GetDataRate = \<lambda>_. None, GetDataRateIndex = \<lambda>_ _. None\<rparr>) ''EU868'' [] []
      863000000 870000000 [demo_concentrator] = Inr c
    \<and> mset (multi_tuned (rc_SX1301Conf c ! 0)) = {#868500000, 868100000#}"
proof -
  obtain c where c: "GetRouterConfig (sort_key minRadioCenterFreq)
    (\<lambda>_. Some \<lparr>GetDataRate = \<lambda>_. None, GetDataRateIndex = \<lambda>_ _. None\<rparr>) ''EU868'' [] [] 863000000
    870000000 [demo_concentrator] = Inr c" using demo_router_config by blast
  show ?thesis
    using router_config_channels[OF c sorts_sort_key, of 0] c by (simp add: demo_concentrator_def)
qed

text \<open>When the radio frequencies for a set of channels can be determined, every channel lies
  within the bandwidth of the radio it is assigned to, so none is refused later. The
  channels keep clear of the ends of the 32-bit range.\<close>

lemma every_channel_has_a_radio:
  assumes "sorts minRadioCenterFreq srt" "GetRadioFrequencies srt channels = (Inr radios, cs)"
    and "\<forall>c \<in> set channels. plain_channel c" "c \<in> set channels"
  shows "\<exists>i < 2. GetRadioForChannel radios c = Inr i
    \<and> unat (radios ! i) + unat (channelBandwidth c) div 2
        \<le> unat (ch_Frequency c) + unat (radioBandwidth c) div 2
    \<and> unat (ch_Frequency c) + unat (channelBandwidth c) div 2
        \<le> unat (radios ! i) + unat (radioBandwidth c) div 2"
proof -
  have c: "plain_channel c" using assms(3,4) by blast
  show ?thesis using radio_for_every_channel[OF assms] covers_unat[OF c] by blast
qed

end
