(* ===== verification/Eui64.thy ===== *)
theory Eui64
  imports GoStrings Registry
begin

text \<open>
  Basic Station's identifiers (\<open>structs/eui64.go\<close>): an EUI64 is written as four blocks of
  hexadecimal digits and read in that form, with a double colon standing for zero blocks, or
  as eight byte pairs with dashes. The latter is handed to the lorawan package (\<open>un\<close>).

  Reading indexes arrays with computed positions; an index out of range panics.
\<close>

definition EUI64_MarshalText :: "EUI64 \<Rightarrow> string" where
  "EUI64_MarshalText e = hex_encode (slice 0 2 e) @ '':'' @ hex_encode (slice 2 4 e) @ '':''
     @ hex_encode (slice 4 6 e) @ '':'' @ hex_encode (slice 6 8 e)"

section \<open>The dashed form\<close>

definition is_word_char :: "char \<Rightarrow> bool" where
  "is_word_char c \<longleftrightarrow> is_digit c \<or> c = CHR ''_''
     \<or> (let n = (of_char c :: nat) in 65 \<le> n \<and> n \<le> 90 \<or> 97 \<le> n \<and> n \<le> 122)"

fun dashed_at :: "nat \<Rightarrow> string \<Rightarrow> bool" where
  "dashed_at 0 s = False"
| "dashed_at (Suc 0) (a # b # s) = (is_word_char a \<and> is_word_char b)"
| "dashed_at (Suc (Suc n)) (a # b # d # s) =
     (is_word_char a \<and> is_word_char b \<and> d = CHR ''-'' \<and> dashed_at (Suc n) s)"
| "dashed_at _ _ = False"

text \<open>\<open>\w{2}-...-\w{2}\<close> with eight pairs, found anywhere.\<close>

fun euiRegexp_match :: "string \<Rightarrow> bool" where
  "euiRegexp_match [] = False"
| "euiRegexp_match (c # s) = (dashed_at 8 (c # s) \<or> euiRegexp_match s)"

section \<open>The block form\<close>

fun remainingBlocks :: "string list \<Rightarrow> nat" where
  "remainingBlocks [] = 0"
| "remainingBlocks (v # blocks) = (if v \<noteq> [] then 1 else 0) + remainingBlocks blocks"

lemma remainingBlocks_le: "remainingBlocks bs \<le> length bs"
  by (induction bs) auto

lemma remainingBlocks_drop:
  assumes "i < length bs" "bs ! i = []"
  shows "remainingBlocks (drop i bs) < length bs - i"
proof -
  have "drop i bs = [] # drop (Suc i) bs" using assms by (metis Cons_nth_drop_Suc)
  then show ?thesis using remainingBlocks_le[of "drop (Suc i) bs"] assms by simp
qed

text \<open>Two bytes at a block position. Both of them are in range or the first write panics.\<close>

definition put_block :: "int \<Rightarrow> bytes \<Rightarrow> EUI64 \<Rightarrow> EUI64 result" where
  "put_block blockI b eui =
     (if b = [] then Inr eui
      else if blockI < 0 \<or> 8 < 2 * nat blockI + length b then Inl (GoPanic ''index out of range'')
      else Inr (take (2 * nat blockI) eui @ b @ drop (2 * nat blockI + length b) eui))"

definition read_block :: "string \<Rightarrow> bytes result" where
  "read_block s =
     (if 4 < length s then Inl (GoPanic ''slice bounds out of range'')
      else (case hex_decode (replicate (4 - length s) (CHR ''0'') @ s) of
          None \<Rightarrow> Inl (Wrap ''unmarshal eui block error'' (LibErr ''hex''))
        | Some b \<Rightarrow> Inr b))"

function eui_loop :: "string list \<Rightarrow> nat \<Rightarrow> int \<Rightarrow> EUI64 \<Rightarrow> EUI64 result" where
  "eui_loop blocks i blockI eui =
     (if i < length blocks then
        if blocks ! i = [] then
          let remaining = remainingBlocks (drop i blocks) in
          eui_loop blocks (length blocks - remaining) (4 - int remaining) eui
        else bind_res (read_block (blocks ! i)) (\<lambda>b.
             case put_block blockI b eui of
               Inl e \<Rightarrow> Inl e
             | Inr eui1 \<Rightarrow> eui_loop blocks (i + 1) (blockI + 1) eui1)
      else Inr eui)"
  by pat_completeness auto
termination
  by (relation "measure (\<lambda>(blocks, i, blockI, eui). length blocks - i)")
    (auto dest: remainingBlocks_drop simp: diff_less_mono2)

declare eui_loop.simps [simp del]

definition EUI64_UnmarshalText :: "(string \<Rightarrow> bytes option) \<Rightarrow> string \<Rightarrow> EUI64 result" where
  "EUI64_UnmarshalText un v =
     (if euiRegexp_match v then
        (case un (filter (\<lambda>c. c \<noteq> CHR ''-'') v) of
           None \<Rightarrow> Inl (Wrap ''unmarshal eui error'' (LibErr ''lorawan''))
         | Some eui \<Rightarrow> Inr eui)
      else eui_loop (split_char CHR '':'' v) 0 0 (replicate 8 0))"

section \<open>Reading what was written\<close>

lemma word_char_no_dash: "CHR ''-'' \<notin> set s \<Longrightarrow> \<not> dashed_at (Suc (Suc n)) s"
  by (cases "(Suc (Suc n), s)" rule: dashed_at.cases) auto

lemma no_dash_no_match: "CHR ''-'' \<notin> set s \<Longrightarrow> \<not> euiRegexp_match s"
proof (induction s)
  case (Cons c s)
  have "\<not> dashed_at (Suc (Suc 6)) (c # s)" by (rule word_char_no_dash) (use Cons.prems in auto)
  then show ?case using Cons by simp
qed simp

lemma hex_encode_chars: "c \<in> set (hex_encode bs) \<Longrightarrow> unhex c \<noteq> None"
proof (induction bs)
  case (Cons b bs)
  then consider "c = hex_digit (unat b div 16)" | "c = hex_digit (unat b mod 16)"
    | "c \<in> set (hex_encode bs)" by auto
  then show ?case using Cons.IH by cases (simp_all add: unat_byte_div_16)
qed simp

lemma unhex_sep: "unhex CHR '':'' = None" "unhex CHR ''-'' = None"
  by (simp_all add: unhex_def)

lemma hex_no_sep: "CHR '':'' \<notin> set (hex_encode bs)" "CHR ''-'' \<notin> set (hex_encode bs)"
  using hex_encode_chars unhex_sep by metis+

lemma hex_decode_chars: "hex_decode s = Some bs \<Longrightarrow> c \<in> set s \<Longrightarrow> unhex c \<noteq> None"
  by (induction s arbitrary: bs rule: hex_decode.induct) (auto split: option.splits)

lemma hex_encode_Nil_iff: "hex_encode bs = [] \<longleftrightarrow> bs = []"
  by (cases bs) simp_all

lemma read_block_hex: "length b = 2 \<Longrightarrow> read_block (hex_encode b) = Inr b"
  by (simp add: read_block_def hex_decode_encode)

text \<open>A block that can be read gives two bytes and holds no separator.\<close>

lemma read_block_InrD:
  assumes "read_block s = Inr b"
  shows "length b = 2" "CHR '':'' \<notin> set s" "CHR ''-'' \<notin> set s"
proof -
  let ?v = "replicate (4 - length s) (CHR ''0'') @ s"
  have s: "length s \<le> 4" "hex_decode ?v = Some b"
    using assms by (auto simp: read_block_def split: if_splits option.splits)
  have "length ?v = 4" using s(1) by simp
  with length_hex_decode[OF s(2)] show "length b = 2" by simp
  show "CHR '':'' \<notin> set s" "CHR ''-'' \<notin> set s"
    using hex_decode_chars[OF s(2)] unhex_sep by (metis in_set_conv_decomp append.assoc)+
qed

definition blocks_read :: "string list \<Rightarrow> bytes list \<Rightarrow> bool" where
  "blocks_read ss bs \<longleftrightarrow> map read_block ss = map Inr bs \<and> [] \<notin> set ss"

lemma blocks_read_Nil [simp]: "blocks_read [] bs \<longleftrightarrow> bs = []"
  by (auto simp: blocks_read_def)

lemma blocks_read_Cons:
  "blocks_read (s # ss) bs \<longleftrightarrow>
     (\<exists>b bs'. bs = b # bs' \<and> read_block s = Inr b \<and> s \<noteq> [] \<and> blocks_read ss bs')"
  by (cases bs) (auto simp: blocks_read_def)

lemma blocks_readD:
  assumes "blocks_read ss bs"
  shows "length bs = length ss" "length (concat bs) = 2 * length ss"
    "s \<in> set ss \<Longrightarrow> s \<noteq> [] \<and> CHR '':'' \<notin> set s \<and> CHR ''-'' \<notin> set s"
    "remainingBlocks ss = length ss"
  using assms
  by (induction ss arbitrary: bs) (auto simp: blocks_read_Cons read_block_InrD)

lemma blocks_read_hex: "\<forall>b \<in> set bs. length b = 2 \<Longrightarrow> blocks_read (map hex_encode bs) bs"
  by (induction bs) (auto simp: blocks_read_Cons read_block_hex hex_encode_Nil_iff)

text \<open>Blocks in a row are written one after the other.\<close>

lemma eui_loop_blocks:
  assumes "blocks_read ss bs" "k + length ss \<le> 4" "length eui = 8"
  shows "eui_loop (pre @ ss @ post) (length pre) (int k) eui
    = eui_loop (pre @ ss @ post) (length pre + length ss) (int (k + length ss))
        (take (2 * k) eui @ concat bs @ drop (2 * k + 2 * length ss) eui)"
  using assms
proof (induction ss arbitrary: bs pre k eui)
  case Nil
  then show ?case by simp
next
  case (Cons s ss)
  from Cons.prems(1) obtain b bs' where b: "bs = b # bs'" "read_block s = Inr b" "s \<noteq> []"
    "blocks_read ss bs'" by (auto simp: blocks_read_Cons)
  let ?eui = "take (2 * k) eui @ b @ drop (2 * k + 2) eui"
  have len: "length b = 2" "b \<noteq> []" using read_block_InrD(1)[OF b(2)] by auto
  have "eui_loop (pre @ (s # ss) @ post) (length pre) (int k) eui
      = eui_loop (pre @ (s # ss) @ post) (length pre + 1) (int k + 1) ?eui"
    using len b Cons.prems(2)
    by (subst eui_loop.simps) (simp add: nth_append put_block_def)
  also have "\<dots> = eui_loop ((pre @ [s]) @ ss @ post)
      (length (pre @ [s])) (int (k + 1)) ?eui" by (simp add: add.commute)
  also have "\<dots> = eui_loop ((pre @ [s]) @ ss @ post)
      (length (pre @ [s]) + length ss) (int (k + 1 + length ss))
      (take (2 * (k + 1)) ?eui @ concat bs' @ drop (2 * (k + 1) + 2 * length ss) ?eui)"
    by (rule Cons.IH) (use Cons.prems b len in auto)
  also have "take (2 * (k + 1)) ?eui = take (2 * k) eui @ b"
    using len Cons.prems(2,3) by simp
  also have "drop (2 * (k + 1) + 2 * length ss) ?eui = drop (2 * k + 2 * length (s # ss)) eui"
    using len Cons.prems(2,3) by (simp add: algebra_simps)
  finally show ?case using b by (simp add: add.commute)
qed

lemma eui_loop_end: "length blocks \<le> i \<Longrightarrow> eui_loop blocks i k eui = Inr eui"
  by (subst eui_loop.simps) simp

lemma remainingBlocks_append: "remainingBlocks (xs @ ys) = remainingBlocks xs + remainingBlocks ys"
  by (induction xs) auto

lemma remainingBlocks_replicate [simp]: "remainingBlocks (replicate n []) = 0"
  by (induction n) auto

lemma set_join_char: "set (join_char c ss) \<subseteq> insert c (\<Union>s \<in> set ss. set s)"
  by (induction ss rule: join_char.induct[of _ c]) auto

lemma unmarshal_joined:
  assumes "\<forall>s \<in> set ss. CHR '':'' \<notin> set s \<and> CHR ''-'' \<notin> set s" "ss \<noteq> []"
  shows "EUI64_UnmarshalText un (join_char CHR '':'' ss) = eui_loop ss 0 0 (replicate 8 0)"
proof -
  have "CHR ''-'' \<notin> set (join_char CHR '':'' ss)"
    using set_join_char[of "CHR '':''" ss] assms(1) by auto
  then show ?thesis
    using assms by (simp add: EUI64_UnmarshalText_def no_dash_no_match split_joined)
qed

lemma marshal_blocks:
  "EUI64_MarshalText e
     = join_char CHR '':'' (map hex_encode [slice 0 2 e, slice 2 4 e, slice 4 6 e, slice 6 8 e])"
  by (simp add: EUI64_MarshalText_def)

text \<open>A run of zero blocks between read blocks.\<close>

lemma eui_loop_gap:
  assumes "blocks_read ss as" "blocks_read ts bs" "length ss + length ts \<le> 4" "0 < n"
  shows "eui_loop (ss @ replicate n [] @ ts) 0 0 (replicate 8 0)
    = Inr (concat as @ replicate (8 - 2 * (length ss + length ts)) 0 @ concat bs)"
proof -
  let ?blocks = "ss @ replicate n [] @ ts" and ?k = "4 - length ts"
  let ?eui = "concat as @ replicate (8 - 2 * length ss) 0"
  have as: "length (concat as) = 2 * length ss" and bs: "length (concat bs) = 2 * length ts"
    and rem: "remainingBlocks ts = length ts"
    using blocks_readD assms(1,2) by blast+
  have "eui_loop ?blocks 0 0 (replicate 8 0) = eui_loop ?blocks (length ss) (int (length ss)) ?eui"
    using eui_loop_blocks[OF assms(1), of 0 "replicate 8 0" "[]" "replicate n [] @ ts"] assms(3)
    by simp
  also have "\<dots> = eui_loop ?blocks (length (ss @ replicate n [])) (int ?k) ?eui"
  proof -
    have "?blocks ! length ss = []" "length ss < length ?blocks"
      using assms(4) by (simp_all add: nth_append)
    moreover have "remainingBlocks (drop (length ss) ?blocks) = length ts"
      by (simp add: remainingBlocks_append rem)
    ultimately show ?thesis
      using assms(3) by (subst eui_loop.simps) (simp add: Let_def of_nat_diff)
  qed
  also have "\<dots> = eui_loop ?blocks (length (ss @ replicate n []) + length ts) (int (?k + length ts))
      (take (2 * ?k) ?eui @ concat bs @ drop (2 * ?k + 2 * length ts) ?eui)"
    using eui_loop_blocks[OF assms(2), of ?k ?eui "ss @ replicate n []" "[]"] assms(3) as by simp
  also have "\<dots> = Inr (take (2 * ?k) ?eui @ concat bs @ drop (2 * ?k + 2 * length ts) ?eui)"
    by (rule eui_loop_end) simp
  also have "take (2 * ?k) ?eui = concat as @ replicate (8 - 2 * (length ss + length ts)) 0"
    using as assms(3) by (simp add: min_def) arith
  also have "drop (2 * ?k + 2 * length ts) ?eui = []" using as assms(3) by simp
  finally show ?thesis by simp
qed

text \<open>The block form a Basic Station identifier is written in is read back as the same
  eight bytes.\<close>

lemma eui64_roundtrip:
  assumes "length e = 8"
  shows "EUI64_UnmarshalText un (EUI64_MarshalText e) = Inr e"
proof -
  let ?bs = "[slice 0 2 e, slice 2 4 e, slice 4 6 e, slice 6 8 e]"
  have len: "\<forall>b \<in> set ?bs. length b = 2" using assms by simp
  have parts: "concat ?bs = e"
    using assms by (simp add: slice_def take_add[symmetric] eval_nat_numeral length_Suc_conv) auto
  have "EUI64_UnmarshalText un (EUI64_MarshalText e)
      = eui_loop (map hex_encode ?bs) 0 0 (replicate 8 0)"
    unfolding marshal_blocks by (rule unmarshal_joined) (auto simp: hex_no_sep)
  also have "\<dots> = eui_loop (map hex_encode ?bs) (length ?bs) (int (length ?bs)) e"
    using eui_loop_blocks[OF blocks_read_hex[OF len], of 0 "replicate 8 0" "[]" "[]"] parts by simp
  finally show ?thesis by (simp add: eui_loop_end)
qed

text \<open>In the compressed block form, a double colon (one empty block, two at an end) stands
  for as many zero blocks as are missing to four, and a block may drop its leading zeros.\<close>

lemma eui64_compressed:
  assumes "map read_block ss = map Inr as" "map read_block ts = map Inr bs"
    and "[] \<notin> set (ss @ ts)" "length (ss @ ts) \<le> 4" "0 < n"
  shows "EUI64_UnmarshalText un (join_char CHR '':'' (ss @ replicate n [] @ ts))
    = Inr (concat as @ replicate (8 - 2 * length (ss @ ts)) 0 @ concat bs)"
proof -
  have read: "blocks_read ss as" "blocks_read ts bs"
    using assms by (simp_all add: blocks_read_def)
  have "EUI64_UnmarshalText un (join_char CHR '':'' (ss @ replicate n [] @ ts))
      = eui_loop (ss @ replicate n [] @ ts) 0 0 (replicate 8 0)"
    by (rule unmarshal_joined)
      (use blocks_readD(3)[OF read(1)] blocks_readD(3)[OF read(2)] assms(5) in auto)
  then show ?thesis using eui_loop_gap[OF read] assms(4,5) by simp
qed

end
