(* ===== verification/Packets.thy ===== *)
theory Packets
  imports Gw GoStrings
begin

text \<open>
  The binary packets of the Semtech UDP protocol (\<open>internal/backend/semtechudp/packets\<close>):
  packet types, the six packet structs with their \<open>MarshalBinary\<close> and \<open>UnmarshalBinary\<close>,
  and the text forms of times and data rates inside the JSON payloads.

  Where a packet carries JSON, the text level of \<open>encoding/json\<close> is an argument: \<open>jm\<close>
  marshals the payload struct, \<open>ju\<close> unmarshals it.
\<close>

section \<open>Packet types\<close>

type_synonym PacketType = byte

abbreviation (input) PushData :: PacketType where "PushData \<equiv> 0"
abbreviation (input) PushACK :: PacketType where "PushACK \<equiv> 1"
abbreviation (input) PullData :: PacketType where "PullData \<equiv> 2"
abbreviation (input) PullResp :: PacketType where "PullResp \<equiv> 3"
abbreviation (input) PullACK :: PacketType where "PullACK \<equiv> 4"
abbreviation (input) TXACK :: PacketType where "TXACK \<equiv> 5"

abbreviation (input) ProtocolVersion1 :: u8 where "ProtocolVersion1 \<equiv> 1"
abbreviation (input) ProtocolVersion2 :: u8 where "ProtocolVersion2 \<equiv> 2"

definition ErrInvalidProtocolVersion :: go_err where
  "ErrInvalidProtocolVersion = ErrMsg ''gateway: invalid protocol version''"

definition protocolSupported :: "u8 \<Rightarrow> bool" where
  "protocolSupported p = (if p = ProtocolVersion1 \<or> p = ProtocolVersion2 then True else False)"

definition GetPacketType :: "bytes \<Rightarrow> PacketType result" where
  "GetPacketType data =
     (if length data < 4 then Inl (ErrMsg ''gateway: at least 4 bytes of data are expected'')
      else if \<not> protocolSupported (data ! 0) then Inl ErrInvalidProtocolVersion
      else Inr (data ! 3))"

definition PacketType_name :: string where
  "PacketType_name = ''PushDataPushACKPullDataPullRespPullACKTXACK''"

definition PacketType_index :: "nat list" where
  "PacketType_index = [0, 8, 15, 23, 31, 38, 43]"

definition PacketType_String :: "PacketType \<Rightarrow> string" where
  "PacketType_String i =
     (if unat i \<ge> length PacketType_index - 1 then ''PacketType('' @ show_dec (unat i) @ '')''
      else slice (PacketType_index ! unat i) (PacketType_index ! (unat i + 1)) PacketType_name)"

section \<open>Text forms\<close>

text \<open>Formatting and parsing of instants (\<open>time.Format\<close>, \<open>time.Parse\<close>) are arguments.\<close>

definition ExpandedTime_MarshalJSON :: "(gotime \<Rightarrow> string) \<Rightarrow> gotime \<Rightarrow> string result" where
  "ExpandedTime_MarshalJSON fmt t = Inr (fmt t)"

definition ExpandedTime_UnmarshalJSON ::
  "(string \<Rightarrow> gotime option) \<Rightarrow> string \<Rightarrow> gotime \<Rightarrow> gotime result" where
  "ExpandedTime_UnmarshalJSON parse data t =
     (case parse data of None \<Rightarrow> Inl (LibErr ''time'') | Some t2 \<Rightarrow> Inr t2)"

definition CompactTime_MarshalJSON :: "(gotime \<Rightarrow> string) \<Rightarrow> gotime \<Rightarrow> string result" where
  "CompactTime_MarshalJSON fmt t = (if t = 0 then Inr ''null'' else Inr (fmt t))"

definition CompactTime_UnmarshalJSON ::
  "(string \<Rightarrow> gotime option) \<Rightarrow> string \<Rightarrow> gotime \<Rightarrow> gotime result" where
  "CompactTime_UnmarshalJSON parse data t =
     (if data = [CHR 0x22, CHR 0x22] then Inr t
      else (case parse data of None \<Rightarrow> Inl (LibErr ''time'') | Some t2 \<Rightarrow> Inr t2))"

record DatR =
  dr_LRFHSS :: string
  dr_LoRa :: string
  dr_FSK :: u32

definition zero_DatR :: DatR where
  "zero_DatR = \<lparr>dr_LRFHSS = [], dr_LoRa = [], dr_FSK = 0\<rparr>"

definition DatR_MarshalJSON :: "DatR \<Rightarrow> string" where
  "DatR_MarshalJSON d =
     (if dr_LoRa d \<noteq> [] then CHR 0x22 # dr_LoRa d @ [CHR 0x22]
      else if dr_LRFHSS d \<noteq> [] then CHR 0x22 # dr_LRFHSS d @ [CHR 0x22]
      else show_dec (unat (dr_FSK d)))"

definition DatR_UnmarshalJSON :: "string \<Rightarrow> DatR \<Rightarrow> DatR" where
  "DatR_UnmarshalJSON data d =
     (case parse_uint 32 data of
        None \<Rightarrow>
          let str = trim_both [CHR 0x22] data in
          if has_prefix ''SF'' str then d\<lparr>dr_LoRa := str\<rparr> else d\<lparr>dr_LRFHSS := str\<rparr>
      | Some i \<Rightarrow> d\<lparr>dr_FSK := word_of_nat i\<rparr>)"

section \<open>Packets\<close>

record PullDataPacket =
  pd_ProtocolVersion :: u8
  pd_RandomToken :: u16
  pd_GatewayMAC :: bytes

definition PullDataPacket_MarshalBinary :: "PullDataPacket \<Rightarrow> bytes" where
  "PullDataPacket_MarshalBinary p =
     [pd_ProtocolVersion p] @ put_le 2 (pd_RandomToken p) @ [PullData] @ pd_GatewayMAC p"

definition PullDataPacket_UnmarshalBinary :: "bytes \<Rightarrow> PullDataPacket result" where
  "PullDataPacket_UnmarshalBinary data =
     (if length data \<noteq> 12 then Inl (ErrMsg ''gateway: 12 bytes of data are expected'')
      else if data ! 3 \<noteq> PullData then
        Inl (ErrMsg ''gateway: identifier mismatch (PULL_DATA expected)'')
      else if \<not> protocolSupported (data ! 0) then Inl ErrInvalidProtocolVersion
      else Inr \<lparr>pd_ProtocolVersion = data ! 0, pd_RandomToken = get_le (slice 1 3 data),
        pd_GatewayMAC = slice 4 12 data\<rparr>)"

record PushACKPacket =
  pa_ProtocolVersion :: u8
  pa_RandomToken :: u16

definition PushACKPacket_MarshalBinary :: "PushACKPacket \<Rightarrow> bytes" where
  "PushACKPacket_MarshalBinary p =
     [pa_ProtocolVersion p] @ put_le 2 (pa_RandomToken p) @ [PushACK]"

definition PushACKPacket_UnmarshalBinary :: "bytes \<Rightarrow> PushACKPacket result" where
  "PushACKPacket_UnmarshalBinary data =
     (if length data \<noteq> 4 then Inl (ErrMsg ''gateway: 4 bytes of data are expected'')
      else if data ! 3 \<noteq> PushACK then
        Inl (ErrMsg ''gateway: identifier mismatch (PUSH_ACK expected)'')
      else if \<not> protocolSupported (data ! 0) then Inl ErrInvalidProtocolVersion
      else Inr \<lparr>pa_ProtocolVersion = data ! 0, pa_RandomToken = get_le (slice 1 3 data)\<rparr>)"

record PullACKPacket =
  la_ProtocolVersion :: u8
  la_RandomToken :: u16

definition PullACKPacket_MarshalBinary :: "PullACKPacket \<Rightarrow> bytes" where
  "PullACKPacket_MarshalBinary p =
     [la_ProtocolVersion p] @ put_le 2 (la_RandomToken p) @ [PullACK]"

definition PullACKPacket_UnmarshalBinary :: "bytes \<Rightarrow> PullACKPacket result" where
  "PullACKPacket_UnmarshalBinary data =
     (if length data \<noteq> 4 then Inl (ErrMsg ''gateway: 4 bytes of data are expected'')
      else if data ! 3 \<noteq> PullACK then
        Inl (ErrMsg ''gateway: identifier mismatch (PULL_ACK expected)'')
      else if \<not> protocolSupported (data ! 0) then Inl ErrInvalidProtocolVersion
      else Inr \<lparr>la_ProtocolVersion = data ! 0, la_RandomToken = get_le (slice 1 3 data)\<rparr>)"

text \<open>The payload of a TX_ACK is its error string; a TX_ACK may come without a payload.\<close>

record TXPKACK =
  ta_Error :: string

record TXACKPacket =
  ta_ProtocolVersion :: u8
  ta_RandomToken :: u16
  ta_GatewayMAC :: bytes
  ta_Payload :: "TXPKACK option"

definition TXACKPacket_MarshalBinary :: "(TXPKACK \<Rightarrow> bytes option) \<Rightarrow> TXACKPacket \<Rightarrow> bytes result" where
  "TXACKPacket_MarshalBinary jm p =
     (case (case ta_Payload p of None \<Rightarrow> Some [] | Some pl \<Rightarrow> jm pl) of
        None \<Rightarrow> Inl (LibErr ''json'')
      | Some pb \<Rightarrow> Inr ([ta_ProtocolVersion p] @ put_le 2 (ta_RandomToken p) @ [TXACK]
          @ ta_GatewayMAC p @ pb))"

text \<open>A remainder of up to one byte is not looked at.\<close>

definition TXACKPacket_UnmarshalBinary :: "(bytes \<Rightarrow> TXPKACK option) \<Rightarrow> bytes \<Rightarrow> TXACKPacket result" where
  "TXACKPacket_UnmarshalBinary ju data =
     (if length data < 12 then Inl (ErrMsg ''gateway: at least 12 bytes of data are expected'')
      else if data ! 3 \<noteq> TXACK then
        Inl (ErrMsg ''gateway: identifier mismatch (TXACK expected)'')
      else if \<not> protocolSupported (data ! 0) then Inl ErrInvalidProtocolVersion
      else let p = \<lparr>ta_ProtocolVersion = data ! 0, ta_RandomToken = get_le (slice 1 3 data),
               ta_GatewayMAC = slice 4 12 data, ta_Payload = None\<rparr> in
        if length data > 13 then
          (case ju (drop 12 data) of
             None \<Rightarrow> Inl (LibErr ''json'')
           | Some pl \<Rightarrow> Inr (p\<lparr>ta_Payload := Some pl\<rparr>))
        else Inr p)"

section \<open>The common header\<close>

lemma header_parts:
  "([v] @ put_le 2 (tok :: u16) @ [ty] @ rest) ! 0 = v"
  "([v] @ put_le 2 (tok :: u16) @ [ty] @ rest) ! 3 = ty"
  "slice 1 3 ([v] @ put_le 2 (tok :: u16) @ [ty] @ rest) = put_le 2 tok"
  "drop 4 ([v] @ put_le 2 (tok :: u16) @ [ty] @ rest) = rest"
  "length ([v] @ put_le 2 (tok :: u16) @ [ty] @ rest) = 4 + length rest"
  by (simp_all add: slice_def)

lemma header_split:
  assumes "4 \<le> length (d :: bytes)"
  shows "d = [d ! 0] @ put_le 2 (get_le (slice 1 3 d) :: u16) @ [d ! 3] @ drop 4 d"
proof -
  from assms obtain a b c e r where d: "d = a # b # c # e # r"
    by (auto simp: Suc_le_length_iff numeral_eq_Suc)
  have "put_le 2 (get_le [b, c] :: u16) = [b, c]"
    using put_le_get_le[of "[b, c]", where 'a = 16] by simp
  then show ?thesis by (simp add: d slice_def del: put_le_numeral)
qed

lemma slice_mac: "length mac = 8 \<Longrightarrow> slice 4 12 ([v] @ put_le 2 (tok :: u16) @ [ty] @ mac @ r) = mac"
  by (simp add: slice_def)

lemma drop_mac: "length mac = 8 \<Longrightarrow> drop 12 ([v] @ put_le 2 (tok :: u16) @ [ty] @ mac @ r) = r"
  by simp

lemma drop4_mac: "drop 4 d = slice 4 12 d @ drop 12 d"
  using append_take_drop_id[of 8 "drop 4 d"] by (simp add: slice_def)

lemma mac_split:
  assumes "12 \<le> length (d :: bytes)"
  shows "d = [d ! 0] @ put_le 2 (get_le (slice 1 3 d) :: u16) @ [d ! 3] @ slice 4 12 d @ drop 12 d"
  using header_split[of d] drop4_mac[of d] assms by simp

lemma get_le_put_le_u16 [simp]: "get_le (put_le 2 (w :: u16)) = w"
  by (rule get_le_put_le) simp

end
