(* ===== verification/PushData.thy ===== *)
theory PushData
  imports Packets
begin

text \<open>
  PUSH_DATA (\<open>packets/push_data.go\<close>): the packet with its received frames and gateway
  statistics, and their translation into the messages of the network server.

  The regular expressions that take data-rate strings apart are \<open>lora_dr_match\<close> and
  \<open>lrfhss_dr_match\<close>. Random identifiers and the clock are read once per produced frame;
  \<open>push_env\<close> gives them as functions of the number of frames produced so far.
\<close>

section \<open>Data\<close>

record Stat =
  stat_Time :: gotime
  stat_Lati :: float64
  stat_Long :: float64
  stat_Alti :: u32
  stat_RXNb :: u32
  stat_RXOK :: u32
  stat_RXFW :: u32
  stat_ACKR :: float64
  stat_DWNb :: u32
  stat_TXNb :: u32

record RSig =
  rsig_Ant :: u8
  rsig_Chan :: u8
  rsig_RSSIC :: u16
  rsig_LSNR :: float64
  rsig_ETime :: bytes

record RXPK =
  rxpk_Time :: "gotime option"
  rxpk_Tmms :: "u64 option"
  rxpk_Tmst :: u32
  rxpk_FTime :: "u32 option"
  rxpk_AESK :: u8
  rxpk_Chan :: u8
  rxpk_RFCh :: u8
  rxpk_Stat :: u8
  rxpk_Freq :: float64
  rxpk_Brd :: u32
  rxpk_RSSI :: u16
  rxpk_Size :: u16
  rxpk_DatR :: DatR
  rxpk_Modu :: string
  rxpk_CodR :: string
  rxpk_LSNR :: float64
  rxpk_HPW :: u8
  rxpk_Data :: bytes
  rxpk_RSig :: "RSig list"

record PushDataPayload =
  pl_RXPK :: "RXPK list"
  pl_Stat :: "Stat option"

record PushDataPacket =
  pu_ProtocolVersion :: u8
  pu_RandomToken :: u16
  pu_GatewayMAC :: bytes
  pu_Payload :: PushDataPayload

record push_env =
  new_uuid :: "nat \<Rightarrow> bytes option"
  now_at :: "nat \<Rightarrow> gotime"

section \<open>The packet\<close>

definition PushDataPacket_MarshalBinary ::
  "(PushDataPayload \<Rightarrow> bytes option) \<Rightarrow> PushDataPacket \<Rightarrow> bytes result" where
  "PushDataPacket_MarshalBinary jm p =
     (case jm (pu_Payload p) of
        None \<Rightarrow> Inl (LibErr ''json'')
      | Some pb \<Rightarrow> Inr ([pu_ProtocolVersion p] @ put_le 2 (pu_RandomToken p) @ [PushData]
          @ pu_GatewayMAC p @ pb))"

definition PushDataPacket_UnmarshalBinary ::
  "(bytes \<Rightarrow> PushDataPayload option) \<Rightarrow> bytes \<Rightarrow> PushDataPacket result" where
  "PushDataPacket_UnmarshalBinary ju data =
     (if length data < 13 then
        Inl (ErrMsg ''backend/semtechudp/packets: at least 13 bytes are expected'')
      else if data ! 3 \<noteq> PushData then
        Inl (ErrMsg ''backend/semtechudp/packets: identifier mismatch (PUSH_DATA expected)'')
      else if \<not> protocolSupported (data ! 0) then Inl ErrInvalidProtocolVersion
      else (case ju (drop 12 data) of
          None \<Rightarrow> Inl (LibErr ''json'')
        | Some pl \<Rightarrow> Inr \<lparr>pu_ProtocolVersion = data ! 0, pu_RandomToken = get_le (slice 1 3 data),
            pu_GatewayMAC = slice 4 12 data, pu_Payload = pl\<rparr>))"

section \<open>Statistics\<close>

definition stat_location :: "lib \<Rightarrow> Stat \<Rightarrow> Location option" where
  "stat_location L s =
     (if \<not> f64_is_zero (stat_Lati s) \<and> \<not> f64_is_zero (stat_Long s) \<and> stat_Alti s \<noteq> 0
      then Some \<lparr>loc_Latitude = stat_Lati s, loc_Longitude = stat_Long s,
             loc_Altitude = f64_of_i32 L (stat_Alti s), loc_Source = LOC_GPS\<rparr>
      else None)"

definition GetGatewayStats ::
  "lib \<Rightarrow> push_env \<Rightarrow> PushDataPacket \<Rightarrow> GatewayStats option result" where
  "GetGatewayStats L env p =
     (case pl_Stat (pu_Payload p) of
        None \<Rightarrow> Inr None
      | Some s \<Rightarrow>
          (case ptypes_TimestampProto L (stat_Time s) of
             None \<Rightarrow> Inl (Wrap ''timestamp proto error'' (LibErr ''ptypes''))
           | Some ts \<Rightarrow>
               (case new_uuid env 0 of
                  None \<Rightarrow> Inl (Wrap ''new uuid error'' (LibErr ''uuid''))
                | Some statsID \<Rightarrow> Inr (Some \<lparr>st_GatewayId = pu_GatewayMAC p, st_Ip = [],
                    st_Time = Some ts, st_Location = stat_location L s, st_StatsId = statsID,
                    st_RxPacketsReceived = stat_RXNb s, st_RxPacketsReceivedOk = stat_RXOK s,
                    st_TxPacketsReceived = stat_DWNb s, st_TxPacketsEmitted = stat_TXNb s,
                    st_RxPacketsPerFrequency = Map.empty, st_TxPacketsPerFrequency = Map.empty,
                    st_RxPacketsPerModulation = [], st_TxPacketsPerModulation = [],
                    st_TxPacketsPerStatus = Map.empty, st_MetaData = None\<rparr>))))"

section \<open>Received frames\<close>

definition crc_of_stat :: "u8 \<Rightarrow> crc_status" where
  "crc_of_stat s = (if s = 1 then CRC_OK else if s = - 1 then BAD_CRC else NO_CRC)"

definition rxpk_time :: "lib \<Rightarrow> gotime \<Rightarrow> RXPK \<Rightarrow> bool \<Rightarrow> timestamp option result" where
  "rxpk_time L now rxpk FakeRxInfoTime =
     (case rxpk_Time rxpk of
        Some t \<Rightarrow>
          if t \<noteq> 0 then (case ptypes_TimestampProto L t of
              None \<Rightarrow> Inl (Wrap ''backend/semtechudp/packets: timestamp proto error'' (LibErr ''ptypes''))
            | Some ts \<Rightarrow> Inr (Some ts))
          else Inr (if FakeRxInfoTime then ptypes_TimestampProto L now else None)
      | None \<Rightarrow> Inr (if FakeRxInfoTime then ptypes_TimestampProto L now else None))"

definition tmms_duration :: "u64 \<Rightarrow> go_duration" where
  "tmms_duration tmms = tmms * word_of_int Millisecond"

text \<open>Seconds from the GPS time, nanoseconds from the fine timestamp.\<close>

definition rxpk_fine :: "lib \<Rightarrow> RXPK \<Rightarrow> (fine_type \<times> fine_timestamp) result" where
  "rxpk_fine L rxpk =
     (case (rxpk_Tmms rxpk, rxpk_FTime rxpk) of
        (Some tmms, Some ftime) \<Rightarrow>
          let d = tmms_duration tmms; d1 = d - go_mod d Second; d2 = d1 + ucast ftime in
          (case ptypes_TimestampProto L (gps_NewTime L d2) of
             None \<Rightarrow> Inl (Wrap ''backend/semtechudp/packets: could not convert timestamp to proto timestamp''
                 (LibErr ''ptypes''))
           | Some tProto \<Rightarrow> Inr (FT_PLAIN, PlainFineTimestamp tProto))
      | _ \<Rightarrow> Inr (zero_fine_type L, NoFineTimestamp))"

definition lora_modulation :: "RXPK \<Rightarrow> modulation_info result" where
  "lora_modulation rxpk =
     (case lora_dr_match (dr_LoRa (rxpk_DatR rxpk)) of
        None \<Rightarrow> Inl (ErrMsg ''backend/semtechudp/packets: could not parse LoRa data-rate'')
      | Some (m1, m2) \<Rightarrow>
          (case atoi_digits m1 of
             None \<Rightarrow> Inl (Wrap ''backend/semtechudp/packets: could not convert sf to int'' (LibErr ''strconv''))
           | Some sf \<Rightarrow>
               (case atoi_digits m2 of
                  None \<Rightarrow> Inl (Wrap ''backend/semtechudp/packets: could not parse bandwidth to int''
                      (LibErr ''strconv''))
                | Some bw \<Rightarrow> Inr (LoraInfo \<lparr>l_Bandwidth = word_of_nat bw,
                    l_SpreadingFactor = word_of_nat sf, l_CodeRate = rxpk_CodR rxpk,
                    l_PolarizationInversion = False\<rparr>))))"

definition lrfhss_modulation :: "RXPK \<Rightarrow> modulation_info result" where
  "lrfhss_modulation rxpk =
     (case lrfhss_dr_match (dr_LRFHSS (rxpk_DatR rxpk)) of
        None \<Rightarrow> Inl (ErrMsg ''backend/semtechudp/packets: could not parse LR-FHSS data-rate'')
      | Some m1 \<Rightarrow>
          (case atoi_digits m1 of
             None \<Rightarrow> Inl (Wrap ''backend/semtechudp/packets: could not convert cw to int'' (LibErr ''strconv''))
           | Some ocw \<Rightarrow> Inr (LrFhssInfo \<lparr>h_OperatingChannelWidth = word_of_nat ocw * 1000,
               h_CodeRate = rxpk_CodR rxpk, h_GridSteps = ucast (rxpk_HPW rxpk)\<rparr>)))"

text \<open>The three blocks run in turn, a later one overwriting an earlier one.\<close>

definition rxpk_modulation :: "lib \<Rightarrow> RXPK \<Rightarrow> (modulation \<times> modulation_info) result" where
  "rxpk_modulation L rxpk =
     bind_res (if dr_LoRa (rxpk_DatR rxpk) \<noteq> []
         then bind_res (lora_modulation rxpk) (\<lambda>i. Inr (LORA, i))
         else Inr (zero_modulation L, NoModulationInfo)) (\<lambda>m1.
     bind_res (if dr_LRFHSS (rxpk_DatR rxpk) \<noteq> []
         then bind_res (lrfhss_modulation rxpk) (\<lambda>i. Inr (LR_FHSS, i)) else Inr m1) (\<lambda>m2.
     Inr (if dr_FSK (rxpk_DatR rxpk) \<noteq> 0
         then (FSK, FskInfo \<lparr>f_FrequencyDeviation = 0, f_Datarate = dr_FSK (rxpk_DatR rxpk)\<rparr>)
         else m2)))"

definition getUplinkFrame :: "lib \<Rightarrow> gotime \<Rightarrow> bytes \<Rightarrow> RXPK \<Rightarrow> bool \<Rightarrow> UplinkFrame result" where
  "getUplinkFrame L now gatewayID rxpk FakeRxInfoTime =
     bind_res (rxpk_time L now rxpk FakeRxInfoTime) (\<lambda>ts.
     bind_res (rxpk_fine L rxpk) (\<lambda>(ftype, fine).
     bind_res (rxpk_modulation L rxpk) (\<lambda>(mo, info).
     Inr \<lparr>up_PhyPayload = rxpk_Data rxpk,
       up_TxInfo = Some \<lparr>ut_Frequency = hz_of_mhz L (rxpk_Freq rxpk), ut_Modulation = mo,
         ut_ModulationInfo = info\<rparr>,
       up_RxInfo = Some \<lparr>rx_GatewayId = gatewayID, rx_Time = ts,
         rx_TimeSinceGpsEpoch = map_option (ptypes_DurationProto L \<circ> tmms_duration) (rxpk_Tmms rxpk),
         rx_Rssi = scast (rxpk_RSSI rxpk), rx_LoraSnr = rxpk_LSNR rxpk,
         rx_Channel = ucast (rxpk_Chan rxpk), rx_RfChain = ucast (rxpk_RFCh rxpk),
         rx_Board = rxpk_Brd rxpk, rx_Antenna = 0, rx_Context = put_be 4 (rxpk_Tmst rxpk),
         rx_CrcStatus = crc_of_stat (rxpk_Stat rxpk), rx_FineTimestampType = ftype,
         rx_FineTimestamp = fine, rx_UplinkId = []\<rparr>\<rparr>)))"

definition setUplinkFrameRSig :: "UplinkFrame \<Rightarrow> RXPK \<Rightarrow> RSig \<Rightarrow> UplinkFrame" where
  "setUplinkFrameRSig frame rxPK rSig = frame\<lparr>up_RxInfo := map_option (\<lambda>rx.
     (let rx1 = rx\<lparr>rx_Antenna := ucast (rsig_Ant rSig), rx_Channel := ucast (rsig_Chan rSig),
          rx_Rssi := scast (rsig_RSSIC rSig), rx_LoraSnr := rsig_LSNR rSig\<rparr> in
      if rsig_ETime rSig \<noteq> []
      then rx1\<lparr>rx_FineTimestampType := FT_ENCRYPTED,
             rx_FineTimestamp := EncryptedFineTimestamp (rsig_ETime rSig) (ucast (rxpk_AESK rxPK))\<rparr>
      else rx1)) (up_RxInfo frame)\<rparr>"

definition add_uplink_id :: "push_env \<Rightarrow> nat \<Rightarrow> UplinkFrame \<Rightarrow> UplinkFrame result" where
  "add_uplink_id env k frame =
     (case new_uuid env k of
        None \<Rightarrow> Inl (Wrap ''backend/semtechudp/packets: get random uplink id error'' (LibErr ''uuid''))
      | Some u \<Rightarrow> Inr (frame\<lparr>up_RxInfo := map_option (\<lambda>rx. rx\<lparr>rx_UplinkId := u\<rparr>) (up_RxInfo frame)\<rparr>))"

text \<open>One frame of a packet: without a per-antenna signal, or for one of them.\<close>

definition one_frame ::
  "lib \<Rightarrow> push_env \<Rightarrow> bytes \<Rightarrow> bool \<Rightarrow> nat \<Rightarrow> RXPK \<Rightarrow> RSig option \<Rightarrow> UplinkFrame result" where
  "one_frame L env mac fake k rxpk sig =
     bind_res (wrap_err ''backend/semtechudp/packets: get uplink frame error''
         (getUplinkFrame L (now_at env k) mac rxpk fake)) (\<lambda>frame.
     add_uplink_id env k (case sig of None \<Rightarrow> frame | Some s \<Rightarrow> setUplinkFrameRSig frame rxpk s))"

fun rsig_frames ::
  "lib \<Rightarrow> push_env \<Rightarrow> bytes \<Rightarrow> bool \<Rightarrow> RXPK \<Rightarrow> RSig list \<Rightarrow> UplinkFrame list \<Rightarrow> UplinkFrame list result" where
  "rsig_frames L env mac fake rxpk [] frames = Inr frames"
| "rsig_frames L env mac fake rxpk (s # sigs) frames =
     bind_res (one_frame L env mac fake (length frames) rxpk (Some s))
       (\<lambda>f. rsig_frames L env mac fake rxpk sigs (frames @ [f]))"

fun uplink_frames ::
  "lib \<Rightarrow> push_env \<Rightarrow> bytes \<Rightarrow> bool \<Rightarrow> bool \<Rightarrow> RXPK list \<Rightarrow> UplinkFrame list \<Rightarrow> UplinkFrame list result" where
  "uplink_frames L env mac skipCRC fake [] frames = Inr frames"
| "uplink_frames L env mac skipCRC fake (rxpk # rs) frames =
     (if rxpk_Stat rxpk \<noteq> 1 \<and> \<not> skipCRC then uplink_frames L env mac skipCRC fake rs frames
      else if rxpk_RSig rxpk = [] then
        bind_res (one_frame L env mac fake (length frames) rxpk None)
          (\<lambda>f. uplink_frames L env mac skipCRC fake rs (frames @ [f]))
      else
        bind_res (rsig_frames L env mac fake rxpk (rxpk_RSig rxpk) frames)
          (\<lambda>fs. uplink_frames L env mac skipCRC fake rs fs))"

definition GetUplinkFrames ::
  "lib \<Rightarrow> push_env \<Rightarrow> PushDataPacket \<Rightarrow> bool \<Rightarrow> bool \<Rightarrow> UplinkFrame list result" where
  "GetUplinkFrames L env p skipCRCCheck FakeRxInfoTime =
     uplink_frames L env (pu_GatewayMAC p) skipCRCCheck FakeRxInfoTime (pl_RXPK (pu_Payload p)) []"

end
