(* ===== verification/PullResp.thy ===== *)
theory PullResp
  imports Packets
begin

text \<open>
  PULL_RESP (\<open>packets/pull_resp.go\<close>): the downlink packet and its construction from one
  item of a downlink frame.
\<close>

record TXPK =
  txpk_Imme :: bool
  txpk_RFCh :: u8
  txpk_Powe :: u8
  txpk_Ant :: u8
  txpk_Brd :: u32
  txpk_Tmst :: "u32 option"
  txpk_Tmms :: "u64 option"
  txpk_Freq :: float64
  txpk_Modu :: string
  txpk_DatR :: DatR
  txpk_CodR :: string
  txpk_FDev :: u16
  txpk_NCRC :: bool
  txpk_IPol :: bool
  txpk_Prea :: u16
  txpk_Size :: u16
  txpk_Data :: bytes

record PullRespPacket =
  pr_ProtocolVersion :: u8
  pr_RandomToken :: u16
  pr_Payload :: TXPK

text \<open>Version 1 leaves the token bytes zero.\<close>

definition PullRespPacket_MarshalBinary ::
  "(TXPK \<Rightarrow> bytes option) \<Rightarrow> PullRespPacket \<Rightarrow> bytes result" where
  "PullRespPacket_MarshalBinary jm p =
     (case jm (pr_Payload p) of
        None \<Rightarrow> Inl (LibErr ''json'')
      | Some pb \<Rightarrow> Inr ([pr_ProtocolVersion p]
          @ put_le 2 (if pr_ProtocolVersion p \<noteq> ProtocolVersion1 then pr_RandomToken p else 0)
          @ [PullResp] @ pb))"

definition PullRespPacket_UnmarshalBinary ::
  "(bytes \<Rightarrow> TXPK option) \<Rightarrow> bytes \<Rightarrow> PullRespPacket result" where
  "PullRespPacket_UnmarshalBinary ju data =
     (if length data < 5 then Inl (ErrMsg ''gateway: at least 5 bytes of data are expected'')
      else if data ! 3 \<noteq> PullResp then
        Inl (ErrMsg ''gateway: identifier mismatch (PULL_RESP expected)'')
      else if \<not> protocolSupported (data ! 0) then Inl ErrInvalidProtocolVersion
      else (case ju (drop 4 data) of
          None \<Rightarrow> Inl (LibErr ''json'')
        | Some pl \<Rightarrow> Inr \<lparr>pr_ProtocolVersion = data ! 0, pr_RandomToken = get_le (slice 1 3 data),
            pr_Payload = pl\<rparr>))"

text \<open>The fields set from the item whatever its modulation.\<close>

definition base_txpk :: "lib \<Rightarrow> DownlinkFrameItem \<Rightarrow> TXPK" where
  "base_txpk L item = (let txInfo = GetTxInfo L item in
     \<lparr>txpk_Imme = False, txpk_RFCh = 0, txpk_Powe = ucast (dt_Power txInfo),
      txpk_Ant = ucast (dt_Antenna txInfo), txpk_Brd = dt_Board txInfo, txpk_Tmst = None,
      txpk_Tmms = None, txpk_Freq = mhz_of_hz L (dt_Frequency txInfo),
      txpk_Modu = modulation_String L (dt_Modulation txInfo), txpk_DatR = zero_DatR,
      txpk_CodR = [], txpk_FDev = 0, txpk_NCRC = False, txpk_IPol = False, txpk_Prea = 0,
      txpk_Size = word_of_nat (length (di_PhyPayload item)), txpk_Data = di_PhyPayload item\<rparr>)"

definition lora_datr :: "LoRaModulationInfo \<Rightarrow> string" where
  "lora_datr i = ''SF'' @ show_dec (unat (l_SpreadingFactor i)) @ ''BW'' @ show_dec (unat (l_Bandwidth i))"

definition txpk_modulation :: "DownlinkTXInfo \<Rightarrow> TXPK \<Rightarrow> TXPK result" where
  "txpk_modulation txInfo t =
     (if dt_Modulation txInfo = LORA then
        (case GetLoraModulationInfo (dt_ModulationInfo txInfo) of
           None \<Rightarrow> Inl (ErrMsg ''gateway: lora_modulation_info must not be nil'')
         | Some i \<Rightarrow> Inr (t\<lparr>txpk_DatR := (txpk_DatR t)\<lparr>dr_LoRa := lora_datr i\<rparr>,
             txpk_CodR := l_CodeRate i, txpk_IPol := l_PolarizationInversion i\<rparr>))
      else if dt_Modulation txInfo = FSK then
        (case GetFskModulationInfo (dt_ModulationInfo txInfo) of
           None \<Rightarrow> Inl (ErrMsg ''gateway: fsk_modulation_info must not be nil'')
         | Some i \<Rightarrow>
             let fdev = (ucast (f_FrequencyDeviation i) :: u16) in
             Inr (t\<lparr>txpk_DatR := (txpk_DatR t)\<lparr>dr_FSK := f_Datarate i\<rparr>,
               txpk_FDev := (if fdev = 0 then ucast (f_Datarate i div 2) else fdev)\<rparr>))
      else Inr t)"

definition txpk_timing :: "lib \<Rightarrow> DownlinkTXInfo \<Rightarrow> TXPK \<Rightarrow> TXPK result" where
  "txpk_timing L txInfo t =
     (case dt_Timing txInfo of
        IMMEDIATELY \<Rightarrow> Inr (t\<lparr>txpk_Imme := True\<rparr>)
      | DELAY \<Rightarrow>
          (case GetDelayTimingInfo (dt_TimingInfo txInfo) of
             None \<Rightarrow> Inl (ErrMsg ''delay_timing_info must not be nil'')
           | Some d \<Rightarrow>
               (case ptypes_Duration L d of
                  None \<Rightarrow> Inl (Wrap ''get delay duration error'' (LibErr ''ptypes''))
                | Some delay \<Rightarrow>
                    if length (dt_Context txInfo) < 4 then
                      Inl (ErrMsg (''context must contain at least 4 bytes, got: ''
                        @ show_dec (length (dt_Context txInfo))))
                    else Inr (t\<lparr>txpk_Tmst := Some (get_be (slice 0 4 (dt_Context txInfo))
                        + ucast (go_div delay Microsecond))\<rparr>)))
      | GPS_EPOCH \<Rightarrow>
          (case GetGpsEpochTimingInfo (dt_TimingInfo txInfo) of
             None \<Rightarrow> Inl (ErrMsg ''gps_epoch_timing must not be nil'')
           | Some d \<Rightarrow>
               (case ptypes_Duration L d of
                  None \<Rightarrow> Inl (Wrap ''parse time_since_gps_epoch error'' (LibErr ''ptypes''))
                | Some dur \<Rightarrow> Inr (t\<lparr>txpk_Tmms := Some (go_div dur Millisecond)\<rparr>)))
      | OtherTiming n \<Rightarrow> Inl (ErrMsg (''unexpected downlink timing: '' @ timing_String L (OtherTiming n))))"

definition GetPullRespPacket ::
  "lib \<Rightarrow> u8 \<Rightarrow> u16 \<Rightarrow> DownlinkFrame \<Rightarrow> nat \<Rightarrow> PullRespPacket result" where
  "GetPullRespPacket L protoVersion randomToken frame index =
     (if length (df_Items frame) \<le> index then
        Inl (ErrMsg (''invalid frame index: '' @ show_dec index))
      else
        let item = df_Items frame ! index; txInfo = GetTxInfo L item in
        bind_res (txpk_modulation txInfo (base_txpk L item)) (\<lambda>t1.
        bind_res (txpk_timing L txInfo t1) (\<lambda>t2.
        Inr \<lparr>pr_ProtocolVersion = protoVersion, pr_RandomToken = randomToken, pr_Payload = t2\<rparr>)))"

end
