(* ===== verification/Filters.thy ===== *)
theory Filters
  imports Encoding
begin

text \<open>
  The LoRaWAN filters (\<open>internal/filters\<close>): data uplinks are kept by the NetID of their
  device address, join-requests by ranges of JoinEUIs.

  The lorawan package is an argument: the text readers of identifiers, the decoder of a
  physical payload and the test whether a device address belongs to a NetID. Of a decoded
  payload the filters see the message type and which of four payload types it holds.
\<close>

datatype mtype = UnconfirmedDataUp | ConfirmedDataUp | JoinRequestType | RejoinRequestType | OtherMType nat

datatype mac_payload =
    MACPayload bytes
  | JoinRequestPayload bytes
  | RejoinRequestType02Payload bytes
  | RejoinRequestType1Payload bytes
  | OtherPayload

record PHYPayload =
  phy_MType :: mtype
  phy_MACPayload :: mac_payload

record lorawan_lib =
  netid_unmarshal :: "string \<Rightarrow> bytes option"
  eui64_unmarshal :: "string \<Rightarrow> bytes option"
  phy_unmarshal :: "bytes \<Rightarrow> PHYPayload option"
  is_netid :: "bytes \<Rightarrow> bytes \<Rightarrow> bool"

record filters =
  f_netIDs :: "bytes list"
  f_joinEUIs :: "(bytes \<times> bytes) list"

fun setup_netids :: "lorawan_lib \<Rightarrow> string list \<Rightarrow> filters \<Rightarrow> filters result" where
  "setup_netids W [] f = Inr f"
| "setup_netids W (s # ss) f =
     (case netid_unmarshal W s of
        None \<Rightarrow> Inl (Wrap ''unmarshal NetID error'' (LibErr ''lorawan''))
      | Some n \<Rightarrow> setup_netids W ss (f\<lparr>f_netIDs := f_netIDs f @ [n]\<rparr>))"

fun setup_joineuis :: "lorawan_lib \<Rightarrow> (string \<times> string) list \<Rightarrow> filters \<Rightarrow> filters result" where
  "setup_joineuis W [] f = Inr f"
| "setup_joineuis W ((a, b) # ss) f =
     (case (eui64_unmarshal W a, eui64_unmarshal W b) of
        (Some x, Some y) \<Rightarrow> setup_joineuis W ss (f\<lparr>f_joinEUIs := f_joinEUIs f @ [(x, y)]\<rparr>)
      | _ \<Rightarrow> Inl (Wrap ''unmarshal JoinEUI error'' (LibErr ''lorawan'')))"

definition Filters_Setup ::
  "lorawan_lib \<Rightarrow> string list \<Rightarrow> (string \<times> string) list \<Rightarrow> filters \<Rightarrow> filters result" where
  "Filters_Setup W netids sets f = bind_res (setup_netids W netids f) (setup_joineuis W sets)"

definition matchNetIDFilter :: "filters \<Rightarrow> bytes \<Rightarrow> bool" where
  "matchNetIDFilter f netID = (if f_netIDs f = [] then True else list_ex (\<lambda>n. n = netID) (f_netIDs f))"

definition matchNetIDFilterForDevAddr :: "lorawan_lib \<Rightarrow> filters \<Rightarrow> bytes \<Rightarrow> bool" where
  "matchNetIDFilterForDevAddr W f devAddr =
     (if f_netIDs f = [] then True else list_ex (is_netid W devAddr) (f_netIDs f))"

definition matchJoinEUIFilter :: "filters \<Rightarrow> bytes \<Rightarrow> bool" where
  "matchJoinEUIFilter f joinEUI =
     (if f_joinEUIs f = [] then True
      else let joinEUIInt = (get_be joinEUI :: u64) in
        list_ex (\<lambda>(lo, hi). joinEUIInt \<ge> get_be lo \<and> joinEUIInt \<le> get_be hi) (f_joinEUIs f))"

definition filterDevAddr :: "lorawan_lib \<Rightarrow> filters \<Rightarrow> PHYPayload \<Rightarrow> bool" where
  "filterDevAddr W f phy = (case phy_MACPayload phy of
     MACPayload devAddr \<Rightarrow> matchNetIDFilterForDevAddr W f devAddr | _ \<Rightarrow> True)"

definition filterJoinRequest :: "filters \<Rightarrow> PHYPayload \<Rightarrow> bool" where
  "filterJoinRequest f phy = (case phy_MACPayload phy of
     JoinRequestPayload joinEUI \<Rightarrow> matchJoinEUIFilter f joinEUI | _ \<Rightarrow> True)"

definition filterRejoinRequest :: "filters \<Rightarrow> PHYPayload \<Rightarrow> bool" where
  "filterRejoinRequest f phy = (case phy_MACPayload phy of
     RejoinRequestType02Payload netID \<Rightarrow> matchNetIDFilter f netID
   | RejoinRequestType1Payload joinEUI \<Rightarrow> matchJoinEUIFilter f joinEUI
   | _ \<Rightarrow> True)"

definition MatchFilters :: "lorawan_lib \<Rightarrow> filters \<Rightarrow> bytes \<Rightarrow> bool" where
  "MatchFilters W f b =
     (if f_netIDs f = [] \<and> f_joinEUIs f = [] then True
      else (case phy_unmarshal W b of
          None \<Rightarrow> True
        | Some phy \<Rightarrow>
            (case phy_MType phy of
               UnconfirmedDataUp \<Rightarrow> filterDevAddr W f phy
             | ConfirmedDataUp \<Rightarrow> filterDevAddr W f phy
             | JoinRequestType \<Rightarrow> filterJoinRequest f phy
             | RejoinRequestType \<Rightarrow> filterRejoinRequest f phy
             | OtherMType n \<Rightarrow> True)))"

section \<open>What is dropped\<close>

definition outside_ranges :: "(bytes \<times> bytes) list \<Rightarrow> bytes \<Rightarrow> bool" where
  "outside_ranges sets j \<longleftrightarrow> sets \<noteq> [] \<and> (\<forall>(lo, hi) \<in> set sets.
     unat (get_be j :: u64) < unat (get_be lo :: u64) \<or> unat (get_be hi :: u64) < unat (get_be j :: u64))"

lemma matchJoinEUI_iff: "matchJoinEUIFilter f j \<longleftrightarrow> \<not> outside_ranges (f_joinEUIs f) j"
  by (simp add: matchJoinEUIFilter_def outside_ranges_def list_ex_iff word_le_nat_alt Let_def
      split_beta not_less not_le)

text \<open>C23: A frame is dropped exactly in these cases, and only if it decodes: a data uplink whose
  device address belongs to none of the configured NetIDs; a join-request (or rejoin of type
  1) whose JoinEUI, as a number, lies outside every configured range; a rejoin of type 0 or 2
  for another NetID. A kind of filter that is not configured drops nothing.\<close>

theorem dropped_iff:
  "\<not> MatchFilters W f b \<longleftrightarrow> (\<exists>phy. phy_unmarshal W b = Some phy \<and>
     (phy_MType phy \<in> {UnconfirmedDataUp, ConfirmedDataUp} \<and> (\<exists>da. phy_MACPayload phy = MACPayload da
        \<and> f_netIDs f \<noteq> [] \<and> (\<nexists>n. n \<in> set (f_netIDs f) \<and> is_netid W da n))
    \<or> phy_MType phy = JoinRequestType \<and> (\<exists>j. phy_MACPayload phy = JoinRequestPayload j
        \<and> outside_ranges (f_joinEUIs f) j)
    \<or> phy_MType phy = RejoinRequestType \<and> (\<exists>n. phy_MACPayload phy = RejoinRequestType02Payload n
        \<and> f_netIDs f \<noteq> [] \<and> n \<notin> set (f_netIDs f))
    \<or> phy_MType phy = RejoinRequestType \<and> (\<exists>j. phy_MACPayload phy = RejoinRequestType1Payload j
        \<and> outside_ranges (f_joinEUIs f) j)))"
proof (cases "f_netIDs f = [] \<and> f_joinEUIs f = []")
  case True
  then show ?thesis by (simp add: MatchFilters_def outside_ranges_def)
next
  case False
  show ?thesis
  proof (cases "phy_unmarshal W b")
    case None
    then show ?thesis by (simp add: MatchFilters_def)
  next
    case (Some phy)
    with False show ?thesis
      by (cases "phy_MType phy"; cases "phy_MACPayload phy")
        (auto simp: MatchFilters_def filterDevAddr_def filterJoinRequest_def filterRejoinRequest_def
          matchNetIDFilterForDevAddr_def matchNetIDFilter_def matchJoinEUI_iff list_ex_iff)
  qed
qed

end
