(* ===== verification/SemtechUDP.thy ===== *)
theory SemtechUDP
  imports PushData PullResp Registry Filters
begin

text \<open>
  The Semtech UDP backend (\<open>internal/backend/semtechudp/backend.go\<close>): its packet handlers
  and the downlink path with its retries.

  One handler run is one function from state to state; the goroutines of the code interleave
  whole handlers here. The state has the registry, the downlink cache, the packets put on the
  send channel and the events handed to the callbacks, both in order.

  The cache is \<open>go-cache\<close>: a type of its own with the two operations the code uses, given by
  \<open>cache_lib\<close>. Entries hold one of three Go types, and the code checks which. The list of
  acknowledgement items is a slice shared between the cache and the handler; the handler
  writes one position of it, the current index, and that position is written again before
  any later read of it, so the model keeps lists by value. An event has the list of the moment
  it is handed out.
\<close>

section \<open>State\<close>

record udpPacket =
  pkt_addr :: string
  pkt_data :: bytes

datatype cache_val = CAcks "tx_ack_status list" | CFrame DownlinkFrame | CIndex nat

record 'c cache_lib =
  cache_set :: "'c \<Rightarrow> string \<Rightarrow> cache_val \<Rightarrow> 'c"
  cache_get :: "'c \<Rightarrow> string \<Rightarrow> cache_val option"

datatype udp_event =
    EvUplink UplinkFrame
  | EvStats GatewayStats
  | EvTxAck DownlinkTXAck
  | EvSubscribe Subscribe

record 'c udp_state =
  us_cache :: 'c
  us_gateways :: gateways
  us_closed :: bool
  us_locked :: bool
  us_skipCRCCheck :: bool
  us_fakeRxTime :: bool
  us_txAckFunc :: bool
  us_statsFunc :: bool
  us_uplinkFunc :: bool
  us_subscribeFunc :: bool
  us_sent :: "udpPacket list"
  us_events :: "udp_event list"
  us_draws :: nat

text \<open>
  The surroundings: random bytes, identifiers and the clock (functions of the number of
  draws so far), the network interfaces, the JSON and protobuf texts, the LoRaWAN library and
  the configured filters.
\<close>

record udp_env =
  ue_lib :: lib
  ue_rand16 :: "nat \<Rightarrow> u16 option"
  ue_uuid :: "nat \<Rightarrow> bytes option"
  ue_now :: "nat \<Rightarrow> gotime"
  ue_isLoopback :: "string \<Rightarrow> bool"
  ue_ipString :: "string \<Rightarrow> string"
  ue_outboundIP :: "nat \<Rightarrow> string option"
  ue_push_unmarshal :: "bytes \<Rightarrow> PushDataPayload option"
  ue_txack_unmarshal :: "bytes \<Rightarrow> TXPKACK option"
  ue_pull_marshal :: "TXPK \<Rightarrow> bytes option"
  ue_proto_marshal :: "modulation_info \<Rightarrow> bytes option"
  ue_proto_unmarshal :: "bytes \<Rightarrow> modulation_info"
  ue_lorawan :: lorawan_lib
  ue_filters :: filters

definition push_env_at :: "udp_env \<Rightarrow> nat \<Rightarrow> push_env" where
  "push_env_at E n = \<lparr>new_uuid = (\<lambda>k. ue_uuid E (n + k)), now_at = (\<lambda>k. ue_now E (n + k))\<rparr>"

definition us_event :: "bool \<Rightarrow> udp_event \<Rightarrow> 'c udp_state \<Rightarrow> 'c udp_state" where
  "us_event has e s = (if has then s\<lparr>us_events := us_events s @ [e]\<rparr> else s)"

text \<open>Putting a packet on the channel; after \<open>Stop\<close> the channel is closed.\<close>

definition udp_send :: "udpPacket \<Rightarrow> 'c udp_state \<Rightarrow> go_err option \<times> 'c udp_state" where
  "udp_send p s = (if us_closed s then (Some (GoPanic ''send on closed channel''), s)
     else (None, s\<lparr>us_sent := us_sent s @ [p]\<rparr>))"

section \<open>Downlink\<close>

definition ack_key :: "u16 \<Rightarrow> string" where "ack_key token = show_dec (unat token) @ '':ack''"
definition frame_key :: "u16 \<Rightarrow> string" where "frame_key token = show_dec (unat token) @ '':frame''"
definition index_key :: "u16 \<Rightarrow> string" where "index_key token = show_dec (unat token) @ '':index''"

definition cache_downlink ::
  "'c cache_lib \<Rightarrow> u16 \<Rightarrow> DownlinkFrame \<Rightarrow> nat \<Rightarrow> tx_ack_status list \<Rightarrow> 'c \<Rightarrow> 'c" where
  "cache_downlink K token frame i acks c =
     cache_set K (cache_set K (cache_set K c (ack_key token) (CAcks acks))
       (frame_key token) (CFrame frame)) (index_key token) (CIndex i)"

definition sendDownlinkFrame ::
  "'c cache_lib \<Rightarrow> udp_env \<Rightarrow> DownlinkFrame \<Rightarrow> nat \<Rightarrow> tx_ack_status list \<Rightarrow> 'c udp_state
     \<Rightarrow> go_err option \<times> 'c udp_state" where
  "sendDownlinkFrame K E frame i txAckItems s =
     (if length (df_Items frame) \<le> i then (Some (ErrMsg ''invalid downlink frame item index''), s)
      else
        let token = (ucast (df_Token frame) :: u16);
            s1 = s\<lparr>us_cache := cache_downlink K token frame i txAckItems (us_cache s)\<rparr>;
            gatewayID = copy_fixed 8 (df_GatewayId frame) in
        (case gateways_get (us_gateways s1) gatewayID of
           Inl e \<Rightarrow> (Some (Wrap ''get gateway error'' e), s1)
         | Inr gw \<Rightarrow>
             (case GetPullRespPacket (ue_lib E) (gw_protocolVersion gw) token frame i of
                Inl e \<Rightarrow> (Some (Wrap ''get PullRespPacket error'' e), s1)
              | Inr pullResp \<Rightarrow>
                  (case PullRespPacket_MarshalBinary (ue_pull_marshal E) pullResp of
                     Inl e \<Rightarrow> (Some (Wrap ''backend/semtechudp: marshal PullRespPacket error'' e), s1)
                   | Inr b \<Rightarrow> udp_send \<lparr>pkt_addr = gw_addr gw, pkt_data = b\<rparr> s1))))"

definition SendDownlinkFrame ::
  "'c cache_lib \<Rightarrow> udp_env \<Rightarrow> DownlinkFrame \<Rightarrow> 'c udp_state \<Rightarrow> go_err option \<times> 'c udp_state" where
  "SendDownlinkFrame K E frame s =
     (let acks = replicate (length (df_Items frame)) TX_IGNORED in
      if df_Token frame = 0 then
        (case ue_rand16 E (us_draws s) of
           None \<Rightarrow> (Some (Wrap ''read random bytes error'' (LibErr ''rand'')), s)
         | Some r \<Rightarrow> sendDownlinkFrame K E (frame\<lparr>df_Token := ucast r\<rparr>) 0 acks
             (s\<lparr>us_draws := us_draws s + 1\<rparr>))
      else sendDownlinkFrame K E frame 0 acks s)"

section \<open>TX_ACK\<close>

definition tx_ack_message :: "bytes \<Rightarrow> DownlinkFrame \<Rightarrow> tx_ack_status list \<Rightarrow> DownlinkTXAck" where
  "tx_ack_message mac frame items = \<lparr>ack_GatewayId = mac, ack_Token = df_Token frame,
     ack_DownlinkId = df_DownlinkId frame, ack_Error = [], ack_Items = items\<rparr>"

text \<open>The statistics of a registered gateway are behind a pointer: counting updates them in place.\<close>

definition count_in ::
  "EUI64 \<Rightarrow> (Collector \<Rightarrow> Collector result) \<Rightarrow> 'c udp_state \<Rightarrow> go_err option \<times> 'c udp_state" where
  "count_in mac f s = (case gateways_get (us_gateways s) mac of
     Inl e \<Rightarrow> (None, s)
   | Inr gw \<Rightarrow> (case f (gw_stats gw) of
       Inl e \<Rightarrow> (Some e, s)
     | Inr c \<Rightarrow> (None, s\<lparr>us_gateways := AList.update mac (gw\<lparr>gw_stats := c\<rparr>) (us_gateways s)\<rparr>)))"

definition tx_ack_error :: "TXACKPacket \<Rightarrow> string option" where
  "tx_ack_error p = (case ta_Payload p of None \<Rightarrow> None
     | Some pl \<Rightarrow> if ta_Error pl \<noteq> '''' \<and> ta_Error pl \<noteq> ''NONE'' then Some (ta_Error pl) else None)"

definition tx_ack_ok ::
  "udp_env \<Rightarrow> bytes \<Rightarrow> DownlinkFrame \<Rightarrow> nat \<Rightarrow> tx_ack_status list \<Rightarrow> 'c udp_state
     \<Rightarrow> go_err option \<times> 'c udp_state" where
  "tx_ack_ok E mac frame itemIndex txAckItems s =
     (let txAck = tx_ack_message mac frame (txAckItems[itemIndex := TX_OK]) in
      (case count_in mac (CountDownlink (ue_lib E) (ue_proto_marshal E) frame txAck) s of
         (Some e, s1) \<Rightarrow> (Some e, s1)
       | (None, s1) \<Rightarrow> (None, us_event (us_txAckFunc s1) (EvTxAck txAck) s1)))"

definition tx_ack_failed ::
  "'c cache_lib \<Rightarrow> udp_env \<Rightarrow> bytes \<Rightarrow> string \<Rightarrow> DownlinkFrame \<Rightarrow> nat \<Rightarrow> tx_ack_status list \<Rightarrow> 'c udp_state
     \<Rightarrow> go_err option \<times> 'c udp_state" where
  "tx_ack_failed K E mac err frame itemIndex txAckItems s =
     (case status_value (ue_lib E) err of
        None \<Rightarrow> (Some (ErrMsg (''unexpected error: '' @ err)), s)
      | Some v \<Rightarrow>
          let items = txAckItems[itemIndex := v] in
          if itemIndex < length (df_Items frame) - 1 then sendDownlinkFrame K E frame (itemIndex + 1) items s
          else (None, us_event (us_txAckFunc s) (EvTxAck (tx_ack_message mac frame items)) s))"

definition token_error :: "string \<Rightarrow> u16 \<Rightarrow> go_err" where
  "token_error what token = ErrMsg (''no internal '' @ what @ '' cache for token '' @ show_dec (unat token))"

definition read_cache ::
  "'c cache_lib \<Rightarrow> u16 \<Rightarrow> 'c \<Rightarrow> (DownlinkFrame \<times> nat \<times> tx_ack_status list) result" where
  "read_cache K token c =
     (case cache_get K c (frame_key token) of
        None \<Rightarrow> Inl (token_error ''frame'' token)
      | Some (CFrame frame) \<Rightarrow>
          (case cache_get K c (index_key token) of
             None \<Rightarrow> Inl (token_error ''index'' token)
           | Some (CIndex itemIndex) \<Rightarrow>
               (case cache_get K c (ack_key token) of
                  None \<Rightarrow> Inl (token_error ''tx ack'' token)
                | Some (CAcks items) \<Rightarrow> Inr (frame, itemIndex, items)
                | Some _ \<Rightarrow> Inl (ErrMsg ''expected []gw.DownlinkTXAckItem''))
           | Some _ \<Rightarrow> Inl (ErrMsg ''expected int''))
      | Some _ \<Rightarrow> Inl (ErrMsg ''expected gw.DownlinkFrame''))"

definition handleTXACK ::
  "'c cache_lib \<Rightarrow> udp_env \<Rightarrow> udpPacket \<Rightarrow> 'c udp_state \<Rightarrow> go_err option \<times> 'c udp_state" where
  "handleTXACK K E up s =
     (case TXACKPacket_UnmarshalBinary (ue_txack_unmarshal E) (pkt_data up) of
        Inl e \<Rightarrow> (Some e, s)
      | Inr p \<Rightarrow>
          (case read_cache K (ta_RandomToken p) (us_cache s) of
             Inl e \<Rightarrow> (Some e, s)
           | Inr (frame, itemIndex, txAckItems) \<Rightarrow>
               if length txAckItems \<le> itemIndex \<or> length txAckItems \<noteq> length (df_Items frame) then
                 (Some (ErrMsg ''cache items are out of sync''), s)
               else (case tx_ack_error p of
                   Some err \<Rightarrow> tx_ack_failed K E (ta_GatewayMAC p) err frame itemIndex txAckItems s
                 | None \<Rightarrow> tx_ack_ok E (ta_GatewayMAC p) frame itemIndex txAckItems s)))"

section \<open>PULL_DATA\<close>

definition handlePullData :: "udp_env \<Rightarrow> udpPacket \<Rightarrow> 'c udp_state \<Rightarrow> go_err option \<times> 'c udp_state" where
  "handlePullData E up s =
     (case PullDataPacket_UnmarshalBinary (pkt_data up) of
        Inl e \<Rightarrow> (Some e, s)
      | Inr p \<Rightarrow>
          let b = PullACKPacket_MarshalBinary \<lparr>la_ProtocolVersion = pd_ProtocolVersion p,
                la_RandomToken = pd_RandomToken p\<rparr>;
              gw = \<lparr>gw_stats = NewCollector, gw_addr = pkt_addr up,
                gw_lastSeen = ue_now E (us_draws s), gw_protocolVersion = pd_ProtocolVersion p\<rparr>;
              (gws, es) = gateways_set (us_subscribeFunc s) (pd_GatewayMAC p) gw (us_gateways s) in
          udp_send \<lparr>pkt_addr = pkt_addr up, pkt_data = b\<rparr>
            (s\<lparr>us_gateways := gws, us_events := us_events s @ map EvSubscribe es,
               us_draws := us_draws s + 1\<rparr>))"

section \<open>PUSH_DATA\<close>

text \<open>The counters of the collector replace those reported by the packet-forwarder.\<close>

definition merge_stats :: "GatewayStats \<Rightarrow> GatewayStats \<Rightarrow> GatewayStats" where
  "merge_stats c st = st\<lparr>st_RxPacketsReceivedOk := st_RxPacketsReceivedOk c,
     st_TxPacketsEmitted := st_TxPacketsEmitted c,
     st_RxPacketsPerFrequency := st_RxPacketsPerFrequency c,
     st_TxPacketsPerFrequency := st_TxPacketsPerFrequency c,
     st_RxPacketsPerModulation := st_RxPacketsPerModulation c,
     st_TxPacketsPerModulation := st_TxPacketsPerModulation c,
     st_TxPacketsPerStatus := st_TxPacketsPerStatus c\<rparr>"

definition handleStats :: "udp_env \<Rightarrow> EUI64 \<Rightarrow> GatewayStats \<Rightarrow> 'c udp_state \<Rightarrow> 'c udp_state" where
  "handleStats E gatewayID st s =
     (let (st1, s1) = (case gateways_get (us_gateways s) gatewayID of
          Inl e \<Rightarrow> (st, s)
        | Inr gw \<Rightarrow>
            let (c, col) = ExportStats (ue_proto_unmarshal E) (gw_stats gw) in
            (merge_stats c st,
             s\<lparr>us_gateways := AList.update gatewayID (gw\<lparr>gw_stats := col\<rparr>) (us_gateways s)\<rparr>)) in
      us_event (us_statsFunc s1) (EvStats st1) s1)"

definition frame_gateway :: "UplinkFrame \<Rightarrow> EUI64" where
  "frame_gateway f = copy_fixed 8 (case up_RxInfo f of None \<Rightarrow> [] | Some rx \<Rightarrow> rx_GatewayId rx)"

fun handleUplinkFrames ::
  "udp_env \<Rightarrow> UplinkFrame list \<Rightarrow> 'c udp_state \<Rightarrow> go_err option \<times> 'c udp_state" where
  "handleUplinkFrames E [] s = (None, s)"
| "handleUplinkFrames E (f # fs) s =
     (case count_in (frame_gateway f) (CountUplink (ue_proto_marshal E) f) s of
        (Some e, s1) \<Rightarrow> (Some e, s1)
      | (None, s1) \<Rightarrow> handleUplinkFrames E fs
          (if MatchFilters (ue_lorawan E) (ue_filters E) (up_PhyPayload f)
           then us_event (us_uplinkFunc s1) (EvUplink f) s1 else s1))"

definition stats_ip :: "udp_env \<Rightarrow> string \<Rightarrow> nat \<Rightarrow> GatewayStats \<Rightarrow> GatewayStats" where
  "stats_ip E addr n st =
     (if ue_isLoopback E addr then
        (case ue_outboundIP E n of None \<Rightarrow> st | Some ip \<Rightarrow> st\<lparr>st_Ip := ip\<rparr>)
      else st\<lparr>st_Ip := ue_ipString E addr\<rparr>)"

definition push_stats ::
  "udp_env \<Rightarrow> udpPacket \<Rightarrow> PushDataPacket \<Rightarrow> 'c udp_state \<Rightarrow> go_err option \<times> 'c udp_state" where
  "push_stats E up p s =
     (case GetGatewayStats (ue_lib E) (push_env_at E (us_draws s)) p of
        Inl e \<Rightarrow> (Some (Wrap ''get stats error'' e), s)
      | Inr None \<Rightarrow> (None, s)
      | Inr (Some st) \<Rightarrow> (None, handleStats E (pu_GatewayMAC p) (stats_ip E (pkt_addr up) (us_draws s) st)
          (s\<lparr>us_draws := us_draws s + 1\<rparr>)))"

definition push_frames ::
  "udp_env \<Rightarrow> PushDataPacket \<Rightarrow> 'c udp_state \<Rightarrow> go_err option \<times> 'c udp_state" where
  "push_frames E p s =
     (case GetUplinkFrames (ue_lib E) (push_env_at E (us_draws s)) p (us_skipCRCCheck s) (us_fakeRxTime s) of
        Inl e \<Rightarrow> (Some (Wrap ''get uplink frames error'' e), s)
      | Inr frames \<Rightarrow> handleUplinkFrames E frames (s\<lparr>us_draws := us_draws s + length frames\<rparr>))"

definition handlePushData :: "udp_env \<Rightarrow> udpPacket \<Rightarrow> 'c udp_state \<Rightarrow> go_err option \<times> 'c udp_state" where
  "handlePushData E up s =
     (case PushDataPacket_UnmarshalBinary (ue_push_unmarshal E) (pkt_data up) of
        Inl e \<Rightarrow> (Some e, s)
      | Inr p \<Rightarrow>
          let b = PushACKPacket_MarshalBinary \<lparr>pa_ProtocolVersion = pu_ProtocolVersion p,
                pa_RandomToken = pu_RandomToken p\<rparr> in
          (case udp_send \<lparr>pkt_addr = pkt_addr up, pkt_data = b\<rparr> s of
             (Some e, s1) \<Rightarrow> (Some e, s1)
           | (None, s1) \<Rightarrow>
               (case push_stats E up p s1 of
                  (Some e, s2) \<Rightarrow> (Some e, s2)
                | (None, s2) \<Rightarrow> push_frames E p s2)))"

section \<open>The backend\<close>

definition handlePacket ::
  "'c cache_lib \<Rightarrow> udp_env \<Rightarrow> udpPacket \<Rightarrow> 'c udp_state \<Rightarrow> go_err option \<times> 'c udp_state" where
  "handlePacket K E up s =
     (if us_closed s then (None, s)
      else (case GetPacketType (pkt_data up) of
          Inl e \<Rightarrow> (Some e, s)
        | Inr pt \<Rightarrow>
            if pt = PushData then handlePushData E up s
            else if pt = PullData then handlePullData E up s
            else if pt = TXACK then handleTXACK K E up s
            else (Some (ErrMsg (''backend/semtechudp: unknown packet type: '' @ PacketType_String pt)), s)))"

text \<open>The sending loop writes a packet of the channel unless it has no packet type.\<close>

definition sendPackets :: "udpPacket list \<Rightarrow> udpPacket list" where
  "sendPackets ps = filter (\<lambda>p. case GetPacketType (pkt_data p) of Inl e \<Rightarrow> False | Inr pt \<Rightarrow> True) ps"

definition cleanup_run :: "gotime \<Rightarrow> 'c udp_state \<Rightarrow> 'c udp_state" where
  "cleanup_run now s = (let (gws, es) = gateways_cleanup (us_subscribeFunc s) now (us_gateways s) in
     s\<lparr>us_gateways := gws, us_events := us_events s @ map EvSubscribe es\<rparr>)"

text \<open>
  \<open>close_err\<close> is the error of closing the socket. \<open>Stop\<close> then returns without releasing the
  mutex (\<open>us_locked\<close>), and an operation that takes it never goes on. Otherwise the send channel
  is closed, and \<open>Stop\<close> waits for the two loops.
\<close>

definition Stop :: "go_err option \<Rightarrow> 'c udp_state \<Rightarrow> go_err option \<times> 'c udp_state" where
  "Stop close_err s = (let s1 = s\<lparr>us_closed := True\<rparr> in
     (case close_err of
        Some e \<Rightarrow> (Some (Wrap ''close udp listener error'' e), s1\<lparr>us_locked := True\<rparr>)
      | None \<Rightarrow> (None, s1)))"

text \<open>
  The reading loop. Each round reads the socket; after an error it looks whether the backend is
  closed, and otherwise reads again. The result is the packets for which a goroutine was
  started, or \<open>None\<close> when the loop never ends.
\<close>

datatype udp_read = Datagram udpPacket | ReadError

partial_function (option) readPackets ::
  "(nat \<Rightarrow> udp_read) \<Rightarrow> (nat \<Rightarrow> bool) \<Rightarrow> nat \<Rightarrow> udpPacket list option" where
  "readPackets conn isClosed n =
     (case conn n of
        ReadError \<Rightarrow> if isClosed n then Some [] else readPackets conn isClosed (Suc n)
      | Datagram up \<Rightarrow>
          Option.bind (readPackets conn isClosed (Suc n)) (\<lambda>ups. Some (up # ups)))"

text \<open>The loop ends exactly if some read fails when the backend has been closed.\<close>

fun datagram :: "udp_read \<Rightarrow> udpPacket list" where
  "datagram (Datagram up) = [up]"
| "datagram ReadError = []"

lemma readPackets_ends:
  assumes "conn k = ReadError" "isClosed k" "n \<le> k"
    and "\<And>j. n \<le> j \<Longrightarrow> j < k \<Longrightarrow> conn j = ReadError \<Longrightarrow> \<not> isClosed j"
  shows "readPackets conn isClosed n = Some (concat (map (\<lambda>j. datagram (conn j)) [n..<k]))"
  using assms(3,4)
proof (induction rule: inc_induct)
  case base
  then show ?case using assms(1,2) by (subst readPackets.simps) simp
next
  case (step j)
  then have "readPackets conn isClosed (Suc j)
      = Some (concat (map (\<lambda>j. datagram (conn j)) [Suc j..<k]))" by simp
  then show ?case using step(2) step.prems[of j]
    by (subst readPackets.simps) (cases "conn j"; simp add: upt_conv_Cons)
qed

lemma readPackets_returns:
  "(\<exists>ups. readPackets conn isClosed n = Some ups) \<longleftrightarrow> (\<exists>k\<ge>n. conn k = ReadError \<and> isClosed k)"
proof
  assume "\<exists>ups. readPackets conn isClosed n = Some ups"
  then obtain ups where "readPackets conn isClosed n = Some ups" ..
  then show "\<exists>k\<ge>n. conn k = ReadError \<and> isClosed k"
    by (rule readPackets.raw_induct[rotated])
      (fastforce split: if_splits udp_read.splits bind_splits dest: Suc_leD)
next
  assume ex: "\<exists>k\<ge>n. conn k = ReadError \<and> isClosed k"
  define k where "k = (LEAST k. n \<le> k \<and> conn k = ReadError \<and> isClosed k)"
  have "n \<le> k \<and> conn k = ReadError \<and> isClosed k"
    unfolding k_def using ex by (rule_tac LeastI_ex) blast
  moreover have "\<not> isClosed j" if "n \<le> j" "j < k" "conn j = ReadError" for j
    using not_less_Least[OF that(2)[unfolded k_def]] that by blast
  ultimately show "\<exists>ups. readPackets conn isClosed n = Some ups"
    using readPackets_ends[of conn k isClosed n] by blast
qed

definition NewBackend :: "bool \<Rightarrow> bool \<Rightarrow> 'c \<Rightarrow> 'c udp_state" where
  "NewBackend skipCRC fakeRxTime c = \<lparr>us_cache = c, us_gateways = [], us_closed = False, us_locked = False,
     us_skipCRCCheck = skipCRC, us_fakeRxTime = fakeRxTime, us_txAckFunc = False,
     us_statsFunc = False, us_uplinkFunc = False, us_subscribeFunc = False, us_sent = [],
     us_events = [], us_draws = 0\<rparr>"

text \<open>The callbacks the forwarder registers.\<close>

definition SetFuncs :: "'c udp_state \<Rightarrow> 'c udp_state" where
  "SetFuncs s = s\<lparr>us_txAckFunc := True, us_statsFunc := True, us_uplinkFunc := True,
     us_subscribeFunc := True\<rparr>"

end
