(* ===== verification/BasicStation.thy ===== *)
theory BasicStation
  imports RouterConfig Eui64 SemtechUDP
begin

text \<open>
  The Basic Station backend (\<open>internal/backend/basicstation/backend.go\<close>): gateways hold a
  websocket each; messages of a gateway become events, commands become messages to it.

  One handler run is one function from state to state. A websocket is a number
  (\<open>bc_conn\<close>); what is written to it is recorded in order. The cache of downlinks by their
  DIID is \<open>go-cache\<close> again and holds frames only.
\<close>

section \<open>State\<close>

datatype bs_message =
    MsgRouterConfig RouterConfig
  | MsgDownlink BSDownlinkFrame
  | MsgTimeSyncResponse TimeSyncResponse
  | MsgTimeSyncTransfer TimeSyncGPSTimeTransfer

datatype ws_type = TextMessage | BinaryMessage

record ws_write =
  ww_conn :: nat
  ww_type :: ws_type
  ww_data :: bytes

datatype bs_event =
    BsUplink UplinkFrame
  | BsStats GatewayStats
  | BsTxAck DownlinkTXAck
  | BsRaw RawPacketForwarderEvent
  | BsSubscribe Subscribe

record 'c bs_state =
  bst_gateways :: connections
  bst_diidCache :: 'c
  bst_isClosed :: bool
  bst_timesyncInterval :: int
  bst_routerConfig :: RouterConfig
  bst_txAckFunc :: bool
  bst_uplinkFunc :: bool
  bst_statsFunc :: bool
  bst_rawFunc :: bool
  bst_subscribeFunc :: bool
  bst_written :: "ws_write list"
  bst_events :: "bs_event list"
  bst_draws :: nat

text \<open>
  The surroundings: identifiers, random bytes and the clock (functions of the number of draws),
  the websocket (does the write succeed), the texts of the messages, the band, and the
  difference of an instant to the GPS epoch.
\<close>

record bs_env =
  be_lib :: bs_lib
  be_spare :: "bytes \<Rightarrow> bytes"
  be_rand16 :: "nat \<Rightarrow> u16 option"
  be_uuid :: "nat \<Rightarrow> bytes option"
  be_now :: "nat \<Rightarrow> gotime"
  be_timestamp :: "gotime \<Rightarrow> timestamp"
  be_since_gps :: "gotime \<Rightarrow> go_duration"
  be_write_ok :: "ws_write \<Rightarrow> bool"
  be_marshal :: "bs_message \<Rightarrow> bytes option"
  be_msgtype :: "bytes \<Rightarrow> string option"
  be_version :: "bytes \<Rightarrow> bool"
  be_updf :: "bytes \<Rightarrow> UplinkDataFrame option"
  be_jreq :: "bytes \<Rightarrow> JoinRequest option"
  be_propdf :: "bytes \<Rightarrow> UplinkProprietaryFrame option"
  be_dntxed :: "bytes \<Rightarrow> DownlinkTransmitted option"
  be_timesync :: "bytes \<Rightarrow> TimeSyncRequest option"
  be_proto_marshal :: "modulation_info \<Rightarrow> bytes option"
  be_proto_unmarshal :: "bytes \<Rightarrow> modulation_info"
  be_eui_unmarshal :: "string \<Rightarrow> EUI64 option"
  be_eui_string :: "EUI64 \<Rightarrow> string"

definition bst_event :: "bool \<Rightarrow> bs_event \<Rightarrow> 'c bs_state \<Rightarrow> 'c bs_state" where
  "bst_event has e s = (if has then s\<lparr>bst_events := bst_events s @ [e]\<rparr> else s)"

section \<open>Writing to a gateway\<close>

definition sendRawToGateway ::
  "bs_env \<Rightarrow> EUI64 \<Rightarrow> ws_type \<Rightarrow> bytes \<Rightarrow> 'c bs_state \<Rightarrow> go_err option \<times> 'c bs_state" where
  "sendRawToGateway E gatewayID mt data s =
     (case bs_get (bst_gateways s) gatewayID of
        Inl e \<Rightarrow> (Some (Wrap ''get gateway error'' e), s)
      | Inr conn \<Rightarrow>
          let w = \<lparr>ww_conn = bc_conn conn, ww_type = mt, ww_data = data\<rparr> in
          if be_write_ok E w then (None, s\<lparr>bst_written := bst_written s @ [w]\<rparr>)
          else (Some (Wrap ''send message to gateway error'' (LibErr ''websocket'')), s))"

definition sendToGateway ::
  "bs_env \<Rightarrow> EUI64 \<Rightarrow> bs_message \<Rightarrow> 'c bs_state \<Rightarrow> go_err option \<times> 'c bs_state" where
  "sendToGateway E gatewayID v s =
     (case bs_get (bst_gateways s) gatewayID of
        Inl e \<Rightarrow> (Some (Wrap ''get gateway error'' e), s)
      | Inr conn \<Rightarrow> (case be_marshal E v of
            None \<Rightarrow> (Some (Wrap ''marshal json error'' (LibErr ''json'')), s)
          | Some bb \<Rightarrow>
              let w = \<lparr>ww_conn = bc_conn conn, ww_type = TextMessage, ww_data = bb\<rparr> in
              if be_write_ok E w then (None, s\<lparr>bst_written := bst_written s @ [w]\<rparr>)
              else (Some (Wrap ''send message to gateway error'' (LibErr ''websocket'')), s)))"

section \<open>Commands\<close>

definition diid_key :: "u32 \<Rightarrow> string" where "diid_key diid = show_dec (unat diid)"

text \<open>The frame with its token is cached before it is sent, whether or not it can be.\<close>

definition bs_send_frame ::
  "'c cache_lib \<Rightarrow> bs_env \<Rightarrow> DownlinkFrame \<Rightarrow> 'c bs_state \<Rightarrow> go_err option \<times> 'c bs_state" where
  "bs_send_frame K E df s =
     (case DownlinkFrameFromProto (be_lib E) (be_spare E) df of
        Inl e \<Rightarrow> (Some (Wrap ''downlink frame from proto error'' e), s)
      | Inr pl \<Rightarrow>
          (case sendToGateway E (copy_fixed 8 (df_GatewayId df)) (MsgDownlink pl)
              (s\<lparr>bst_diidCache := cache_set K (bst_diidCache s) (diid_key (dn_DIID pl)) (CFrame df)\<rparr>) of
             (Some e, s1) \<Rightarrow> (Some (Wrap ''send to gateway error'' e), s1)
           | (None, s1) \<Rightarrow> (None, s1)))"

definition bs_SendDownlinkFrame ::
  "'c cache_lib \<Rightarrow> bs_env \<Rightarrow> DownlinkFrame \<Rightarrow> 'c bs_state \<Rightarrow> go_err option \<times> 'c bs_state" where
  "bs_SendDownlinkFrame K E df s =
     (if df_Token df = 0 then
        (case be_rand16 E (bst_draws s) of
           None \<Rightarrow> (Some (Wrap ''read random bytes error'' (LibErr ''rand'')), s)
         | Some r \<Rightarrow> bs_send_frame K E (df\<lparr>df_Token := ucast r\<rparr>) (s\<lparr>bst_draws := bst_draws s + 1\<rparr>))
      else bs_send_frame K E df s)"

definition ApplyConfiguration :: "'c bs_state \<Rightarrow> go_err option \<times> 'c bs_state" where
  "ApplyConfiguration s = (None, s)"

definition bs_RawPacketForwarderCommand ::
  "bs_env \<Rightarrow> RawPacketForwarderCommand \<Rightarrow> 'c bs_state \<Rightarrow> go_err option \<times> 'c bs_state" where
  "bs_RawPacketForwarderCommand E pl s =
     (if rcmd_Payload pl = [] then (Some (ErrMsg ''raw packet-forwarder command payload is empty''), s)
      else
        let mt = (if hd (rcmd_Payload pl) = 0x7B then TextMessage else BinaryMessage) in
        (case sendRawToGateway E (copy_fixed 8 (rcmd_GatewayId pl)) mt (rcmd_Payload pl) s of
           (Some e, s1) \<Rightarrow> (Some (Wrap ''send raw packet-forwarder command to gateway error'' e), s1)
         | (None, s1) \<Rightarrow> (None, s1)))"

section \<open>Router discovery\<close>

record RouterInfoResponse =
  ri_Router :: EUI64
  ri_Muxs :: EUI64
  ri_URI :: string
  ri_Error :: string

text \<open>
  A gateway asks where to connect. With client certificates the name in the certificate must
  be the identifier asked for. \<open>cn\<close> is the common name of the first certificate, if any.
\<close>

definition cn_matches :: "bs_env \<Rightarrow> string option \<Rightarrow> EUI64 \<Rightarrow> bool" where
  "cn_matches E cn g = (case cn of None \<Rightarrow> True
     | Some c \<Rightarrow> (case be_eui_unmarshal E c of None \<Rightarrow> False | Some i \<Rightarrow> i = g))"

definition handleRouterInfo ::
  "bs_env \<Rightarrow> string \<Rightarrow> string \<Rightarrow> string option \<Rightarrow> EUI64 \<Rightarrow> RouterInfoResponse" where
  "handleRouterInfo E scheme host cn router =
     (if cn_matches E cn router then \<lparr>ri_Router = router, ri_Muxs = router,
        ri_URI = scheme @ ''://'' @ host @ ''/gateway/'' @ be_eui_string E router, ri_Error = []\<rparr>
      else \<lparr>ri_Router = router, ri_Muxs = router, ri_URI = [],
        ri_Error = ''certificate CommonName '' @ (case cn of None \<Rightarrow> [] | Some c \<Rightarrow> c)
          @ '' does not match router '' @ be_eui_string E router\<rparr>)"

section \<open>Connecting and leaving\<close>

definition url_gateway :: "bs_env \<Rightarrow> string \<Rightarrow> EUI64 option" where
  "url_gateway E path = (let parts = split_char CHR ''/'' path in
     if length parts < 2 then None else be_eui_unmarshal E (last parts))"

text \<open>The gateway of a connection that is kept, or \<open>None\<close> when the handler returns at once.\<close>

definition bs_connect ::
  "bs_env \<Rightarrow> string \<Rightarrow> string option \<Rightarrow> nat \<Rightarrow> 'c bs_state \<Rightarrow> EUI64 option \<times> 'c bs_state" where
  "bs_connect E path cn conn s =
     (case url_gateway E path of
        None \<Rightarrow> (None, s)
      | Some g \<Rightarrow>
          if \<not> cn_matches E cn g then (None, s)
          else (case bs_get (bst_gateways s) g of
              Inr _ \<Rightarrow> (None, s)
            | Inl _ \<Rightarrow>
                let (gws, es) = bs_set (bst_subscribeFunc s) g
                  \<lparr>bc_conn = conn, bc_stats = NewCollector, bc_lastTimesync = 0\<rparr> (bst_gateways s) in
                (Some g, s\<lparr>bst_gateways := gws, bst_events := bst_events s @ map BsSubscribe es\<rparr>)))"

definition bs_disconnect :: "EUI64 \<Rightarrow> 'c bs_state \<Rightarrow> 'c bs_state" where
  "bs_disconnect g s = (let (gws, es) = bs_remove (bst_subscribeFunc s) g (bst_gateways s) in
     s\<lparr>bst_gateways := gws, bst_events := bst_events s @ map BsSubscribe es\<rparr>)"

text \<open>The statistics ticker of a connection.\<close>

definition bs_stats_tick :: "bs_env \<Rightarrow> EUI64 \<Rightarrow> 'c bs_state \<Rightarrow> 'c bs_state" where
  "bs_stats_tick E g s =
     (case be_uuid E (bst_draws s) of
        None \<Rightarrow> s\<lparr>bst_draws := bst_draws s + 1\<rparr>
      | Some i \<Rightarrow> (case bs_get (bst_gateways s) g of
            Inl _ \<Rightarrow> s
          | Inr conn \<Rightarrow>
              let (st, col) = ExportStats (be_proto_unmarshal E) (bc_stats conn) in
              bst_event (bst_statsFunc s)
                (BsStats (st\<lparr>st_GatewayId := g, st_StatsId := i,
                   st_Time := Some (be_timestamp E (be_now E (bst_draws s)))\<rparr>))
                (s\<lparr>bst_gateways := AList.update g (conn\<lparr>bc_stats := col\<rparr>) (bst_gateways s),
                   bst_draws := bst_draws s + 1\<rparr>)))"

section \<open>Messages of a gateway\<close>

text \<open>
  The three kinds of uplink end alike: the frame gets an identifier, is counted in the
  statistics of its connection and is handed on. A frame that cannot be built is dropped.
\<close>

definition bs_count ::
  "bs_env \<Rightarrow> EUI64 \<Rightarrow> (Collector \<Rightarrow> Collector result) \<Rightarrow> 'c bs_state \<Rightarrow> go_err option \<times> 'c bs_state" where
  "bs_count E g f s = (case bs_get (bst_gateways s) g of
     Inl e \<Rightarrow> (None, s)
   | Inr conn \<Rightarrow> (case f (bc_stats conn) of
       Inl e \<Rightarrow> (Some e, s)
     | Inr c \<Rightarrow> (None, s\<lparr>bst_gateways := AList.update g (conn\<lparr>bc_stats := c\<rparr>) (bst_gateways s)\<rparr>)))"

definition set_UplinkId :: "bytes \<Rightarrow> UplinkFrame \<Rightarrow> UplinkFrame" where
  "set_UplinkId i uf = uf\<lparr>up_RxInfo := map_option (\<lambda>rx. rx\<lparr>rx_UplinkId := i\<rparr>) (up_RxInfo uf)\<rparr>"

definition bs_uplink ::
  "bs_env \<Rightarrow> EUI64 \<Rightarrow> UplinkFrame result \<Rightarrow> 'c bs_state \<Rightarrow> go_err option \<times> 'c bs_state" where
  "bs_uplink E gatewayID frame s = (case frame of
     Inl e \<Rightarrow> (None, s)
   | Inr uf \<Rightarrow> (case be_uuid E (bst_draws s) of
       None \<Rightarrow> (None, s\<lparr>bst_draws := bst_draws s + 1\<rparr>)
     | Some i \<Rightarrow>
         if up_RxInfo uf = None then (Some (GoPanic ''nil pointer dereference''), s)
         else
           let uf1 = set_UplinkId i uf in
           (case bs_count E gatewayID (CountUplink (be_proto_marshal E) uf1)
               (s\<lparr>bst_draws := bst_draws s + 1\<rparr>) of
              (Some e, s1) \<Rightarrow> (Some e, s1)
            | (None, s1) \<Rightarrow> (None, bst_event (bst_uplinkFunc s1) (BsUplink uf1) s1))))"

definition handleJoinRequest ::
  "bs_env \<Rightarrow> EUI64 \<Rightarrow> JoinRequest \<Rightarrow> 'c bs_state \<Rightarrow> go_err option \<times> 'c bs_state" where
  "handleJoinRequest E g v s = bs_uplink E g (JoinRequestToProto (be_lib E) g v) s"

definition handleProprietaryDataFrame ::
  "bs_env \<Rightarrow> EUI64 \<Rightarrow> UplinkProprietaryFrame \<Rightarrow> 'c bs_state \<Rightarrow> go_err option \<times> 'c bs_state" where
  "handleProprietaryDataFrame E g v s = bs_uplink E g (UplinkProprietaryFrameToProto (be_lib E) g v) s"

definition handleUplinkDataFrame ::
  "bs_env \<Rightarrow> EUI64 \<Rightarrow> UplinkDataFrame \<Rightarrow> 'c bs_state \<Rightarrow> go_err option \<times> 'c bs_state" where
  "handleUplinkDataFrame E g v s = bs_uplink E g (UplinkDataFrameToProto (be_lib E) g v) s"

definition handleDownlinkTransmittedMessage ::
  "'c cache_lib \<Rightarrow> bs_env \<Rightarrow> EUI64 \<Rightarrow> DownlinkTransmitted \<Rightarrow> 'c bs_state \<Rightarrow> go_err option \<times> 'c bs_state" where
  "handleDownlinkTransmittedMessage K E g v s =
     (let txack = DownlinkTransmittedToProto g v in
      (case cache_get K (bst_diidCache s) (diid_key (dnt_DIID v)) of
         None \<Rightarrow> (None, bst_event (bst_txAckFunc s) (BsTxAck txack) s)
       | Some (CFrame pl) \<Rightarrow>
           let txack1 = txack\<lparr>ack_DownlinkId := df_DownlinkId pl\<rparr> in
           (case bs_count E g (CountDownlink (bl_lib (be_lib E)) (be_proto_marshal E) pl txack1) s of
              (Some e, s1) \<Rightarrow> (Some e, s1)
            | (None, s1) \<Rightarrow> (None, bst_event (bst_txAckFunc s1) (BsTxAck txack1) s1))
       | Some _ \<Rightarrow> (Some (GoPanic ''interface conversion''), s)))"

definition handleRawPacketForwarderEvent ::
  "bs_env \<Rightarrow> EUI64 \<Rightarrow> bytes \<Rightarrow> 'c bs_state \<Rightarrow> 'c bs_state" where
  "handleRawPacketForwarderEvent E g pl s =
     (let s1 = s\<lparr>bst_draws := bst_draws s + 1\<rparr> in
      (case be_uuid E (bst_draws s) of
         None \<Rightarrow> s1
       | Some i \<Rightarrow> bst_event (bst_rawFunc s1)
           (BsRaw \<lparr>re_GatewayId = g, re_RawId = i, re_Payload = pl\<rparr>) s1))"

definition gps_micros :: "bs_env \<Rightarrow> nat \<Rightarrow> u64" where
  "gps_micros E n = go_div (be_since_gps E (be_now E n)) Microsecond"

definition handleTimeSync :: "bs_env \<Rightarrow> EUI64 \<Rightarrow> TimeSyncRequest \<Rightarrow> 'c bs_state \<Rightarrow> 'c bs_state" where
  "handleTimeSync E g v s = snd (sendToGateway E g (MsgTimeSyncResponse
     \<lparr>tsp_TxTime = tsr_TxTime v, tsp_GPSTime = gps_micros E (bst_draws s)\<rparr>)
     (s\<lparr>bst_draws := bst_draws s + 1\<rparr>))"

definition handleVersion :: "bs_env \<Rightarrow> EUI64 \<Rightarrow> 'c bs_state \<Rightarrow> 'c bs_state" where
  "handleVersion E g s = snd (sendToGateway E g (MsgRouterConfig (bst_routerConfig s)) s)"

text \<open>A time transfer follows an uplink once the interval since the last one has passed.\<close>

definition sendTimesyncRequest ::
  "bs_env \<Rightarrow> EUI64 \<Rightarrow> RadioMetaDataUpInfo \<Rightarrow> 'c bs_state \<Rightarrow> 'c bs_state" where
  "sendTimesyncRequest E g upInfo s =
     (if bst_timesyncInterval s = 0 then s
      else (case bs_getLastTimesync (bst_gateways s) g of
          Inl e \<Rightarrow> s
        | Inr lastTimesync \<Rightarrow>
            let s0 = s\<lparr>bst_draws := bst_draws s + 1\<rparr> in
            if lastTimesync + bst_timesyncInterval s > be_now E (bst_draws s) then s0
            else (case bs_setLastTimesync g (be_now E (bst_draws s + 1)) (bst_gateways s) of
                (Some e, gws) \<Rightarrow> s0
              | (None, gws) \<Rightarrow> snd (sendToGateway E g (MsgTimeSyncTransfer
                  \<lparr>tst_XTime = ui_XTime upInfo, tst_GPSTime = gps_micros E (bst_draws s + 2)\<rparr>)
                  (s\<lparr>bst_gateways := gws, bst_draws := bst_draws s + 3\<rparr>)))))"

definition then_timesync ::
  "bs_env \<Rightarrow> EUI64 \<Rightarrow> RadioMetaData \<Rightarrow> go_err option \<times> 'c bs_state \<Rightarrow> go_err option \<times> 'c bs_state" where
  "then_timesync E g rmd r = (case r of
     (Some e, s) \<Rightarrow> (Some e, s) | (None, s) \<Rightarrow> (None, sendTimesyncRequest E g (rmd_UpInfo rmd) s))"

text \<open>One pass of the receive loop. A message that cannot be read changes nothing.\<close>

definition bs_receive ::
  "'c cache_lib \<Rightarrow> bs_env \<Rightarrow> EUI64 \<Rightarrow> ws_type \<Rightarrow> bytes \<Rightarrow> 'c bs_state \<Rightarrow> go_err option \<times> 'c bs_state" where
  "bs_receive K E g mt msg s =
     (if mt = BinaryMessage then (None, handleRawPacketForwarderEvent E g msg s)
      else (case GetMessageType (be_msgtype E) msg of
          Inl e \<Rightarrow> (None, s)
        | Inr VersionMessage \<Rightarrow> (None, if be_version E msg then handleVersion E g s else s)
        | Inr UplinkDataFrameMessage \<Rightarrow> (case be_updf E msg of None \<Rightarrow> (None, s)
            | Some pl \<Rightarrow> then_timesync E g (updf_RadioMetaData pl) (handleUplinkDataFrame E g pl s))
        | Inr JoinRequestMessage \<Rightarrow> (case be_jreq E msg of None \<Rightarrow> (None, s)
            | Some pl \<Rightarrow> then_timesync E g (jr_RadioMetaData pl) (handleJoinRequest E g pl s))
        | Inr ProprietaryDataFrameMessage \<Rightarrow> (case be_propdf E msg of None \<Rightarrow> (None, s)
            | Some pl \<Rightarrow> then_timesync E g (uppf_RadioMetaData pl) (handleProprietaryDataFrame E g pl s))
        | Inr DownlinkTransmittedMessage \<Rightarrow> (case be_dntxed E msg of None \<Rightarrow> (None, s)
            | Some pl \<Rightarrow> handleDownlinkTransmittedMessage K E g pl s)
        | Inr TimeSyncMessage \<Rightarrow> (case be_timesync E msg of None \<Rightarrow> (None, s)
            | Some pl \<Rightarrow> (None, handleTimeSync E g pl s))
        | Inr _ \<Rightarrow> (None, handleRawPacketForwarderEvent E g msg s)))"

section \<open>The backend\<close>

text \<open>
  Building the backend: the filters and the region of the configuration must be readable, and
  the channels must fit the concentrators. Opening the listener and the certificate files
  are left out.
\<close>

fun unmarshal_all :: "string \<Rightarrow> (string \<Rightarrow> 'a option) \<Rightarrow> string list \<Rightarrow> 'a list result" where
  "unmarshal_all msg u [] = Inr []"
| "unmarshal_all msg u (x # xs) = (case u x of
     None \<Rightarrow> Inl (Wrap msg (LibErr ''lorawan''))
   | Some y \<Rightarrow> bind_res (unmarshal_all msg u xs) (\<lambda>ys. Inr (y # ys)))"

definition unmarshal_pair :: "(string \<Rightarrow> 'a option) \<Rightarrow> string \<times> string \<Rightarrow> ('a \<times> 'a) result" where
  "unmarshal_pair u p = (case (u (fst p), u (snd p)) of
     (Some a, Some b) \<Rightarrow> Inr (a, b) | _ \<Rightarrow> Inl (Wrap ''unmarshal joineui error'' (LibErr ''lorawan'')))"

fun unmarshal_pairs :: "(string \<Rightarrow> 'a option) \<Rightarrow> (string \<times> string) list \<Rightarrow> ('a \<times> 'a) list result" where
  "unmarshal_pairs u [] = Inr []"
| "unmarshal_pairs u (p # ps) = bind_res (unmarshal_pair u p) (\<lambda>q.
     bind_res (unmarshal_pairs u ps) (\<lambda>qs. Inr (q # qs)))"

definition bs_NewBackend ::
  "channel_sort \<Rightarrow> (string \<Rightarrow> band option) \<Rightarrow> lorawan_lib \<Rightarrow> string list \<Rightarrow> (string \<times> string) list
     \<Rightarrow> string \<Rightarrow> u32 \<Rightarrow> u32 \<Rightarrow> BasicStationConcentrator list \<Rightarrow> int \<Rightarrow> 'c
     \<Rightarrow> ('c bs_state \<times> band) result" where
  "bs_NewBackend srt GetConfig W netIDs joinEUIs region freqMin freqMax confs timesync c =
     bind_res (unmarshal_all ''unmarshal netid error'' (netid_unmarshal W) netIDs) (\<lambda>ids.
     bind_res (unmarshal_pairs (eui64_unmarshal W) joinEUIs) (\<lambda>euis.
     case GetConfig region of
       None \<Rightarrow> Inl (Wrap ''get band config error'' (LibErr ''band''))
     | Some b \<Rightarrow>
         bind_res (wrap_err ''get router config error''
             (GetRouterConfig srt GetConfig region ids euis freqMin freqMax confs)) (\<lambda>rc.
           Inr (\<lparr>bst_gateways = [], bst_diidCache = c, bst_isClosed = False,
             bst_timesyncInterval = timesync, bst_routerConfig = rc, bst_txAckFunc = False,
             bst_uplinkFunc = False, bst_statsFunc = False, bst_rawFunc = False,
             bst_subscribeFunc = False, bst_written = [], bst_events = [], bst_draws = 0\<rparr>, b))))"

definition bs_SetFuncs :: "'c bs_state \<Rightarrow> 'c bs_state" where
  "bs_SetFuncs s = s\<lparr>bst_txAckFunc := True, bst_uplinkFunc := True, bst_statsFunc := True,
     bst_rawFunc := True, bst_subscribeFunc := True\<rparr>"

definition bs_Stop :: "'c bs_state \<Rightarrow> 'c bs_state" where
  "bs_Stop s = s\<lparr>bst_isClosed := True\<rparr>"

end
