(* ===== verification/Concentratord.thy ===== *)
theory Concentratord
  imports Filters Registry
begin

text \<open>
  The ConcentratorD backend (\<open>internal/backend/concentratord/concentratord.go\<close>): one gateway
  behind two ZeroMQ sockets, one for events and one for commands and their replies. Bandwidths
  are in hertz on the sockets and in kilohertz in the bridge.

  The sockets are arguments: the n-th dial, send or receive succeeds or not. A dial loop that
  never succeeds is \<open>None\<close>.
\<close>

section \<open>State\<close>

datatype cd_event =
    CdUplink UplinkFrame
  | CdStats GatewayStats
  | CdTxAck DownlinkTXAck
  | CdSubscribe Subscribe

record cd_state =
  cd_eventSock :: bool
  cd_commandSock :: bool
  cd_gatewayID :: EUI64
  cd_crcCheck :: bool
  cd_txAckFunc :: bool
  cd_statsFunc :: bool
  cd_uplinkFunc :: bool
  cd_subscribeFunc :: bool
  cd_requests :: "(string \<times> bytes) list"
  cd_events :: "cd_event list"
  cd_draws :: nat

record cd_env =
  ce_dial :: "nat \<Rightarrow> bool"
  ce_option :: "nat \<Rightarrow> bool"
  ce_send :: "nat \<Rightarrow> bool"
  ce_reply :: "nat \<Rightarrow> bytes option"
  ce_event :: "nat \<Rightarrow> bytes list option"
  ce_marshal :: "proto_msg \<Rightarrow> bytes option"
  ce_txack :: "bytes \<Rightarrow> DownlinkTXAck option"
  ce_uplink :: "bytes \<Rightarrow> UplinkFrame option"
  ce_stats :: "bytes \<Rightarrow> GatewayStats option"
  ce_zero_crc :: crc_status
  ce_lorawan :: lorawan_lib
  ce_filters :: filters

definition cd_NewBackend :: "bool \<Rightarrow> cd_state" where
  "cd_NewBackend crcCheck = \<lparr>cd_eventSock = False, cd_commandSock = False, cd_gatewayID = replicate 8 0,
     cd_crcCheck = crcCheck, cd_txAckFunc = False, cd_statsFunc = False, cd_uplinkFunc = False,
     cd_subscribeFunc = False, cd_requests = [], cd_events = [], cd_draws = 0\<rparr>"

definition cd_SetFuncs :: "cd_state \<Rightarrow> cd_state" where
  "cd_SetFuncs s = s\<lparr>cd_txAckFunc := True, cd_statsFunc := True, cd_uplinkFunc := True,
     cd_subscribeFunc := True\<rparr>"

definition cd_emit :: "bool \<Rightarrow> cd_event \<Rightarrow> cd_state \<Rightarrow> cd_state" where
  "cd_emit has e s = (if has then s\<lparr>cd_events := cd_events s @ [e]\<rparr> else s)"

section \<open>Sockets\<close>

definition dialEventSock :: "cd_env \<Rightarrow> cd_state \<Rightarrow> go_err option \<times> cd_state" where
  "dialEventSock E s = (let n = cd_draws s; s1 = s\<lparr>cd_eventSock := False, cd_draws := n + 1\<rparr> in
     if \<not> ce_dial E n then (Some (Wrap ''dial event api url error'' (LibErr ''zmq4'')), s1)
     else if \<not> ce_option E n then (Some (Wrap ''set event option error'' (LibErr ''zmq4'')), s1)
     else (None, s1\<lparr>cd_eventSock := True\<rparr>))"

definition dialCommandSock :: "cd_env \<Rightarrow> cd_state \<Rightarrow> go_err option \<times> cd_state" where
  "dialCommandSock E s = (let n = cd_draws s; ok = ce_dial E n in
     (if ok then None else Some (Wrap ''dial command api url error'' (LibErr ''zmq4'')),
      s\<lparr>cd_commandSock := ok, cd_draws := n + 1\<rparr>))"

partial_function (option) dialEventSockLoop :: "cd_env \<Rightarrow> cd_state \<Rightarrow> cd_state option" where
  "dialEventSockLoop E s = (case dialEventSock E s of
     (None, s1) \<Rightarrow> Some s1
   | (Some e, s1) \<Rightarrow> dialEventSockLoop E s1)"

partial_function (option) dialCommandSockLoop :: "cd_env \<Rightarrow> cd_state \<Rightarrow> cd_state option" where
  "dialCommandSockLoop E s = (case dialCommandSock E s of
     (None, s1) \<Rightarrow> Some s1
   | (Some e, s1) \<Rightarrow> dialCommandSockLoop E s1)"

text \<open>After a failed send or receive the command socket is dialled once, whatever comes of it.\<close>

definition commandRequest ::
  "cd_env \<Rightarrow> string \<Rightarrow> proto_msg option \<Rightarrow> cd_state \<Rightarrow> bytes result \<times> cd_state" where
  "commandRequest E command v s =
     (case (case v of None \<Rightarrow> Some [] | Some m \<Rightarrow> ce_marshal E m) of
        None \<Rightarrow> (Inl (Wrap ''protobuf marshal error'' (LibErr ''proto'')), s)
      | Some bb \<Rightarrow>
          let n = cd_draws s in
          if \<not> ce_send E n then
            (Inl (Wrap ''send command request error'' (LibErr ''zmq4'')),
             snd (dialCommandSock E (s\<lparr>cd_draws := n + 1\<rparr>)))
          else
            let s1 = s\<lparr>cd_draws := n + 1, cd_requests := cd_requests s @ [(command, bb)]\<rparr> in
            (case ce_reply E n of
               None \<Rightarrow> (Inl (Wrap ''receive command request reply error'' (LibErr ''zmq4'')),
                 snd (dialCommandSock E s1))
             | Some reply \<Rightarrow> (Inr reply, s1)))"

definition getGatewayID :: "cd_env \<Rightarrow> cd_state \<Rightarrow> EUI64 result \<times> cd_state" where
  "getGatewayID E s = (case commandRequest E ''gateway_id'' None s of
     (Inl e, s1) \<Rightarrow> (Inl (Wrap ''request gateway id error'' e), s1)
   | (Inr bb, s1) \<Rightarrow> (Inr (copy_fixed 8 bb), s1))"

definition cd_Start :: "cd_env \<Rightarrow> cd_state \<Rightarrow> (go_err option \<times> cd_state) option" where
  "cd_Start E s = (case dialEventSockLoop E s of
     None \<Rightarrow> None
   | Some s1 \<Rightarrow> (case dialCommandSockLoop E s1 of
         None \<Rightarrow> None
       | Some s2 \<Rightarrow> Some (case getGatewayID E s2 of
             (Inl e, s3) \<Rightarrow> (Some (Wrap ''get gateway id error'' e), s3\<lparr>cd_gatewayID := replicate 8 0\<rparr>)
           | (Inr g, s3) \<Rightarrow> (None, cd_emit (cd_subscribeFunc s3)
               (CdSubscribe \<lparr>sub_Subscribe = True, sub_GatewayID = g\<rparr>) (s3\<lparr>cd_gatewayID := g\<rparr>)))))"

definition cd_Stop :: "cd_state \<Rightarrow> cd_state" where
  "cd_Stop s = s\<lparr>cd_eventSock := False, cd_commandSock := False\<rparr>"

section \<open>Commands\<close>

fun lora_to_hz :: "modulation_info \<Rightarrow> modulation_info" where
  "lora_to_hz (LoraInfo i) = LoraInfo (i\<lparr>l_Bandwidth := l_Bandwidth i * 1000\<rparr>)"
| "lora_to_hz m = m"

fun lora_to_khz :: "modulation_info \<Rightarrow> modulation_info" where
  "lora_to_khz (LoraInfo i) = LoraInfo (i\<lparr>l_Bandwidth := l_Bandwidth i div 1000\<rparr>)"
| "lora_to_khz m = m"

definition item_to_hz :: "DownlinkFrameItem \<Rightarrow> DownlinkFrameItem" where
  "item_to_hz i = i\<lparr>di_TxInfo := map_option
     (\<lambda>t. t\<lparr>dt_ModulationInfo := lora_to_hz (dt_ModulationInfo t)\<rparr>) (di_TxInfo i)\<rparr>"

text \<open>A failed request ends the process.\<close>

definition cd_SendDownlinkFrame :: "cd_env \<Rightarrow> DownlinkFrame \<Rightarrow> cd_state \<Rightarrow> go_err option \<times> cd_state" where
  "cd_SendDownlinkFrame E pl s =
     (case commandRequest E ''down'' (Some (PmDownlink (pl\<lparr>df_Items := map item_to_hz (df_Items pl)\<rparr>))) s of
        (Inl e, s1) \<Rightarrow> (Some (GoPanic ''log.Fatal''), s1)
      | (Inr bb, s1) \<Rightarrow>
          if bb = [] then
            (Some (ErrMsg ''no reply receieved, check concentratord logs for error''), s1)
          else (case ce_txack E bb of
              None \<Rightarrow> (Some (Wrap ''protobuf unmarshal error'' (LibErr ''proto'')), s1)
            | Some ack \<Rightarrow> (None, cd_emit (cd_txAckFunc s1) (CdTxAck ack) s1)))"

fun config_to_hz :: "modulation_config \<Rightarrow> modulation_config" where
  "config_to_hz (LoraConfig c) = LoraConfig (c\<lparr>lc_Bandwidth := lc_Bandwidth c * 1000\<rparr>)"
| "config_to_hz (FskConfig c) = FskConfig (c\<lparr>fc_Bandwidth := fc_Bandwidth c * 1000\<rparr>)"
| "config_to_hz NoModulationConfig = NoModulationConfig"

definition cd_ApplyConfiguration ::
  "cd_env \<Rightarrow> GatewayConfiguration \<Rightarrow> cd_state \<Rightarrow> go_err option \<times> cd_state" where
  "cd_ApplyConfiguration E config s =
     (let c1 = config\<lparr>gc_Channels := map (\<lambda>c. c\<lparr>ch_ModulationConfig := config_to_hz (ch_ModulationConfig c)\<rparr>)
          (gc_Channels config)\<rparr> in
      case commandRequest E ''config'' (Some (PmConfig c1)) s of
        (Inl e, s1) \<Rightarrow> (Some (GoPanic ''log.Fatal''), s1)
      | (Inr bb, s1) \<Rightarrow> (None, s1))"

definition cd_RawPacketForwarderCommand ::
  "RawPacketForwarderCommand \<Rightarrow> cd_state \<Rightarrow> go_err option \<times> cd_state" where
  "cd_RawPacketForwarderCommand pl s = (None, s)"

section \<open>Events\<close>

definition uplink_to_khz :: "UplinkFrame \<Rightarrow> UplinkFrame" where
  "uplink_to_khz pl = pl\<lparr>up_TxInfo := map_option
     (\<lambda>t. t\<lparr>ut_ModulationInfo := lora_to_khz (ut_ModulationInfo t)\<rparr>) (up_TxInfo pl)\<rparr>"

definition crc_of :: "cd_env \<Rightarrow> UplinkFrame \<Rightarrow> crc_status" where
  "crc_of E pl = (case up_RxInfo pl of None \<Rightarrow> ce_zero_crc E | Some r \<Rightarrow> rx_CrcStatus r)"

definition cd_handleUplinkFrame :: "cd_env \<Rightarrow> bytes \<Rightarrow> cd_state \<Rightarrow> go_err option \<times> cd_state" where
  "cd_handleUplinkFrame E bb s =
     (case ce_uplink E bb of
        None \<Rightarrow> (Some (Wrap ''protobuf unmarshal error'' (LibErr ''proto'')), s)
      | Some pl \<Rightarrow>
          if cd_crcCheck s \<and> crc_of E pl \<noteq> CRC_OK then (None, s)
          else if MatchFilters (ce_lorawan E) (ce_filters E) (up_PhyPayload pl)
          then (None, cd_emit (cd_uplinkFunc s) (CdUplink (uplink_to_khz pl)) s)
          else (None, s))"

definition cd_handleGatewayStats :: "cd_env \<Rightarrow> bytes \<Rightarrow> cd_state \<Rightarrow> go_err option \<times> cd_state" where
  "cd_handleGatewayStats E bb s =
     (case ce_stats E bb of
        None \<Rightarrow> (Some (Wrap ''protobuf unmarshal error'' (LibErr ''proto'')), s)
      | Some pl \<Rightarrow> (None, cd_emit (cd_statsFunc s) (CdStats (pl\<lparr>
          st_RxPacketsPerModulation := map (apfst lora_to_khz) (st_RxPacketsPerModulation pl),
          st_TxPacketsPerModulation := map (apfst lora_to_khz) (st_TxPacketsPerModulation pl)\<rparr>)) s))"

definition cd_recover :: "cd_env \<Rightarrow> cd_state \<Rightarrow> cd_state option" where
  "cd_recover E s = (case dialEventSockLoop E s of
     None \<Rightarrow> None
   | Some s1 \<Rightarrow> dialCommandSockLoop E s1)"

text \<open>One round of the event loop; errors of the handlers are logged.\<close>

definition event_round :: "cd_env \<Rightarrow> cd_state \<Rightarrow> cd_state option" where
  "event_round E s =
     (let s0 = s\<lparr>cd_draws := cd_draws s + 1\<rparr> in
      case ce_event E (cd_draws s) of
        None \<Rightarrow> cd_recover E s0
      | Some [name, msg] \<Rightarrow>
          if map (\<lambda>b. char_of (unat b)) name = ''up'' then Some (snd (cd_handleUplinkFrame E msg s0))
          else if map (\<lambda>b. char_of (unat b)) name = ''stats'' then Some (snd (cd_handleGatewayStats E msg s0))
          else Some s0
      | Some _ \<Rightarrow> Some s0)"

section \<open>Laws\<close>

text \<open>A loop returns as soon as one dial succeeds.\<close>

lemma dialEventSockLoop_returns:
  "ce_dial E (cd_draws s + k) \<and> ce_option E (cd_draws s + k) \<Longrightarrow> \<exists>t. dialEventSockLoop E s = Some t \<and> cd_eventSock t
     \<and> cd_events t = cd_events s"
proof (induction k arbitrary: s)
  case 0
  then show ?case by (subst dialEventSockLoop.simps) (simp add: dialEventSock_def Let_def)
next
  case (Suc k)
  have "\<exists>t. dialEventSockLoop E (s\<lparr>cd_eventSock := False, cd_draws := cd_draws s + 1\<rparr>) = Some t
      \<and> cd_eventSock t \<and> cd_events t = cd_events s"
    using Suc.IH[of "s\<lparr>cd_eventSock := False, cd_draws := cd_draws s + 1\<rparr>"] Suc.prems by simp
  then show ?case by (subst dialEventSockLoop.simps) (simp add: dialEventSock_def Let_def)
qed

lemma dialCommandSockLoop_returns:
  "ce_dial E (cd_draws s + k) \<Longrightarrow> \<exists>t. dialCommandSockLoop E s = Some t \<and> cd_commandSock t
     \<and> cd_eventSock t = cd_eventSock s \<and> cd_events t = cd_events s"
proof (induction k arbitrary: s)
  case 0
  then show ?case by (subst dialCommandSockLoop.simps) (simp add: dialCommandSock_def Let_def)
next
  case (Suc k)
  have "\<exists>t. dialCommandSockLoop E (s\<lparr>cd_commandSock := False, cd_draws := cd_draws s + 1\<rparr>) = Some t
      \<and> cd_commandSock t \<and> cd_eventSock t = cd_eventSock s \<and> cd_events t = cd_events s"
    using Suc.IH[of "s\<lparr>cd_commandSock := False, cd_draws := cd_draws s + 1\<rparr>"] Suc.prems by simp
  then show ?case by (subst dialCommandSockLoop.simps) (simp add: dialCommandSock_def Let_def)
qed

text \<open>A bandwidth given in whole kilohertz survives the way to the gateway and back.\<close>

lemma khz_hz: "unat (l_Bandwidth i) < 4294967 \<Longrightarrow> lora_to_khz (lora_to_hz (LoraInfo i)) = LoraInfo i"
proof -
  assume a: "unat (l_Bandwidth i) < 4294967"
  have "unat (l_Bandwidth i * 1000) = unat (l_Bandwidth i) * 1000"
    using a by (simp add: unat_mult_lem[THEN iffD1])
  then have "l_Bandwidth i * 1000 div 1000 = l_Bandwidth i"
    by (simp add: word_unat_eq_iff unat_div_distrib)
  then show ?thesis by simp
qed

end
