(* ===== verification/MqttAuth.thy ===== *)
theory MqttAuth
  imports GoStrings Gw
begin

text \<open>
  The authentication methods of the MQTT integration (\<open>internal/integration/mqtt/auth\<close>):
  how each one fills the options of the client, and which gateway ID it provides.

  Files, key pairs, the signature functions (HMAC-SHA256, RSA) and the clock are arguments
  (\<open>auth_env\<close>); an RSA key and a loaded key pair are opaque bytes. The options are those of
  the paho client that the bridge sets.
\<close>

section \<open>Client options\<close>

record tls_config =
  tls_RootCAs :: "bytes option"
  tls_Certificates :: "bytes list"

record mqtt_opts =
  op_Brokers :: "string list"
  op_ClientID :: string
  op_Username :: string
  op_Password :: string
  op_CleanSession :: bool
  op_TLS :: "tls_config option"
  op_ProtocolVersion :: nat
  op_AutoReconnect :: bool
  op_KeepAlive :: go_duration
  op_MaxReconnectInterval :: go_duration
  op_Will :: "(string \<times> bytes \<times> u8 \<times> bool) option"

record auth_env =
  ae_ReadFile :: "string \<Rightarrow> bytes option"
  ae_LoadX509KeyPair :: "string \<Rightarrow> string \<Rightarrow> bytes option"
  ae_ParseRSA :: "bytes \<Rightarrow> bytes option"
  ae_jwt_sign :: "bytes \<Rightarrow> int \<Rightarrow> int \<Rightarrow> string \<Rightarrow> string option"
  ae_hmac_sha256 :: "bytes \<Rightarrow> bytes \<Rightarrow> bytes"
  ae_now :: "nat \<Rightarrow> gotime"
  ae_eui_unmarshal :: "string \<Rightarrow> EUI64 option"
  ae_pem_ok :: "bytes \<Rightarrow> bool"

text \<open>\<open>Time.Unix\<close>: whole seconds since 1970, from nanoseconds since year 1.\<close>

definition unix_seconds :: "gotime \<Rightarrow> int" where
  "unix_seconds t = t div Second - 62135596800"

text \<open>\<open>%d\<close> of a signed integer.\<close>

definition show_int :: "int \<Rightarrow> string" where
  "show_int i = (if i < 0 then CHR ''-'' # show_dec (nat (- i)) else show_dec (nat i))"

definition newTLSConfig ::
  "auth_env \<Rightarrow> string \<Rightarrow> string \<Rightarrow> string \<Rightarrow> tls_config option result" where
  "newTLSConfig E cafile certFile certKeyFile =
     (if cafile = [] \<and> certFile = [] \<and> certKeyFile = [] then Inr None
      else
        bind_res
          (if cafile = [] then Inr \<lparr>tls_RootCAs = None, tls_Certificates = []\<rparr>
           else case ae_ReadFile E cafile of
               None \<Rightarrow> Inl (Wrap ''load ca-cert error'' (LibErr ''ioutil.ReadFile''))
             | Some cacert \<Rightarrow> Inr \<lparr>tls_RootCAs = Some cacert, tls_Certificates = []\<rparr>)
          (\<lambda>tls.
             if certFile \<noteq> [] \<and> certKeyFile \<noteq> [] then
               (case ae_LoadX509KeyPair E certFile certKeyFile of
                  None \<Rightarrow> Inl (Wrap ''load tls key-pair error'' (LibErr ''tls''))
                | Some kp \<Rightarrow> Inr (Some (tls\<lparr>tls_Certificates := [kp]\<rparr>)))
             else Inr (Some tls)))"

section \<open>Generic\<close>

record generic_conf =
  gen_Servers :: "string list"
  gen_Username :: string
  gen_Password :: string
  gen_CACert :: string
  gen_TLSCert :: string
  gen_TLSKey :: string
  gen_QOS :: u8
  gen_CleanSession :: bool
  gen_ClientID :: string

record GenericAuthentication =
  ga_servers :: "string list"
  ga_username :: string
  ga_password :: string
  ga_cleanSession :: bool
  ga_clientID :: string
  ga_tlsConfig :: "tls_config option"

definition NewGenericAuthentication ::
  "auth_env \<Rightarrow> generic_conf \<Rightarrow> GenericAuthentication result" where
  "NewGenericAuthentication E c =
     (case newTLSConfig E (gen_CACert c) (gen_TLSCert c) (gen_TLSKey c) of
        Inl e \<Rightarrow> Inl (Wrap ''mqtt/auth: new tls config error'' e)
      | Inr tls \<Rightarrow> Inr \<lparr>ga_servers = gen_Servers c, ga_username = gen_Username c,
          ga_password = gen_Password c, ga_cleanSession = gen_CleanSession c,
          ga_clientID = gen_ClientID c, ga_tlsConfig = tls\<rparr>)"

definition generic_Init :: "GenericAuthentication \<Rightarrow> mqtt_opts \<Rightarrow> mqtt_opts result" where
  "generic_Init a opts =
     (let o1 = opts\<lparr>op_Brokers := op_Brokers opts @ ga_servers a, op_Username := ga_username a,
            op_Password := ga_password a, op_CleanSession := ga_cleanSession a,
            op_ClientID := ga_clientID a\<rparr> in
      Inr (case ga_tlsConfig a of None \<Rightarrow> o1 | Some tls \<Rightarrow> o1\<lparr>op_TLS := Some tls\<rparr>))"

definition generic_GetGatewayID :: "auth_env \<Rightarrow> GenericAuthentication \<Rightarrow> EUI64 option" where
  "generic_GetGatewayID E a =
     (if ga_clientID a = [] then None else ae_eui_unmarshal E (ga_clientID a))"

section \<open>Google Cloud IoT Core\<close>

record gcp_conf =
  gcp_Server :: string
  gcp_DeviceID :: string
  gcp_ProjectID :: string
  gcp_CloudRegion :: string
  gcp_RegistryID :: string
  gcp_JWTExpiration :: go_duration
  gcp_JWTKeyFile :: string

record GCPAuthentication =
  gp_privateKey :: bytes
  gp_clientID :: string
  gp_server :: string
  gp_projectID :: string
  gp_jwtExpiration :: go_duration

definition NewGCPCloudIoTCoreAuthentication ::
  "auth_env \<Rightarrow> gcp_conf \<Rightarrow> GCPAuthentication result" where
  "NewGCPCloudIoTCoreAuthentication E c =
     (case ae_ReadFile E (gcp_JWTKeyFile c) of
        None \<Rightarrow> Inl (Wrap ''read jwt key-file error'' (LibErr ''ioutil.ReadFile''))
      | Some raw \<Rightarrow> (case ae_ParseRSA E raw of
            None \<Rightarrow> Inl (Wrap ''parse jwt key-file error'' (LibErr ''jwt''))
          | Some key \<Rightarrow> Inr \<lparr>gp_privateKey = key,
              gp_clientID = ''projects/'' @ gcp_ProjectID c @ ''/locations/'' @ gcp_CloudRegion c
                @ ''/registries/'' @ gcp_RegistryID c @ ''/devices/'' @ gcp_DeviceID c,
              gp_server = gcp_Server c, gp_projectID = gcp_ProjectID c,
              gp_jwtExpiration = gcp_JWTExpiration c\<rparr>))"

definition gcp_Init :: "GCPAuthentication \<Rightarrow> mqtt_opts \<Rightarrow> mqtt_opts result" where
  "gcp_Init a opts = Inr (opts\<lparr>op_Brokers := op_Brokers opts @ [gp_server a],
     op_ClientID := gp_clientID a\<rparr>)"

definition gcp_Update :: "auth_env \<Rightarrow> nat \<Rightarrow> GCPAuthentication \<Rightarrow> mqtt_opts \<Rightarrow> mqtt_opts result" where
  "gcp_Update E n a opts =
     (let issuedAt = unix_seconds (ae_now E n);
          expiresAt = unix_seconds (time_Add (ae_now E (n + 1)) (gp_jwtExpiration a)) in
      case ae_jwt_sign E (gp_privateKey a) issuedAt expiresAt (gp_projectID a) of
        None \<Rightarrow> Inl (Wrap ''sign jwt token error'' (LibErr ''jwt''))
      | Some token \<Rightarrow> Inr (opts\<lparr>op_Username := token, op_Password := token\<rparr>))"

section \<open>Azure IoT Hub\<close>

definition string_bytes :: "string \<Rightarrow> bytes" where
  "string_bytes s = map of_char s"

text \<open>
  The certificates of the Azure services, as in the code: a text starts with a line break and
  each of its lines ends with one.
\<close>

definition pem_text :: "string list \<Rightarrow> string" where
  "pem_text ls = CHR 0x0A # concat (map (\<lambda>l. l @ [CHR 0x0A]) ls)"

definition digiCertBaltimoreRootCA :: string where
  "digiCertBaltimoreRootCA = pem_text [
     ''-----BEGIN CERTIFICATE-----'',
     ''MIIDdzCCAl+gAwIBAgIEAgAAuTANBgkqhkiG9w0BAQUFADBaMQswCQYDVQQGEwJJ'',
     ''RTESMBAGA1UEChMJQmFsdGltb3JlMRMwEQYDVQQLEwpDeWJlclRydXN0MSIwIAYD'',
     ''VQQDExlCYWx0aW1vcmUgQ3liZXJUcnVzdCBSb290MB4XDTAwMDUxMjE4NDYwMFoX'',
     ''DTI1MDUxMjIzNTkwMFowWjELMAkGA1UEBhMCSUUxEjAQBgNVBAoTCUJhbHRpbW9y'',
     ''ZTETMBEGA1UECxMKQ3liZXJUcnVzdDEiMCAGA1UEAxMZQmFsdGltb3JlIEN5YmVy'',
     ''VHJ1c3QgUm9vdDCCASIwDQYJKoZIhvcNAQEBBQADggEPADCCAQoCggEBAKMEuyKr'',
     ''mD1X6CZymrV51Cni4eiVgLGw41uOKymaZN+hXe2wCQVt2yguzmKiYv60iNoS6zjr'',
     ''IZ3AQSsBUnuId9Mcj8e6uYi1agnnc+gRQKfRzMpijS3ljwumUNKoUMMo6vWrJYeK'',
     ''mpYcqWe4PwzV9/lSEy/CG9VwcPCPwBLKBsua4dnKM3p31vjsufFoREJIE9LAwqSu'',
     ''XmD+tqYF/LTdB1kC1FkYmGP1pWPgkAx9XbIGevOF6uvUA65ehD5f/xXtabz5OTZy'',
     ''dc93Uk3zyZAsuT3lySNTPx8kmCFcB5kpvcY67Oduhjprl3RjM71oGDHweI12v/ye'',
     ''jl0qhqdNkNwnGjkCAwEAAaNFMEMwHQYDVR0OBBYEFOWdWTCCR1jMrPoIVDaGezq1'',
     ''BE3wMBIGA1UdEwEB/wQIMAYBAf8CAQMwDgYDVR0PAQH/BAQDAgEGMA0GCSqGSIb3'',
     ''DQEBBQUAA4IBAQCFDF2O5G9RaEIFoN27TyclhAO992T9Ldcw46QQF+vaKSm2eT92'',
     ''9hkTI7gQCvlYpNRhcL0EYWoSihfVCr3FvDB81ukMJY2GQE/szKN+OMY3EU/t3Wgx'',
     ''jkzSswF07r51XgdIGn9w/xZchMB5hbgF/X++ZRGjD8ACtPhSNzkE1akxehi/oCr0'',
     ''Epn3o0WC4zxe9Z2etciefC7IpJ5OCBRLbf1wbWsaY71k5h+3zvDyny67G7fyUIhz'',
     ''ksLi4xaNmjICq44Y3ekQEe5+NauQrz4wlHrQMz2nZQ/1/I6eYs9HRCwBXbsdtTLS'',
     ''R9I4LtD+gdwyah617jzV/OeBHRnDJELqYzmp'',
     ''-----END CERTIFICATE-----'']"

definition microsoftRSARootCA2017 :: string where
  "microsoftRSARootCA2017 = pem_text [
     ''-----BEGIN CERTIFICATE-----'',
     ''MIIFqDCCA5CgAwIBAgIQHtOXCV/YtLNHcB6qvn9FszANBgkqhkiG9w0BAQwFADBl'',
     ''MQswCQYDVQQGEwJVUzEeMBwGA1UEChMVTWljcm9zb2Z0IENvcnBvcmF0aW9uMTYw'',
     ''NAYDVQQDEy1NaWNyb3NvZnQgUlNBIFJvb3QgQ2VydGlmaWNhdGUgQXV0aG9yaXR5'',
     ''IDIwMTcwHhcNMTkxMjE4MjI1MTIyWhcNNDIwNzE4MjMwMDIzWjBlMQswCQYDVQQG'',
     ''EwJVUzEeMBwGA1UEChMVTWljcm9zb2Z0IENvcnBvcmF0aW9uMTYwNAYDVQQDEy1N'',
     ''aWNyb3NvZnQgUlNBIFJvb3QgQ2VydGlmaWNhdGUgQXV0aG9yaXR5IDIwMTcwggIi'',
     ''MA0GCSqGSIb3DQEBAQUAA4ICDwAwggIKAoICAQDKW76UM4wplZEWCpW9R2LBifOZ'',
     ''Nt9GkMml7Xhqb0eRaPgnZ1AzHaGm++DlQ6OEAlcBXZxIQIJTELy/xztokLaCLeX0'',
     ''ZdDMbRnMlfl7rEqUrQ7eS0MdhweSE5CAg2Q1OQT85elss7YfUJQ4ZVBcF0a5toW1'',
     ''HLUX6NZFndiyJrDKxHBKrmCk3bPZ7Pw71VdyvD/IybLeS2v4I2wDwAW9lcfNcztm'',
     ''gGTjGqwu+UcF8ga2m3P1eDNbx6H7JyqhtJqRjJHTOoI+dkC0zVJhUXAoP8XFWvLJ'',
     ''jEm7FFtNyP9nTUwSlq31/niol4fX/V4ggNyhSyL71Imtus5Hl0dVe49FyGcohJUc'',
     ''aDDv70ngNXtk55iwlNpNhTs+VcQor1fznhPbRiefHqJeRIOkpcrVE7NLP8TjwuaG'',
     ''YaRSMLl6IE9vDzhTyzMMEyuP1pq9KsgtsRx9S1HKR9FIJ3Jdh+vVReZIZZ2vUpC6'',
     ''W6IYZVcSn2i51BVrlMRpIpj0M+Dt+VGOQVDJNE92kKz8OMHY4Xu54+OU4UZpyw4K'',
     ''UGsTuqwPN1q3ErWQgR5WrlcihtnJ0tHXUeOrO8ZV/R4O03QK0dqq6mm4lyiPSMQH'',
     ''+FJDOvTKVTUssKZqwJz58oHhEmrARdlns87/I6KJClTUFLkqqNfs+avNJVgyeY+Q'',
     ''W5g5xAgGwax/Dj0ApQIDAQABo1QwUjAOBgNVHQ8BAf8EBAMCAYYwDwYDVR0TAQH/'',
     ''BAUwAwEB/zAdBgNVHQ4EFgQUCctZf4aycI8awznjwNnpv7tNsiMwEAYJKwYBBAGC'',
     ''NxUBBAMCAQAwDQYJKoZIhvcNAQEMBQADggIBAKyvPl3CEZaJjqPnktaXFbgToqZC'',
     ''LgLNFgVZJ8og6Lq46BrsTaiXVq5lQ7GPAJtSzVXNUzltYkyLDVt8LkS/gxCP81OC'',
     ''gMNPOsduET/m4xaRhPtthH80dK2Jp86519efhGSSvpWhrQlTM93uCupKUY5vVau6'',
     ''tZRGrox/2KJQJWVggEbbMwSubLWYdFQl3JPk+ONVFT24bcMKpBLBaYVu32TxU5nh'',
     ''SnUgnZUP5NbcA/FZGOhHibJXWpS2qdgXKxdJ5XbLwVaZOjex/2kskZGT4d9Mozd2'',
     ''TaGf+G0eHdP67Pv0RR0Tbc/3WeUiJ3IrhvNXuzDtJE3cfVa7o7P4NHmJweDyAmH3'',
     ''pvwPuxwXC65B2Xy9J6P9LjrRk5Sxcx0ki69bIImtt2dmefU6xqaWM/5TkshGsRGR'',
     ''xpl/j8nWZjEgQRCHLQzWwa80mMpkg/sTV9HB8Dx6jKXB/ZUhoHHBk2dxEuqPiApp'',
     ''GWSZI1b7rCoucL5mxAyE7+WL85MB+GqQk2dLsmijtWKP6T+MejteD+eMuMZ87zf9'',
     ''dOLITzNy4ZQ5bb0Sr74MTnB8G2+NszKTc0QWbej09+CVgI+WXTik9KveCjCHk9hN'',
     ''AHFiRSdLOkKEW39lt2c0Ui2cFmuqqNh7o0JMcccMyj6D5KbvtwEwXlGjefVwaaZB'',
     ''RA+GsCyRxj3qrg+E'',
     ''-----END CERTIFICATE-----'']"

definition digiCertGlobalRootG2 :: string where
  "digiCertGlobalRootG2 = pem_text [
     ''-----BEGIN CERTIFICATE-----'',
     ''MIIDjjCCAnagAwIBAgIQAzrx5qcRqaC7KGSxHQn65TANBgkqhkiG9w0BAQsFADBh'',
     ''MQswCQYDVQQGEwJVUzEVMBMGA1UEChMMRGlnaUNlcnQgSW5jMRkwFwYDVQQLExB3'',
     ''d3cuZGlnaWNlcnQuY29tMSAwHgYDVQQDExdEaWdpQ2VydCBHbG9iYWwgUm9vdCBH'',
     ''MjAeFw0xMzA4MDExMjAwMDBaFw0zODAxMTUxMjAwMDBaMGExCzAJBgNVBAYTAlVT'',
     ''MRUwEwYDVQQKEwxEaWdpQ2VydCBJbmMxGTAXBgNVBAsTEHd3dy5kaWdpY2VydC5j'',
     ''b20xIDAeBgNVBAMTF0RpZ2lDZXJ0IEdsb2JhbCBSb290IEcyMIIBIjANBgkqhkiG'',
     ''9w0BAQEFAAOCAQ8AMIIBCgKCAQEAuzfNNNx7a8myaJCtSnX/RrohCgiN9RlUyfuI'',
     ''2/Ou8jqJkTx65qsGGmvPrC3oXgkkRLpimn7Wo6h+4FR1IAWsULecYxpsMNzaHxmx'',
     ''1x7e/dfgy5SDN67sH0NO3Xss0r0upS/kqbitOtSZpLYl6ZtrAGCSYP9PIUkY92eQ'',
     ''q2EGnI/yuum06ZIya7XzV+hdG82MHauVBJVJ8zUtluNJbd134/tJS7SsVQepj5Wz'',
     ''tCO7TG1F8PapspUwtP1MVYwnSlcUfIKdzXOS0xZKBgyMUNGPHgm+F6HmIcr9g+UQ'',
     ''vIOlCsRnKPZzFBQ9RnbDhxSJITRNrw9FDKZJobq7nMWxM4MphQIDAQABo0IwQDAP'',
     ''BgNVHRMBAf8EBTADAQH/MA4GA1UdDwEB/wQEAwIBhjAdBgNVHQ4EFgQUTiJUIBiV'',
     ''5uNu5g/6+rkS7QYXjzkwDQYJKoZIhvcNAQELBQADggEBAGBnKJRvDkhj6zHd6mcY'',
     ''1Yl9PMWLSn/pvtsrF9+wX3N3KjITOYFnQoQj8kVnNeyIv/iPsGEMNKSuIEyExtv4'',
     ''NeF22d+mQrvHRAiGfzZ0JFrabA0UWTW98kndth/Jsw1HKj2ZL7tcu7XUIOGZX1NG'',
     ''Fdtom/DzMNU+MeKNhJ7jitralj41E6Vf8PlwUHBHQRFXGU7Aj64GxJUTFy8bJZ91'',
     ''8rGOmaFvE7FBcf6IKshPECBV1/MUReXgRPTqh5Uykw7+U0b6LJ3/iyK5S9kJRaTe'',
     ''pLiaWN0bfVKfjllDiIGknibVb63dDcY3fe0Dkhvld1927jyNxF1WW6LZZm6zNTfl'',
     ''MrY='',
     ''-----END CERTIFICATE-----'']"

definition azure_rootCAs :: bytes where
  "azure_rootCAs = string_bytes (digiCertBaltimoreRootCA @ microsoftRSARootCA2017 @ digiCertGlobalRootG2)"

datatype authType = authTypeSymmetric | authTypeX509

record azure_conf =
  az_DeviceConnectionString :: string
  az_DeviceID :: string
  az_Hostname :: string
  az_DeviceKey :: string
  az_SASTokenExpiration :: go_duration
  az_TLSCert :: string
  az_TLSKey :: string

record AzureAuthentication =
  aa_authType :: authType
  aa_clientID :: string
  aa_username :: string
  aa_deviceKey :: bytes
  aa_hostname :: string
  aa_sasTokenExpiration :: go_duration
  aa_tlsConfig :: tls_config

fun parse_pairs :: "string list \<Rightarrow> (string \<rightharpoonup> string) \<Rightarrow> (string \<rightharpoonup> string) result" where
  "parse_pairs [] out = Inr out"
| "parse_pairs (pair # pairs) out = (case split_n2 ''='' pair of
     [k, v] \<Rightarrow> parse_pairs pairs (out(k \<mapsto> v))
   | kv \<Rightarrow> Inl (ErrMsg (''expected two items in: ['' @ join_char CHR '' '' kv @ '']'')))"

definition parseConnectionString :: "string \<Rightarrow> (string \<rightharpoonup> string) result" where
  "parseConnectionString str = parse_pairs (split_char CHR '';'' str) Map.empty"

text \<open>The settings of a connection string, each of which replaces the configured one.\<close>

definition apply_connection_string :: "(string \<rightharpoonup> string) \<Rightarrow> azure_conf \<Rightarrow> azure_conf" where
  "apply_connection_string kv c =
     (let pick = (\<lambda>k old. case kv k of Some v \<Rightarrow> v | None \<Rightarrow> old) in
      c\<lparr>az_Hostname := pick ''HostName'' (az_Hostname c),
        az_DeviceID := pick ''DeviceId'' (az_DeviceID c),
        az_DeviceKey := pick ''SharedAccessKey'' (az_DeviceKey c)\<rparr>)"

definition azure_symmetric :: "azure_conf \<Rightarrow> (azure_conf \<times> bytes) result" where
  "azure_symmetric c =
     bind_res
       (if az_DeviceConnectionString c = [] then Inr c
        else case parseConnectionString (az_DeviceConnectionString c) of
            Inl e \<Rightarrow> Inl (Wrap ''parse connection string error'' e)
          | Inr kv \<Rightarrow> Inr (apply_connection_string kv c))
       (\<lambda>c1. case b64_decode (az_DeviceKey c1) of
            None \<Rightarrow> Inl (Wrap ''decode device key error'' (LibErr ''base64''))
          | Some key \<Rightarrow> Inr (c1, key))"

text \<open>
  The authentication type stays a local variable: the field of the result keeps its zero
  value, which is the symmetric type.
\<close>

definition NewAzureIoTHubAuthentication ::
  "auth_env \<Rightarrow> azure_conf \<Rightarrow> AzureAuthentication result" where
  "NewAzureIoTHubAuthentication E c =
     (if \<not> ae_pem_ok E azure_rootCAs then Inl (ErrMsg ''append ca certs from pem error'')
      else
        let tls = \<lparr>tls_RootCAs = Some azure_rootCAs, tls_Certificates = []\<rparr>;
            auth = (\<lambda>c key expiration tls. \<lparr>aa_authType = authTypeSymmetric,
              aa_clientID = az_DeviceID c, aa_username = az_Hostname c @ ''/'' @ az_DeviceID c,
              aa_deviceKey = key, aa_hostname = az_Hostname c,
              aa_sasTokenExpiration = expiration, aa_tlsConfig = tls\<rparr>) in
        if az_TLSCert c = [] \<and> az_TLSKey c = [] then
          bind_res (azure_symmetric c) (\<lambda>(c1, key).
            Inr (auth c1 key (az_SASTokenExpiration c1) tls))
        else (case ae_LoadX509KeyPair E (az_TLSCert c) (az_TLSKey c) of
            None \<Rightarrow> Inl (Wrap ''load tls key-pair error'' (LibErr ''tls''))
          | Some kp \<Rightarrow> Inr (auth c [] 0 (tls\<lparr>tls_Certificates := [kp]\<rparr>))))"

definition azure_Init :: "AzureAuthentication \<Rightarrow> mqtt_opts \<Rightarrow> mqtt_opts result" where
  "azure_Init a opts = Inr (opts\<lparr>op_Brokers := op_Brokers opts @ [''ssl://'' @ aa_hostname a @ '':8883''],
     op_ClientID := aa_clientID a, op_Username := aa_username a,
     op_TLS := Some (aa_tlsConfig a)\<rparr>)"

text \<open>\<open>url.QueryEscape\<close>.\<close>

definition upper_hex :: "nat \<Rightarrow> char" where
  "upper_hex n = char_of (if n < 10 then n + 48 else n + 55)"

definition unreserved :: "char \<Rightarrow> bool" where
  "unreserved c \<longleftrightarrow> (let n = (of_char c :: nat) in
     97 \<le> n \<and> n \<le> 122 \<or> 65 \<le> n \<and> n \<le> 90 \<or> 48 \<le> n \<and> n \<le> 57) \<or> c \<in> set ''-_.~''"

definition escape_char :: "char \<Rightarrow> string" where
  "escape_char c = (if unreserved c then [c] else if c = CHR '' '' then ''+''
     else let n = (of_char c :: nat) in [CHR ''%'', upper_hex (n div 16), upper_hex (n mod 16)])"

definition QueryEscape :: "string \<Rightarrow> string" where
  "QueryEscape s = concat (map escape_char s)"

definition createSASToken :: "auth_env \<Rightarrow> nat \<Rightarrow> string \<Rightarrow> bytes \<Rightarrow> go_duration \<Rightarrow> string" where
  "createSASToken E n uri deviceKey expiration =
     (let encoded = QueryEscape uri;
          exp = unix_seconds (time_Add (ae_now E n) expiration);
          signature = encoded @ [CHR 0x0A] @ show_int exp;
          hash = QueryEscape (b64_encode (ae_hmac_sha256 E deviceKey (string_bytes signature))) in
      ''SharedAccessSignature sr='' @ encoded @ ''&sig='' @ hash @ ''&se='' @ show_int exp)"

definition azure_Update ::
  "auth_env \<Rightarrow> nat \<Rightarrow> AzureAuthentication \<Rightarrow> mqtt_opts \<Rightarrow> mqtt_opts result" where
  "azure_Update E n a opts =
     (if aa_authType a = authTypeSymmetric then
        Inr (opts\<lparr>op_Password := createSASToken E n (aa_hostname a @ ''/devices/'' @ aa_clientID a)
          (aa_deviceKey a) (aa_sasTokenExpiration a)\<rparr>)
      else Inr opts)"

section \<open>The interface\<close>

text \<open>A value of Go's \<open>Authentication\<close> interface is one of the three; a call dispatches on it.\<close>

datatype authentication =
    GenericAuth GenericAuthentication
  | GCPAuth GCPAuthentication
  | AzureAuth AzureAuthentication

fun auth_Init :: "authentication \<Rightarrow> mqtt_opts \<Rightarrow> mqtt_opts result" where
  "auth_Init (GenericAuth a) opts = generic_Init a opts"
| "auth_Init (GCPAuth a) opts = gcp_Init a opts"
| "auth_Init (AzureAuth a) opts = azure_Init a opts"

fun auth_GetGatewayID :: "auth_env \<Rightarrow> authentication \<Rightarrow> EUI64 option" where
  "auth_GetGatewayID E (GenericAuth a) = generic_GetGatewayID E a"
| "auth_GetGatewayID E (GCPAuth a) = None"
| "auth_GetGatewayID E (AzureAuth a) = None"

fun auth_Update :: "auth_env \<Rightarrow> nat \<Rightarrow> authentication \<Rightarrow> mqtt_opts \<Rightarrow> mqtt_opts result" where
  "auth_Update E n (GenericAuth a) opts = Inr opts"
| "auth_Update E n (GCPAuth a) opts = gcp_Update E n a opts"
| "auth_Update E n (AzureAuth a) opts = azure_Update E n a opts"

fun auth_ReconnectAfter :: "authentication \<Rightarrow> go_duration" where
  "auth_ReconnectAfter (GenericAuth a) = 0"
| "auth_ReconnectAfter (GCPAuth a) = gp_jwtExpiration a"
| "auth_ReconnectAfter (AzureAuth a) = aa_sasTokenExpiration a"

section \<open>Connection strings\<close>

definition print_pair :: "string \<times> string \<Rightarrow> string" where
  "print_pair kv = fst kv @ ''='' @ snd kv"

definition pair_ok :: "string \<times> string \<Rightarrow> bool" where
  "pair_ok kv \<longleftrightarrow> CHR ''='' \<notin> set (fst kv) \<and> CHR '';'' \<notin> set (fst kv @ snd kv)"

lemma split_print_pair: "pair_ok kv \<Longrightarrow> split_n2 ''='' (print_pair kv) = [fst kv, snd kv]"
  using cut_at_hit[of "''=''" "fst kv" "snd kv"]
  by (cases kv) (simp add: split_n2_def print_pair_def pair_ok_def)

lemma parse_printed_pairs:
  "\<forall>kv \<in> set kvs. pair_ok kv \<Longrightarrow> parse_pairs (map print_pair kvs) m = Inr (m ++ map_of (rev kvs))"
  by (induction kvs arbitrary: m) (auto simp: split_print_pair map_add_def fun_eq_iff split: option.split)

lemma parseConnectionString_printed:
  assumes "\<forall>kv \<in> set kvs. pair_ok kv" "kvs \<noteq> []"
  shows "parseConnectionString (join_char CHR '';'' (map print_pair kvs)) = Inr (map_of (rev kvs))"
proof -
  have "\<forall>s \<in> set (map print_pair kvs). CHR '';'' \<notin> set s"
    using assms(1) by (auto simp: pair_ok_def print_pair_def)
  then show ?thesis
    using assms by (simp add: parseConnectionString_def split_joined parse_printed_pairs)
qed

text \<open>An Azure device connection string, key=value settings in any order with further
  settings among them, configures the client as documented: the broker and the user name
  come from HostName and DeviceId, and every connection is authenticated with a SAS token
  for the device signed with the decoded SharedAccessKey, whose base64 padding does not
  disturb the parsing.\<close>

lemma azure_connection_string:
  assumes "\<forall>kv \<in> set kvs. pair_ok kv" "distinct (map fst kvs)"
    and "map_of kvs ''HostName'' = Some host" "map_of kvs ''DeviceId'' = Some dev"
    and "map_of kvs ''SharedAccessKey'' = Some (b64_encode key)"
    and "az_DeviceConnectionString c = join_char CHR '';'' (map print_pair kvs)"
    and "az_TLSCert c = []" "az_TLSKey c = []" "ae_pem_ok E azure_rootCAs"
  shows "\<exists>a. NewAzureIoTHubAuthentication E c = Inr a
    \<and> auth_Init (AzureAuth a) opts = Inr (opts\<lparr>
        op_Brokers := op_Brokers opts @ [''ssl://'' @ host @ '':8883''], op_ClientID := dev,
        op_Username := host @ ''/'' @ dev,
        op_TLS := Some \<lparr>tls_RootCAs = Some azure_rootCAs, tls_Certificates = []\<rparr>\<rparr>)
    \<and> auth_Update E n (AzureAuth a) opts = Inr (opts\<lparr>
        op_Password := createSASToken E n (host @ ''/devices/'' @ dev) key (az_SASTokenExpiration c)\<rparr>)
    \<and> auth_ReconnectAfter (AzureAuth a) = az_SASTokenExpiration c"
proof -
  have ne: "kvs \<noteq> []" using assms(3) by auto
  have rev: "map_of (rev kvs) = map_of kvs"
    using assms(2) by (simp add: map_of_inject_set rev_map[symmetric])
  have "az_DeviceConnectionString c \<noteq> []"
  proof -
    obtain kv rest where "kvs = kv # rest" using ne by (cases kvs) auto
    then show ?thesis unfolding assms(6) by (cases rest) (auto simp: print_pair_def)
  qed
  then have "azure_symmetric c = Inr (apply_connection_string (map_of kvs) c, key)"
    using parseConnectionString_printed[OF assms(1) ne] assms(3-6)
    by (simp add: azure_symmetric_def apply_connection_string_def rev b64_decode_encode)
  then show ?thesis using assms(3-9)
    by (simp add: NewAzureIoTHubAuthentication_def apply_connection_string_def azure_Init_def
        azure_Update_def)
qed

definition demo_auth_env :: auth_env where
  "demo_auth_env = \<lparr>ae_ReadFile = (\<lambda>_. Some []), ae_LoadX509KeyPair = (\<lambda>_ _. None),
     ae_ParseRSA = Some, ae_jwt_sign = (\<lambda>_ _ _ aud. Some aud), ae_hmac_sha256 = (\<lambda>k m. m),
     ae_now = int, ae_eui_unmarshal = hex_decode, ae_pem_ok = (\<lambda>_. True)\<rparr>"

definition demo_azure :: azure_conf where
  "demo_azure = \<lparr>az_DeviceConnectionString = ''HostName=hub;DeviceId=gw;SharedAccessKey=AQ=='',
     az_DeviceID = [], az_Hostname = [], az_DeviceKey = [], az_SASTokenExpiration = 3600000000000,
     az_TLSCert = [], az_TLSKey = []\<rparr>"

definition demo_opts :: mqtt_opts where
  "demo_opts = \<lparr>op_Brokers = [], op_ClientID = [], op_Username = [], op_Password = [],
     op_CleanSession = True, op_TLS = None, op_ProtocolVersion = 4, op_AutoReconnect = True,
     op_KeepAlive = 0, op_MaxReconnectInterval = 0, op_Will = None\<rparr>"

lemma demo_key: "b64_char 0 = CHR ''A''" "b64_char 16 = CHR ''Q''"
  by code_simp+

end
