(* ===== verification/GoTemplate.thy ===== *)
theory GoTemplate
  imports GoStrings
begin

text \<open>
  The use the bridge makes of \<open>text/template\<close>: topics are templates of literal text and
  fields, as in \<open>gateway/{{ .GatewayID }}/event/{{ .EventType }}\<close>, executed on a struct whose
  fields print as strings. A template with any other action (pipelines, conditions, trim
  markers, comments) is given by an argument.
\<close>

datatype tmpl_piece = TText string | TField string

type_synonym template = "(string \<rightharpoonup> string) \<Rightarrow> string result"

definition ident_char :: "char \<Rightarrow> bool" where
  "ident_char c \<longleftrightarrow> (let n = (of_char c :: nat) in
     n = 95 \<or> 97 \<le> n \<and> n \<le> 122 \<or> 65 \<le> n \<and> n \<le> 90 \<or> 48 \<le> n \<and> n \<le> 57)"

definition skip_blanks :: "string \<Rightarrow> string" where
  "skip_blanks s = dropWhile (\<lambda>c. c = CHR '' '' \<or> c = CHR 0x09) s"

text \<open>The field an action selects: a dot and an identifier, blanks around them.\<close>

definition field_action :: "string \<Rightarrow> string option" where
  "field_action a = (case skip_blanks a of
     c # r \<Rightarrow>
       let name = takeWhile ident_char r in
       if c = CHR ''.'' \<and> name \<noteq> [] \<and> digit_val (hd name) = None
          \<and> skip_blanks (drop (length name) r) = [] then Some name
       else None
   | [] \<Rightarrow> None)"

function template_pieces :: "string \<Rightarrow> tmpl_piece list option" where
  "template_pieces s = (case cut_at ''{{'' s of
     None \<Rightarrow> Some [TText s]
   | Some (a, r) \<Rightarrow> (case cut_at ''}}'' r of
         None \<Rightarrow> None
       | Some (act, rest) \<Rightarrow> (case field_action act of
             None \<Rightarrow> None
           | Some f \<Rightarrow> map_option (\<lambda>ps. TText a # TField f # ps) (template_pieces rest))))"
  by pat_completeness auto
termination
  by (relation "measure length") (auto dest!: cut_at_length)

declare template_pieces.simps [simp del]

fun exec_pieces :: "tmpl_piece list \<Rightarrow> template" where
  "exec_pieces [] data = Inr []"
| "exec_pieces (TText s # ps) data = bind_res (exec_pieces ps data) (\<lambda>out. Inr (s @ out))"
| "exec_pieces (TField f # ps) data = (case data f of
     None \<Rightarrow> Inl (LibErr (''can't evaluate field '' @ f))
   | Some v \<Rightarrow> bind_res (exec_pieces ps data) (\<lambda>out. Inr (v @ out)))"

definition template_Parse :: "(string \<Rightarrow> template result) \<Rightarrow> string \<Rightarrow> template result" where
  "template_Parse other s = (case template_pieces s of
     Some ps \<Rightarrow> Inr (exec_pieces ps)
   | None \<Rightarrow> other s)"

section \<open>Laws\<close>

text \<open>Text in front of a field, and the text at the end.\<close>

lemma template_pieces_field:
  assumes "CHR ''{'' \<notin> set a" "CHR ''}'' \<notin> set act" "field_action act = Some f"
  shows "template_pieces (a @ ''{{'' @ act @ ''}}'' @ rest)
    = map_option (\<lambda>ps. TText a # TField f # ps) (template_pieces rest)"
  by (subst template_pieces.simps)
    (use cut_at_hit[of "''{{''" a "act @ ''}}'' @ rest"] cut_at_hit[of "''}}''" act rest] assms in simp)

lemma template_pieces_text: "CHR ''{'' \<notin> set a \<Longrightarrow> template_pieces a = Some [TText a]"
  by (subst template_pieces.simps) (simp add: cut_at_miss)

end
