(* ===== verification/Mqtt.thy ===== *)
theory Mqtt
  imports MqttAuth GoTemplate "HOL-Library.Multiset"
begin

text \<open>
  The MQTT integration (\<open>internal/integration/mqtt/backend.go\<close>): the gateways the bridge must
  be subscribed to, the ones it is subscribed to, publishing of events and states, and the
  commands that come in.

  The Go maps \<open>gateways\<close> and \<open>gatewaysSubscribed\<close> are lists of their keys without order;
  \<open>me_range\<close> is the order in which a loop visits them. The paho client answers the n-th
  request with a token and the request reaches the broker or not, which need not agree (a
  token can time out for a request that is still carried out). \<open>mq_broker\<close> is a ghost: the
  topics the broker has this client subscribed to.
\<close>

section \<open>State\<close>

record marshaler =
  pm_marshal :: "proto_msg \<Rightarrow> bytes option"
  pm_DownlinkFrame :: "bytes \<Rightarrow> DownlinkFrame option"
  pm_GatewayConfiguration :: "bytes \<Rightarrow> GatewayConfiguration option"
  pm_ExecRequest :: "bytes \<Rightarrow> GatewayCommandExecRequest option"
  pm_RawCommand :: "bytes \<Rightarrow> RawPacketForwarderCommand option"

record mqtt_publish =
  mp_topic :: string
  mp_qos :: u8
  mp_retained :: bool
  mp_payload :: bytes

datatype mq_call =
    CallDownlink DownlinkFrame
  | CallConfig GatewayConfiguration
  | CallExec GatewayCommandExecRequest
  | CallRaw RawPacketForwarderCommand

record mq_state =
  mq_auth :: authentication
  mq_conn :: bool
  mq_connClosed :: bool
  mq_clientOpts :: mqtt_opts
  mq_downlinkFunc :: bool
  mq_configFunc :: bool
  mq_execFunc :: bool
  mq_rawFunc :: bool
  mq_gateways :: "EUI64 list"
  mq_subscribed :: "EUI64 list"
  mq_terminateOnConnectError :: bool
  mq_stateRetained :: bool
  mq_maxTokenWait :: go_duration
  mq_qos :: u8
  mq_eventTopic :: template
  mq_stateTopic :: "template option"
  mq_commandTopic :: template
  mq_marshaler :: marshaler
  mq_broker :: "string set"
  mq_published :: "mqtt_publish list"
  mq_calls :: "mq_call list"
  mq_requests :: nat

text \<open>A token of the paho client: whether it is done within a time, and the error it holds.\<close>

record token =
  tk_WaitTimeout :: "go_duration \<Rightarrow> bool"
  tk_Error :: "go_err option"

record mq_env =
  me_auth :: auth_env
  me_NewClientOptions :: mqtt_opts
  me_template :: "string \<Rightarrow> template result"
  me_jsonpb :: marshaler
  me_protobuf :: marshaler
  me_token :: "nat \<Rightarrow> token"
  me_reaches :: "nat \<Rightarrow> bool"
  me_IsConnected :: "nat \<Rightarrow> bool"
  me_range :: "nat \<Rightarrow> EUI64 list \<Rightarrow> EUI64 list"
  me_eui_string :: "EUI64 \<Rightarrow> string"

text \<open>The order of a map iteration is some order of its keys.\<close>

definition ranges :: "mq_env \<Rightarrow> bool" where
  "ranges E \<longleftrightarrow> (\<forall>n xs. mset (me_range E n xs) = mset xs)"

definition tokenWrapper :: "token \<Rightarrow> go_duration \<Rightarrow> go_err option" where
  "tokenWrapper t timeout =
     (if \<not> tk_WaitTimeout t timeout then Some (ErrMsg ''token wait timeout error'') else tk_Error t)"

text \<open>
  A request through the client: without a client it is a nil dereference; otherwise the
  effect happens if it reaches the broker, and the token says what the code gets to know.
\<close>

definition mq_request ::
  "mq_env \<Rightarrow> (mq_state \<Rightarrow> mq_state) \<Rightarrow> mq_state \<Rightarrow> go_err option \<times> mq_state" where
  "mq_request E effect s =
     (if \<not> mq_conn s then (Some (GoPanic ''nil pointer dereference''), s)
      else
        let n = mq_requests s; s1 = s\<lparr>mq_requests := n + 1\<rparr> in
        (tokenWrapper (me_token E n) (mq_maxTokenWait s),
         if me_reaches E n then effect s1 else s1))"

section \<open>Publishing\<close>

definition event_fields :: "mq_env \<Rightarrow> EUI64 \<Rightarrow> string \<Rightarrow> (string \<rightharpoonup> string)" where
  "event_fields E g event = [''GatewayID'' \<mapsto> me_eui_string E g, ''EventType'' \<mapsto> event]"

definition state_fields :: "mq_env \<Rightarrow> EUI64 \<Rightarrow> string \<Rightarrow> (string \<rightharpoonup> string)" where
  "state_fields E g st = [''GatewayID'' \<mapsto> me_eui_string E g, ''StateType'' \<mapsto> st]"

definition command_fields :: "mq_env \<Rightarrow> EUI64 \<Rightarrow> (string \<rightharpoonup> string)" where
  "command_fields E g = [''GatewayID'' \<mapsto> me_eui_string E g]"

definition mq_publish ::
  "mq_env \<Rightarrow> string \<Rightarrow> bool \<Rightarrow> bytes \<Rightarrow> mq_state \<Rightarrow> go_err option \<times> mq_state" where
  "mq_publish E topic retained b s =
     mq_request E (\<lambda>s1. s1\<lparr>mq_published := mq_published s1 @ [\<lparr>mp_topic = topic, mp_qos = mq_qos s,
       mp_retained = retained, mp_payload = b\<rparr>]\<rparr>) s"

definition publishEvent ::
  "mq_env \<Rightarrow> EUI64 \<Rightarrow> string \<Rightarrow> proto_msg \<Rightarrow> mq_state \<Rightarrow> go_err option \<times> mq_state" where
  "publishEvent E g event msg s =
     (case mq_eventTopic s (event_fields E g event) of
        Inl e \<Rightarrow> (Some (Wrap ''execute event template error'' e), s)
      | Inr topic \<Rightarrow> (case pm_marshal (mq_marshaler s) msg of
            None \<Rightarrow> (Some (Wrap ''marshal message error'' (LibErr ''marshal'')), s)
          | Some b \<Rightarrow> mq_publish E topic False b s))"

text \<open>The identifier of the event is logged only.\<close>

definition PublishEvent ::
  "mq_env \<Rightarrow> EUI64 \<Rightarrow> string \<Rightarrow> bytes \<Rightarrow> proto_msg \<Rightarrow> mq_state \<Rightarrow> go_err option \<times> mq_state" where
  "PublishEvent E g event i v s = publishEvent E g event v s"

definition PublishState ::
  "mq_env \<Rightarrow> EUI64 \<Rightarrow> string \<Rightarrow> proto_msg \<Rightarrow> mq_state \<Rightarrow> go_err option \<times> mq_state" where
  "PublishState E g st v s =
     (case mq_stateTopic s of
        None \<Rightarrow> (None, s)
      | Some tmpl \<Rightarrow> (case tmpl (state_fields E g st) of
            Inl e \<Rightarrow> (Some (Wrap ''execute state template error'' e), s)
          | Inr topic \<Rightarrow> (case pm_marshal (mq_marshaler s) v of
                None \<Rightarrow> (Some (Wrap ''marshal message error'' (LibErr ''marshal'')), s)
              | Some b \<Rightarrow> mq_publish E topic (mq_stateRetained s) b s)))"

definition conn_msg :: "EUI64 \<Rightarrow> conn_state \<Rightarrow> proto_msg" where
  "conn_msg g st = PmConn \<lparr>cs_GatewayId = g, cs_State = st\<rparr>"

section \<open>Creating the integration\<close>

record mqtt_conf =
  mc_EventTopicTemplate :: string
  mc_CommandTopicTemplate :: string
  mc_StateTopicTemplate :: string
  mc_StateRetained :: bool
  mc_KeepAlive :: go_duration
  mc_MaxReconnectInterval :: go_duration
  mc_TerminateOnConnectError :: bool
  mc_MaxTokenWait :: go_duration
  mc_AuthType :: string
  mc_Generic :: generic_conf
  mc_GCP :: gcp_conf
  mc_Azure :: azure_conf
  mc_Marshaler :: string

text \<open>The cloud services have fixed topics and no state topic.\<close>

definition choose_auth :: "mq_env \<Rightarrow> mqtt_conf \<Rightarrow> (authentication \<times> mqtt_conf) result" where
  "choose_auth E c =
     (if mc_AuthType c = ''generic'' then
        wrap_err ''integation/mqtt: new generic authentication error''
          (bind_res (NewGenericAuthentication (me_auth E) (mc_Generic c)) (\<lambda>a. Inr (GenericAuth a, c)))
      else if mc_AuthType c = ''gcp_cloud_iot_core'' then
        wrap_err ''integration/mqtt: new GCP Cloud IoT Core authentication error''
          (bind_res (NewGCPCloudIoTCoreAuthentication (me_auth E) (mc_GCP c)) (\<lambda>a. Inr (GCPAuth a,
            c\<lparr>mc_EventTopicTemplate := ''/devices/gw-{{ .GatewayID }}/events/{{ .EventType }}'',
              mc_CommandTopicTemplate := ''/devices/gw-{{ .GatewayID }}/commands/#'',
              mc_StateTopicTemplate := []\<rparr>)))
      else if mc_AuthType c = ''azure_iot_hub'' then
        wrap_err ''integration/mqtt: new azure iot hub authentication error''
          (bind_res (NewAzureIoTHubAuthentication (me_auth E) (mc_Azure c)) (\<lambda>a. Inr (AzureAuth a,
            c\<lparr>mc_EventTopicTemplate := ''devices/{{ .GatewayID }}/messages/events/{{ .EventType }}'',
              mc_CommandTopicTemplate := ''devices/{{ .GatewayID }}/messages/devicebound/#'',
              mc_StateTopicTemplate := []\<rparr>)))
      else Inl (ErrMsg (''integration/mqtt: unknown auth type: '' @ mc_AuthType c)))"

definition choose_marshaler :: "mq_env \<Rightarrow> string \<Rightarrow> marshaler result" where
  "choose_marshaler E name =
     (if name = ''json'' then Inr (me_jsonpb E)
      else if name = ''protobuf'' then Inr (me_protobuf E)
      else Inl (ErrMsg (''integration/mqtt: unknown marshaler: '' @ name)))"

text \<open>The last will, for a gateway ID that comes with the authentication.\<close>

definition set_will :: "mq_env \<Rightarrow> EUI64 \<Rightarrow> mq_state \<Rightarrow> mq_state result" where
  "set_will E g s =
     (case mq_stateTopic s of
        None \<Rightarrow> Inr s
      | Some tmpl \<Rightarrow> (case pm_marshal (mq_marshaler s) (conn_msg g OFFLINE) of
            None \<Rightarrow> Inl (Wrap ''marshal error'' (LibErr ''marshal''))
          | Some bb \<Rightarrow> (case tmpl (state_fields E g ''conn'') of
                Inl e \<Rightarrow> Inl (Wrap ''execute state template error'' e)
              | Inr topic \<Rightarrow> Inr (s\<lparr>mq_clientOpts := (mq_clientOpts s)\<lparr>op_Will :=
                  Some (topic, bb, mq_qos s, True)\<rparr>\<rparr>))))"

definition mq_NewBackend :: "mq_env \<Rightarrow> mqtt_conf \<Rightarrow> mq_state result" where
  "mq_NewBackend E conf =
     bind_res (choose_auth E conf) (\<lambda>(a, c).
     bind_res (choose_marshaler E (mc_Marshaler c)) (\<lambda>m.
     bind_res (wrap_err ''integration/mqtt: parse event-topic template error''
       (template_Parse (me_template E) (mc_EventTopicTemplate c))) (\<lambda>ev.
     bind_res (if mc_StateTopicTemplate c = [] then Inr None
       else wrap_err ''integration/mqtt: parse state-topic template error''
         (bind_res (template_Parse (me_template E) (mc_StateTopicTemplate c)) (\<lambda>t. Inr (Some t)))) (\<lambda>st.
     bind_res (wrap_err ''integration/mqtt: parse event-topic template error''
       (template_Parse (me_template E) (mc_CommandTopicTemplate c))) (\<lambda>cmd.
     bind_res (wrap_err ''mqtt: init authentication error''
       (auth_Init a ((me_NewClientOptions E)\<lparr>op_ProtocolVersion := 4, op_AutoReconnect := True,
         op_KeepAlive := mc_KeepAlive c, op_MaxReconnectInterval := mc_MaxReconnectInterval c\<rparr>))) (\<lambda>opts.
     let b = \<lparr>mq_auth = a, mq_conn = False, mq_connClosed = False, mq_clientOpts = opts,
           mq_downlinkFunc = False, mq_configFunc = False, mq_execFunc = False, mq_rawFunc = False,
           mq_gateways = [], mq_subscribed = [],
           mq_terminateOnConnectError = mc_TerminateOnConnectError c,
           mq_stateRetained = mc_StateRetained c, mq_maxTokenWait = mc_MaxTokenWait c,
           mq_qos = gen_QOS (mc_Generic c), mq_eventTopic = ev, mq_stateTopic = st,
           mq_commandTopic = cmd, mq_marshaler = m, mq_broker = {}, mq_published = [],
           mq_calls = [], mq_requests = 0\<rparr> in
     case auth_GetGatewayID (me_auth E) a of
       None \<Rightarrow> Inr b
     | Some g \<Rightarrow> set_will E g (b\<lparr>mq_gateways := [g]\<rparr>)))))))"

definition mq_SetFuncs :: "mq_state \<Rightarrow> mq_state" where
  "mq_SetFuncs s = s\<lparr>mq_downlinkFunc := True, mq_configFunc := True, mq_rawFunc := True\<rparr>"

definition mq_SetExecFunc :: "mq_state \<Rightarrow> mq_state" where
  "mq_SetExecFunc s = s\<lparr>mq_execFunc := True\<rparr>"

section \<open>Connecting\<close>

text \<open>What the broker still has of a client that is gone: its subscriptions, unless the
  session was clean.\<close>

definition session_end :: "mq_state \<Rightarrow> mq_state" where
  "session_end s = s\<lparr>mq_broker := (if op_CleanSession (mq_clientOpts s) then {} else mq_broker s)\<rparr>"

definition mq_connect :: "mq_env \<Rightarrow> mq_state \<Rightarrow> go_err option \<times> mq_state" where
  "mq_connect E s =
     (case auth_Update (me_auth E) (mq_requests s) (mq_auth s) (mq_clientOpts s) of
        Inl e \<Rightarrow> (Some (Wrap ''integration/mqtt: update authentication error'' e), s)
      | Inr opts \<Rightarrow> mq_request E session_end (s\<lparr>mq_clientOpts := opts, mq_conn := True\<rparr>))"

partial_function (option) connectLoop :: "mq_env \<Rightarrow> mq_state \<Rightarrow> (go_err option \<times> mq_state) option" where
  "connectLoop E s =
     (case mq_connect E s of
        (None, s1) \<Rightarrow> Some (None, s1)
      | (Some e, s1) \<Rightarrow>
          if mq_terminateOnConnectError s1 then Some (Some (GoPanic ''log.Fatal''), s1)
          else connectLoop E s1)"

text \<open>The two loops that \<open>Start\<close> leaves running are given as their rounds below.\<close>

definition mq_Start :: "mq_env \<Rightarrow> mq_state \<Rightarrow> (go_err option \<times> mq_state) option" where
  "mq_Start E s = connectLoop E s"

definition mq_disconnect :: "mq_state \<Rightarrow> mq_state" where
  "mq_disconnect s = session_end s"

text \<open>One round of the loop that renews the credentials; \<open>None\<close> is a connect loop that never ends.\<close>

definition reconnect_round :: "mq_env \<Rightarrow> mq_state \<Rightarrow> (go_err option \<times> mq_state) option" where
  "reconnect_round E s =
     (if 0 < sint (auth_ReconnectAfter (mq_auth s)) \<and> \<not> mq_connClosed s
      then connectLoop E (mq_disconnect s) else Some (None, s))"

definition onConnected :: "mq_state \<Rightarrow> mq_state" where
  "onConnected s = s\<lparr>mq_subscribed := []\<rparr>"

definition onConnectionLost :: "mq_state \<Rightarrow> go_err option \<times> mq_state" where
  "onConnectionLost s =
     (if mq_terminateOnConnectError s then Some (GoPanic ''log.Fatal'') else None, s)"

fun publish_offline :: "mq_env \<Rightarrow> EUI64 list \<Rightarrow> mq_state \<Rightarrow> mq_state" where
  "publish_offline E [] s = s"
| "publish_offline E (g # gs) s =
     publish_offline E gs (snd (PublishState E g ''conn'' (conn_msg g OFFLINE) s))"

definition mq_Stop :: "mq_env \<Rightarrow> mq_state \<Rightarrow> mq_state" where
  "mq_Stop E s = (mq_disconnect (publish_offline E (me_range E (mq_requests s) (mq_gateways s)) s))
     \<lparr>mq_connClosed := True\<rparr>"

section \<open>Subscriptions\<close>

definition SetGatewaySubscription ::
  "mq_env \<Rightarrow> bool \<Rightarrow> EUI64 \<Rightarrow> mq_state \<Rightarrow> go_err option \<times> mq_state" where
  "SetGatewaySubscription E subscribe g s =
     (if auth_GetGatewayID (me_auth E) (mq_auth s) = Some g then (None, s)
      else if subscribe then (None, s\<lparr>mq_gateways := List.insert g (mq_gateways s)\<rparr>)
      else (None, s\<lparr>mq_gateways := removeAll g (mq_gateways s)\<rparr>))"

definition subscribeGateway :: "mq_env \<Rightarrow> EUI64 \<Rightarrow> mq_state \<Rightarrow> go_err option \<times> mq_state" where
  "subscribeGateway E g s =
     (case mq_commandTopic s (command_fields E g) of
        Inl e \<Rightarrow> (Some (Wrap ''execute command topic template error'' e), s)
      | Inr topic \<Rightarrow>
          (case mq_request E (\<lambda>s1. s1\<lparr>mq_broker := insert topic (mq_broker s1)\<rparr>) s of
             (Some e, s1) \<Rightarrow> (Some (Wrap ''subscribe topic error'' e), s1)
           | (None, s1) \<Rightarrow> (None, s1)))"

definition unsubscribeGateway :: "mq_env \<Rightarrow> EUI64 \<Rightarrow> mq_state \<Rightarrow> go_err option \<times> mq_state" where
  "unsubscribeGateway E g s =
     (case mq_commandTopic s (command_fields E g) of
        Inl e \<Rightarrow> (Some (Wrap ''execute command topic template error'' e), s)
      | Inr topic \<Rightarrow>
          (case mq_request E (\<lambda>s1. s1\<lparr>mq_broker := mq_broker s1 - {topic}\<rparr>) s of
             (Some e, s1) \<Rightarrow> (Some (Wrap ''unsubscribe topic error'' e), s1)
           | (None, s1) \<Rightarrow> (None, s1)))"

text \<open>A gateway changes sides only if its state could be published too.\<close>

definition subscribe_one :: "mq_env \<Rightarrow> EUI64 \<Rightarrow> mq_state \<Rightarrow> mq_state" where
  "subscribe_one E g s =
     (case subscribeGateway E g s of
        (Some e, s1) \<Rightarrow> s1
      | (None, s1) \<Rightarrow> (case PublishState E g ''conn'' (conn_msg g ONLINE) s1 of
            (Some e, s2) \<Rightarrow> s2
          | (None, s2) \<Rightarrow> s2\<lparr>mq_subscribed := List.insert g (mq_subscribed s2)\<rparr>))"

definition unsubscribe_one :: "mq_env \<Rightarrow> EUI64 \<Rightarrow> mq_state \<Rightarrow> mq_state" where
  "unsubscribe_one E g s =
     (case unsubscribeGateway E g s of
        (Some e, s1) \<Rightarrow> s1
      | (None, s1) \<Rightarrow> (case PublishState E g ''conn'' (conn_msg g OFFLINE) s1 of
            (Some e, s2) \<Rightarrow> s2
          | (None, s2) \<Rightarrow> s2\<lparr>mq_subscribed := removeAll g (mq_subscribed s2)\<rparr>))"

definition to_subscribe :: "mq_env \<Rightarrow> mq_state \<Rightarrow> EUI64 list" where
  "to_subscribe E s = filter (\<lambda>g. g \<notin> set (mq_subscribed s)) (me_range E (mq_requests s) (mq_gateways s))"

definition to_unsubscribe :: "mq_env \<Rightarrow> mq_state \<Rightarrow> EUI64 list" where
  "to_unsubscribe E s = filter (\<lambda>g. g \<notin> set (mq_gateways s)) (me_range E (mq_requests s) (mq_subscribed s))"

text \<open>One round of the loop, which \<open>Start\<close> begins once there is a client; both lists are made
  before the first request.\<close>

definition subscribe_pass :: "mq_env \<Rightarrow> mq_state \<Rightarrow> mq_state" where
  "subscribe_pass E s =
     (if mq_connClosed s \<or> \<not> me_IsConnected E (mq_requests s) then s
      else fold (unsubscribe_one E) (to_unsubscribe E s) (fold (subscribe_one E) (to_subscribe E s) s))"

section \<open>Commands\<close>

definition mq_call :: "bool \<Rightarrow> mq_call \<Rightarrow> mq_state \<Rightarrow> mq_state" where
  "mq_call has c s = (if has then s\<lparr>mq_calls := mq_calls s @ [c]\<rparr> else s)"

text \<open>A frame in the old form, with one transmission in the frame itself, is brought into the
  new one.\<close>

definition upgrade_frame :: "lib \<Rightarrow> DownlinkFrame \<Rightarrow> DownlinkFrame" where
  "upgrade_frame L f =
     (if df_Items f = [] \<and> df_TxInfo f \<noteq> None \<and> df_PhyPayload f \<noteq> [] then
        let item = \<lparr>di_PhyPayload = df_PhyPayload f, di_TxInfo = df_TxInfo f\<rparr> in
        f\<lparr>df_Items := [item], df_GatewayId := dt_GatewayId (GetTxInfo L item)\<rparr>
      else f)"

definition handleDownlinkFrame :: "lib \<Rightarrow> bytes \<Rightarrow> mq_state \<Rightarrow> mq_state" where
  "handleDownlinkFrame L payload s =
     (case pm_DownlinkFrame (mq_marshaler s) payload of
        None \<Rightarrow> s
      | Some f0 \<Rightarrow>
          let f = upgrade_frame L f0 in
          if df_Items f = [] then s else mq_call (mq_downlinkFunc s) (CallDownlink f) s)"

definition handleGatewayConfiguration :: "bytes \<Rightarrow> mq_state \<Rightarrow> mq_state" where
  "handleGatewayConfiguration payload s =
     (case pm_GatewayConfiguration (mq_marshaler s) payload of
        None \<Rightarrow> s
      | Some c \<Rightarrow> mq_call (mq_configFunc s) (CallConfig c) s)"

definition handleGatewayCommandExecRequest :: "bytes \<Rightarrow> mq_state \<Rightarrow> mq_state" where
  "handleGatewayCommandExecRequest payload s =
     (case pm_ExecRequest (mq_marshaler s) payload of
        None \<Rightarrow> s
      | Some r \<Rightarrow> mq_call (mq_execFunc s) (CallExec r) s)"

definition handleRawPacketForwarderCommand :: "bytes \<Rightarrow> mq_state \<Rightarrow> mq_state" where
  "handleRawPacketForwarderCommand payload s =
     (case pm_RawCommand (mq_marshaler s) payload of
        None \<Rightarrow> s
      | Some r \<Rightarrow> mq_call (mq_rawFunc s) (CallRaw r) s)"

definition is_command :: "string \<Rightarrow> string \<Rightarrow> bool" where
  "is_command name topic \<longleftrightarrow> has_suffix name topic \<or> str_contains (''command='' @ name) topic"

definition handleCommand :: "lib \<Rightarrow> string \<Rightarrow> bytes \<Rightarrow> mq_state \<Rightarrow> mq_state" where
  "handleCommand L topic payload s =
     (if is_command ''down'' topic then handleDownlinkFrame L payload s
      else if is_command ''config'' topic then handleGatewayConfiguration payload s
      else if is_command ''exec'' topic then handleGatewayCommandExecRequest payload s
      else if is_command ''raw'' topic then handleRawPacketForwarderCommand payload s
      else s)"

end
