(* ===== verification/Commands.thy ===== *)
theory Commands
  imports Mqtt
begin

text \<open>
  Gateway commands (\<open>internal/commands/commands.go\<close>): the configured commands, the parser of
  command lines, and the execution of a command for an execution request. Running a process
  (\<open>os/exec\<close>) is an argument that says how far it got and what it wrote.
\<close>

section \<open>Command lines\<close>

text \<open>
  Go's \<open>string(c)\<close> of a byte is the UTF-8 text of the code point with that number: one byte
  up to 127, two from there on.
\<close>

definition string_of_byte :: "char \<Rightarrow> string" where
  "string_of_byte c = (let n = (of_char c :: nat) in
     if n < 128 then [c] else [char_of (192 + n div 64), char_of (128 + n mod 64)])"

datatype parser_mode = PStart | PArg | PQuotes

record parser =
  ps_args :: "string list"
  ps_mode :: parser_mode
  ps_current :: string
  ps_quote :: string
  ps_escapeNext :: bool

definition parser_start :: parser where
  "parser_start = \<lparr>ps_args = [], ps_mode = PStart, ps_current = [], ps_quote = ''\"'',
     ps_escapeNext = True\<rparr>"

definition is_blank :: "char \<Rightarrow> bool" where
  "is_blank c \<longleftrightarrow> c = CHR '' '' \<or> c = CHR 0x09"

definition parse_char :: "char \<Rightarrow> parser \<Rightarrow> parser" where
  "parse_char c p =
     (if ps_mode p = PQuotes then
        (if string_of_byte c \<noteq> ps_quote p then p\<lparr>ps_current := ps_current p @ string_of_byte c\<rparr>
         else p\<lparr>ps_args := ps_args p @ [ps_current p], ps_current := [], ps_mode := PStart\<rparr>)
      else if ps_escapeNext p then
        p\<lparr>ps_current := ps_current p @ string_of_byte c, ps_escapeNext := False\<rparr>
      else if c = CHR 0x5C then p\<lparr>ps_escapeNext := True\<rparr>
      else if c = CHR 0x22 \<or> c = CHR 0x27 then p\<lparr>ps_mode := PQuotes, ps_quote := string_of_byte c\<rparr>
      else if ps_mode p = PArg then
        (if is_blank c
         then p\<lparr>ps_args := ps_args p @ [ps_current p], ps_current := [], ps_mode := PStart\<rparr>
         else p\<lparr>ps_current := ps_current p @ string_of_byte c\<rparr>)
      else if \<not> is_blank c then
        p\<lparr>ps_mode := PArg, ps_current := ps_current p @ string_of_byte c\<rparr>
      else p)"

definition parse_end :: "string \<Rightarrow> parser \<Rightarrow> string list result" where
  "parse_end command p =
     (if ps_mode p = PQuotes then Inl (ErrMsg (''Unclosed quote in command line: '' @ command))
      else Inr (if ps_current p \<noteq> [] then ps_args p @ [ps_current p] else ps_args p))"

definition ParseCommandLine :: "string \<Rightarrow> string list result" where
  "ParseCommandLine command = parse_end command (fold parse_char command parser_start)"

section \<open>Execution\<close>

record command =
  cm_Command :: string
  cm_MaxExecutionDuration :: go_duration

type_synonym commands = "string \<rightharpoonup> command"

text \<open>How far the execution of a process got.\<close>

datatype exec_outcome =
    StdinPipeError go_err
  | StdoutPipeError go_err
  | StderrPipeError go_err
  | StartError go_err
  | WaitError go_err
  | Finished bytes bytes

record exec_env =
  xe_Environ :: "string list"
  xe_run :: "string \<Rightarrow> string list \<Rightarrow> string list \<Rightarrow> bytes \<Rightarrow> go_duration \<Rightarrow> exec_outcome"

fun err_Error :: "go_err \<Rightarrow> string" where
  "err_Error (ErrMsg m) = m"
| "err_Error (LibErr m) = m"
| "err_Error (GoPanic m) = m"
| "err_Error (Wrap m e) = m @ '': '' @ err_Error e"

text \<open>The commands are set even if there is no integration to take requests from.\<close>

definition commands_Setup ::
  "(string \<rightharpoonup> command) \<Rightarrow> mq_state option \<Rightarrow> go_err option \<times> commands \<times> mq_state option" where
  "commands_Setup conf i = (case i of
     None \<Rightarrow> (Some (ErrMsg ''integration is not set''), conf, None)
   | Some s \<Rightarrow> (None, conf, Some (mq_SetExecFunc s)))"

definition execute ::
  "exec_env \<Rightarrow> commands \<Rightarrow> string \<Rightarrow> bytes \<Rightarrow> (string \<times> string) list \<Rightarrow> (bytes \<times> bytes) result" where
  "execute X cmds command stdin environment =
     (case cmds command of
        None \<Rightarrow> Inl (ErrMsg ''command does not exist'')
      | Some cmd \<Rightarrow> (case ParseCommandLine (cm_Command cmd) of
            Inl e \<Rightarrow> Inl (Wrap ''parse command error'' e)
          | Inr [] \<Rightarrow> Inl (ErrMsg ''no command is given'')
          | Inr (prog # args) \<Rightarrow>
              (case xe_run X prog args
                  (xe_Environ X @ map (\<lambda>(k, v). k @ ''='' @ v) environment) stdin
                  (cm_MaxExecutionDuration cmd) of
                 StdinPipeError e \<Rightarrow> Inl (Wrap ''get stdin pipe error'' e)
               | StdoutPipeError e \<Rightarrow> Inl (Wrap ''get stdout pipe error'' e)
               | StderrPipeError e \<Rightarrow> Inl (Wrap ''get stderr pipe error'' e)
               | StartError e \<Rightarrow> Inl (Wrap ''starting command error'' e)
               | WaitError e \<Rightarrow> Inl (Wrap ''waiting for command to finish error'' e)
               | Finished out err \<Rightarrow> Inr (out, err))))"

definition exec_response ::
  "exec_env \<Rightarrow> commands \<Rightarrow> GatewayCommandExecRequest \<Rightarrow> GatewayCommandExecResponse" where
  "exec_response X cmds cmd =
     (let r = execute X cmds (xq_Command cmd) (xq_Stdin cmd) (xq_Environment cmd) in
      \<lparr>xr_GatewayId = xq_GatewayId cmd, xr_ExecId = xq_ExecId cmd,
       xr_Stdout = (case r of Inl e \<Rightarrow> [] | Inr (out, err) \<Rightarrow> out),
       xr_Stderr = (case r of Inl e \<Rightarrow> [] | Inr (out, err) \<Rightarrow> err),
       xr_Error = (case r of Inl e \<Rightarrow> err_Error e | Inr _ \<Rightarrow> [])\<rparr>)"

text \<open>The answer is published whatever came of the command; a failure to publish is logged.\<close>

definition executeCommand ::
  "mq_env \<Rightarrow> exec_env \<Rightarrow> commands \<Rightarrow> GatewayCommandExecRequest \<Rightarrow> mq_state \<Rightarrow> go_err option \<times> mq_state" where
  "executeCommand E X cmds cmd s = PublishEvent E (copy_fixed 8 (xq_GatewayId cmd)) ''exec''
     (replicate 16 0) (PmExec (exec_response X cmds cmd)) s"

section \<open>What the parser reads\<close>

definition ascii :: "char \<Rightarrow> bool" where
  "ascii c \<longleftrightarrow> (of_char c :: nat) < 128"

definition plain :: "char \<Rightarrow> bool" where
  "plain c \<longleftrightarrow> ascii c \<and> \<not> is_blank c \<and> c \<noteq> CHR 0x5C \<and> c \<noteq> CHR 0x22 \<and> c \<noteq> CHR 0x27"

lemma string_of_ascii [simp]: "ascii c \<Longrightarrow> string_of_byte c = [c]"
  by (simp add: string_of_byte_def ascii_def)

text \<open>The arguments read so far, the one being read included.\<close>

definition args_read :: "parser \<Rightarrow> string list" where
  "args_read p = ps_args p @ (if ps_current p = [] then [] else [ps_current p])"

text \<open>Between two arguments, or in one without quotes.\<close>

definition open_parser :: "parser \<Rightarrow> bool" where
  "open_parser p \<longleftrightarrow> \<not> ps_escapeNext p \<and> (ps_mode p = PStart \<and> ps_current p = []
     \<or> ps_mode p = PArg \<and> ps_current p \<noteq> [])"

definition between :: "string list \<Rightarrow> string \<Rightarrow> parser" where
  "between args q = \<lparr>ps_args = args, ps_mode = PStart, ps_current = [], ps_quote = q,
     ps_escapeNext = False\<rparr>"

lemma parse_plain:
  "\<forall>c \<in> set w. plain c \<Longrightarrow> \<not> ps_escapeNext p \<Longrightarrow> ps_mode p = PArg
    \<Longrightarrow> fold parse_char w p = p\<lparr>ps_current := ps_current p @ w\<rparr>"
  by (induction w arbitrary: p) (auto simp: parse_char_def plain_def)

lemma parse_plain_start:
  "\<forall>c \<in> set w. plain c \<Longrightarrow> w \<noteq> [] \<Longrightarrow> \<not> ps_escapeNext p \<Longrightarrow> ps_mode p = PStart
    \<Longrightarrow> fold parse_char w p = p\<lparr>ps_mode := PArg, ps_current := ps_current p @ w\<rparr>"
  by (cases w) (auto simp: parse_char_def plain_def parse_plain)

lemma parse_quoted:
  "\<forall>c \<in> set w. ascii c \<and> c \<noteq> CHR 0x22 \<Longrightarrow> ps_mode p = PQuotes \<Longrightarrow> ps_quote p = ''\"''
    \<Longrightarrow> fold parse_char w p = p\<lparr>ps_current := ps_current p @ w\<rparr>"
  by (induction w arbitrary: p) (auto simp: parse_char_def)

lemma parse_blank:
  "open_parser p \<Longrightarrow> parse_char CHR '' '' p = between (args_read p) (ps_quote p)"
  by (cases p) (auto simp: open_parser_def parse_char_def is_blank_def between_def args_read_def)

section \<open>Printing a command line\<close>

definition print_arg :: "string \<Rightarrow> string" where
  "print_arg w = (if w \<noteq> [] \<and> (\<forall>c \<in> set w. plain c) then w else ''\"'' @ w @ ''\"'')"

definition print_command :: "string \<Rightarrow> string list \<Rightarrow> string" where
  "print_command prog args = prog @ concat (map (\<lambda>w. '' '' @ print_arg w) args)"

definition printable :: "string \<Rightarrow> bool" where
  "printable w \<longleftrightarrow> (\<forall>c \<in> set w. ascii c \<and> c \<noteq> CHR 0x22)"

lemma parse_print_arg:
  assumes "printable w"
  shows "open_parser (fold parse_char (print_arg w) (between args q))
    \<and> args_read (fold parse_char (print_arg w) (between args q)) = args @ [w]"
proof (cases "w \<noteq> [] \<and> (\<forall>c \<in> set w. plain c)")
  case True
  then show ?thesis
    using parse_plain_start[of w "between args q"]
    by (simp add: print_arg_def open_parser_def args_read_def) (simp add: between_def)
next
  case False
  define p where "p = (between args q)\<lparr>ps_mode := PQuotes, ps_quote := ''\"''\<rparr>"
  have q: "parse_char CHR 0x22 (between args q) = p"
    by (simp add: parse_char_def between_def p_def ascii_def)
  have "fold parse_char w p = p\<lparr>ps_current := w\<rparr>"
    using parse_quoted[of w p] assms by (simp add: p_def between_def printable_def)
  moreover have "print_arg w = ''\"'' @ w @ ''\"''"
    unfolding print_arg_def using False by (simp only: if_False)
  ultimately have "fold parse_char (print_arg w) (between args q) = between (args @ [w]) ''\"''"
    using q by (simp add: p_def between_def parse_char_def ascii_def)
  then show ?thesis by (simp add: open_parser_def args_read_def between_def)
qed

lemma parse_print_args:
  "\<forall>w \<in> set ws. printable w \<Longrightarrow> open_parser p
    \<Longrightarrow> open_parser (fold parse_char (concat (map (\<lambda>w. '' '' @ print_arg w) ws)) p)
      \<and> args_read (fold parse_char (concat (map (\<lambda>w. '' '' @ print_arg w) ws)) p) = args_read p @ ws"
proof (induction ws arbitrary: p)
  case (Cons w ws)
  then show ?case
    using parse_print_arg[of w "args_read p" "ps_quote p"] by (simp add: parse_blank)
qed simp

lemma parse_end_open: "open_parser p \<Longrightarrow> parse_end c p = Inr (args_read p)"
  by (auto simp: open_parser_def parse_end_def args_read_def)

text \<open>A command line made of a program and its arguments, an argument put into double quotes
  where it is empty or has blanks, single quotes or backslashes in it, is parsed into exactly the
  program and the arguments, provided all is ASCII, no argument has a double quote, and the
  program name has at least two characters.\<close>

lemma command_line_roundtrip:
  assumes "\<forall>w \<in> set args. printable w" "ascii c" "\<forall>d \<in> set prog. plain d" "prog \<noteq> []"
  shows "ParseCommandLine (print_command (c # prog) args) = Inr ((c # prog) # args)"
proof -
  define p where "p = fold parse_char (c # prog) parser_start"
  have "p = parser_start\<lparr>ps_mode := PArg, ps_current := c # prog, ps_escapeNext := False\<rparr>"
    using parse_plain_start[OF assms(3,4)] assms(2) by (simp add: p_def parse_char_def parser_start_def)
  then have "open_parser p" "args_read p = [c # prog]"
    by (simp_all add: open_parser_def args_read_def parser_start_def)
  then show ?thesis
    using parse_print_args[OF assms(1), of p]
    by (simp add: ParseCommandLine_def print_command_def parse_end_open flip: p_def[simplified])
qed

text \<open>
  The parser begins as if after a backslash, so the first character is taken literally and
  opens no argument: a program with a name of one character runs into its first argument, and
  a quoted program name is never recognised.
\<close>

lemma one_letter_program:
  assumes "ascii c" "\<forall>d \<in> set w. plain d" "w \<noteq> []"
  shows "ParseCommandLine (c # '' '' @ w) = Inr [c # w]"
  using parse_plain_start[OF assms(2,3)] assms(1)
  by (simp add: ParseCommandLine_def parse_char_def parser_start_def is_blank_def parse_end_def)

lemma quoted_program: "\<exists>e. ParseCommandLine ''\"ls\" -l'' = Inl e"
  by (simp add: ParseCommandLine_def parse_char_def parser_start_def is_blank_def parse_end_def ascii_def)

end
