(* ===== verification/Metadata.thy ===== *)
theory Metadata
  imports Commands
begin

text \<open>
  Gateway meta-data (\<open>internal/metadata/metadata.go\<close>): static values and the output of
  configured commands, collected in rounds and read by the forwarder. The Go maps that are
  iterated over are lists in the order of the iteration; running a command is an argument.
\<close>

section \<open>Standard library\<close>

text \<open>
  \<open>utf8.Valid\<close>: how many bytes follow a first byte, and the range of the first of them; the
  others are from 80 to BF.
\<close>

definition utf8_head :: "char \<Rightarrow> (nat \<times> nat \<times> nat) option" where
  "utf8_head c = (let n = (of_char c :: nat) in
     if n < 0x80 then Some (0, 0, 0)
     else if 0xC2 \<le> n \<and> n \<le> 0xDF then Some (1, 0x80, 0xBF)
     else if n = 0xE0 then Some (2, 0xA0, 0xBF)
     else if n = 0xED then Some (2, 0x80, 0x9F)
     else if 0xE1 \<le> n \<and> n \<le> 0xEF then Some (2, 0x80, 0xBF)
     else if n = 0xF0 then Some (3, 0x90, 0xBF)
     else if 0xF1 \<le> n \<and> n \<le> 0xF3 then Some (3, 0x80, 0xBF)
     else if n = 0xF4 then Some (3, 0x80, 0x8F)
     else None)"

definition utf8_tail :: "nat \<Rightarrow> nat \<Rightarrow> nat \<Rightarrow> string \<Rightarrow> bool" where
  "utf8_tail k lo hi t \<longleftrightarrow> length t = k \<and> (case map of_char t of
     [] \<Rightarrow> True
   | x # xs \<Rightarrow> lo \<le> x \<and> x \<le> hi \<and> (\<forall>y \<in> set xs. 0x80 \<le> y \<and> y \<le> (0xBF :: nat)))"

function utf8_Valid :: "string \<Rightarrow> bool" where
  "utf8_Valid [] = True"
| "utf8_Valid (c # cs) = (case utf8_head c of
     None \<Rightarrow> False
   | Some (k, lo, hi) \<Rightarrow> utf8_tail k lo hi (take k cs) \<and> utf8_Valid (drop k cs))"
  by pat_completeness auto
termination by (relation "measure length") auto

text \<open>
  \<open>strings.SplitN(s, sep, 2)\<close> of valid UTF-8: with an empty separator the first code point is
  split off.
\<close>

definition SplitN2 :: "string \<Rightarrow> string \<Rightarrow> string list" where
  "SplitN2 sep s =
     (if sep \<noteq> [] then split_n2 sep s
      else case s of
          [] \<Rightarrow> []
        | c # cs \<Rightarrow> (let k = (case utf8_head c of Some (k, _) \<Rightarrow> k | None \<Rightarrow> 0) in
              if drop k cs = [] then [s] else [c # take k cs, drop k cs]))"

section \<open>The collected data\<close>

record metadata_state =
  md_static :: "(string \<times> string) list"
  md_cmnds :: "(string \<times> string) list"
  md_cached :: "string \<rightharpoonup> string"
  md_interval :: go_duration
  md_maxExecution :: go_duration
  md_splitDelimiter :: string

record metadata_conf =
  mdc_Static :: "(string \<times> string) list"
  mdc_Commands :: "(string \<times> string) list"
  mdc_ExecutionInterval :: go_duration
  mdc_MaxExecutionDuration :: go_duration
  mdc_SplitDelimiter :: string

definition metadata_Setup :: "metadata_conf \<Rightarrow> metadata_state" where
  "metadata_Setup c = \<lparr>md_static = mdc_Static c, md_cmnds = mdc_Commands c, md_cached = Map.empty,
     md_interval = mdc_ExecutionInterval c, md_maxExecution = mdc_MaxExecutionDuration c,
     md_splitDelimiter = mdc_SplitDelimiter c\<rparr>"

definition metadata_Get :: "metadata_state \<Rightarrow> (string \<rightharpoonup> string)" where
  "metadata_Get m = md_cached m"

text \<open>\<open>exec\<close> runs a program with its arguments within a time and gives its standard output.\<close>

definition runCommand ::
  "(string \<Rightarrow> string list \<Rightarrow> go_duration \<Rightarrow> string result) \<Rightarrow> go_duration \<Rightarrow> string \<Rightarrow> string result" where
  "runCommand exec maxExecution cmdStr =
     (case ParseCommandLine cmdStr of
        Inl e \<Rightarrow> Inl (Wrap ''parse command error'' e)
      | Inr [] \<Rightarrow> Inl (ErrMsg ''no command is given'')
      | Inr (prog # args) \<Rightarrow> (case exec prog args maxExecution of
            Inl e \<Rightarrow> Inl (Wrap ''execution error'' e)
          | Inr out \<Rightarrow>
              if \<not> utf8_Valid out then Inl (ErrMsg ''command did not return valid utf8 string'')
              else Inr (trim_right [CHR 0x0A, CHR 0x0D] out)))"

definition add_row :: "string \<Rightarrow> string \<Rightarrow> string \<Rightarrow> (string \<rightharpoonup> string) \<Rightarrow> (string \<rightharpoonup> string)" where
  "add_row delimiter k row kv = (case SplitN2 delimiter row of
     [a, b] \<Rightarrow> kv(k @ ''_'' @ a \<mapsto> b)
   | _ \<Rightarrow> kv)"

definition add_output :: "string \<Rightarrow> string \<Rightarrow> string \<Rightarrow> (string \<rightharpoonup> string) \<Rightarrow> (string \<rightharpoonup> string)" where
  "add_output delimiter k out kv =
     (if str_contains [CHR 0x0A] out then fold (add_row delimiter k) (split_char CHR 0x0A out) kv
      else kv(k \<mapsto> out))"

definition run_one ::
  "(string \<Rightarrow> string list \<Rightarrow> go_duration \<Rightarrow> string result) \<Rightarrow> metadata_state \<Rightarrow> string \<times> string
     \<Rightarrow> (string \<rightharpoonup> string) \<Rightarrow> (string \<rightharpoonup> string)" where
  "run_one exec m cmd kv = (case runCommand exec (md_maxExecution m) (snd cmd) of
     Inl e \<Rightarrow> kv
   | Inr out \<Rightarrow> add_output (md_splitDelimiter m) (fst cmd) out kv)"

definition runCommands ::
  "(string \<Rightarrow> string list \<Rightarrow> go_duration \<Rightarrow> string result) \<Rightarrow> metadata_state \<Rightarrow> metadata_state" where
  "runCommands exec m = m\<lparr>md_cached := fold (run_one exec m) (md_cmnds m)
     (fold (\<lambda>(k, v) kv. kv(k \<mapsto> v)) (md_static m) Map.empty)\<rparr>"

section \<open>Laws\<close>

lemma str_contains_single: "str_contains [c] s \<longleftrightarrow> c \<in> set s"
  by (auto simp: str_contains_iff in_set_conv_decomp)

lemma add_rows:
  "delimiter \<noteq> [] \<Longrightarrow> \<forall>kv \<in> set rows. hd delimiter \<notin> set (fst kv)
    \<Longrightarrow> fold (add_row delimiter k) (map (\<lambda>(a, b). a @ delimiter @ b) rows) kv
      = kv ++ map_of (rev (map (\<lambda>(a, b). (k @ ''_'' @ a, b)) rows))"
proof (induction rows arbitrary: kv)
  case (Cons r rows)
  obtain a b where r: "r = (a, b)" by (cases r)
  have "SplitN2 delimiter (a @ delimiter @ b) = [a, b]"
    using Cons.prems by (simp add: SplitN2_def split_n2_def cut_at_hit r)
  then show ?case
    using Cons r by (simp add: add_row_def map_add_def fun_eq_iff split: option.split)
qed simp

text \<open>Several lines of output are keys and values, each key behind that of the command.\<close>

lemma add_output_rows:
  assumes "delimiter \<noteq> []" "\<forall>kv \<in> set rows. hd delimiter \<notin> set (fst kv)"
    and "\<forall>kv \<in> set rows. CHR 0x0A \<notin> set (fst kv @ delimiter @ snd kv)" "1 < length rows"
  shows "add_output delimiter k (join_char CHR 0x0A (map (\<lambda>(a, b). a @ delimiter @ b) rows)) kv
    = kv ++ map_of (rev (map (\<lambda>(a, b). (k @ ''_'' @ a, b)) rows))"
proof -
  let ?ss = "map (\<lambda>(a, b). a @ delimiter @ b) rows"
  have "CHR 0x0A \<in> set (join_char CHR 0x0A ?ss)"
    using assms(4) by (cases rows; cases "tl rows") auto
  moreover have "split_char CHR 0x0A (join_char CHR 0x0A ?ss) = ?ss"
    using assms(3,4) by (intro split_joined) auto
  ultimately show ?thesis using add_rows[OF assms(1,2)] by (simp add: add_output_def str_contains_single)
qed

end
