(* ===== verification/Forwarder.thy ===== *)
theory Forwarder
  imports BasicStation Concentratord Metadata
begin

text \<open>
  The forwarder (\<open>internal/forwarder/forwarder.go\<close>) between a backend and the integration,
  the choice of the backend (\<open>internal/backend/backend.go\<close>) and of the integration
  (\<open>internal/integration/integration.go\<close>).

  A value of Go's \<open>Backend\<close> interface is a record of its operations here (\<open>backend_ops\<close>), and
  \<open>bo_events\<close> is what it has handed to its callbacks so far. Every callback starts a
  goroutine; a goroutine is a task that runs later, in any order.
\<close>

section \<open>The backend interface\<close>

datatype fw_event =
    FwSubscribe Subscribe
  | FwUplink UplinkFrame
  | FwStats GatewayStats
  | FwTxAck DownlinkTXAck
  | FwRaw RawPacketForwarderEvent

record 's backend_ops =
  bo_events :: "'s \<Rightarrow> fw_event list"
  bo_SendDownlinkFrame :: "DownlinkFrame \<Rightarrow> 's \<Rightarrow> go_err option \<times> 's"
  bo_ApplyConfiguration :: "GatewayConfiguration \<Rightarrow> 's \<Rightarrow> go_err option \<times> 's"
  bo_RawPacketForwarderCommand :: "RawPacketForwarderCommand \<Rightarrow> 's \<Rightarrow> go_err option \<times> 's"
  bo_SetFuncs :: "'s \<Rightarrow> 's"

fun fw_of_udp :: "udp_event \<Rightarrow> fw_event" where
  "fw_of_udp (EvUplink u) = FwUplink u"
| "fw_of_udp (EvStats st) = FwStats st"
| "fw_of_udp (EvTxAck a) = FwTxAck a"
| "fw_of_udp (EvSubscribe e) = FwSubscribe e"

fun fw_of_bs :: "bs_event \<Rightarrow> fw_event" where
  "fw_of_bs (BsUplink u) = FwUplink u"
| "fw_of_bs (BsStats st) = FwStats st"
| "fw_of_bs (BsTxAck a) = FwTxAck a"
| "fw_of_bs (BsRaw r) = FwRaw r"
| "fw_of_bs (BsSubscribe e) = FwSubscribe e"

fun fw_of_cd :: "cd_event \<Rightarrow> fw_event" where
  "fw_of_cd (CdUplink u) = FwUplink u"
| "fw_of_cd (CdStats st) = FwStats st"
| "fw_of_cd (CdTxAck a) = FwTxAck a"
| "fw_of_cd (CdSubscribe e) = FwSubscribe e"

definition udp_ApplyConfiguration ::
  "GatewayConfiguration \<Rightarrow> 'c udp_state \<Rightarrow> go_err option \<times> 'c udp_state" where
  "udp_ApplyConfiguration config s = (None, s)"

definition udp_RawPacketForwarderCommand ::
  "RawPacketForwarderCommand \<Rightarrow> 'c udp_state \<Rightarrow> go_err option \<times> 'c udp_state" where
  "udp_RawPacketForwarderCommand pl s =
     (Some (ErrMsg ''raw packet-forwarder command not implemented by Semtech packet-forwarder''), s)"

definition semtech_ops :: "'c cache_lib \<Rightarrow> udp_env \<Rightarrow> 'c udp_state backend_ops" where
  "semtech_ops K E = \<lparr>bo_events = (\<lambda>s. map fw_of_udp (us_events s)),
     bo_SendDownlinkFrame = SendDownlinkFrame K E, bo_ApplyConfiguration = udp_ApplyConfiguration,
     bo_RawPacketForwarderCommand = udp_RawPacketForwarderCommand, bo_SetFuncs = SetFuncs\<rparr>"

definition basicstation_ops :: "'c cache_lib \<Rightarrow> bs_env \<Rightarrow> 'c bs_state backend_ops" where
  "basicstation_ops K E = \<lparr>bo_events = (\<lambda>s. map fw_of_bs (bst_events s)),
     bo_SendDownlinkFrame = bs_SendDownlinkFrame K E, bo_ApplyConfiguration = (\<lambda>_. ApplyConfiguration),
     bo_RawPacketForwarderCommand = bs_RawPacketForwarderCommand E, bo_SetFuncs = bs_SetFuncs\<rparr>"

definition concentratord_ops :: "cd_env \<Rightarrow> cd_state backend_ops" where
  "concentratord_ops E = \<lparr>bo_events = (\<lambda>s. map fw_of_cd (cd_events s)),
     bo_SendDownlinkFrame = cd_SendDownlinkFrame E, bo_ApplyConfiguration = cd_ApplyConfiguration E,
     bo_RawPacketForwarderCommand = cd_RawPacketForwarderCommand, bo_SetFuncs = cd_SetFuncs\<rparr>"

text \<open>A value of the interface holds one of the three; a call goes to the one it holds.\<close>

datatype 'c any_backend = SemtechUdp "'c udp_state" | BasicStation "'c bs_state" | Concentratord cd_state

definition any_call ::
  "('c udp_state \<Rightarrow> 'a \<times> 'c udp_state) \<Rightarrow> ('c bs_state \<Rightarrow> 'a \<times> 'c bs_state)
     \<Rightarrow> (cd_state \<Rightarrow> 'a \<times> cd_state) \<Rightarrow> 'c any_backend \<Rightarrow> 'a \<times> 'c any_backend" where
  "any_call f g h b = (case b of
     SemtechUdp s \<Rightarrow> map_prod id SemtechUdp (f s)
   | BasicStation s \<Rightarrow> map_prod id BasicStation (g s)
   | Concentratord s \<Rightarrow> map_prod id Concentratord (h s))"

definition any_events :: "'c any_backend \<Rightarrow> fw_event list" where
  "any_events b = (case b of
     SemtechUdp s \<Rightarrow> map fw_of_udp (us_events s)
   | BasicStation s \<Rightarrow> map fw_of_bs (bst_events s)
   | Concentratord s \<Rightarrow> map fw_of_cd (cd_events s))"

definition any_SetFuncs :: "'c any_backend \<Rightarrow> 'c any_backend" where
  "any_SetFuncs b = (case b of
     SemtechUdp s \<Rightarrow> SemtechUdp (SetFuncs s)
   | BasicStation s \<Rightarrow> BasicStation (bs_SetFuncs s)
   | Concentratord s \<Rightarrow> Concentratord (cd_SetFuncs s))"

definition any_ops ::
  "'c cache_lib \<Rightarrow> udp_env \<Rightarrow> bs_env \<Rightarrow> cd_env \<Rightarrow> 'c any_backend backend_ops" where
  "any_ops K U S C = \<lparr>bo_events = any_events,
     bo_SendDownlinkFrame = (\<lambda>f. any_call (bo_SendDownlinkFrame (semtech_ops K U) f)
       (bo_SendDownlinkFrame (basicstation_ops K S) f) (bo_SendDownlinkFrame (concentratord_ops C) f)),
     bo_ApplyConfiguration = (\<lambda>c. any_call (bo_ApplyConfiguration (semtech_ops K U) c)
       (bo_ApplyConfiguration (basicstation_ops K S) c) (bo_ApplyConfiguration (concentratord_ops C) c)),
     bo_RawPacketForwarderCommand = (\<lambda>r. any_call (bo_RawPacketForwarderCommand (semtech_ops K U) r)
       (bo_RawPacketForwarderCommand (basicstation_ops K S) r)
       (bo_RawPacketForwarderCommand (concentratord_ops C) r)),
     bo_SetFuncs = any_SetFuncs\<rparr>"

section \<open>Setup\<close>

text \<open>The three constructors are given as what they return for the configuration.\<close>

definition backend_Setup ::
  "string \<Rightarrow> 'c udp_state result \<Rightarrow> 'c bs_state result \<Rightarrow> cd_state result \<Rightarrow> 'c any_backend result" where
  "backend_Setup ty udp bs cd =
     (if ty = ''semtech_udp'' then wrap_err ''new backend error'' (bind_res udp (\<lambda>s. Inr (SemtechUdp s)))
      else if ty = ''basic_station'' then wrap_err ''new backend error'' (bind_res bs (\<lambda>s. Inr (BasicStation s)))
      else if ty = ''concentratord'' then wrap_err ''new backend error'' (bind_res cd (\<lambda>s. Inr (Concentratord s)))
      else Inl (ErrMsg (''unknown backend type: '' @ ty)))"

definition integration_Setup :: "mq_env \<Rightarrow> mqtt_conf \<Rightarrow> mq_state result" where
  "integration_Setup E conf = wrap_err ''setup mqtt integration error'' (mq_NewBackend E conf)"

text \<open>The callbacks of the backend are set by its own methods, an argument.\<close>

definition forwarder_Setup ::
  "('s \<Rightarrow> 's) \<Rightarrow> 's option \<Rightarrow> mq_state option \<Rightarrow> ('s \<times> mq_state) result" where
  "forwarder_Setup set_funcs b i = (case b of
     None \<Rightarrow> Inl (ErrMsg ''backend is not set'')
   | Some s \<Rightarrow> (case i of
         None \<Rightarrow> Inl (ErrMsg ''integration is not set'')
       | Some m \<Rightarrow> Inr (set_funcs s, mq_SetFuncs m)))"

section \<open>From the backend to the integration\<close>

text \<open>
  The goroutine bodies. \<open>ack_item_String\<close> is the text of an acknowledgement item made by the
  protobuf package; an uplink without reception information is a nil dereference.
\<close>

definition gatewaySubscribeFunc :: "mq_env \<Rightarrow> Subscribe \<Rightarrow> mq_state \<Rightarrow> go_err option \<times> mq_state" where
  "gatewaySubscribeFunc E pl s = SetGatewaySubscription E (sub_Subscribe pl) (sub_GatewayID pl) s"

definition uplinkFrameFunc :: "mq_env \<Rightarrow> UplinkFrame \<Rightarrow> mq_state \<Rightarrow> go_err option \<times> mq_state" where
  "uplinkFrameFunc E pl s = (case up_RxInfo pl of
     None \<Rightarrow> (Some (GoPanic ''nil pointer dereference''), s)
   | Some rx \<Rightarrow> PublishEvent E (copy_fixed 8 (rx_GatewayId rx)) ''up''
       (copy_fixed 16 (rx_UplinkId rx)) (PmUplink pl) s)"

definition add_metadata :: "(string \<rightharpoonup> string) \<Rightarrow> GatewayStats \<Rightarrow> GatewayStats" where
  "add_metadata md pl = pl\<lparr>st_MetaData := Some ((case st_MetaData pl of None \<Rightarrow> Map.empty | Some m \<Rightarrow> m) ++ md)\<rparr>"

definition gatewayStatsFunc ::
  "mq_env \<Rightarrow> (string \<rightharpoonup> string) \<Rightarrow> GatewayStats \<Rightarrow> mq_state \<Rightarrow> go_err option \<times> mq_state" where
  "gatewayStatsFunc E md pl s = PublishEvent E (copy_fixed 8 (st_GatewayId pl)) ''stats''
     (copy_fixed 16 (st_StatsId pl)) (PmStats (add_metadata md pl)) s"

fun ack_error :: "(tx_ack_status \<Rightarrow> string) \<Rightarrow> tx_ack_status list \<Rightarrow> string \<Rightarrow> string" where
  "ack_error ack_item_String [] err = err"
| "ack_error ack_item_String (i # is) err =
     (if i = TX_OK then [] else ack_error ack_item_String is (ack_item_String i))"

definition downlinkTxAckFunc ::
  "mq_env \<Rightarrow> (tx_ack_status \<Rightarrow> string) \<Rightarrow> DownlinkTXAck \<Rightarrow> mq_state \<Rightarrow> go_err option \<times> mq_state" where
  "downlinkTxAckFunc E ack_item_String pl s = PublishEvent E (copy_fixed 8 (ack_GatewayId pl)) ''ack''
     (copy_fixed 16 (ack_DownlinkId pl))
     (PmTxAck (pl\<lparr>ack_Error := ack_error ack_item_String (ack_Items pl) (ack_Error pl)\<rparr>)) s"

definition rawPacketForwarderEventFunc ::
  "mq_env \<Rightarrow> RawPacketForwarderEvent \<Rightarrow> mq_state \<Rightarrow> go_err option \<times> mq_state" where
  "rawPacketForwarderEventFunc E pl s = PublishEvent E (copy_fixed 8 (re_GatewayId pl)) ''raw''
     (copy_fixed 16 (re_RawId pl)) (PmRaw pl) s"

record fw_env =
  fe_mqtt :: mq_env
  fe_lib :: lib
  fe_commands :: commands
  fe_ack_item_String :: "tx_ack_status \<Rightarrow> string"

text \<open>The goroutine of an event, with the meta-data at the time it runs.\<close>

fun fw_event_run ::
  "fw_env \<Rightarrow> (string \<rightharpoonup> string) \<Rightarrow> fw_event \<Rightarrow> mq_state \<Rightarrow> go_err option \<times> mq_state" where
  "fw_event_run F md (FwSubscribe pl) s = gatewaySubscribeFunc (fe_mqtt F) pl s"
| "fw_event_run F md (FwUplink pl) s = uplinkFrameFunc (fe_mqtt F) pl s"
| "fw_event_run F md (FwStats pl) s = gatewayStatsFunc (fe_mqtt F) md pl s"
| "fw_event_run F md (FwTxAck pl) s = downlinkTxAckFunc (fe_mqtt F) (fe_ack_item_String F) pl s"
| "fw_event_run F md (FwRaw pl) s = rawPacketForwarderEventFunc (fe_mqtt F) pl s"

section \<open>From the integration to the backend\<close>

definition downlinkFrameFunc :: "'s backend_ops \<Rightarrow> DownlinkFrame \<Rightarrow> 's \<Rightarrow> go_err option \<times> 's" where
  "downlinkFrameFunc B pl s = bo_SendDownlinkFrame B pl s"

definition gatewayConfigurationFunc ::
  "'s backend_ops \<Rightarrow> GatewayConfiguration \<Rightarrow> 's \<Rightarrow> go_err option \<times> 's" where
  "gatewayConfigurationFunc B pl s = bo_ApplyConfiguration B pl s"

definition rawPacketForwarderCommandFunc ::
  "'s backend_ops \<Rightarrow> RawPacketForwarderCommand \<Rightarrow> 's \<Rightarrow> go_err option \<times> 's" where
  "rawPacketForwarderCommandFunc B pl s = bo_RawPacketForwarderCommand B pl s"

text \<open>The goroutine of a call to the backend; an execution request is none.\<close>

fun fw_call_run :: "'s backend_ops \<Rightarrow> mq_call \<Rightarrow> 's \<Rightarrow> (go_err option \<times> 's) option" where
  "fw_call_run B (CallDownlink pl) s = Some (downlinkFrameFunc B pl s)"
| "fw_call_run B (CallConfig pl) s = Some (gatewayConfigurationFunc B pl s)"
| "fw_call_run B (CallRaw pl) s = Some (rawPacketForwarderCommandFunc B pl s)"
| "fw_call_run B (CallExec pl) s = None"

section \<open>The bridge\<close>

text \<open>
  The backend, the integration, the meta-data, and the goroutines that have been started: the
  events that still have to be handed to the integration and the calls that still have to be
  made. \<open>br_ended\<close> is the end of the process, by a panic, by \<open>log.Fatal\<close> or after a signal.
  \<open>br_done\<close> and \<open>br_called\<close> are ghosts: the goroutines that have run, in their order, with the
  meta-data an event was run with and the response an execution request got.
\<close>

datatype done_task =
    DoneEvent fw_event "string \<rightharpoonup> string"
  | DoneExec GatewayCommandExecResponse

record 's bridge =
  br_backend :: 's
  br_mqtt :: mq_state
  br_metadata :: metadata_state
  br_events :: "fw_event list"
  br_calls :: "mq_call list"
  br_done :: "done_task list"
  br_called :: "mq_call list"
  br_ended :: bool

definition is_panic :: "go_err option \<Rightarrow> bool" where
  "is_panic r \<longleftrightarrow> (\<exists>m. r = Some (GoPanic m))"

text \<open>What the backend hands out in going from one state to the next is started.\<close>

definition backend_moves :: "'s backend_ops \<Rightarrow> 's \<Rightarrow> 's bridge \<Rightarrow> 's bridge" where
  "backend_moves B t b = b\<lparr>br_backend := t,
     br_events := br_events b @ drop (length (bo_events B (br_backend b))) (bo_events B t)\<rparr>"

definition mqtt_moves :: "mq_state \<Rightarrow> 's bridge \<Rightarrow> 's bridge" where
  "mqtt_moves m b = b\<lparr>br_mqtt := m,
     br_calls := br_calls b @ drop (length (mq_calls (br_mqtt b))) (mq_calls m)\<rparr>"

definition finish_event :: "fw_event list \<Rightarrow> fw_event \<Rightarrow> 's bridge \<Rightarrow> 's bridge" where
  "finish_event es e b = b\<lparr>br_events := es,
     br_done := br_done b @ [DoneEvent e (metadata_Get (br_metadata b))]\<rparr>"

definition finish_call :: "mq_call list \<Rightarrow> mq_call \<Rightarrow> 's bridge \<Rightarrow> 's bridge" where
  "finish_call cs c b = b\<lparr>br_calls := cs, br_called := br_called b @ [c]\<rparr>"

definition finish_exec :: "GatewayCommandExecResponse \<Rightarrow> 's bridge \<Rightarrow> 's bridge" where
  "finish_exec r b = b\<lparr>br_done := br_done b @ [DoneExec r]\<rparr>"

text \<open>
  A step of the whole bridge: of the backend on its own; a goroutine, to its end; a round of the
  subscription loop, of the loop that renews the connection or of the collection of meta-data;
  a new connection or the loss of one; a message of the broker; or the signal that ends the
  process. What the executed programs do is open.
\<close>

inductive bridge_step ::
  "fw_env \<Rightarrow> 's backend_ops \<Rightarrow> ('s \<Rightarrow> 's \<Rightarrow> bool) \<Rightarrow> 's bridge \<Rightarrow> 's bridge \<Rightarrow> bool"
  for F B own where
  br_own: "\<not> br_ended b \<Longrightarrow> own (br_backend b) t \<Longrightarrow> bridge_step F B own b (backend_moves B t b)"
| br_call: "\<not> br_ended b \<Longrightarrow> br_calls b = xs @ c # ys
    \<Longrightarrow> fw_call_run B c (br_backend b) = Some (r, t) \<Longrightarrow> \<not> is_panic r
    \<Longrightarrow> bridge_step F B own b (backend_moves B t (finish_call (xs @ ys) c b))"
| br_call_panic: "\<not> br_ended b \<Longrightarrow> br_calls b = xs @ c # ys
    \<Longrightarrow> fw_call_run B c (br_backend b) = Some (r, t) \<Longrightarrow> is_panic r
    \<Longrightarrow> bridge_step F B own b (b\<lparr>br_ended := True\<rparr>)"
| br_exec: "\<not> br_ended b \<Longrightarrow> br_calls b = xs @ CallExec q # ys
    \<Longrightarrow> executeCommand (fe_mqtt F) X (fe_commands F) q (br_mqtt b) = (r, m) \<Longrightarrow> \<not> is_panic r
    \<Longrightarrow> bridge_step F B own b (mqtt_moves m
          (finish_exec (exec_response X (fe_commands F) q) (finish_call (xs @ ys) (CallExec q) b)))"
| br_exec_panic: "\<not> br_ended b \<Longrightarrow> br_calls b = xs @ CallExec q # ys
    \<Longrightarrow> executeCommand (fe_mqtt F) X (fe_commands F) q (br_mqtt b) = (r, m) \<Longrightarrow> is_panic r
    \<Longrightarrow> bridge_step F B own b (b\<lparr>br_ended := True\<rparr>)"
| br_event: "\<not> br_ended b \<Longrightarrow> br_events b = xs @ e # ys
    \<Longrightarrow> fw_event_run F (metadata_Get (br_metadata b)) e (br_mqtt b) = (r, m) \<Longrightarrow> \<not> is_panic r
    \<Longrightarrow> bridge_step F B own b (mqtt_moves m (finish_event (xs @ ys) e b))"
| br_event_panic: "\<not> br_ended b \<Longrightarrow> br_events b = xs @ e # ys
    \<Longrightarrow> fw_event_run F (metadata_Get (br_metadata b)) e (br_mqtt b) = (r, m) \<Longrightarrow> is_panic r
    \<Longrightarrow> bridge_step F B own b (b\<lparr>br_ended := True\<rparr>)"
| br_collect: "\<not> br_ended b
    \<Longrightarrow> bridge_step F B own b (b\<lparr>br_metadata := runCommands exec (br_metadata b)\<rparr>)"
| br_round: "\<not> br_ended b
    \<Longrightarrow> bridge_step F B own b (mqtt_moves (subscribe_pass (fe_mqtt F) (br_mqtt b)) b)"
| br_reconnect: "\<not> br_ended b \<Longrightarrow> reconnect_round (fe_mqtt F) (br_mqtt b) = Some (r, m) \<Longrightarrow> \<not> is_panic r
    \<Longrightarrow> bridge_step F B own b (mqtt_moves m b)"
| br_reconnect_fatal: "\<not> br_ended b \<Longrightarrow> reconnect_round (fe_mqtt F) (br_mqtt b) = Some (r, m) \<Longrightarrow> is_panic r
    \<Longrightarrow> bridge_step F B own b (b\<lparr>br_ended := True\<rparr>)"
| br_connected: "\<not> br_ended b \<Longrightarrow> bridge_step F B own b (mqtt_moves (onConnected (br_mqtt b)) b)"
| br_lost: "\<not> br_ended b \<Longrightarrow> onConnectionLost (br_mqtt b) = (r, m)
    \<Longrightarrow> bridge_step F B own b (if is_panic r then b\<lparr>br_ended := True\<rparr> else mqtt_moves m b)"
| br_message: "\<not> br_ended b
    \<Longrightarrow> bridge_step F B own b (mqtt_moves (handleCommand (fe_lib F) topic payload (br_mqtt b)) b)"
| br_signal: "\<not> br_ended b
    \<Longrightarrow> bridge_step F B own b ((mqtt_moves (mq_Stop (fe_mqtt F) (br_mqtt b)) b)\<lparr>br_ended := True\<rparr>)"

end
