(* ===== verification/Startup.thy ===== *)
theory Startup
  imports Forwarder Filters
begin

text \<open>
  How the process comes up (\<open>cmd/chirpstack-gateway-bridge/cmd\<close>): the configuration
  (\<open>internal/config/config.go\<close>) with its settings, defaults and environment variables
  (\<open>root.go\<close>), and the start tasks in their order (\<open>root_run.go\<close>, \<open>root_run_syslog.go\<close>,
  \<open>internal/metrics/metrics.go\<close>).

  Reading a configuration file into a configuration is the work of viper, an argument here; so
  are name resolution, sockets and the syslog of the system. Field names, tags and variable
  names are ASCII, for which \<open>strings.ToUpper\<close> and \<open>strings.ToLower\<close> are written out.
\<close>

section \<open>Strings\<close>

definition to_upper :: "string \<Rightarrow> string" where
  "to_upper = map (\<lambda>c. if 97 \<le> (of_char c :: nat) \<and> (of_char c :: nat) \<le> 122
     then char_of ((of_char c :: nat) - 32) else c)"

definition to_lower :: "string \<Rightarrow> string" where
  "to_lower = map (\<lambda>c. if 65 \<le> (of_char c :: nat) \<and> (of_char c :: nat) \<le> 90
     then char_of ((of_char c :: nat) + 32) else c)"

fun join_str :: "string \<Rightarrow> string list \<Rightarrow> string" where
  "join_str sep [] = []"
| "join_str sep [x] = x"
| "join_str sep (x # y # xs) = x @ sep @ join_str sep (y # xs)"

text \<open>\<open>strings.ReplaceAll(s, ".", "__")\<close>\<close>

definition underscored :: "string \<Rightarrow> string" where
  "underscored s = concat (map (\<lambda>c. if c = CHR ''.'' then ''__'' else [c]) s)"

section \<open>The configuration\<close>

record config =
  cf_LogLevel :: u64
  cf_LogToSyslog :: bool
  cf_NetIDs :: "string list"
  cf_JoinEUIs :: "(string \<times> string) list"
  cf_BackendType :: string
  cf_UDPBind :: string
  cf_SkipCRCCheck :: bool
  cf_FakeRxTime :: bool
  cf_BS_Bind :: string
  cf_BS_TLSCert :: string
  cf_BS_TLSKey :: string
  cf_BS_CACert :: string
  cf_BS_StatsInterval :: go_duration
  cf_BS_PingInterval :: go_duration
  cf_BS_TimesyncInterval :: go_duration
  cf_BS_ReadTimeout :: go_duration
  cf_BS_WriteTimeout :: go_duration
  cf_BS_NetIDs :: "string list"
  cf_BS_JoinEUIs :: "(string \<times> string) list"
  cf_BS_Region :: string
  cf_BS_FrequencyMin :: u32
  cf_BS_FrequencyMax :: u32
  cf_BS_Concentrators :: "BasicStationConcentrator list"
  cf_EventURL :: string
  cf_CommandURL :: string
  cf_CRCCheck :: bool
  cf_MQTT :: mqtt_conf
  cf_GenericServer :: string
  cf_EndpointEnabled :: bool
  cf_PrometheusBind :: string
  cf_MetaData :: metadata_conf
  cf_Commands :: commands

text \<open>
  The same structs as the reflection sees them: the name of each field, its \<open>mapstructure\<close> tag
  if it has one, and the fields of a nested struct. Two tags of the source are misspelled, so
  their fields have none.
\<close>

datatype go_field = Field string "string option" | Struct string "string option" "go_field list"

abbreviation (input) tagged :: "string \<Rightarrow> string \<Rightarrow> go_field" where
  "tagged n t \<equiv> Field n (Some t)"

definition filter_fields :: "go_field list" where
  "filter_fields = [tagged ''NetIDs'' ''net_ids'', tagged ''JoinEUIs'' ''join_euis'']"

definition backend_fields :: "go_field list" where
  "backend_fields =
    [tagged ''Type'' ''type'',
     Struct ''SemtechUDP'' (Some ''semtech_udp'')
       [tagged ''UDPBind'' ''udp_bind'', tagged ''SkipCRCCheck'' ''skip_crc_check'',
        tagged ''FakeRxTime'' ''fake_rx_time''],
     Struct ''BasicStation'' (Some ''basic_station'')
       [tagged ''Bind'' ''bind'', tagged ''TLSCert'' ''tls_cert'', tagged ''TLSKey'' ''tls_key'',
        tagged ''CACert'' ''ca_cert'', tagged ''StatsInterval'' ''stats_interval'',
        tagged ''PingInterval'' ''ping_interval'', tagged ''TimesyncInterval'' ''timesync_interval'',
        tagged ''ReadTimeout'' ''read_timeout'', tagged ''WriteTimeout'' ''write_timeout'',
        Struct ''Filters'' (Some ''filters'') filter_fields,
        tagged ''Region'' ''region'', tagged ''FrequencyMin'' ''frequency_min'',
        tagged ''FrequencyMax'' ''frequency_max'', tagged ''Concentrators'' ''concentrators''],
     Struct ''Concentratord'' (Some ''concentratord'')
       [tagged ''EventURL'' ''event_url'', tagged ''CommandURL'' ''command_url'',
        tagged ''CRCCheck'' ''crc_check'']]"

definition auth_fields :: "go_field list" where
  "auth_fields =
    [tagged ''Type'' ''type'',
     Struct ''Generic'' (Some ''generic'')
       [tagged ''Server'' ''server'', tagged ''Servers'' ''servers'', tagged ''Username'' ''username'',
        Field ''Password'' None, tagged ''CACert'' ''ca_cert'', tagged ''TLSCert'' ''tls_cert'',
        tagged ''TLSKey'' ''tls_key'', tagged ''QOS'' ''qos'', tagged ''CleanSession'' ''clean_session'',
        tagged ''ClientID'' ''client_id''],
     Struct ''GCPCloudIoTCore'' (Some ''gcp_cloud_iot_core'')
       [tagged ''Server'' ''server'', tagged ''DeviceID'' ''device_id'',
        tagged ''ProjectID'' ''project_id'', tagged ''CloudRegion'' ''cloud_region'',
        tagged ''RegistryID'' ''registry_id'', tagged ''JWTExpiration'' ''jwt_expiration'',
        tagged ''JWTKeyFile'' ''jwt_key_file''],
     Struct ''AzureIoTHub'' (Some ''azure_iot_hub'')
       [tagged ''DeviceConnectionString'' ''device_connection_string'',
        tagged ''DeviceID'' ''device_id'', tagged ''Hostname'' ''hostname'',
        tagged ''DeviceKey'' ''-'', tagged ''SASTokenExpiration'' ''sas_token_expiration'',
        tagged ''TLSCert'' ''tls_cert'', tagged ''TLSKey'' ''tls_key'']]"

definition integration_fields :: "go_field list" where
  "integration_fields =
    [tagged ''Marshaler'' ''marshaler'',
     Struct ''MQTT'' (Some ''mqtt'')
       [tagged ''EventTopicTemplate'' ''event_topic_template'',
        tagged ''CommandTopicTemplate'' ''command_topic_template'',
        tagged ''StateTopicTemplate'' ''state_topic_template'',
        tagged ''StateRetained'' ''state_retained'', tagged ''KeepAlive'' ''keep_alive'',
        tagged ''MaxReconnectInterval'' ''max_reconnect_interval'',
        tagged ''TerminateOnConnectError'' ''terminate_on_connect_error'',
        tagged ''MaxTokenWait'' ''max_token_wait'',
        Struct ''Auth'' (Some ''auth'') auth_fields]]"

definition config_type :: "go_field list" where
  "config_type =
    [Struct ''General'' (Some ''general'')
       [tagged ''LogLevel'' ''log_level'', tagged ''LogToSyslog'' ''log_to_syslog''],
     Struct ''Filters'' (Some ''filters'') filter_fields,
     Struct ''Backend'' (Some ''backend'') backend_fields,
     Struct ''Integration'' (Some ''integration'') integration_fields,
     Struct ''Metrics'' (Some ''metrics'')
       [Struct ''Prometheus'' (Some ''prometheus'')
          [tagged ''EndpointEnabled'' ''endpoint_enabled'', tagged ''Bind'' ''bind'']],
     Struct ''MetaData'' (Some ''meta_data'')
       [tagged ''Static'' ''static'',
        Struct ''Dynamic'' (Some ''dynamic'')
          [tagged ''ExecutionInterval'' ''execution_interval'',
           tagged ''MaxExecutionDuration'' ''max_execution_duration'',
           tagged ''SplitDelimiter'' ''split_delimiter'', tagged ''Commands'' ''commands'']],
     Struct ''Commands'' (Some ''commands'') [tagged ''Commands'' ''commands'']]"

section \<open>Environment variables\<close>

text \<open>A key and the variable it is bound to, for every field that is not a struct.\<close>

definition field_key :: "string \<Rightarrow> string option \<Rightarrow> string" where
  "field_key name tag = (case tag of Some tv \<Rightarrow> tv | None \<Rightarrow> to_lower name)"

fun viperBindEnvs :: "go_field list \<Rightarrow> string list \<Rightarrow> (string \<times> string) list" where
  "viperBindEnvs [] parts = []"
| "viperBindEnvs (Field name tag # fs) parts =
     (let tv = field_key name tag in
      if tv = ''-'' then viperBindEnvs fs parts
      else (join_str ''.'' (parts @ [tv]), to_upper (join_str ''__'' (parts @ [tv])))
        # viperBindEnvs fs parts)"
| "viperBindEnvs (Struct name tag gs # fs) parts =
     (let tv = field_key name tag in
      if tv = ''-'' then viperBindEnvs fs parts
      else viperBindEnvs gs (parts @ [tv]) @ viperBindEnvs fs parts)"

text \<open>
  The environment is the list of its entries \<open>NAME=value\<close>. A name is looked up in order, and set
  in place or at the end.
\<close>

definition LookupEnv :: "string \<Rightarrow> string list \<Rightarrow> string option" where
  "LookupEnv k env = (case List.find (\<lambda>e. has_prefix (k @ ''='') e) env of
     None \<Rightarrow> None | Some e \<Rightarrow> Some (drop (length k + 1) e))"

fun Setenv :: "string \<Rightarrow> string \<Rightarrow> string list \<Rightarrow> string list" where
  "Setenv k v [] = [k @ ''='' @ v]"
| "Setenv k v (e # es) = (if has_prefix (k @ ''='') e then (k @ ''='' @ v) # es else e # Setenv k v es)"

text \<open>An entry without \<open>=\<close> and with a dot is an index out of range.\<close>

definition undot_one :: "string \<Rightarrow> string list \<Rightarrow> string list result" where
  "undot_one pair env =
     (let d = split_n2 ''='' pair in
      if str_contains ''.'' (d ! 0) then
        let u = underscored (d ! 0) in
        (case LookupEnv u env of
           Some v \<Rightarrow> Inr env
         | None \<Rightarrow> if length d < 2 then Inl (GoPanic ''index out of range'') else Inr (Setenv u (d ! 1) env))
      else Inr env)"

fun undot_all :: "string list \<Rightarrow> string list \<Rightarrow> string list result" where
  "undot_all [] env = Inr env"
| "undot_all (p # ps) env = bind_res (undot_one p env) (undot_all ps)"

section \<open>Loading the configuration\<close>

datatype setting = SInt int | SBool bool | SString string | SStrings "string list" | SDuration int

definition viper_defaults :: "(string \<times> setting) list" where
  "viper_defaults =
    [(''general.log_level'', SInt 4),
     (''backend.type'', SString ''semtech_udp''),
     (''backend.semtech_udp.udp_bind'', SString ''0.0.0.0:1700''),
     (''backend.concentratord.crc_check'', SBool True),
     (''backend.concentratord.event_url'', SString ''ipc:///tmp/concentratord_event''),
     (''backend.concentratord.command_url'', SString ''ipc:///tmp/concentratord_command''),
     (''backend.basic_station.bind'', SString '':3001''),
     (''backend.basic_station.stats_interval'', SDuration (30 * Second)),
     (''backend.basic_station.ping_interval'', SDuration (60 * Second)),
     (''backend.basic_station.timesync_interval'', SDuration (3600 * Second)),
     (''backend.basic_station.read_timeout'', SDuration (65 * Second)),
     (''backend.basic_station.write_timeout'', SDuration Second),
     (''backend.basic_station.region'', SString ''EU868''),
     (''backend.basic_station.frequency_min'', SInt 863000000),
     (''backend.basic_station.frequency_max'', SInt 870000000),
     (''integration.marshaler'', SString ''protobuf''),
     (''integration.mqtt.auth.type'', SString ''generic''),
     (''integration.mqtt.event_topic_template'',
       SString ''gateway/{{ .GatewayID }}/event/{{ .EventType }}''),
     (''integration.mqtt.state_topic_template'',
       SString ''gateway/{{ .GatewayID }}/state/{{ .StateType }}''),
     (''integration.mqtt.command_topic_template'', SString ''gateway/{{ .GatewayID }}/command/#''),
     (''integration.mqtt.state_retained'', SBool True),
     (''integration.mqtt.keep_alive'', SDuration (30 * Second)),
     (''integration.mqtt.max_reconnect_interval'', SDuration (60 * Second)),
     (''integration.mqtt.max_token_wait'', SDuration (5 * Second)),
     (''integration.mqtt.auth.generic.servers'', SStrings [''tcp://127.0.0.1:1883'']),
     (''integration.mqtt.auth.generic.clean_session'', SBool True),
     (''integration.mqtt.auth.gcp_cloud_iot_core.server'', SString ''ssl://mqtt.googleapis.com:8883''),
     (''integration.mqtt.auth.gcp_cloud_iot_core.jwt_expiration'', SDuration (24 * 3600 * Second)),
     (''integration.mqtt.auth.azure_iot_hub.sas_token_expiration'', SDuration (24 * 3600 * Second)),
     (''meta_data.dynamic.split_delimiter'', SString ''=''),
     (''meta_data.dynamic.execution_interval'', SDuration (60 * Second)),
     (''meta_data.dynamic.max_execution_duration'', SDuration Second)]"

text \<open>What viper does: reading the named file or looking for one, parsing, and filling the
  configuration from the file, the defaults and the bound variables.\<close>

datatype config_file = NoConfigFile | ConfigFileError go_err | ConfigFile bytes

record viper_lib =
  vp_ReadFile :: "string \<Rightarrow> config_file"
  vp_ReadConfig :: "bytes \<Rightarrow> go_err option"
  vp_ReadInConfig :: config_file
  vp_Unmarshal :: "bytes option \<Rightarrow> (string \<times> setting) list \<Rightarrow> (string \<times> string) list
    \<Rightarrow> string list \<Rightarrow> config result"

definition fatal :: "'a result \<Rightarrow> 'a result" where
  "fatal r = (case r of Inl e \<Rightarrow> Inl (GoPanic ''log.Fatal'') | Inr x \<Rightarrow> Inr x)"

definition load_file :: "viper_lib \<Rightarrow> string \<Rightarrow> bytes option result" where
  "load_file V cfgFile =
     fatal (if cfgFile \<noteq> [] then
         (case vp_ReadFile V cfgFile of
            NoConfigFile \<Rightarrow> Inl (LibErr ''open'')
          | ConfigFileError e \<Rightarrow> Inl e
          | ConfigFile b \<Rightarrow> (case vp_ReadConfig V b of None \<Rightarrow> Inr (Some b) | Some e \<Rightarrow> Inl e))
       else
         (case vp_ReadInConfig V of
            NoConfigFile \<Rightarrow> Inr None
          | ConfigFileError e \<Rightarrow> Inl e
          | ConfigFile b \<Rightarrow> Inr (Some b)))"

text \<open>Settings of earlier versions: the filters of the Basic Station, and a single server.\<close>

definition migrate_filters :: "config \<Rightarrow> config" where
  "migrate_filters c =
     (if cf_BackendType c = ''basic_station'' \<and> (cf_BS_NetIDs c \<noteq> [] \<or> cf_BS_JoinEUIs c \<noteq> [])
      then c\<lparr>cf_NetIDs := cf_BS_NetIDs c, cf_JoinEUIs := cf_BS_JoinEUIs c\<rparr> else c)"

definition migrate_server :: "config \<Rightarrow> config" where
  "migrate_server c =
     (if cf_GenericServer c \<noteq> []
      then c\<lparr>cf_MQTT := (cf_MQTT c)\<lparr>mc_Generic := (mc_Generic (cf_MQTT c))\<lparr>gen_Servers := [cf_GenericServer c]\<rparr>\<rparr>\<rparr>
      else c)"

definition initConfig :: "viper_lib \<Rightarrow> string \<Rightarrow> string list \<Rightarrow> config result" where
  "initConfig V cfgFile environ =
     bind_res (load_file V cfgFile) (\<lambda>b.
     bind_res (undot_all environ environ) (\<lambda>env.
     bind_res (fatal (vp_Unmarshal V b viper_defaults (viperBindEnvs config_type []) env)) (\<lambda>c.
       Inr (migrate_server (migrate_filters c)))))"

section \<open>The start tasks\<close>

record 'c app =
  ap_level :: u32
  ap_syslog :: "nat option"
  ap_filters :: filters
  ap_backend :: "'c any_backend option"
  ap_integration :: "mq_state option"
  ap_metrics :: "string option"
  ap_metadata :: "metadata_state option"
  ap_commands :: commands
  ap_listening :: bool

text \<open>The libraries and the system the tasks meet; \<open>ve_cache\<close> makes an empty cache.\<close>

record 'c start_env =
  ve_cache :: 'c
  ve_udp_addr :: "string \<Rightarrow> go_err option"
  ve_udp_listen :: "string \<Rightarrow> go_err option"
  ve_tcp_listen :: "string \<Rightarrow> go_err option"
  ve_ReadFile :: "string \<Rightarrow> bytes result"
  ve_syslog :: "nat \<Rightarrow> go_err option"
  ve_sort :: channel_sort
  ve_GetConfig :: "string \<Rightarrow> band option"
  ve_lorawan :: lorawan_lib
  ve_mqtt :: mq_env
  ve_cd :: cd_env

type_synonym 'c task = "'c app \<Rightarrow> (go_err option \<times> 'c app) option"

definition new_app :: "'c app" where
  "new_app = \<lparr>ap_level = 4, ap_syslog = None, ap_filters = \<lparr>f_netIDs = [], f_joinEUIs = []\<rparr>,
     ap_backend = None, ap_integration = None, ap_metrics = None, ap_metadata = None,
     ap_commands = Map.empty, ap_listening = False\<rparr>"

text \<open>An error that is returned is wrapped; a panic or \<open>log.Fatal\<close> ends the process where it is.\<close>

definition wrap_opt :: "string \<Rightarrow> go_err option \<Rightarrow> go_err option" where
  "wrap_opt msg r = (case r of
     None \<Rightarrow> None
   | Some (GoPanic m) \<Rightarrow> Some (GoPanic m)
   | Some e \<Rightarrow> Some (Wrap msg e))"

text \<open>\<open>log.Level(uint8(...))\<close> keeps the low byte.\<close>

definition setLogLevel :: "config \<Rightarrow> 'c task" where
  "setLogLevel conf a = Some (None, a\<lparr>ap_level := ucast (ucast (cf_LogLevel conf) :: u8)\<rparr>)"

text \<open>The facility of user messages is 8; the levels count from panic, 0, to trace, 6.\<close>

definition syslog_priority :: "u32 \<Rightarrow> nat" where
  "syslog_priority level =
     (if level = 5 then 8 + 7
      else if level = 4 then 8 + 6
      else if level = 3 then 8 + 4
      else if level = 2 then 8 + 3
      else if level = 1 then 8 + 2
      else if level = 0 then 8 + 2
      else 0)"

definition setSyslog :: "'c start_env \<Rightarrow> config \<Rightarrow> 'c task" where
  "setSyslog V conf a =
     (if \<not> cf_LogToSyslog conf then Some (None, a)
      else let prio = syslog_priority (ap_level a) in
        (case ve_syslog V prio of
           Some e \<Rightarrow> Some (Some (Wrap ''get syslog hook error'' e), a)
         | None \<Rightarrow> Some (None, a\<lparr>ap_syslog := Some prio\<rparr>)))"

definition printStartMessage :: "'c task" where
  "printStartMessage a = Some (None, a)"

definition setupFilters :: "'c start_env \<Rightarrow> config \<Rightarrow> 'c task" where
  "setupFilters V conf a =
     Some (case Filters_Setup (ve_lorawan V) (cf_NetIDs conf) (cf_JoinEUIs conf) (ap_filters a) of
        Inl e \<Rightarrow> (Some (Wrap ''setup filters error'' e), a)
      | Inr f \<Rightarrow> (None, a\<lparr>ap_filters := f\<rparr>))"

text \<open>The constructors of the three backends, with the sockets they open.\<close>

definition udp_new :: "'c start_env \<Rightarrow> config \<Rightarrow> 'c udp_state result" where
  "udp_new V conf =
     (case ve_udp_addr V (cf_UDPBind conf) of
        Some e \<Rightarrow> Inl (Wrap ''resolve udp addr error'' e)
      | None \<Rightarrow> (case ve_udp_listen V (cf_UDPBind conf) of
            Some e \<Rightarrow> Inl (Wrap ''listen udp error'' e)
          | None \<Rightarrow> Inr (NewBackend (cf_SkipCRCCheck conf) (cf_FakeRxTime conf) (ve_cache V))))"

definition bs_new :: "'c start_env \<Rightarrow> config \<Rightarrow> 'c bs_state result" where
  "bs_new V conf =
     bind_res (bs_NewBackend (ve_sort V) (ve_GetConfig V) (ve_lorawan V) (cf_NetIDs conf)
       (cf_JoinEUIs conf) (cf_BS_Region conf) (cf_BS_FrequencyMin conf) (cf_BS_FrequencyMax conf)
       (cf_BS_Concentrators conf) (sint (cf_BS_TimesyncInterval conf)) (ve_cache V)) (\<lambda>(s, b).
     case ve_tcp_listen V (cf_BS_Bind conf) of
       Some e \<Rightarrow> Inl (Wrap ''create listener error'' e)
     | None \<Rightarrow>
         if cf_BS_CACert conf = [] then Inr s
         else wrap_err ''read ca cert error'' (bind_res (ve_ReadFile V (cf_BS_CACert conf)) (\<lambda>_. Inr s)))"

definition setupBackend :: "'c start_env \<Rightarrow> config \<Rightarrow> 'c task" where
  "setupBackend V conf a =
     Some (case backend_Setup (cf_BackendType conf) (udp_new V conf) (bs_new V conf)
         (Inr (cd_NewBackend (cf_CRCCheck conf))) of
        Inl e \<Rightarrow> (Some (Wrap ''setup backend error'' e), a)
      | Inr b \<Rightarrow> (None, a\<lparr>ap_backend := Some b\<rparr>))"

definition setupIntegration :: "'c start_env \<Rightarrow> config \<Rightarrow> 'c task" where
  "setupIntegration V conf a =
     Some (case integration_Setup (ve_mqtt V) (cf_MQTT conf) of
        Inl e \<Rightarrow> (Some (Wrap ''setup integration error'' e), a)
      | Inr m \<Rightarrow> (None, a\<lparr>ap_integration := Some m\<rparr>))"

definition setupForwarder :: "'c task" where
  "setupForwarder a =
     Some (case forwarder_Setup any_SetFuncs (ap_backend a) (ap_integration a) of
        Inl e \<Rightarrow> (Some (Wrap ''setup forwarder error'' e), a)
      | Inr (b, m) \<Rightarrow> (None, a\<lparr>ap_backend := Some b, ap_integration := Some m\<rparr>))"

text \<open>The address the metrics server is started on; it runs on its own, a failure is logged only.\<close>

definition metrics_Setup :: "config \<Rightarrow> string option" where
  "metrics_Setup conf = (if \<not> cf_EndpointEnabled conf then None else Some (cf_PrometheusBind conf))"

definition setupMetrics :: "config \<Rightarrow> 'c task" where
  "setupMetrics conf a = Some (None, a\<lparr>ap_metrics := metrics_Setup conf\<rparr>)"

definition setupMetaData :: "config \<Rightarrow> 'c task" where
  "setupMetaData conf a = Some (None, a\<lparr>ap_metadata := Some (metadata_Setup (cf_MetaData conf))\<rparr>)"

definition setupCommands :: "config \<Rightarrow> 'c task" where
  "setupCommands conf a =
     Some (case commands_Setup (cf_Commands conf) (ap_integration a) of
        (e, cmds, i) \<Rightarrow> (wrap_opt ''setup commands error'' e, a\<lparr>ap_commands := cmds, ap_integration := i\<rparr>))"

text \<open>A method of an interface that holds nothing is a nil dereference.\<close>

definition startIntegration :: "'c start_env \<Rightarrow> 'c task" where
  "startIntegration V a =
     (case ap_integration a of
        None \<Rightarrow> Some (Some (GoPanic ''nil pointer dereference''), a)
      | Some m \<Rightarrow> map_option (\<lambda>(e, t). (wrap_opt ''start integration error'' e, a\<lparr>ap_integration := Some t\<rparr>))
          (mq_Start (ve_mqtt V) m))"

text \<open>The Semtech and Basic Station backends only start their goroutines.\<close>

definition startBackend :: "'c start_env \<Rightarrow> 'c task" where
  "startBackend V a =
     (case ap_backend a of
        None \<Rightarrow> Some (Some (GoPanic ''nil pointer dereference''), a)
      | Some (SemtechUdp s) \<Rightarrow> Some (None, a)
      | Some (BasicStation s) \<Rightarrow> Some (None, a)
      | Some (Concentratord s) \<Rightarrow> map_option (\<lambda>(e, t). (wrap_opt ''start backend error'' e,
          a\<lparr>ap_backend := Some (Concentratord t)\<rparr>)) (cd_Start (ve_cd V) s))"

definition api_Launch :: "'c task" where
  "api_Launch a = Some (None, a\<lparr>ap_listening := True\<rparr>)"

text \<open>The tasks run in order; the first error ends the process.\<close>

fun run_tasks :: "'c task list \<Rightarrow> 'c task" where
  "run_tasks [] a = Some (None, a)"
| "run_tasks (t # ts) a = (case t a of
     None \<Rightarrow> None
   | Some (Some e, b) \<Rightarrow> Some (Some e, b)
   | Some (None, b) \<Rightarrow> run_tasks ts b)"

definition tasks :: "'c start_env \<Rightarrow> config \<Rightarrow> 'c task list" where
  "tasks V conf = [setLogLevel conf, setSyslog V conf, printStartMessage, setupFilters V conf,
     setupBackend V conf, setupIntegration V conf, setupForwarder, setupMetrics conf,
     setupMetaData conf, setupCommands conf, startIntegration V, startBackend V, api_Launch]"

definition run :: "'c start_env \<Rightarrow> config \<Rightarrow> (go_err option \<times> 'c app) option" where
  "run V conf = run_tasks (tasks V conf) new_app"

text \<open>After a signal only the integration is stopped.\<close>

definition shutdown :: "'c start_env \<Rightarrow> 'c app \<Rightarrow> 'c app" where
  "shutdown V a = a\<lparr>ap_integration := map_option (mq_Stop (ve_mqtt V)) (ap_integration a)\<rparr>"

end
