(* ===== verification/StartupEnv.thy ===== *)
theory StartupEnv
  imports Startup
begin

text \<open>
  The settings of the configuration with the variables they are bound to, and what becomes of
  variables whose names have dots (\<open>cmd/chirpstack-gateway-bridge/cmd/root.go\<close>).
\<close>

section \<open>Settings\<close>

lemma join_str_Cons: "ps \<noteq> [] \<Longrightarrow> join_str sep (p # ps) = p @ sep @ join_str sep ps"
  by (cases ps) auto

lemma underscored_append [simp]: "underscored (a @ b) = underscored a @ underscored b"
  by (simp add: underscored_def)

lemma underscored_id: "CHR ''.'' \<notin> set s \<Longrightarrow> underscored s = s"
proof (induction s)
  case (Cons c s)
  then show ?case by (simp add: underscored_def) force
qed (simp add: underscored_def)

lemma underscored_join:
  "\<forall>p \<in> set ps. CHR ''.'' \<notin> set p \<Longrightarrow> underscored (join_str ''.'' ps) = join_str ''__'' ps"
proof (induction ps)
  case (Cons p ps)
  have dot: "underscored ''.'' = ''__''" by (simp add: underscored_def)
  show ?case
  proof (cases "ps = []")
    case True
    then show ?thesis using Cons by (simp add: underscored_id)
  next
    case False
    then show ?thesis using Cons
      unfolding join_str_Cons[OF False] underscored_append dot by (simp add: underscored_id)
  qed
qed (simp add: underscored_def)

text \<open>The path of a setting: the keys of the structs around it and its own.\<close>

fun setting_paths :: "go_field list \<Rightarrow> string list \<Rightarrow> string list list" where
  "setting_paths [] parts = []"
| "setting_paths (Field name tag # fs) parts =
     (if field_key name tag = ''-'' then [] else [parts @ [field_key name tag]]) @ setting_paths fs parts"
| "setting_paths (Struct name tag gs # fs) parts =
     (if field_key name tag = ''-'' then [] else setting_paths gs (parts @ [field_key name tag]))
       @ setting_paths fs parts"

lemma bindings_of_paths:
  "viperBindEnvs fs parts =
     map (\<lambda>p. (join_str ''.'' p, to_upper (join_str ''__'' p))) (setting_paths fs parts)"
  by (induction fs parts rule: viperBindEnvs.induct) (simp_all add: Let_def)

fun key_of :: "go_field \<Rightarrow> string" where
  "key_of (Field name tag) = field_key name tag"
| "key_of (Struct name tag gs) = field_key name tag"

text \<open>
  The characters that upper case keeps apart, the underscore and the ASCII rows without upper
  case, but the dot and the equals sign; keys of them without double underscores, different ones within a struct.
\<close>

fun key_char :: "char \<Rightarrow> bool" where
  "key_char (Char b0 b1 b2 b3 b4 b5 b6 b7) =
     ((b5 \<and> \<not> b7 \<or> Char b0 b1 b2 b3 b4 b5 b6 b7 = CHR ''_'') \<and> Char b0 b1 b2 b3 b4 b5 b6 b7 \<noteq> CHR ''.''
      \<and> Char b0 b1 b2 b3 b4 b5 b6 b7 \<noteq> CHR ''='')"

definition plain_key :: "string \<Rightarrow> bool" where
  "plain_key p \<longleftrightarrow> p \<noteq> [] \<and> list_all key_char p \<and> \<not> str_contains ''__'' p \<and> last p \<noteq> CHR ''_''"

fun well_named :: "go_field list \<Rightarrow> bool" where
  "well_named [] = True"
| "well_named (Field name tag # fs) =
     ((field_key name tag = ''-'' \<or> plain_key (field_key name tag))
      \<and> field_key name tag \<notin> set (map key_of fs) \<and> well_named fs)"
| "well_named (Struct name tag gs # fs) =
     ((field_key name tag = ''-'' \<or> plain_key (field_key name tag))
      \<and> field_key name tag \<notin> set (map key_of fs) \<and> well_named gs \<and> well_named fs)"

lemma path_below: "p \<in> set (setting_paths fs parts) \<Longrightarrow> \<exists>k r. p = parts @ k # r \<and> k \<in> set (map key_of fs)"
proof (induction fs parts rule: setting_paths.induct)
  case (3 name tag gs fs parts)
  then show ?case by (auto split: if_splits)
qed (auto split: if_splits)

lemma paths_distinct: "well_named fs \<Longrightarrow> distinct (setting_paths fs parts)"
proof (induction fs parts rule: setting_paths.induct)
  case (3 name tag gs fs parts)
  then show ?case using path_below[of _ gs "parts @ [field_key name tag]"] path_below[of _ fs parts] by fastforce
next
  case (2 name tag fs parts)
  then show ?case using path_below[of _ fs parts] by fastforce
qed simp

lemma paths_plain:
  "well_named fs \<Longrightarrow> p \<in> set (setting_paths fs parts) \<Longrightarrow> \<forall>k \<in> set parts. plain_key k
     \<Longrightarrow> \<forall>k \<in> set p. plain_key k"
  by (induction fs parts rule: setting_paths.induct) (auto split: if_splits)

lemma key_split:
  assumes "plain_key p" "plain_key q" "p @ ''__'' @ xs = q @ ''__'' @ ys"
  shows "p = q \<and> xs = ys"
proof -
  have no: False if "plain_key a" "plain_key b" "b = a @ t" "t \<noteq> []" "''__'' @ xs = t @ ''__'' @ ys" for a b t xs ys
  proof (cases t rule: list.exhaust[case_names Nil Cons])
    case (Cons c u)
    then have c: "c = CHR ''_''" and u: "CHR ''_'' # xs = u @ ''__'' @ ys" using that(5) by auto
    show False
    proof (cases u)
      case Nil
      then show False using that(2,3) Cons c by (simp add: plain_key_def)
    next
      case (Cons d v)
      then have "b = a @ ''__'' @ v" using u c \<open>t = c # u\<close> that(3) by simp
      then show False using that(2) by (auto simp: plain_key_def str_contains_iff)
    qed
  qed (use that(4) in simp)
  obtain t where "p = q @ t \<and> t @ ''__'' @ xs = ''__'' @ ys \<or> p @ t = q \<and> ''__'' @ xs = t @ ''__'' @ ys"
    using iffD1[OF append_eq_append_conv2 assms(3)] by blast
  then consider "t = []" "p = q" "''__'' @ xs = ''__'' @ ys" | "t \<noteq> []" "p = q @ t" "''__'' @ ys = t @ ''__'' @ xs"
    | "t \<noteq> []" "q = p @ t" "''__'' @ xs = t @ ''__'' @ ys" by (cases "t = []") auto
  then show ?thesis
  proof cases
    case 2
    then show ?thesis using no[OF assms(2,1)] by metis
  next
    case 3
    then show ?thesis using no[OF assms(1,2)] by metis
  qed simp
qed

lemma join_single:
  assumes "plain_key p" "qs \<noteq> []"
  shows "join_str ''__'' (q # qs) \<noteq> p"
proof
  assume "join_str ''__'' (q # qs) = p"
  then have "p = q @ ''__'' @ join_str ''__'' qs" unfolding join_str_Cons[OF assms(2)] by (rule sym)
  then show False using assms(1) unfolding plain_key_def str_contains_iff by blast
qed

lemma join_inject:
  "list_all plain_key ps \<Longrightarrow> list_all plain_key qs \<Longrightarrow> join_str ''__'' ps = join_str ''__'' qs \<Longrightarrow> ps = qs"
proof (induction ps arbitrary: qs)
  case Nil
  then show ?case by (cases qs; cases "tl qs") (auto simp: plain_key_def)
next
  case (Cons p ps)
  show ?case
  proof (cases qs)
    case Nil
    then show ?thesis using Cons.prems by (cases ps) (simp_all add: plain_key_def)
  next
    case qs: (Cons q qs')
    consider "ps = []" "qs' = []" | "ps = []" "qs' \<noteq> []" | "ps \<noteq> []" "qs' = []" | "ps \<noteq> []" "qs' \<noteq> []"
      by blast
    then show ?thesis
    proof cases
      case 2
      then have "join_str ''__'' (q # qs') = p" using Cons.prems(3) qs by (simp del: append.simps)
      then show ?thesis using join_single[of p qs'] Cons.prems(1) 2 by simp
    next
      case 3
      then have "join_str ''__'' (p # ps) = q" using Cons.prems(3) qs by (simp del: append.simps)
      then show ?thesis using join_single[of q ps] Cons.prems(2) qs 3 by simp
    next
      case 4
      have "p @ ''__'' @ join_str ''__'' ps = q @ ''__'' @ join_str ''__'' qs'"
        using Cons.prems(3) unfolding qs join_str_Cons[OF 4(1)] join_str_Cons[OF 4(2)] .
      from key_split[OF _ _ this] have "p = q" "join_str ''__'' ps = join_str ''__'' qs'"
        using Cons.prems(1,2) qs by simp_all
      then show ?thesis using Cons.IH[of qs'] Cons.prems(1,2) qs by simp
    qed (use Cons.prems(3) qs in simp)
  qed
qed

lemma to_upper_append [simp]: "to_upper (a @ b) = to_upper a @ to_upper b"
  by (simp add: to_upper_def)

lemma key_char_code:
  assumes "key_char c"
  shows "32 \<le> (of_char c :: nat) \<and> (of_char c :: nat) < 64 \<or> (of_char c :: nat) = 95
    \<or> 96 \<le> (of_char c :: nat) \<and> (of_char c :: nat) < 128"
  using assms by (cases c) (auto simp: of_char_def)

lemma upper_char_inject:
  assumes "key_char c" "key_char d" "to_upper [c] = to_upper [d]"
  shows "c = d"
proof -
  define up :: "nat \<Rightarrow> nat" where "up n = (if 97 \<le> n \<and> n \<le> 122 then n - 32 else n)" for n
  have up: "of_char (hd (to_upper [e])) = up (of_char e)" for e
    by (auto simp: to_upper_def up_def)
  have "up (of_char c) = up (of_char d)" using assms(3) up[of c] up[of d] by simp
  moreover have "m = n" if "up m = up n" "n < 64 \<or> n = 95 \<or> 96 \<le> n" "m < 64 \<or> m = 95 \<or> 96 \<le> m" for m n
    using that by (auto simp: up_def split: if_splits)
  ultimately have "(of_char c :: nat) = of_char d"
    using key_char_code[OF assms(1)] key_char_code[OF assms(2)] by blast
  then show ?thesis by simp
qed

lemma to_upper_inject:
  "list_all key_char a \<Longrightarrow> list_all key_char b \<Longrightarrow> to_upper a = to_upper b \<Longrightarrow> a = b"
proof (induction a arbitrary: b)
  case (Cons c a)
  then obtain d b' where b: "b = d # b'" by (cases b) (auto simp: to_upper_def)
  have "to_upper [c] = to_upper [d]" "to_upper a = to_upper b'" using Cons.prems(3) b by (simp_all add: to_upper_def)
  then show ?case using Cons upper_char_inject b by simp
qed (simp add: to_upper_def)

lemma join_keys: "list_all plain_key ps \<Longrightarrow> list_all key_char (join_str ''__'' ps)"
  by (induction "''__''" ps rule: join_str.induct) (simp_all add: plain_key_def)

lemma plain_no_dot: "plain_key k \<Longrightarrow> CHR ''.'' \<notin> set k"
  by (force simp: plain_key_def list_all_iff)

text \<open>For every struct whose keys are plain: a setting per path and a variable per setting.\<close>

lemma bindings_of_plain:
  assumes "well_named fs"
  shows "list_all (\<lambda>(k, e). e = to_upper (underscored k)) (viperBindEnvs fs [])"
    and "distinct (map fst (viperBindEnvs fs []))" and "distinct (map snd (viperBindEnvs fs []))"
proof -
  have plain: "list_all plain_key p" if "p \<in> set (setting_paths fs [])" for p
    using paths_plain[OF assms that] by (simp add: list_all_iff)
  have under: "underscored (join_str ''.'' p) = join_str ''__'' p" if "p \<in> set (setting_paths fs [])" for p
    using plain[OF that] plain_no_dot by (intro underscored_join) (auto simp: list_all_iff)
  then show "list_all (\<lambda>(k, e). e = to_upper (underscored k)) (viperBindEnvs fs [])"
    by (simp add: bindings_of_paths list_all_iff)
  have upper: "inj_on (\<lambda>p. to_upper (join_str ''__'' p)) (set (setting_paths fs []))"
  proof (rule inj_onI)
    fix p q assume pq: "p \<in> set (setting_paths fs [])" "q \<in> set (setting_paths fs [])"
      "to_upper (join_str ''__'' p) = to_upper (join_str ''__'' q)"
    then have "join_str ''__'' p = join_str ''__'' q"
      using to_upper_inject[OF join_keys join_keys] plain by blast
    then show "p = q" using join_inject plain pq by blast
  qed
  have keys: "inj_on (\<lambda>p. join_str ''.'' p) (set (setting_paths fs []))"
  proof (rule inj_onI)
    fix p q assume pq: "p \<in> set (setting_paths fs [])" "q \<in> set (setting_paths fs [])"
      "join_str ''.'' p = join_str ''.'' q"
    then have "join_str ''__'' p = join_str ''__'' q" using under by metis
    then show "p = q" using join_inject plain pq by blast
  qed
  show "distinct (map fst (viperBindEnvs fs []))" "distinct (map snd (viperBindEnvs fs []))"
    using upper keys paths_distinct[OF assms] by (simp_all add: bindings_of_paths comp_def distinct_map)
qed

lemmas config_fields = config_type_def filter_fields_def backend_fields_def auth_fields_def
  integration_fields_def

lemma lower_password: "to_lower ''Password'' = ''password''"
  by code_simp

lemma config_well_named: "well_named config_type"
  by (simp add: lower_password config_fields field_key_def plain_key_def has_prefix_def)

lemma default_keys:
  "list_all (\<lambda>(k, d). k \<in> set (map fst (viperBindEnvs config_type []))) viper_defaults"
  unfolding bindings_of_paths
  by (simp add: lower_password config_fields field_key_def viper_defaults_def)

section \<open>Variables with dots\<close>

definition dotted :: "string \<Rightarrow> bool" where
  "dotted p \<longleftrightarrow> str_contains ''.'' (hd (split_n2 ''='' p))"

lemma takeWhile_name: "CHR ''='' \<notin> set k \<Longrightarrow> takeWhile (\<lambda>c. c \<noteq> CHR ''='') (k @ ''='' @ t) = k"
  by (induction k) auto

lemma env_entry:
  assumes "CHR ''='' \<notin> set k" "CHR ''='' \<notin> set u"
  shows "has_prefix (k @ ''='') (u @ ''='' @ v) \<longleftrightarrow> k = u"
proof
  assume "has_prefix (k @ ''='') (u @ ''='' @ v)"
  then obtain t where "u @ ''='' @ v = k @ ''='' @ t" unfolding has_prefix_iff by force
  then show "k = u" using takeWhile_name[OF assms(1), of t] takeWhile_name[OF assms(2), of v] by argo
qed (simp add: has_prefix_iff)

lemma LookupEnv_Setenv:
  assumes "CHR ''='' \<notin> set k" "CHR ''='' \<notin> set u"
  shows "LookupEnv k (Setenv u v env) = (if k = u then Some v else LookupEnv k env)"
proof -
  have LookupEnv_Cons: "LookupEnv k (e # es) = (if has_prefix (k @ ''='') e then Some (drop (length k + 1) e)
      else LookupEnv k es)" for e es by (simp add: LookupEnv_def)
  show ?thesis
  proof (induction env)
    case Nil
    then show ?case using env_entry[OF assms, of v] by (auto simp: LookupEnv_def)
  next
    case (Cons e es)
    show ?case
    proof (cases "has_prefix (u @ ''='') e")
      case True
      then obtain t where "e = u @ ''='' @ t" by (auto simp: has_prefix_iff)
      then have "has_prefix (k @ ''='') e \<longleftrightarrow> k = u" using env_entry[OF assms] by simp
      then show ?thesis using True env_entry[OF assms, of v] by (auto simp: LookupEnv_Cons)
    next
      case False
      then show ?thesis using Cons by (auto simp: LookupEnv_Cons)
    qed
  qed
qed

lemma cut_at_char: "cut_at [c] s = Some (a, b) \<Longrightarrow> c \<notin> set a"
  by (induction s arbitrary: a) (auto simp: has_prefix_def split: if_splits)

lemma cut_at_char_None: "cut_at [c] s = None \<Longrightarrow> c \<notin> set s"
  by (induction s) (auto simp: has_prefix_def split: if_splits)

lemma name_no_equals: "CHR ''='' \<notin> set (hd (split_n2 ''='' p))"
  by (auto simp: split_n2_def cut_at_char cut_at_char_None split: option.split)

lemma underscored_no_equals: "CHR ''='' \<notin> set s \<Longrightarrow> CHR ''='' \<notin> set (underscored s)"
  by (auto simp: underscored_def)

lemma undot_all_result:
  assumes "undot_all ps env = Inr env'" "CHR ''='' \<notin> set k"
  shows "LookupEnv k env' = (case LookupEnv k env of
      Some v \<Rightarrow> Some v
    | None \<Rightarrow> map_option (\<lambda>p. split_n2 ''='' p ! 1)
        (List.find (\<lambda>p. dotted p \<and> underscored (hd (split_n2 ''='' p)) = k) ps))"
  using assms(1)
proof (induction ps arbitrary: env)
  case (Cons p ps)
  define u where "u = underscored (hd (split_n2 ''='' p))"
  have u: "CHR ''='' \<notin> set u" unfolding u_def using underscored_no_equals name_no_equals by blast
  have hd: "split_n2 ''='' p ! 0 = hd (split_n2 ''='' p)" by (simp add: split_n2_def split: option.split)
  obtain e where e: "undot_one p env = Inr e" "undot_all ps e = Inr env'"
    using Cons.prems by (auto simp: bind_res_Inr_iff)
  show ?case
  proof (cases "dotted p \<and> LookupEnv u env = None")
    case True
    then have "e = Setenv u (split_n2 ''='' p ! 1) env"
      using e(1) by (auto simp: undot_one_def hd dotted_def u_def Let_def split: if_splits)
    then show ?thesis using Cons.IH[OF e(2)] True LookupEnv_Setenv[OF assms(2) u]
      by (auto simp: u_def split: option.splits)
  next
    case False
    then have "e = env"
      using e(1) by (auto simp: undot_one_def hd dotted_def u_def Let_def split: if_splits option.splits)
    then show ?thesis using Cons.IH[OF e(2)] False by (auto simp: u_def split: option.splits)
  qed
qed (simp split: option.split)

lemma to_upper_no_equals: "CHR ''='' \<notin> set s \<Longrightarrow> CHR ''='' \<notin> set (to_upper s)"
proof -
  have "char_of ((of_char c :: nat) - 32) \<noteq> CHR ''=''" if "97 \<le> (of_char c :: nat)" "(of_char c :: nat) \<le> 122" for c
  proof
    assume "char_of ((of_char c :: nat) - 32) = CHR ''=''"
    then have "(of_char (char_of ((of_char c :: nat) - 32) :: char) :: nat) = 61" by simp
    then show False using that by simp
  qed
  then show "CHR ''='' \<notin> set s \<Longrightarrow> CHR ''='' \<notin> set (to_upper s)"
    by (induction s) (simp_all add: to_upper_def, metis)
qed

lemma variable_no_equals:
  assumes "well_named fs" "(k, e) \<in> set (viperBindEnvs fs [])"
  shows "CHR ''='' \<notin> set e"
proof -
  obtain p where p: "p \<in> set (setting_paths fs [])" "e = to_upper (join_str ''__'' p)"
    using assms(2) by (auto simp: bindings_of_paths)
  have "list_all plain_key p" using paths_plain[OF assms(1) p(1)] by (simp add: list_all_iff)
  then have "CHR ''='' \<notin> set (join_str ''__'' p)"
    using join_keys[of p] by (force simp: list_all_iff)
  then show ?thesis using p(2) to_upper_no_equals by blast
qed

lemma filter_by_key:
  "distinct (map snd xs) \<Longrightarrow> (k, e) \<in> set xs \<Longrightarrow> filter (\<lambda>(k', e'). e' = e) xs = [(k, e)]"
proof (induction xs)
  case (Cons x xs)
  have "filter (\<lambda>(k', e'). e' = e) xs = []" if "e \<notin> snd ` set xs"
    using that by (force simp: filter_empty_conv)
  then show ?case using Cons by (cases x) (force split: if_splits)
qed simp

section \<open>Properties\<close>

text \<open>Every setting of the configuration struct has a key of its own and an environment variable
  of its own, whose name is the key with double underscores for its dots, in upper case; and
  every default the program sets is the default of one of these settings.\<close>

lemma settings_and_variables:
  "distinct (map fst (viperBindEnvs config_type []))
    \<and> distinct (map snd (viperBindEnvs config_type []))
    \<and> list_all (\<lambda>(k, e). e = to_upper (underscored k)) (viperBindEnvs config_type [])
    \<and> list_all (\<lambda>(k, d). k \<in> set (map fst (viperBindEnvs config_type []))) viper_defaults"
  using bindings_of_plain[OF config_well_named] default_keys by blast

text \<open>The variable of a setting is its key with double underscores for the dots, in upper case, and
  of no other setting; the value it has for viper is that of the variable itself if there is
  one, otherwise that of the first variable whose name, with double underscores for its dots,
  is the name of this one.\<close>

lemma setting_from_environment:
  assumes "(k, e) \<in> set (viperBindEnvs config_type [])" "undot_all environ environ = Inr env"
  shows "e = to_upper (underscored k)
    \<and> filter (\<lambda>(k', e'). e' = e) (viperBindEnvs config_type []) = [(k, e)]
    \<and> LookupEnv e env = (case LookupEnv e environ of
        Some v \<Rightarrow> Some v
      | None \<Rightarrow> map_option (\<lambda>p. split_n2 ''='' p ! 1)
          (List.find (\<lambda>p. dotted p \<and> underscored (hd (split_n2 ''='' p)) = e) environ))"
proof (intro conjI)
  note settings = bindings_of_plain[OF config_well_named]
  show "e = to_upper (underscored k)" using settings(1) assms(1) by (auto simp: list_all_iff)
  show "filter (\<lambda>(k', e'). e' = e) (viperBindEnvs config_type []) = [(k, e)]"
    by (rule filter_by_key[OF settings(3) assms(1)])
qed (rule undot_all_result[OF assms(2) variable_no_equals[OF config_well_named assms(1)]])

end
