(* ===== verification/SemtechProofs.thy ===== *)
theory SemtechProofs
  imports SemtechUDP
begin

text \<open>
  Lemmas on the Semtech UDP backend: the laws of the cache and its keys, what each handler
  writes, and the invariant of the downlink cache.
\<close>

section \<open>The cache\<close>

text \<open>The documented behaviour of the cache: what was set is found under its key, other keys are
  not affected. Expiry is a step of its own, after which some entries are gone.\<close>

definition cache_laws :: "'c cache_lib \<Rightarrow> bool" where
  "cache_laws K \<longleftrightarrow> (\<forall>c k v k'. cache_get K (cache_set K c k v) k' =
     (if k' = k then Some v else cache_get K c k'))"

definition cache_expired :: "'c cache_lib \<Rightarrow> 'c \<Rightarrow> 'c \<Rightarrow> bool" where
  "cache_expired K c c' \<longleftrightarrow> (\<forall>k v. cache_get K c' k = Some v \<longrightarrow> cache_get K c k = Some v)"

lemma cache_get_set [simp]:
  "cache_laws K \<Longrightarrow> cache_get K (cache_set K c k v) k' = (if k' = k then Some v else cache_get K c k')"
  by (simp add: cache_laws_def)

lemma key_suffix:
  assumes "show_dec m @ CHR '':'' # x = show_dec n @ CHR '':'' # y"
  shows "m = n \<and> x = y"
proof -
  have c: "\<not> is_digit (CHR '':'')" by (simp add: is_digit_def digit_val_def)
  have "show_dec m = show_dec n" using assms takeWhile_digits_show_dec(1)[OF c] by metis
  then show ?thesis using assms by simp
qed

lemma keys_distinct [simp]:
  "ack_key t \<noteq> frame_key t'" "ack_key t \<noteq> index_key t'" "frame_key t \<noteq> index_key t'"
  "frame_key t \<noteq> ack_key t'" "index_key t \<noteq> ack_key t'" "index_key t \<noteq> frame_key t'"
  "ack_key t = ack_key t' \<longleftrightarrow> t = t'" "frame_key t = frame_key t' \<longleftrightarrow> t = t'"
  "index_key t = index_key t' \<longleftrightarrow> t = t'"
  by (auto simp: ack_key_def frame_key_def index_key_def word_unat_eq_iff dest: key_suffix)

lemma read_cache_downlink [simp]:
  "cache_laws K \<Longrightarrow> read_cache K t (cache_downlink K t frame i acks c) = Inr (frame, i, acks)"
  by (simp add: read_cache_def cache_downlink_def)

lemma cache_downlink_other:
  "cache_laws K \<Longrightarrow> t' \<noteq> t \<Longrightarrow>
     cache_get K (cache_downlink K t frame i acks c) (frame_key t') = cache_get K c (frame_key t')
   \<and> cache_get K (cache_downlink K t frame i acks c) (index_key t') = cache_get K c (index_key t')
   \<and> cache_get K (cache_downlink K t frame i acks c) (ack_key t') = cache_get K c (ack_key t')"
  by (simp add: cache_downlink_def)

lemma cache_downlink_same:
  "cache_laws K \<Longrightarrow>
     cache_get K (cache_downlink K t frame i acks c) (frame_key t) = Some (CFrame frame)
   \<and> cache_get K (cache_downlink K t frame i acks c) (index_key t) = Some (CIndex i)
   \<and> cache_get K (cache_downlink K t frame i acks c) (ack_key t) = Some (CAcks acks)"
  by (simp add: cache_downlink_def)

section \<open>Sending one item\<close>

text \<open>The packet an item of a downlink becomes, for the gateways known at the moment.\<close>

definition downlink_packet :: "udp_env \<Rightarrow> gateways \<Rightarrow> DownlinkFrame \<Rightarrow> nat \<Rightarrow> udpPacket result" where
  "downlink_packet E gws frame i =
     bind_res (wrap_err ''get gateway error'' (gateways_get gws (copy_fixed 8 (df_GatewayId frame)))) (\<lambda>gw.
     bind_res (wrap_err ''get PullRespPacket error'' (GetPullRespPacket (ue_lib E)
         (gw_protocolVersion gw) (ucast (df_Token frame)) frame i)) (\<lambda>p.
     bind_res (wrap_err ''backend/semtechudp: marshal PullRespPacket error''
         (PullRespPacket_MarshalBinary (ue_pull_marshal E) p)) (\<lambda>b.
     Inr \<lparr>pkt_addr = gw_addr gw, pkt_data = b\<rparr>)))"

lemma sendDownlinkFrame_eq:
  "i < length (df_Items frame) \<Longrightarrow> sendDownlinkFrame K E frame i acks s =
     (let s1 = s\<lparr>us_cache := cache_downlink K (ucast (df_Token frame)) frame i acks (us_cache s)\<rparr> in
      case downlink_packet E (us_gateways s) frame i of
        Inl e \<Rightarrow> (Some e, s1) | Inr p \<Rightarrow> udp_send p s1)"
  by (auto simp: sendDownlinkFrame_def downlink_packet_def Let_def split: sum.split)

lemma sendDownlinkFrame_sends:
  assumes "i < length (df_Items frame)" "downlink_packet E (us_gateways s) frame i = Inr p"
    and "\<not> us_closed s"
  shows "sendDownlinkFrame K E frame i acks s = (None,
    s\<lparr>us_cache := cache_downlink K (ucast (df_Token frame)) frame i acks (us_cache s),
      us_sent := us_sent s @ [p]\<rparr>)"
  using assms by (simp add: sendDownlinkFrame_eq udp_send_def Let_def)

text \<open>A TX_ACK datagram for a token, with its error if it reports one.\<close>

definition is_tx_ack :: "udp_env \<Rightarrow> udpPacket \<Rightarrow> u16 \<Rightarrow> string option \<Rightarrow> EUI64 \<Rightarrow> bool" where
  "is_tx_ack E up token err mac \<longleftrightarrow>
     (case TXACKPacket_UnmarshalBinary (ue_txack_unmarshal E) (pkt_data up) of
        Inl e \<Rightarrow> False
      | Inr p \<Rightarrow> ta_RandomToken p = token \<and> tx_ack_error p = err \<and> ta_GatewayMAC p = mac)"

lemma handleTXACK_error:
  assumes "is_tx_ack E up token (Some err) mac" "read_cache K token (us_cache s) = Inr (frame, i, acks)"
    and "i < length acks" "length acks = length (df_Items frame)"
  shows "handleTXACK K E up s = tx_ack_failed K E mac err frame i acks s"
  using assms by (auto simp: is_tx_ack_def handleTXACK_def split: sum.splits)

lemma handleTXACK_ok:
  assumes "is_tx_ack E up token None mac" "read_cache K token (us_cache s) = Inr (frame, i, acks)"
    and "i < length acks" "length acks = length (df_Items frame)"
  shows "handleTXACK K E up s = tx_ack_ok E mac frame i acks s"
  using assms by (auto simp: is_tx_ack_def handleTXACK_def split: sum.splits)

definition handle_all ::
  "'c cache_lib \<Rightarrow> udp_env \<Rightarrow> udpPacket list \<Rightarrow> 'c udp_state \<Rightarrow> 'c udp_state" where
  "handle_all K E ups s = fold (\<lambda>up s. snd (handleTXACK K E up s)) ups s"

lemma handle_all_snoc [simp]:
  "handle_all K E (ups @ [up]) s = snd (handleTXACK K E up (handle_all K E ups s))"
  by (simp add: handle_all_def)

text \<open>
  The state after the first item was sent and the first \<open>k\<close> items failed: the next item is
  out, the cache holds the failures so far, everything else is as before.
\<close>

definition retrying ::
  "'c cache_lib \<Rightarrow> (nat \<Rightarrow> udpPacket) \<Rightarrow> DownlinkFrame \<Rightarrow> tx_ack_status list \<Rightarrow> 'c udp_state \<Rightarrow> 'c udp_state \<Rightarrow> bool" where
  "retrying K pkt frame failed s t \<longleftrightarrow>
     read_cache K (ucast (df_Token frame)) (us_cache t) = Inr (frame, length failed,
         failed @ replicate (length (df_Items frame) - length failed) TX_IGNORED)
     \<and> us_sent t = us_sent s @ map pkt [0..<Suc (length failed)] \<and> us_events t = us_events s
     \<and> us_gateways t = us_gateways s \<and> us_closed t = us_closed s \<and> us_txAckFunc t = us_txAckFunc s"

lemma failed_list_update:
  "length failed < n \<Longrightarrow> (failed @ replicate (n - length failed) x)[length failed := v]
     = failed @ v # replicate (n - Suc (length failed)) x"
  by (cases "n - length failed") (auto simp: list_update_append Suc_diff_Suc intro: arg_cong)

lemma retrying_start:
  assumes "cache_laws K" "\<not> us_closed s" "df_Token frame \<noteq> 0" "df_Items frame \<noteq> []"
    and "downlink_packet E (us_gateways s) frame 0 = Inr (pkt 0)"
  shows "retrying K pkt frame [] s (snd (SendDownlinkFrame K E frame s))"
  using assms by (simp add: SendDownlinkFrame_def sendDownlinkFrame_sends retrying_def)

lemma retrying_step:
  assumes "cache_laws K" "\<not> us_closed s" "retrying K pkt frame failed s t"
    and "Suc (length failed) < length (df_Items frame)"
    and "downlink_packet E (us_gateways s) frame (Suc (length failed)) = Inr (pkt (Suc (length failed)))"
    and "is_tx_ack E up (ucast (df_Token frame)) (Some err) mac" "status_value (ue_lib E) err = Some v"
  shows "retrying K pkt frame (failed @ [v]) s (snd (handleTXACK K E up t))"
proof -
  let ?n = "length (df_Items frame)" and ?i = "length failed"
  let ?acks = "failed @ replicate (?n - ?i) TX_IGNORED"
  from assms(3) have t: "read_cache K (ucast (df_Token frame)) (us_cache t) = Inr (frame, ?i, ?acks)"
    "us_sent t = us_sent s @ map pkt [0..<Suc ?i]" "us_events t = us_events s"
    "us_gateways t = us_gateways s" "us_closed t = us_closed s" "us_txAckFunc t = us_txAckFunc s"
    by (simp_all add: retrying_def)
  have "handleTXACK K E up t = tx_ack_failed K E mac err frame ?i ?acks t"
    by (rule handleTXACK_error[OF assms(6) t(1)]) (use assms(4) in auto)
  also have "\<dots> = sendDownlinkFrame K E frame (Suc ?i) (?acks[?i := v]) t"
    using assms(7) less_diff_conv[of ?i ?n 1] assms(4) by (simp add: tx_ack_failed_def Let_def)
  also have "\<dots> = (None, t\<lparr>us_cache := cache_downlink K (ucast (df_Token frame)) frame (Suc ?i)
      (?acks[?i := v]) (us_cache t), us_sent := us_sent t @ [pkt (Suc ?i)]\<rparr>)"
    by (rule sendDownlinkFrame_sends) (use assms t in auto)
  finally show ?thesis
    using t assms(1,4) by (simp add: retrying_def failed_list_update)
qed

lemma retrying_run:
  assumes "cache_laws K" "\<not> us_closed s" "df_Token frame \<noteq> 0" "length ups < length (df_Items frame)"
    and "\<And>i. i < length (df_Items frame) \<Longrightarrow> downlink_packet E (us_gateways s) frame i = Inr (pkt i)"
    and "list_all2 (\<lambda>up v. \<exists>err mac. is_tx_ack E up (ucast (df_Token frame)) (Some err) mac
      \<and> status_value (ue_lib E) err = Some v) ups vs"
  shows "retrying K pkt frame vs s (handle_all K E ups (snd (SendDownlinkFrame K E frame s)))"
  using assms(4,6)
proof (induction ups arbitrary: vs rule: rev_induct)
  case Nil
  moreover from this have "df_Items frame \<noteq> []" by auto
  ultimately show ?case using retrying_start[OF assms(1-3), of E pkt] assms(5) by (simp add: handle_all_def)
next
  case (snoc up ups)
  from snoc.prems(2) obtain ws w where vs: "vs = ws @ [w]"
    and ws: "list_all2 (\<lambda>up v. \<exists>err mac. is_tx_ack E up (ucast (df_Token frame)) (Some err) mac
      \<and> status_value (ue_lib E) err = Some v) ups ws"
    and w: "\<exists>err mac. is_tx_ack E up (ucast (df_Token frame)) (Some err) mac
      \<and> status_value (ue_lib E) err = Some w"
    by (auto simp: list_all2_append1 list_all2_Cons1)
  have len: "length ws = length ups" using ws by (simp add: list_all2_lengthD)
  from snoc.IH[OF _ ws] snoc.prems(1)
  have "retrying K pkt frame ws s (handle_all K E ups (snd (SendDownlinkFrame K E frame s)))" by simp
  with w show ?case unfolding vs handle_all_snoc
    using retrying_step[OF assms(1,2)] snoc.prems(1) assms(5) len by fastforce
qed

end
