(* ===== verification/SemtechProps.thy ===== *)
theory SemtechProps
  imports SemtechProofs
begin

text \<open>The downlink protocol of the Semtech UDP backend, from its first packet to its report.\<close>

section \<open>A concrete backend\<close>

definition map_cache :: "(string \<rightharpoonup> cache_val) cache_lib" where
  "map_cache = \<lparr>cache_set = (\<lambda>c k v. c(k \<mapsto> v)), cache_get = (\<lambda>c k. c k)\<rparr>"

lemma map_cache_laws [simp]: "cache_laws map_cache"
  by (simp add: cache_laws_def map_cache_def)

definition demo_udp_env :: udp_env where
  "demo_udp_env = \<lparr>ue_lib = demo_lib, ue_rand16 = (\<lambda>n. Some (word_of_nat n)),
     ue_uuid = (\<lambda>n. Some [word_of_nat n]), ue_now = int, ue_isLoopback = (\<lambda>_. False),
     ue_ipString = (\<lambda>a. a), ue_outboundIP = (\<lambda>_. None), ue_push_unmarshal = (\<lambda>_. None),
     ue_txack_unmarshal = (\<lambda>_. Some \<lparr>ta_Error = ''TOO_LATE''\<rparr>),
     ue_pull_marshal = (\<lambda>_. Some [123, 125]), ue_proto_marshal = (\<lambda>_. Some []),
     ue_proto_unmarshal = (\<lambda>_. NoModulationInfo),
     ue_lorawan = \<lparr>netid_unmarshal = (\<lambda>_. None), eui64_unmarshal = (\<lambda>_. None),
       phy_unmarshal = (\<lambda>_. None), is_netid = (\<lambda>_ _. False)\<rparr>,
     ue_filters = \<lparr>f_netIDs = [], f_joinEUIs = []\<rparr>\<rparr>"

lemma demo_udp_env_fields [simp]:
  "ue_lib demo_udp_env = demo_lib" "ue_pull_marshal demo_udp_env = (\<lambda>_. Some [123, 125])"
  "ue_txack_unmarshal demo_udp_env = (\<lambda>_. Some \<lparr>ta_Error = ''TOO_LATE''\<rparr>)"
  "ue_proto_marshal demo_udp_env = (\<lambda>_. Some [])"
  by (simp_all add: demo_udp_env_def)

definition demo_mac :: EUI64 where "demo_mac = [7, 7, 7, 7, 7, 7, 7, 7]"

definition demo_gateway :: gateway where
  "demo_gateway = \<lparr>gw_stats = NewCollector, gw_addr = ''10.0.0.1:1700'', gw_lastSeen = 0,
     gw_protocolVersion = 2\<rparr>"

definition demo_backend :: "(string \<rightharpoonup> cache_val) udp_state" where
  "demo_backend = (SetFuncs (NewBackend False False Map.empty))\<lparr>us_gateways := [(demo_mac, demo_gateway)]\<rparr>"

definition demo_item :: DownlinkFrameItem where
  "demo_item = \<lparr>di_PhyPayload = [96], di_TxInfo = Some \<lparr>dt_GatewayId = [], dt_Frequency = 868100000,
     dt_Power = 14, dt_Modulation = LORA,
     dt_ModulationInfo = LoraInfo \<lparr>l_Bandwidth = 125, l_SpreadingFactor = 7, l_CodeRate = ''4/5'',
       l_PolarizationInversion = True\<rparr>,
     dt_Board = 0, dt_Antenna = 0, dt_Timing = IMMEDIATELY, dt_TimingInfo = ImmediatelyTimingInfo,
     dt_Context = []\<rparr>\<rparr>"

definition demo_frame :: DownlinkFrame where
  "demo_frame = \<lparr>df_Token = 291, df_DownlinkId = [1], df_GatewayId = demo_mac,
     df_Items = [demo_item, demo_item], df_PhyPayload = [], df_TxInfo = None\<rparr>"

definition demo_error_ack :: udpPacket where
  "demo_error_ack = \<lparr>pkt_addr = ''10.0.0.1:1700'', pkt_data = [2, 35, 1, 5] @ demo_mac @ [123, 125]\<rparr>"

definition demo_good_ack :: udpPacket where
  "demo_good_ack = \<lparr>pkt_addr = ''10.0.0.1:1700'', pkt_data = [2, 35, 1, 5] @ demo_mac\<rparr>"

definition demo_pkt :: udpPacket where
  "demo_pkt = \<lparr>pkt_addr = ''10.0.0.1:1700'', pkt_data = [2, 35, 1, 3, 123, 125]\<rparr>"

lemma demo_backend_fields [simp]:
  "us_gateways demo_backend = [(demo_mac, demo_gateway)]" "\<not> us_closed demo_backend"
  "us_txAckFunc demo_backend" "us_sent demo_backend = []" "us_events demo_backend = []"
  by (simp_all add: demo_backend_def SetFuncs_def NewBackend_def)

lemma demo_frame_fields [simp]:
  "df_Items demo_frame = [demo_item, demo_item]" "df_Token demo_frame = 291"
  "df_GatewayId demo_frame = demo_mac" "di_TxInfo demo_item \<noteq> None"
  by (simp_all add: demo_frame_def demo_item_def)

lemma demo_acks [simp]:
  "is_tx_ack demo_udp_env demo_error_ack 291 (Some ''TOO_LATE'') demo_mac"
  "is_tx_ack demo_udp_env demo_good_ack 291 None demo_mac"
  by (simp_all add: is_tx_ack_def TXACKPacket_UnmarshalBinary_def demo_error_ack_def demo_good_ack_def
      demo_mac_def protocolSupported_def slice_def tx_ack_error_def)

lemma demo_txinfo:
  "GetTxInfo demo_lib demo_item = \<lparr>dt_GatewayId = [], dt_Frequency = 868100000,
     dt_Power = 14, dt_Modulation = LORA,
     dt_ModulationInfo = LoraInfo \<lparr>l_Bandwidth = 125, l_SpreadingFactor = 7, l_CodeRate = ''4/5'',
       l_PolarizationInversion = True\<rparr>,
     dt_Board = 0, dt_Antenna = 0, dt_Timing = IMMEDIATELY, dt_TimingInfo = ImmediatelyTimingInfo,
     dt_Context = []\<rparr>"
  by (simp add: GetTxInfo_def demo_item_def)

lemma demo_pull_resp:
  "i < 2 \<Longrightarrow> \<exists>t. GetPullRespPacket demo_lib 2 291 demo_frame i
     = Inr \<lparr>pr_ProtocolVersion = 2, pr_RandomToken = 291, pr_Payload = t\<rparr>"
  by (auto simp: GetPullRespPacket_def Let_def less_2_cases_iff demo_txinfo txpk_modulation_def
      txpk_timing_def)

lemma demo_packet [simp]:
  assumes "i < 2"
  shows "downlink_packet demo_udp_env [(demo_mac, demo_gateway)] demo_frame i = Inr demo_pkt"
proof -
  from demo_pull_resp[OF assms] obtain t where
    "GetPullRespPacket demo_lib 2 291 demo_frame i
      = Inr \<lparr>pr_ProtocolVersion = 2, pr_RandomToken = 291, pr_Payload = t\<rparr>" by blast
  moreover have "copy_fixed 8 demo_mac = demo_mac" by (simp add: demo_mac_def)
  ultimately show ?thesis
    by (simp add: downlink_packet_def gateways_get_def demo_gateway_def PullRespPacket_MarshalBinary_def
        demo_pkt_def)
qed

section \<open>From the first packet to the report\<close>

lemma count_items_total:
  "\<forall>x \<in> set (df_Items dl). di_TxInfo x \<noteq> None \<Longrightarrow> \<exists>c'. count_items L pm dl i items c = Inr c'"
  by (induction L pm dl i items c rule: count_items.induct)
    (auto simp: Let_def all_set_conv_all_nth split: option.splits)

lemma count_in_total:
  assumes "\<And>c. \<exists>c'. f c = Inr c'"
  shows "\<exists>gws. count_in mac f s = (None, s\<lparr>us_gateways := gws\<rparr>)"
proof (cases "gateways_get (us_gateways s) mac")
  case (Inl e)
  then have "count_in mac f s = (None, s\<lparr>us_gateways := us_gateways s\<rparr>)" by (simp add: count_in_def)
  then show ?thesis ..
next
  case (Inr gw)
  obtain c' where "f (gw_stats gw) = Inr c'" using assms by blast
  with Inr show ?thesis by (simp add: count_in_def) blast
qed

lemma tx_ack_ok_report:
  assumes "\<forall>x \<in> set (df_Items frame). di_TxInfo x \<noteq> None" "us_txAckFunc s"
  shows "us_sent (snd (tx_ack_ok E mac frame i acks s)) = us_sent s
    \<and> us_events (snd (tx_ack_ok E mac frame i acks s)) = us_events s
        @ [EvTxAck (tx_ack_message mac frame (acks[i := TX_OK]))]"
proof -
  let ?m = "tx_ack_message mac frame (acks[i := TX_OK])"
  obtain gws where "count_in mac (CountDownlink (ue_lib E) (ue_proto_marshal E) frame ?m) s
      = (None, s\<lparr>us_gateways := gws\<rparr>)"
    using count_in_total[of "CountDownlink (ue_lib E) (ue_proto_marshal E) frame ?m" mac s]
      count_items_total[OF assms(1)] by (auto simp: CountDownlink_def)
  with assms(2) show ?thesis by (simp add: tx_ack_ok_def Let_def us_event_def)
qed

text \<open>A downlink is sent, then the given TX_ACKs are handled.\<close>

definition downlink_run ::
  "'c cache_lib \<Rightarrow> udp_env \<Rightarrow> DownlinkFrame \<Rightarrow> udpPacket list \<Rightarrow> 'c udp_state \<Rightarrow> 'c udp_state" where
  "downlink_run K E frame ups s = handle_all K E ups (snd (SendDownlinkFrame K E frame s))"

text \<open>C24: A downlink is offered item by item. Say its gateway rejected the first items with
  errors vs, and then either accepted the next item, or it was the last item and it was
  rejected too. Then exactly the items up to that one were sent, once each and in order, and
  exactly one acknowledgement was reported: the errors in their places, then the outcome of
  the last item sent, and every item that was never tried marked as ignored.\<close>

theorem downlink_protocol:
  assumes "cache_laws K" "\<not> us_closed s" "us_txAckFunc s" "df_Token frame \<noteq> 0"
    and "length vs < length (df_Items frame)"
    and "\<forall>i < length (df_Items frame). downlink_packet E (us_gateways s) frame i = Inr (pkt i)"
    and "\<forall>x \<in> set (df_Items frame). di_TxInfo x \<noteq> None"
    and "list_all2 (\<lambda>up v. \<exists>err mac. is_tx_ack E up (ucast (df_Token frame)) (Some err) mac
      \<and> status_value (ue_lib E) err = Some v) ups vs"
    and "is_tx_ack E up (ucast (df_Token frame)) None mac \<and> w = TX_OK
      \<or> Suc (length vs) = length (df_Items frame) \<and> (\<exists>err. is_tx_ack E up (ucast (df_Token frame)) (Some err) mac
          \<and> status_value (ue_lib E) err = Some w)"
  shows "us_sent (downlink_run K E frame (ups @ [up]) s) = us_sent s @ map pkt [0..<Suc (length vs)]
    \<and> us_events (downlink_run K E frame (ups @ [up]) s) = us_events s @ [EvTxAck (tx_ack_message mac frame
        (vs @ w # replicate (length (df_Items frame) - Suc (length vs)) TX_IGNORED))]"
proof -
  let ?n = "length (df_Items frame)" and ?t = "downlink_run K E frame ups s"
  let ?acks = "vs @ replicate (?n - length vs) TX_IGNORED"
  have len: "length ups = length vs" using assms(8) by (simp add: list_all2_lengthD)
  have "retrying K pkt frame vs s ?t" unfolding downlink_run_def
    by (rule retrying_run[OF assms(1,2,4) _ _ assms(8)]) (use assms(5,6) len in auto)
  then have t: "read_cache K (ucast (df_Token frame)) (us_cache ?t) = Inr (frame, length vs, ?acks)"
    "us_sent ?t = us_sent s @ map pkt [0..<Suc (length vs)]" "us_events ?t = us_events s"
    "us_txAckFunc ?t" using assms(3) by (simp_all add: retrying_def)
  have step: "downlink_run K E frame (ups @ [up]) s = snd (handleTXACK K E up ?t)" by (simp add: downlink_run_def)
  note upd = failed_list_update[OF assms(5)]
  from assms(9) show ?thesis
  proof (elim disjE conjE exE)
    assume ok: "is_tx_ack E up (ucast (df_Token frame)) None mac" and w: "w = TX_OK"
    have "handleTXACK K E up ?t = tx_ack_ok E mac frame (length vs) ?acks ?t"
      by (rule handleTXACK_ok[OF ok t(1)]) (use assms(5) in auto)
    then show ?thesis
      using tx_ack_ok_report[OF assms(7) t(4), of E mac "length vs" ?acks] step t w upd by simp
  next
    fix err
    assume last: "Suc (length vs) = ?n" and err: "is_tx_ack E up (ucast (df_Token frame)) (Some err) mac"
      and v: "status_value (ue_lib E) err = Some w"
    have "handleTXACK K E up ?t = tx_ack_failed K E mac err frame (length vs) ?acks ?t"
      by (rule handleTXACK_error[OF err t(1)]) (use assms(5) in auto)
    also have "\<dots> = (None, us_event True (EvTxAck (tx_ack_message mac frame (?acks[length vs := w]))) ?t)"
      using last[symmetric] v t(4) by (simp add: tx_ack_failed_def Let_def)
    finally show ?thesis using step t upd by (simp add: us_event_def)
  qed
qed

text \<open>Two items; the first is rejected as too late, the second accepted.\<close>

theorem downlink_protocol_witness:
  "us_sent (downlink_run map_cache demo_udp_env demo_frame [demo_error_ack, demo_good_ack] demo_backend)
     = [demo_pkt, demo_pkt]
   \<and> us_events (downlink_run map_cache demo_udp_env demo_frame [demo_error_ack, demo_good_ack] demo_backend)
     = [EvTxAck (tx_ack_message demo_mac demo_frame [TX_OTHER 2, TX_OK])]"
  using downlink_protocol[where K = map_cache and E = demo_udp_env and s = demo_backend
      and frame = demo_frame and vs = "[TX_OTHER 2]" and pkt = "\<lambda>_. demo_pkt" and ups = "[demo_error_ack]"
      and up = demo_good_ack and mac = demo_mac and w = TX_OK]
  by (simp add: upt_rec) (use demo_acks in fastforce)

end
