(* ===== verification/PacketProps.thy ===== *)
theory PacketProps
  imports PushData PullResp
begin

text \<open>
  What the Semtech packets promise: exact decoding, round trips of the packets that carry
  JSON, the data-rate strings, the frames produced from a PUSH_DATA and the timestamp of a
  delayed downlink.
\<close>

section \<open>Packets without a payload\<close>

lemmas packet_defs = PullDataPacket_MarshalBinary_def PushACKPacket_MarshalBinary_def
  PullACKPacket_MarshalBinary_def PullDataPacket_UnmarshalBinary_def
  PushACKPacket_UnmarshalBinary_def PullACKPacket_UnmarshalBinary_def

lemma pull_data_decode:
  "PullDataPacket_UnmarshalBinary d = Inr p \<longleftrightarrow> protocolSupported (pd_ProtocolVersion p)
     \<and> length (pd_GatewayMAC p) = 8 \<and> d = PullDataPacket_MarshalBinary p"
proof
  assume "PullDataPacket_UnmarshalBinary d = Inr p"
  then have d: "length d = 12" "d ! 3 = PullData" "protocolSupported (d ! 0)"
    and p: "p = \<lparr>pd_ProtocolVersion = d ! 0, pd_RandomToken = get_le (slice 1 3 d),
      pd_GatewayMAC = slice 4 12 d\<rparr>"
    by (auto simp: packet_defs split: if_splits)
  then show "protocolSupported (pd_ProtocolVersion p) \<and> length (pd_GatewayMAC p) = 8
      \<and> d = PullDataPacket_MarshalBinary p"
    using mac_split[of d] by (simp add: packet_defs del: put_le_numeral)
next
  assume "protocolSupported (pd_ProtocolVersion p) \<and> length (pd_GatewayMAC p) = 8
      \<and> d = PullDataPacket_MarshalBinary p"
  then show "PullDataPacket_UnmarshalBinary d = Inr p"
    using header_parts[of "pd_ProtocolVersion p" "pd_RandomToken p" PullData "pd_GatewayMAC p"]
      slice_mac[of "pd_GatewayMAC p" "pd_ProtocolVersion p" "pd_RandomToken p" PullData "[]"]
    by (auto simp: packet_defs simp del: put_le_numeral)
qed

lemma ack_header: "length d = 4 \<Longrightarrow> d = [d ! 0] @ put_le 2 (get_le (slice 1 3 d) :: u16) @ [d ! 3]"
  using header_split[of d] by simp

lemma push_ack_decode:
  "PushACKPacket_UnmarshalBinary d = Inr p \<longleftrightarrow> protocolSupported (pa_ProtocolVersion p)
     \<and> d = PushACKPacket_MarshalBinary p"
proof
  assume "PushACKPacket_UnmarshalBinary d = Inr p"
  then show "protocolSupported (pa_ProtocolVersion p) \<and> d = PushACKPacket_MarshalBinary p"
    using ack_header[of d] by (auto simp: packet_defs simp del: put_le_numeral split: if_splits)
next
  assume "protocolSupported (pa_ProtocolVersion p) \<and> d = PushACKPacket_MarshalBinary p"
  then show "PushACKPacket_UnmarshalBinary d = Inr p"
    using header_parts[of "pa_ProtocolVersion p" "pa_RandomToken p" PushACK "[]"]
    by (auto simp: packet_defs simp del: put_le_numeral)
qed

lemma pull_ack_decode:
  "PullACKPacket_UnmarshalBinary d = Inr p \<longleftrightarrow> protocolSupported (la_ProtocolVersion p)
     \<and> d = PullACKPacket_MarshalBinary p"
proof
  assume "PullACKPacket_UnmarshalBinary d = Inr p"
  then show "protocolSupported (la_ProtocolVersion p) \<and> d = PullACKPacket_MarshalBinary p"
    using ack_header[of d] by (auto simp: packet_defs simp del: put_le_numeral split: if_splits)
next
  assume "protocolSupported (la_ProtocolVersion p) \<and> d = PullACKPacket_MarshalBinary p"
  then show "PullACKPacket_UnmarshalBinary d = Inr p"
    using header_parts[of "la_ProtocolVersion p" "la_RandomToken p" PullACK "[]"]
    by (auto simp: packet_defs simp del: put_le_numeral)
qed

lemma decode_encoded:
  "protocolSupported (pd_ProtocolVersion p) \<Longrightarrow> length (pd_GatewayMAC p) = 8 \<Longrightarrow>
     PullDataPacket_UnmarshalBinary (PullDataPacket_MarshalBinary p) = Inr p"
  "protocolSupported (pa_ProtocolVersion a) \<Longrightarrow>
     PushACKPacket_UnmarshalBinary (PushACKPacket_MarshalBinary a) = Inr a"
  "protocolSupported (la_ProtocolVersion b) \<Longrightarrow>
     PullACKPacket_UnmarshalBinary (PullACKPacket_MarshalBinary b) = Inr b"
  by (simp_all add: pull_data_decode push_ack_decode pull_ack_decode)

interpretation pull_data: codec PullDataPacket_MarshalBinary "\<lambda>d. ok_result (PullDataPacket_UnmarshalBinary d)"
  "\<lambda>p. protocolSupported (pd_ProtocolVersion p) \<and> length (pd_GatewayMAC p) = 8"
  by unfold_locales (simp add: decode_encoded)

interpretation push_ack: codec PushACKPacket_MarshalBinary "\<lambda>d. ok_result (PushACKPacket_UnmarshalBinary d)"
  "\<lambda>p. protocolSupported (pa_ProtocolVersion p)"
  by unfold_locales (simp add: decode_encoded)

interpretation pull_ack: codec PullACKPacket_MarshalBinary "\<lambda>d. ok_result (PullACKPacket_UnmarshalBinary d)"
  "\<lambda>p. protocolSupported (la_ProtocolVersion p)"
  by unfold_locales (simp add: decode_encoded)

text \<open>The decoders of PULL_DATA, PUSH_ACK and PULL_ACK accept exactly the encodings of
  packets of a supported version (and, for PULL_DATA, a gateway ID of eight bytes), and give
  back the packet that was encoded. No other datagram is accepted.\<close>

lemma fixed_packets_exact:
  "(PullDataPacket_UnmarshalBinary d = Inr p \<longleftrightarrow> protocolSupported (pd_ProtocolVersion p)
      \<and> length (pd_GatewayMAC p) = 8 \<and> d = PullDataPacket_MarshalBinary p)
   \<and> (PushACKPacket_UnmarshalBinary d = Inr a \<longleftrightarrow> protocolSupported (pa_ProtocolVersion a)
      \<and> d = PushACKPacket_MarshalBinary a)
   \<and> (PullACKPacket_UnmarshalBinary d = Inr b \<longleftrightarrow> protocolSupported (la_ProtocolVersion b)
      \<and> d = PullACKPacket_MarshalBinary b)"
  by (intro conjI pull_data_decode push_ack_decode pull_ack_decode)

section \<open>Packets with a JSON payload\<close>

text \<open>The JSON text of a payload is read back; it has at least its two brackets.\<close>

definition json_faithful :: "('a \<Rightarrow> bytes option) \<Rightarrow> (bytes \<Rightarrow> 'a option) \<Rightarrow> 'a \<Rightarrow> bool" where
  "json_faithful jm ju x \<longleftrightarrow> (case jm x of None \<Rightarrow> False | Some b \<Rightarrow> 2 \<le> length b \<and> ju b = Some x)"

lemma json_faithfulE:
  assumes "json_faithful jm ju x"
  obtains b where "jm x = Some b" "2 \<le> length b" "ju b = Some x"
  using assms by (auto simp: json_faithful_def split: option.splits)

lemma push_data_roundtrip:
  assumes "protocolSupported (pu_ProtocolVersion p)" "length (pu_GatewayMAC p) = 8"
    and "json_faithful jm ju (pu_Payload p)"
  shows "bind_res (PushDataPacket_MarshalBinary jm p) (PushDataPacket_UnmarshalBinary ju) = Inr p"
proof -
  from assms(3) obtain b where b: "jm (pu_Payload p) = Some b" "2 \<le> length b" "ju b = Some (pu_Payload p)"
    by (rule json_faithfulE)
  then have "b \<noteq> []" by auto
  with b show ?thesis
    using assms(1,2) header_parts[of "pu_ProtocolVersion p" "pu_RandomToken p" PushData "pu_GatewayMAC p @ b"]
      slice_mac[of "pu_GatewayMAC p" "pu_ProtocolVersion p" "pu_RandomToken p" PushData b]
      drop_mac[of "pu_GatewayMAC p" "pu_ProtocolVersion p" "pu_RandomToken p" PushData b]
    by (simp add: PushDataPacket_MarshalBinary_def PushDataPacket_UnmarshalBinary_def
        del: put_le_numeral)
qed

lemma tx_ack_roundtrip:
  assumes "protocolSupported (ta_ProtocolVersion p)" "length (ta_GatewayMAC p) = 8"
    and "\<And>pl. ta_Payload p = Some pl \<Longrightarrow> json_faithful jm ju pl"
  shows "bind_res (TXACKPacket_MarshalBinary jm p) (TXACKPacket_UnmarshalBinary ju) = Inr p"
proof (cases "ta_Payload p")
  case None
  then show ?thesis
    using assms(1,2) header_parts[of "ta_ProtocolVersion p" "ta_RandomToken p" TXACK "ta_GatewayMAC p"]
      slice_mac[of "ta_GatewayMAC p" "ta_ProtocolVersion p" "ta_RandomToken p" TXACK "[]"]
    by (simp add: TXACKPacket_MarshalBinary_def TXACKPacket_UnmarshalBinary_def Let_def
        del: put_le_numeral)
next
  case (Some pl)
  from assms(3)[OF Some] obtain b where b: "jm pl = Some b" "2 \<le> length b" "ju b = Some pl"
    by (rule json_faithfulE)
  with Some show ?thesis
    using assms(1,2) header_parts[of "ta_ProtocolVersion p" "ta_RandomToken p" TXACK "ta_GatewayMAC p @ b"]
      slice_mac[of "ta_GatewayMAC p" "ta_ProtocolVersion p" "ta_RandomToken p" TXACK b]
      drop_mac[of "ta_GatewayMAC p" "ta_ProtocolVersion p" "ta_RandomToken p" TXACK b]
    by (simp add: TXACKPacket_MarshalBinary_def TXACKPacket_UnmarshalBinary_def Let_def
        del: put_le_numeral)
qed

lemma pull_resp_roundtrip:
  assumes "protocolSupported (pr_ProtocolVersion p)" "json_faithful jm ju (pr_Payload p)"
  shows "bind_res (PullRespPacket_MarshalBinary jm p) (PullRespPacket_UnmarshalBinary ju) =
    Inr (if pr_ProtocolVersion p = ProtocolVersion1 then p\<lparr>pr_RandomToken := 0\<rparr> else p)"
proof -
  from assms(2) obtain b where b: "jm (pr_Payload p) = Some b" "2 \<le> length b" "ju b = Some (pr_Payload p)"
    by (rule json_faithfulE)
  let ?tok = "if pr_ProtocolVersion p \<noteq> ProtocolVersion1 then pr_RandomToken p else 0"
  from b show ?thesis
    using assms(1) header_parts[of "pr_ProtocolVersion p" ?tok PullResp b]
    by (auto simp: PullRespPacket_MarshalBinary_def PullRespPacket_UnmarshalBinary_def
        simp del: put_le_numeral)
qed

text \<open>C19: A PUSH_DATA and a TX_ACK are read back as they were encoded, the token included,
  when the JSON library reads back its own text. A PULL_RESP is read back too, except that
  protocol version 1 carries no token: it comes back zero.\<close>

theorem payload_packets_roundtrip:
  assumes "protocolSupported v" "length mac = 8" "json_faithful jm_pu ju_pu pl"
    and "case ack of None \<Rightarrow> True | Some e \<Rightarrow> json_faithful jm_ta ju_ta e"
    and "json_faithful jm_pr ju_pr txpk"
  shows "bind_res (PushDataPacket_MarshalBinary jm_pu \<lparr>pu_ProtocolVersion = v, pu_RandomToken = tok,
        pu_GatewayMAC = mac, pu_Payload = pl\<rparr>) (PushDataPacket_UnmarshalBinary ju_pu)
      = Inr \<lparr>pu_ProtocolVersion = v, pu_RandomToken = tok, pu_GatewayMAC = mac, pu_Payload = pl\<rparr>
    \<and> bind_res (TXACKPacket_MarshalBinary jm_ta \<lparr>ta_ProtocolVersion = v,
        ta_RandomToken = tok, ta_GatewayMAC = mac, ta_Payload = ack\<rparr>) (TXACKPacket_UnmarshalBinary ju_ta)
      = Inr \<lparr>ta_ProtocolVersion = v, ta_RandomToken = tok, ta_GatewayMAC = mac, ta_Payload = ack\<rparr>
    \<and> bind_res (PullRespPacket_MarshalBinary jm_pr \<lparr>pr_ProtocolVersion = v, pr_RandomToken = tok,
        pr_Payload = txpk\<rparr>) (PullRespPacket_UnmarshalBinary ju_pr)
      = Inr \<lparr>pr_ProtocolVersion = v, pr_RandomToken = (if v = ProtocolVersion1 then 0 else tok),
          pr_Payload = txpk\<rparr>"
proof (intro conjI)
  show "bind_res (TXACKPacket_MarshalBinary jm_ta \<lparr>ta_ProtocolVersion = v,
        ta_RandomToken = tok, ta_GatewayMAC = mac, ta_Payload = ack\<rparr>) (TXACKPacket_UnmarshalBinary ju_ta)
      = Inr \<lparr>ta_ProtocolVersion = v, ta_RandomToken = tok, ta_GatewayMAC = mac, ta_Payload = ack\<rparr>"
    by (rule tx_ack_roundtrip) (use assms in auto)
qed (use assms push_data_roundtrip[where jm = jm_pu and ju = ju_pu]
    pull_resp_roundtrip[where jm = jm_pr and ju = ju_pr] in auto)

text \<open>Single values with their text, for the witness.\<close>

definition one_json :: "'a \<Rightarrow> 'a \<Rightarrow> bytes option" where
  "one_json x y = Some [123, 125]"

definition one_unjson :: "'a \<Rightarrow> bytes \<Rightarrow> 'a option" where
  "one_unjson x b = Some x"

lemma one_json_faithful [simp]: "json_faithful (one_json x) (one_unjson x) x"
  by (simp add: json_faithful_def one_json_def one_unjson_def)

definition demo_txpk :: TXPK where
  "demo_txpk = \<lparr>txpk_Imme = True, txpk_RFCh = 0, txpk_Powe = 14, txpk_Ant = 0, txpk_Brd = 0,
     txpk_Tmst = None, txpk_Tmms = None, txpk_Freq = 0, txpk_Modu = ''LORA'', txpk_DatR = zero_DatR,
     txpk_CodR = ''4/5'', txpk_FDev = 0, txpk_NCRC = False, txpk_IPol = True, txpk_Prea = 0,
     txpk_Size = 1, txpk_Data = [96]\<rparr>"

theorem payload_packets_roundtrip_witness:
  "bind_res (PullRespPacket_MarshalBinary (one_json demo_txpk) \<lparr>pr_ProtocolVersion = 1,
        pr_RandomToken = 291, pr_Payload = demo_txpk\<rparr>) (PullRespPacket_UnmarshalBinary (one_unjson demo_txpk))
      = Inr \<lparr>pr_ProtocolVersion = 1, pr_RandomToken = 0, pr_Payload = demo_txpk\<rparr>"
  using payload_packets_roundtrip[where v = 1 and mac = "replicate 8 7" and ack = None
      and jm_pu = "one_json \<lparr>pl_RXPK = [], pl_Stat = None\<rparr>"
      and ju_pu = "one_unjson \<lparr>pl_RXPK = [], pl_Stat = None\<rparr>"
      and pl = "\<lparr>pl_RXPK = [], pl_Stat = None\<rparr>" and tok = 291
      and jm_pr = "one_json demo_txpk" and ju_pr = "one_unjson demo_txpk" and txpk = demo_txpk]
  by (simp add: protocolSupported_def)

section \<open>Data rates\<close>

lemma trim_both_quotes:
  assumes "s \<noteq> []" "hd s \<noteq> c" "last s \<noteq> c"
  shows "trim_both [c] (c # s @ [c]) = s"
proof -
  have "dropWhile (\<lambda>x. x = c) (c # s @ [c]) = s @ [c]" using assms(1,2) by (cases s) auto
  moreover have "dropWhile (\<lambda>x. x = c) (rev s) = rev s"
    using assms(1,3) by (cases "rev s") (auto simp: last_rev[of "rev s", simplified] hd_rev)
  ultimately show ?thesis by (simp add: trim_both_def trim_right_def)
qed

lemma parse_uint_quote [simp]: "parse_uint n (CHR 0x22 # s) = None"
  by (simp add: parse_uint_def digit_val_def)

lemma parse_uint_show_dec [simp]: "n < 2 ^ k \<Longrightarrow> parse_uint k (show_dec n) = Some n"
  by (simp add: parse_uint_def read_show_dec)

lemma atoi_show_unat [simp]: "atoi_digits (show_dec (unat (w :: u32))) = Some (unat w)"
proof -
  have "unat w < 2 ^ 32" by (rule order_less_le_trans[OF unsigned_less]) simp
  then have "unat w < 2 ^ 63" by (rule order_less_trans) simp
  then show ?thesis by (simp add: atoi_digits_def)
qed

lemma datr_json_lora:
  assumes "has_prefix ''SF'' s" "last s \<noteq> CHR 0x22"
  shows "DatR_UnmarshalJSON (DatR_MarshalJSON (zero_DatR\<lparr>dr_LoRa := s\<rparr>)) zero_DatR
    = zero_DatR\<lparr>dr_LoRa := s\<rparr>"
proof -
  from assms(1) obtain r where s: "s = ''SF'' @ r" by (auto simp: has_prefix_iff)
  then have "trim_both [CHR 0x22] (CHR 0x22 # s @ [CHR 0x22]) = s"
    using assms(2) by (intro trim_both_quotes) auto
  then show ?thesis using s assms(1) by (simp add: DatR_MarshalJSON_def DatR_UnmarshalJSON_def Let_def)
qed

lemma datr_json_lrfhss:
  assumes "s \<noteq> []" "hd s \<noteq> CHR 0x22" "last s \<noteq> CHR 0x22" "\<not> has_prefix ''SF'' s"
  shows "DatR_UnmarshalJSON (DatR_MarshalJSON (zero_DatR\<lparr>dr_LRFHSS := s\<rparr>)) zero_DatR
    = zero_DatR\<lparr>dr_LRFHSS := s\<rparr>"
  using assms by (simp add: DatR_MarshalJSON_def DatR_UnmarshalJSON_def Let_def trim_both_quotes zero_DatR_def)

lemma datr_json_fsk:
  "DatR_UnmarshalJSON (DatR_MarshalJSON (zero_DatR\<lparr>dr_FSK := n\<rparr>)) zero_DatR = zero_DatR\<lparr>dr_FSK := n\<rparr>"
proof -
  have "unat n < 2 ^ 32" by (rule order_less_le_trans[OF unsigned_less]) simp
  then show ?thesis by (simp add: DatR_MarshalJSON_def DatR_UnmarshalJSON_def zero_DatR_def)
qed

lemma last_lora_datr: "last (lora_datr i) \<noteq> CHR 0x22"
proof -
  have "last (lora_datr i) = last (show_dec (unat (l_Bandwidth i)))"
    by (simp add: lora_datr_def)
  moreover have "last (show_dec (unat (l_Bandwidth i))) \<in> set (show_dec (unat (l_Bandwidth i)))" by simp
  then have "digit_val (last (show_dec (unat (l_Bandwidth i)))) \<noteq> None" by (rule show_dec_digits)
  moreover have "digit_val (CHR 0x22) = None" by (simp add: digit_val_def)
  ultimately show ?thesis by metis
qed

text \<open>The data rate of a downlink, printed for the packet-forwarder, sent as JSON, read
  back and taken apart by the uplink code, is the data rate it started from: the spreading
  factor and the bandwidth for LoRa, the bit rate for FSK.\<close>

lemma datarate_roundtrip:
  "lora_modulation (r\<lparr>rxpk_CodR := l_CodeRate i, rxpk_DatR :=
       DatR_UnmarshalJSON (DatR_MarshalJSON (zero_DatR\<lparr>dr_LoRa := lora_datr i\<rparr>)) zero_DatR\<rparr>)
     = Inr (LoraInfo (i\<lparr>l_PolarizationInversion := False\<rparr>))
   \<and> rxpk_modulation L (r\<lparr>rxpk_DatR :=
       DatR_UnmarshalJSON (DatR_MarshalJSON (zero_DatR\<lparr>dr_FSK := f\<rparr>)) zero_DatR\<rparr>)
     = Inr (if f = 0 then (zero_modulation L, NoModulationInfo)
            else (FSK, FskInfo \<lparr>f_FrequencyDeviation = 0, f_Datarate = f\<rparr>))"
proof -
  have "has_prefix ''SF'' (lora_datr i)" unfolding lora_datr_def by (rule has_prefix_append)
  from datr_json_lora[OF this last_lora_datr]
  have "DatR_UnmarshalJSON (DatR_MarshalJSON (zero_DatR\<lparr>dr_LoRa := lora_datr i\<rparr>)) zero_DatR
    = zero_DatR\<lparr>dr_LoRa := lora_datr i\<rparr>" .
  moreover have "lora_dr_match (lora_datr i)
      = Some (show_dec (unat (l_SpreadingFactor i)), show_dec (unat (l_Bandwidth i)))"
    unfolding lora_datr_def by (rule lora_dr_match_print)
  ultimately show ?thesis
    by (simp add: lora_modulation_def rxpk_modulation_def datr_json_fsk) (simp add: zero_DatR_def)
qed

section \<open>The timestamp of a delayed downlink\<close>

lemma unat_add_word_of_int:
  assumes "0 \<le> k"
  shows "unat ((a :: u32) + ucast (word_of_int k :: u64)) = (unat a + nat k) mod 2 ^ 32"
proof -
  have "(ucast (word_of_int k :: u64) :: u32) = word_of_int k"
    by (rule bit_word_eqI) (simp add: bit_simps)
  then have "(ucast (word_of_int k :: u64) :: u32) = word_of_nat (nat k)"
    using assms by simp
  then have "a + ucast (word_of_int k :: u64) = word_of_nat (unat a + nat k)" by simp
  then show ?thesis by (simp only: unat_of_nat) simp
qed

text \<open>C20: A delayed downlink is scheduled at the gateway's counter value of the uplink (the
  first four bytes of the context) plus the delay in microseconds, both at 32 bits: the
  concentrator counter wraps, and so does the sum. It is never marked immediate.\<close>

theorem delayed_downlink_timestamp:
  assumes "GetPullRespPacket L v tok frame i = Inr p"
    and "dt_Timing (GetTxInfo L (df_Items frame ! i)) = DELAY"
    and "dt_TimingInfo (GetTxInfo L (df_Items frame ! i)) = DelayTimingInfo d"
    and "ptypes_Duration L d = Some delay" "0 \<le> sint delay"
  shows "\<exists>t. txpk_Tmst (pr_Payload p) = Some t \<and> \<not> txpk_Imme (pr_Payload p)
    \<and> unat t = (unat (get_be (take 4 (dt_Context (GetTxInfo L (df_Items frame ! i)))) :: u32)
        + nat (sint delay div 1000)) mod 2 ^ 32"
proof -
  let ?tx = "GetTxInfo L (df_Items frame ! i)"
  from assms(1) obtain t1 t2 where t1: "txpk_modulation ?tx (base_txpk L (df_Items frame ! i)) = Inr t1"
    and t2: "txpk_timing L ?tx t1 = Inr t2" and p: "pr_Payload p = t2"
    by (auto simp: GetPullRespPacket_def Let_def bind_res_Inr_iff split: if_splits)
  have "\<not> txpk_Imme t1" using t1
    by (auto simp: txpk_modulation_def base_txpk_def Let_def split: if_splits option.splits)
  moreover from t2 assms(2-4) have "t2 = t1\<lparr>txpk_Tmst := Some (get_be (take 4 (dt_Context ?tx))
      + ucast (go_div delay Microsecond))\<rparr>"
    by (auto simp: txpk_timing_def slice_def split: if_splits)
  ultimately show ?thesis using p assms(5)
    by (simp add: go_div_nonneg unat_add_word_of_int)
qed

definition demo_downlink :: "bytes \<Rightarrow> DownlinkFrame" where
  "demo_downlink ctx = \<lparr>df_Token = 291, df_DownlinkId = [1], df_GatewayId = replicate 8 7,
     df_Items = [\<lparr>di_PhyPayload = [96], di_TxInfo = Some \<lparr>dt_GatewayId = [], dt_Frequency = 868100000,
        dt_Power = 14, dt_Modulation = LORA,
        dt_ModulationInfo = LoraInfo \<lparr>l_Bandwidth = 125, l_SpreadingFactor = 7, l_CodeRate = ''4/5'',
          l_PolarizationInversion = True\<rparr>,
        dt_Board = 0, dt_Antenna = 0, dt_Timing = DELAY,
        dt_TimingInfo = DelayTimingInfo (Some \<lparr>pbd_seconds = 1, pbd_nanos = 0\<rparr>), dt_Context = ctx\<rparr>\<rparr>],
     df_PhyPayload = [], df_TxInfo = None\<rparr>"

text \<open>A counter value shortly before the wrap, and a delay of one second.\<close>

theorem delayed_downlink_timestamp_witness:
  "\<exists>p t. GetPullRespPacket demo_lib 2 291 (demo_downlink [255, 255, 255, 255]) 0 = Inr p
    \<and> txpk_Tmst (pr_Payload p) = Some t \<and> unat t = (4294967295 + 1000000) mod 2 ^ 32"
proof -
  let ?f = "demo_downlink [255, 255, 255, 255]"
  obtain p where p: "GetPullRespPacket demo_lib 2 291 ?f 0 = Inr p"
    by (simp add: GetPullRespPacket_def demo_downlink_def Let_def GetTxInfo_def
        txpk_modulation_def txpk_timing_def)
  have be: "unat (get_be (take 4 [255, 255, 255, 255]) :: u32) = 4294967295"
    by (simp add: get_be_def)
  from delayed_downlink_timestamp[OF p, of "Some \<lparr>pbd_seconds = 1, pbd_nanos = 0\<rparr>" 1000000000]
  show ?thesis using p be by (auto simp: demo_downlink_def GetTxInfo_def)
qed

section \<open>The frames of a PUSH_DATA\<close>

text \<open>The reference: which frames are due, in order, and how each of them is made.\<close>

definition frame_jobs :: "bool \<Rightarrow> RXPK list \<Rightarrow> (RXPK \<times> RSig option) list" where
  "frame_jobs skipCRC rs = concat (map (\<lambda>r. if rxpk_RSig r = [] then [(r, None)]
     else map (\<lambda>s. (r, Some s)) (rxpk_RSig r)) (filter (\<lambda>r. rxpk_Stat r = 1 \<or> skipCRC) rs))"

fun run_jobs ::
  "lib \<Rightarrow> push_env \<Rightarrow> bytes \<Rightarrow> bool \<Rightarrow> (RXPK \<times> RSig option) list \<Rightarrow> UplinkFrame list \<Rightarrow> UplinkFrame list result" where
  "run_jobs L env mac fake [] acc = Inr acc"
| "run_jobs L env mac fake ((r, s) # js) acc =
     bind_res (one_frame L env mac fake (length acc) r s) (\<lambda>f. run_jobs L env mac fake js (acc @ [f]))"

lemma run_jobs_append:
  "run_jobs L env mac fake (js @ ks) acc =
     bind_res (run_jobs L env mac fake js acc) (run_jobs L env mac fake ks)"
proof (induction js arbitrary: acc)
  case (Cons j js)
  then show ?case
    by (cases j; cases "one_frame L env mac fake (length acc) (fst j) (snd j)") auto
qed simp

lemma rsig_frames_jobs:
  "rsig_frames L env mac fake r sigs acc = run_jobs L env mac fake (map (\<lambda>s. (r, Some s)) sigs) acc"
  by (induction sigs arbitrary: acc) auto

lemma uplink_frames_jobs:
  "uplink_frames L env mac skipCRC fake rs acc = run_jobs L env mac fake (frame_jobs skipCRC rs) acc"
proof (induction rs arbitrary: acc)
  case Nil
  then show ?case by (simp add: frame_jobs_def)
next
  case (Cons r rs)
  have jobs: "frame_jobs skipCRC (r # rs) = (if rxpk_Stat r \<noteq> 1 \<and> \<not> skipCRC then []
      else if rxpk_RSig r = [] then [(r, None)] else map (\<lambda>s. (r, Some s)) (rxpk_RSig r))
      @ frame_jobs skipCRC rs"
    by (simp add: frame_jobs_def)
  have ih: "uplink_frames L env mac skipCRC fake rs = run_jobs L env mac fake (frame_jobs skipCRC rs)"
    using Cons.IH by blast
  show ?case unfolding uplink_frames.simps jobs run_jobs_append ih rsig_frames_jobs
    by (simp add: bind_res_assoc)
qed

lemma run_jobs_iff:
  "run_jobs L env mac fake js acc = Inr fs \<longleftrightarrow> length fs = length acc + length js
     \<and> take (length acc) fs = acc
     \<and> (\<forall>i < length js. one_frame L env mac fake (length acc + i) (fst (js ! i)) (snd (js ! i))
          = Inr (fs ! (length acc + i)))"
proof (induction js arbitrary: acc)
  case Nil
  then show ?case by (auto simp: take_all_iff)
next
  case (Cons j js)
  obtain r s where j: "j = (r, s)" by fastforce
  have split: "(\<forall>i < Suc n. P i) \<longleftrightarrow> P 0 \<and> (\<forall>i < n. P (Suc i))" for P n
    by (auto simp: less_Suc_eq_0_disj)
  show ?case
  proof (cases "one_frame L env mac fake (length acc) r s")
    case (Inl e)
    then show ?thesis by (auto simp: j split)
  next
    case (Inr f)
    have "take (Suc (length acc)) fs = acc @ [f] \<longleftrightarrow> take (length acc) fs = acc \<and> fs ! length acc = f"
      if "length fs = length acc + Suc (length js)"
      using that by (auto simp: take_Suc_conv_app_nth)
    then show ?thesis by (auto simp: j Inr Cons.IH split)
  qed
qed

text \<open>C21: Decoding the frames of a PUSH_DATA succeeds with exactly the frames that are due, in
  order: those with a good checksum (or all of them, if the check is switched off), one per
  reported antenna signal, or one where there is none. The i-th of them is made by the i-th
  random identifier and clock reading. No frame is lost, doubled or reordered.\<close>

theorem uplink_frames_exact:
  "GetUplinkFrames L env p skipCRC fake = Inr fs \<longleftrightarrow>
     (let jobs = frame_jobs skipCRC (pl_RXPK (pu_Payload p)) in
      length fs = length jobs
      \<and> (\<forall>i < length jobs. one_frame L env (pu_GatewayMAC p) fake i (fst (jobs ! i)) (snd (jobs ! i))
           = Inr (fs ! i)))"
  by (simp add: GetUplinkFrames_def uplink_frames_jobs run_jobs_iff Let_def)

text \<open>A packet with a good frame heard on two antennas and a broken one.\<close>

definition demo_rxpk :: "u8 \<Rightarrow> RSig list \<Rightarrow> RXPK" where
  "demo_rxpk st sigs = \<lparr>rxpk_Time = None, rxpk_Tmms = None, rxpk_Tmst = 5, rxpk_FTime = None,
     rxpk_AESK = 0, rxpk_Chan = 0, rxpk_RFCh = 0, rxpk_Stat = st, rxpk_Freq = 868100000,
     rxpk_Brd = 0, rxpk_RSSI = 0, rxpk_Size = 1, rxpk_DatR = zero_DatR\<lparr>dr_FSK := 50000\<rparr>,
     rxpk_Modu = ''FSK'', rxpk_CodR = [], rxpk_LSNR = 0, rxpk_HPW = 0, rxpk_Data = [64],
     rxpk_RSig = sigs\<rparr>"

definition demo_push :: PushDataPacket where
  "demo_push = (let sig = \<lparr>rsig_Ant = 0, rsig_Chan = 1, rsig_RSSIC = 0, rsig_LSNR = 0, rsig_ETime = []\<rparr>
     in \<lparr>pu_ProtocolVersion = 2, pu_RandomToken = 1, pu_GatewayMAC = replicate 8 7,
        pu_Payload = \<lparr>pl_RXPK = [demo_rxpk 1 [sig, sig\<lparr>rsig_Ant := 1\<rparr>], demo_rxpk 255 []],
          pl_Stat = None\<rparr>\<rparr>)"

definition demo_push_env :: push_env where
  "demo_push_env = \<lparr>new_uuid = (\<lambda>n. Some [word_of_nat n]), now_at = int\<rparr>"

theorem uplink_frames_exact_witness:
  "\<exists>fs. GetUplinkFrames demo_lib demo_push_env demo_push False False = Inr fs \<and> length fs = 2"
proof -
  obtain fs where fs: "GetUplinkFrames demo_lib demo_push_env demo_push False False = Inr fs"
    by (simp add: GetUplinkFrames_def demo_push_def demo_rxpk_def demo_push_env_def one_frame_def
        getUplinkFrame_def rxpk_time_def rxpk_fine_def rxpk_modulation_def zero_DatR_def
        add_uplink_id_def Let_def del: put_le_numeral)
  then have "length fs = 2"
    using uplink_frames_exact[of demo_lib demo_push_env demo_push False False fs]
    by (simp add: demo_push_def frame_jobs_def demo_rxpk_def Let_def)
  with fs show ?thesis by blast
qed

end
