(* ===== verification/SemtechInv.thy ===== *)
theory SemtechInv
  imports SemtechProps PacketProps
begin

text \<open>
  The invariant of the Semtech UDP backend over all interleavings of packets, downlinks,
  clean-ups and cache expiry.
\<close>

section \<open>What holds of the parts\<close>

text \<open>Cached for a token: the failures so far, then at least one item not yet decided.\<close>

definition failures :: "lib \<Rightarrow> tx_ack_status list \<Rightarrow> bool" where
  "failures L vs \<longleftrightarrow> (\<forall>v \<in> set vs. \<exists>err. status_value L err = Some v)"

definition cached_ok :: "lib \<Rightarrow> DownlinkFrame \<Rightarrow> nat \<Rightarrow> tx_ack_status list \<Rightarrow> bool" where
  "cached_ok L f i a \<longleftrightarrow> length a = length (df_Items f) \<and> i < length a
     \<and> failures L (take i a) \<and> drop i a = replicate (length a - i) TX_IGNORED"

definition cache_ok :: "lib \<Rightarrow> 'c cache_lib \<Rightarrow> 'c \<Rightarrow> bool" where
  "cache_ok L K c \<longleftrightarrow> (\<forall>token. \<exists>f i a. cached_ok L f i a
     \<and> (\<forall>v. cache_get K c (frame_key token) = Some v \<longrightarrow> v = CFrame f)
     \<and> (\<forall>v. cache_get K c (index_key token) = Some v \<longrightarrow> v = CIndex i)
     \<and> (\<forall>v. cache_get K c (ack_key token) = Some v \<longrightarrow> v = CAcks a))"

definition report_ok :: "lib \<Rightarrow> DownlinkTXAck \<Rightarrow> bool" where
  "report_ok L m \<longleftrightarrow> (\<exists>vs w n. ack_Items m = vs @ w # replicate n TX_IGNORED \<and> failures L vs
     \<and> (w = TX_OK \<or> n = 0 \<and> failures L [w]))"

definition events_ok :: "lib \<Rightarrow> udp_event list \<Rightarrow> bool" where
  "events_ok L es \<longleftrightarrow> (\<forall>m. EvTxAck m \<in> set es \<longrightarrow> report_ok L m)"

definition gateways_ok :: "gateways \<Rightarrow> bool" where
  "gateways_ok gws \<longleftrightarrow> distinct (map fst gws) \<and> (\<forall>g gw. map_of gws g = Some gw \<longrightarrow>
     protocolSupported (gw_protocolVersion gw) \<and> collector_ok (gw_stats gw))"

definition sent_ok :: "udpPacket list \<Rightarrow> bool" where
  "sent_ok ps \<longleftrightarrow> (\<forall>p \<in> set ps. GetPacketType (pkt_data p) \<in> {Inr PushACK, Inr PullACK, Inr PullResp})"

definition udp_ok :: "lib \<Rightarrow> 'c cache_lib \<Rightarrow> 'c udp_state \<Rightarrow> bool" where
  "udp_ok L K s \<longleftrightarrow> cache_ok L K (us_cache s) \<and> gateways_ok (us_gateways s)
     \<and> sent_ok (us_sent s) \<and> events_ok L (us_events s)"

lemma events_ok_simps [simp]:
  "events_ok L []" "events_ok L (es @ fs) \<longleftrightarrow> events_ok L es \<and> events_ok L fs"
  "events_ok L [EvTxAck m] \<longleftrightarrow> report_ok L m" "events_ok L [EvStats st]" "events_ok L [EvUplink f]"
  "events_ok L (map EvSubscribe ss)"
  by (auto simp: events_ok_def)

lemma sent_ok_simps [simp]:
  "sent_ok []"
  "sent_ok (ps @ [p]) \<longleftrightarrow> sent_ok ps \<and> GetPacketType (pkt_data p) \<in> {Inr PushACK, Inr PullACK, Inr PullResp}"
  by (auto simp: sent_ok_def)

lemma udp_ok_event:
  "udp_ok L K s \<Longrightarrow> events_ok L [e] \<Longrightarrow> udp_ok L K (us_event b e s)"
  by (simp add: udp_ok_def us_event_def)

lemma udp_ok_draws [simp]: "udp_ok L K (s\<lparr>us_draws := n\<rparr>) = udp_ok L K s"
  by (simp add: udp_ok_def)

lemma udp_ok_gateways [simp]:
  "udp_ok L K s \<Longrightarrow> udp_ok L K (s\<lparr>us_gateways := gws\<rparr>) = gateways_ok gws"
  by (simp add: udp_ok_def)

section \<open>The downlink cache\<close>

lemma cache_ok_downlink:
  assumes "cache_laws K" "cache_ok L K c" "cached_ok L f i a"
  shows "cache_ok L K (cache_downlink K token f i a c)"
  unfolding cache_ok_def
proof
  fix t
  show "\<exists>f' i' a'. cached_ok L f' i' a'
     \<and> (\<forall>v. cache_get K (cache_downlink K token f i a c) (frame_key t) = Some v \<longrightarrow> v = CFrame f')
     \<and> (\<forall>v. cache_get K (cache_downlink K token f i a c) (index_key t) = Some v \<longrightarrow> v = CIndex i')
     \<and> (\<forall>v. cache_get K (cache_downlink K token f i a c) (ack_key t) = Some v \<longrightarrow> v = CAcks a')"
  proof (cases "t = token")
    case True
    with assms(1,3) show ?thesis by (intro exI[of _ f] exI[of _ i] exI[of _ a]) (simp add: cache_downlink_same)
  next
    case False
    from assms(2) show ?thesis
      unfolding cache_ok_def by (simp add: cache_downlink_other[OF assms(1) False])
  qed
qed

lemma cache_ok_expired: "cache_ok L K c \<Longrightarrow> cache_expired K c c' \<Longrightarrow> cache_ok L K c'"
  unfolding cache_ok_def cache_expired_def by meson

lemma cache_ok_empty:
  assumes "\<forall>k. cache_get K c k = None"
  shows "cache_ok L K c"
proof -
  have "cached_ok L \<lparr>df_Token = 0, df_DownlinkId = [], df_GatewayId = [],
      df_Items = [\<lparr>di_PhyPayload = [], di_TxInfo = None\<rparr>], df_PhyPayload = [], df_TxInfo = None\<rparr> 0 [TX_IGNORED]"
    by (simp add: cached_ok_def failures_def)
  with assms show ?thesis unfolding cache_ok_def by (metis option.distinct(1))
qed

lemma read_cache_cases:
  assumes "cache_ok L K c"
  obtains w where "read_cache K token c = Inl (token_error w token)"
  | f i a where "read_cache K token c = Inr (f, i, a)" "cached_ok L f i a"
proof -
  from assms obtain f i a where ok: "cached_ok L f i a"
    and g: "\<forall>v. cache_get K c (frame_key token) = Some v \<longrightarrow> v = CFrame f"
      "\<forall>v. cache_get K c (index_key token) = Some v \<longrightarrow> v = CIndex i"
      "\<forall>v. cache_get K c (ack_key token) = Some v \<longrightarrow> v = CAcks a"
    unfolding cache_ok_def by meson
  then show ?thesis using that
    by (cases "cache_get K c (frame_key token)"; cases "cache_get K c (index_key token)";
        cases "cache_get K c (ack_key token)") (auto simp: read_cache_def)
qed

lemma cached_update:
  assumes "cached_ok L f i a" "status_value L err = Some v" "Suc i < length a"
  shows "cached_ok L f (Suc i) (a[i := v])"
proof -
  have "take (Suc i) (a[i := v]) = take i a @ [v]"
    using assms(3) by (simp add: take_Suc_conv_app_nth)
  moreover have "drop (Suc i) (a[i := v]) = drop 1 (drop i a)" by simp
  then have "drop (Suc i) (a[i := v]) = replicate (length a - Suc i) TX_IGNORED"
    using assms(1) by (simp add: cached_ok_def del: drop_drop)
  ultimately show ?thesis using assms by (auto simp: cached_ok_def failures_def)
qed

lemma cached_report:
  assumes "cached_ok L f i a" "w = TX_OK \<or> Suc i = length a \<and> failures L [w]"
  shows "report_ok L (tx_ack_message mac f (a[i := w]))"
proof -
  have "a[i := w] = take i a @ w # drop (Suc i) a"
    using assms(1) by (simp add: cached_ok_def upd_conv_take_nth_drop)
  moreover have "drop (Suc i) a = drop 1 (drop i a)" by simp
  then have "drop (Suc i) a = replicate (length a - Suc i) TX_IGNORED"
    using assms(1) by (simp add: cached_ok_def del: drop_drop)
  ultimately show ?thesis using assms unfolding report_ok_def
    by (intro exI[of _ "take i a"] exI[of _ w] exI[of _ "length a - Suc i"])
      (auto simp: tx_ack_message_def cached_ok_def)
qed

section \<open>Packet types\<close>

lemma packet_type_of:
  "protocolSupported v \<Longrightarrow> GetPacketType ([v] @ put_le 2 (tok :: u16) @ [ty] @ rest) = Inr ty"
  using header_parts[of v tok ty rest] by (simp add: GetPacketType_def del: put_le_numeral)

lemma push_ack_type: "protocolSupported (pa_ProtocolVersion p) \<Longrightarrow>
    GetPacketType (PushACKPacket_MarshalBinary p) = Inr PushACK"
  using packet_type_of[of "pa_ProtocolVersion p" "pa_RandomToken p" PushACK "[]"]
  by (simp add: PushACKPacket_MarshalBinary_def)

lemma pull_ack_type: "protocolSupported (la_ProtocolVersion p) \<Longrightarrow>
    GetPacketType (PullACKPacket_MarshalBinary p) = Inr PullACK"
  using packet_type_of[of "la_ProtocolVersion p" "la_RandomToken p" PullACK "[]"]
  by (simp add: PullACKPacket_MarshalBinary_def)

lemma pull_resp_type:
  assumes "PullRespPacket_MarshalBinary jm p = Inr b" "protocolSupported (pr_ProtocolVersion p)"
  shows "GetPacketType b = Inr PullResp"
proof -
  from assms(1) obtain pb where b: "b = [pr_ProtocolVersion p]
      @ put_le 2 (if pr_ProtocolVersion p \<noteq> ProtocolVersion1 then pr_RandomToken p else 0) @ [PullResp] @ pb"
    by (auto simp: PullRespPacket_MarshalBinary_def simp del: put_le_numeral split: option.splits)
  show ?thesis unfolding b by (rule packet_type_of[OF assms(2)])
qed

lemma GetPullRespPacket_version: "GetPullRespPacket L v tok f i = Inr p \<Longrightarrow> pr_ProtocolVersion p = v"
  by (auto simp: GetPullRespPacket_def Let_def bind_res_Inr_iff split: if_splits)

lemma downlink_packet_type:
  "gateways_ok gws \<Longrightarrow> downlink_packet E gws f i = Inr p \<Longrightarrow> GetPacketType (pkt_data p) = Inr PullResp"
  by (auto simp: downlink_packet_def bind_res_Inr_iff gateways_get_def gateways_ok_def
      dest!: GetPullRespPacket_version intro!: pull_resp_type split: option.splits)

section \<open>Registry\<close>

lemma gateways_ok_update:
  "gateways_ok gws \<Longrightarrow> protocolSupported (gw_protocolVersion gw) \<Longrightarrow> collector_ok (gw_stats gw)
     \<Longrightarrow> gateways_ok (AList.update g gw gws)"
  by (auto simp: gateways_ok_def update_conv' distinct_update split: if_splits)

lemma gateways_ok_get: "gateways_ok gws \<Longrightarrow> gateways_get gws g = Inr gw \<Longrightarrow>
    protocolSupported (gw_protocolVersion gw) \<and> collector_ok (gw_stats gw)"
  by (auto simp: gateways_ok_def gateways_get_def split: option.splits)

lemma gateways_ok_set:
  assumes "gateways_ok gws" "protocolSupported (gw_protocolVersion gw)"
  shows "gateways_ok (fst (gateways_set b g gw gws))"
proof (cases "map_of gws g")
  case None
  then show ?thesis using assms by (simp add: gateways_set_def gateways_ok_update)
next
  case (Some x)
  then have "collector_ok (gw_stats x)" using assms(1) by (auto simp: gateways_ok_def)
  with Some show ?thesis using assms by (simp add: gateways_set_def gateways_ok_update)
qed

lemma gateways_ok_cleanup: "gateways_ok gws \<Longrightarrow> gateways_ok (fst (gateways_cleanup b now gws))"
  by (auto simp: gateways_ok_def gateways_cleanup_def distinct_map_filter map_of_filter_distinct
      split: option.splits if_splits)

lemma count_in_ok:
  assumes "udp_ok L K s" "count_in g f s = (e, t)" "\<And>c c'. f c = Inr c' \<Longrightarrow> collector_ok c \<Longrightarrow> collector_ok c'"
  shows "udp_ok L K t \<and> us_txAckFunc t = us_txAckFunc s"
  using assms gateways_ok_get[of "us_gateways s" g]
  by (auto simp: count_in_def udp_ok_def intro!: gateways_ok_update split: sum.splits)

section \<open>Every handler keeps the invariant\<close>

lemma udp_send_ok:
  "udp_ok L K s \<Longrightarrow> GetPacketType (pkt_data p) \<in> {Inr PushACK, Inr PullACK, Inr PullResp}
     \<Longrightarrow> udp_send p s = (e, t) \<Longrightarrow> udp_ok L K t"
  by (auto simp: udp_send_def udp_ok_def split: if_splits)

lemma sendDownlinkFrame_ok:
  assumes "cache_laws K" "udp_ok L K s" "i < length (df_Items f) \<Longrightarrow> cached_ok L f i a"
    and "sendDownlinkFrame K E f i a s = (e, t)"
  shows "udp_ok L K t"
proof (cases "i < length (df_Items f)")
  case False
  with assms(2,4) show ?thesis by (simp add: sendDownlinkFrame_def)
next
  case True
  let ?s1 = "s\<lparr>us_cache := cache_downlink K (ucast (df_Token f)) f i a (us_cache s)\<rparr>"
  have s1: "udp_ok L K ?s1" using assms(1-3) True by (simp add: udp_ok_def cache_ok_downlink)
  show ?thesis
  proof (cases "downlink_packet E (us_gateways s) f i")
    case (Inl e')
    with assms(4) True s1 show ?thesis by (simp add: sendDownlinkFrame_eq)
  next
    case (Inr p)
    then have "GetPacketType (pkt_data p) = Inr PullResp"
      using assms(2) downlink_packet_type[of "us_gateways s" E f i p] by (simp add: udp_ok_def)
    with assms(4) True Inr s1 show ?thesis
      using udp_send_ok[of L K ?s1 p e t] by (simp add: sendDownlinkFrame_eq)
  qed
qed

lemma SendDownlinkFrame_ok:
  assumes "cache_laws K" "udp_ok L K s" "SendDownlinkFrame K E f s = (e, t)"
  shows "udp_ok L K t"
proof -
  have fresh: "udp_ok L K u'"
    if "sendDownlinkFrame K E f' 0 (replicate (length (df_Items f)) TX_IGNORED) u = (e', u')"
      "df_Items f' = df_Items f" "udp_ok L K u" for f' u e' u'
    by (rule sendDownlinkFrame_ok[OF assms(1) that(3) _ that(1)])
      (simp add: that(2) cached_ok_def failures_def)
  show ?thesis
  proof (cases "df_Token f = 0")
    case False
    then show ?thesis using assms(2,3) fresh[of f s e t] by (simp add: SendDownlinkFrame_def)
  next
    case True
    show ?thesis
    proof (cases "ue_rand16 E (us_draws s)")
      case None
      then show ?thesis using True assms(2,3) by (simp add: SendDownlinkFrame_def)
    next
      case (Some r)
      then show ?thesis using True assms(2,3)
          fresh[of "f\<lparr>df_Token := ucast r\<rparr>" "s\<lparr>us_draws := us_draws s + 1\<rparr>" e t]
        by (simp add: SendDownlinkFrame_def)
    qed
  qed
qed

lemma handleTXACK_inv:
  assumes "cache_laws K" "udp_ok (ue_lib E) K s" "handleTXACK K E up s = (e, t)"
  shows "udp_ok (ue_lib E) K t"
proof (cases "TXACKPacket_UnmarshalBinary (ue_txack_unmarshal E) (pkt_data up)")
  case (Inl x)
  with assms show ?thesis by (simp add: handleTXACK_def)
next
  case (Inr p)
  have "cache_ok (ue_lib E) K (us_cache s)" using assms(2) by (simp add: udp_ok_def)
  then show ?thesis
  proof (cases rule: read_cache_cases[where token = "ta_RandomToken p"])
    case (1 w)
    with Inr assms show ?thesis by (simp add: handleTXACK_def)
  next
    case (2 f i a)
    then have i: "i < length a" "length a = length (df_Items f)" by (simp_all add: cached_ok_def)
    show ?thesis
    proof (cases "tx_ack_error p")
      case None
      let ?m = "tx_ack_message (ta_GatewayMAC p) f (a[i := TX_OK])"
      obtain e1 s1 where c: "count_in (ta_GatewayMAC p) (CountDownlink (ue_lib E) (ue_proto_marshal E) f ?m) s
          = (e1, s1)" by fastforce
      have "udp_ok (ue_lib E) K s1"
        by (rule conjunct1[OF count_in_ok[OF assms(2) c]]) (rule CountDownlink_ok)
      then show ?thesis using assms(3) Inr 2 i None c cached_report[OF 2(2)]
        by (auto simp: handleTXACK_def tx_ack_ok_def Let_def intro!: udp_ok_event split: option.splits)
    next
      case (Some err)
      have run: "tx_ack_failed K E (ta_GatewayMAC p) err f i a s = (e, t)"
        using assms(3) Inr 2 i Some by (simp add: handleTXACK_def)
      show ?thesis
      proof (cases "status_value (ue_lib E) err")
        case None
        with run assms(2) show ?thesis by (simp add: tx_ack_failed_def)
      next
        case v: (Some v)
        show ?thesis
        proof (cases "i < length (df_Items f) - 1")
          case True
          then have "cached_ok (ue_lib E) f (i + 1) (a[i := v])"
            using cached_update[OF 2(2) v] i by simp
          then show ?thesis using run v True sendDownlinkFrame_ok[OF assms(1,2)]
            by (simp add: tx_ack_failed_def Let_def)
        next
          case False
          then have "report_ok (ue_lib E) (tx_ack_message (ta_GatewayMAC p) f (a[i := v]))"
            using v i by (intro cached_report[OF 2(2)]) (auto simp: failures_def)
          then show ?thesis using run v False assms(2)
            by (auto simp: tx_ack_failed_def Let_def intro!: udp_ok_event)
        qed
      qed
    qed
  qed
qed

lemma handlePullData_ok:
  assumes "udp_ok L K s" "handlePullData E up s = (e, t)"
  shows "udp_ok L K t"
proof (cases "PullDataPacket_UnmarshalBinary (pkt_data up)")
  case (Inl x)
  with assms show ?thesis by (simp add: handlePullData_def)
next
  case (Inr p)
  then have v: "protocolSupported (pd_ProtocolVersion p)" by (simp add: pull_data_decode)
  let ?gw = "\<lparr>gw_stats = NewCollector, gw_addr = pkt_addr up,
      gw_lastSeen = ue_now E (us_draws s), gw_protocolVersion = pd_ProtocolVersion p\<rparr>"
  obtain gws es where set: "gateways_set (us_subscribeFunc s) (pd_GatewayMAC p) ?gw (us_gateways s) = (gws, es)"
    by fastforce
  then have "gateways_ok gws"
    using gateways_ok_set[of "us_gateways s" ?gw "us_subscribeFunc s" "pd_GatewayMAC p"] assms(1) v
    by (simp add: udp_ok_def)
  with assms(1) have 1: "udp_ok L K (s\<lparr>us_gateways := gws, us_events := us_events s @ map EvSubscribe es,
      us_draws := us_draws s + 1\<rparr>)" by (simp add: udp_ok_def)
  have 2: "udp_send \<lparr>pkt_addr = pkt_addr up, pkt_data = PullACKPacket_MarshalBinary
      \<lparr>la_ProtocolVersion = pd_ProtocolVersion p, la_RandomToken = pd_RandomToken p\<rparr>\<rparr>
      (s\<lparr>us_gateways := gws, us_events := us_events s @ map EvSubscribe es,
        us_draws := us_draws s + 1\<rparr>) = (e, t)"
    using assms(2) Inr set by (simp add: handlePullData_def)
  show ?thesis by (rule udp_send_ok[OF 1 _ 2]) (simp add: pull_ack_type v)
qed

lemma handleStats_ok: "udp_ok L K s \<Longrightarrow> udp_ok L K (handleStats E g st s)"
  using gateways_ok_get[of "us_gateways s" g]
  by (auto simp: handleStats_def Let_def ExportStats_def udp_ok_def us_event_def
      intro!: gateways_ok_update split: sum.split)

lemma handleUplinkFrames_ok: "udp_ok L K s \<Longrightarrow> handleUplinkFrames E fs s = (e, t) \<Longrightarrow> udp_ok L K t"
proof (induction fs arbitrary: s)
  case (Cons f fs)
  obtain e1 s1 where c: "count_in (frame_gateway f) (CountUplink (ue_proto_marshal E) f) s = (e1, s1)"
    by fastforce
  have "udp_ok L K s1" by (rule conjunct1[OF count_in_ok[OF Cons.prems(1) c]]) (rule CountUplink_ok)
  then have ev: "udp_ok L K (us_event (us_uplinkFunc s1) (EvUplink f) s1)" by (rule udp_ok_event) simp
  show ?case using Cons.prems c \<open>udp_ok L K s1\<close> Cons.IH[OF ev] Cons.IH[of s1]
    by (auto split: option.splits if_splits)
qed simp

lemma push_data_version: "PushDataPacket_UnmarshalBinary ju d = Inr p \<Longrightarrow> protocolSupported (pu_ProtocolVersion p)"
  by (auto simp: PushDataPacket_UnmarshalBinary_def split: if_splits option.splits)

lemma push_frames_ok: "udp_ok L K s \<Longrightarrow> push_frames E p s = (e, t) \<Longrightarrow> udp_ok L K t"
  using handleUplinkFrames_ok[of L K "s\<lparr>us_draws := us_draws s + n\<rparr>" E _ e t for n]
  by (auto simp: push_frames_def split: sum.splits)

lemma push_stats_ok: "udp_ok L K s \<Longrightarrow> push_stats E up p s = (e, t) \<Longrightarrow> udp_ok L K t"
  by (auto simp: push_stats_def intro: handleStats_ok split: sum.splits option.splits)

lemma handlePushData_ok:
  assumes "udp_ok L K s" "handlePushData E up s = (e, t)"
  shows "udp_ok L K t"
proof (cases "PushDataPacket_UnmarshalBinary (ue_push_unmarshal E) (pkt_data up)")
  case (Inl x)
  with assms show ?thesis by (simp add: handlePushData_def)
next
  case (Inr p)
  let ?b = "PushACKPacket_MarshalBinary \<lparr>pa_ProtocolVersion = pu_ProtocolVersion p,
      pa_RandomToken = pu_RandomToken p\<rparr>"
  obtain e1 s1 where s1: "udp_send \<lparr>pkt_addr = pkt_addr up, pkt_data = ?b\<rparr> s = (e1, s1)" by fastforce
  have ok1: "udp_ok L K s1"
    by (rule udp_send_ok[OF assms(1) _ s1]) (simp add: push_ack_type push_data_version[OF Inr])
  obtain e2 s2 where s2: "push_stats E up p s1 = (e2, s2)" by fastforce
  show ?thesis using assms(2) Inr s1 s2 ok1 push_stats_ok[OF ok1 s2] push_frames_ok[of L K s2 E p e t]
    by (auto simp: handlePushData_def Let_def split: option.splits)
qed

section \<open>Runs of the backend\<close>

text \<open>
  A step handles one datagram, sends one downlink, cleans the registry up, loses cache entries
  to expiry, registers the callbacks or stops.
\<close>

inductive udp_step :: "'c cache_lib \<Rightarrow> udp_env \<Rightarrow> 'c udp_state \<Rightarrow> 'c udp_state \<Rightarrow> bool" for K E where
  step_packet: "\<not> us_locked s \<Longrightarrow> handlePacket K E up s = (e, t) \<Longrightarrow> udp_step K E s t"
| step_send: "\<not> us_locked s \<Longrightarrow> SendDownlinkFrame K E f s = (e, t) \<Longrightarrow> udp_step K E s t"
| step_cleanup: "udp_step K E s (cleanup_run now s)"
| step_expire: "cache_expired K (us_cache s) c \<Longrightarrow> udp_step K E s (s\<lparr>us_cache := c\<rparr>)"
| step_setup: "udp_step K E s (SetFuncs s)"
| step_stop: "\<not> us_locked s \<Longrightarrow> Stop close_err s = (e, t) \<Longrightarrow> udp_step K E s t"

definition udp_init :: "'c cache_lib \<Rightarrow> 'c udp_state \<Rightarrow> bool" where
  "udp_init K s \<longleftrightarrow> cache_laws K \<and> (\<exists>skip fake c. s = NewBackend skip fake c \<and> (\<forall>k. cache_get K c k = None))"

lemma handlePacket_ok:
  assumes "cache_laws K" "udp_ok (ue_lib E) K s" "handlePacket K E up s = (e, t)"
  shows "udp_ok (ue_lib E) K t"
  using assms handleTXACK_inv handlePullData_ok handlePushData_ok
  by (auto simp: handlePacket_def split: if_splits sum.splits)

lemma cleanup_ok: "udp_ok L K s \<Longrightarrow> udp_ok L K (cleanup_run now s)"
  using gateways_ok_cleanup[of "us_gateways s" "us_subscribeFunc s" now]
  by (auto simp: cleanup_run_def udp_ok_def split: prod.split)

lemma udp_ok_init: "udp_init K s \<Longrightarrow> udp_ok L K s"
  by (auto simp: udp_init_def udp_ok_def NewBackend_def cache_ok_empty gateways_ok_def)

lemma udp_ok_other:
  "udp_ok L K s \<Longrightarrow> udp_ok L K (SetFuncs s)" "udp_ok L K s \<Longrightarrow> Stop close_err s = (e, t) \<Longrightarrow> udp_ok L K t"
  "udp_ok L K s \<Longrightarrow> cache_expired K (us_cache s) c \<Longrightarrow> udp_ok L K (s\<lparr>us_cache := c\<rparr>)"
  by (auto simp: udp_ok_def SetFuncs_def Stop_def Let_def intro: cache_ok_expired split: option.splits)

lemma udp_ok_step:
  assumes "udp_step K E s t" "cache_laws K" "udp_ok (ue_lib E) K s"
  shows "udp_ok (ue_lib E) K t"
  using assms
  by (induction rule: udp_step.induct)
    (blast intro: handlePacket_ok SendDownlinkFrame_ok cleanup_ok udp_ok_other)+

interpretation semtech_udp: inductive_invariant "udp_init K" "udp_step K E"
  "\<lambda>s. cache_laws K \<and> udp_ok (ue_lib E) K s" for K E
  by unfold_locales (blast intro: udp_ok_step udp_ok_init dest: udp_init_def[THEN iffD1])+

section \<open>Properties of every run\<close>

lemma run_one:
  assumes "udp_init K s" "udp_step K E (SetFuncs s) t"
  shows "reachable (udp_init K) (udp_step K E) t"
  using assms by (blast intro: reach_step reach_init step_setup)

lemma map_cache_init: "udp_init map_cache (NewBackend False False Map.empty)"
  unfolding udp_init_def by (auto simp: map_cache_def[THEN arg_cong[of _ _ cache_get]])

text \<open>A run of the concrete backend: the gateway announces itself, a downlink is sent, its first
  item is accepted.\<close>

definition demo_pull_data :: udpPacket where
  "demo_pull_data = \<lparr>pkt_addr = ''10.0.0.1:1700'', pkt_data = [2, 35, 1, 2] @ demo_mac\<rparr>"

definition demo_run :: "(string \<rightharpoonup> cache_val) udp_state" where
  "demo_run = snd (handlePacket map_cache demo_udp_env demo_good_ack
     (snd (SendDownlinkFrame map_cache demo_udp_env demo_frame
       (snd (handlePacket map_cache demo_udp_env demo_pull_data (SetFuncs (NewBackend False False Map.empty)))))))"

lemma demo_run_start:
  "snd (handlePacket map_cache demo_udp_env demo_pull_data (SetFuncs (NewBackend False False Map.empty)))
     = (SetFuncs (NewBackend False False Map.empty))\<lparr>us_gateways := [(demo_mac, demo_gateway)],
         us_sent := [\<lparr>pkt_addr = ''10.0.0.1:1700'', pkt_data = [2, 35, 1, 4]\<rparr>],
         us_events := [EvSubscribe \<lparr>sub_Subscribe = True, sub_GatewayID = demo_mac\<rparr>], us_draws := 1\<rparr>"
  by (simp add: handlePacket_def GetPacketType_def demo_pull_data_def demo_mac_def protocolSupported_def
      SetFuncs_def NewBackend_def handlePullData_def PullDataPacket_UnmarshalBinary_def slice_def
      PullACKPacket_MarshalBinary_def gateways_set_def udp_send_def demo_gateway_def demo_udp_env_def)

lemma sendDownlinkFrame_unlocked [simp]:
  "us_locked (snd (sendDownlinkFrame K E f i acks s)) = us_locked s"
  by (simp add: sendDownlinkFrame_def udp_send_def Let_def split: sum.split option.split)

lemma sendDownlink_unlocked: "us_locked (snd (SendDownlinkFrame K E f s)) = us_locked s"
  by (simp add: SendDownlinkFrame_def Let_def split: option.split)

lemma demo_run_reachable: "reachable (udp_init map_cache) (udp_step map_cache demo_udp_env) demo_run"
proof -
  have start: "\<not> us_locked (SetFuncs (NewBackend False False Map.empty))"
    by (simp add: SetFuncs_def NewBackend_def)
  define s where "s = snd (handlePacket map_cache demo_udp_env demo_pull_data
    (SetFuncs (NewBackend False False Map.empty)))"
  have s: "\<not> us_locked s" using start by (simp add: s_def demo_run_start)
  have t: "\<not> us_locked (snd (SendDownlinkFrame map_cache demo_udp_env demo_frame s))"
    using s by (simp add: sendDownlink_unlocked)
  show ?thesis
    unfolding demo_run_def s_def[symmetric]
    by (rule reach_step[OF reach_step[OF run_one[OF map_cache_init step_packet[OF start]]
      step_send[OF s]] step_packet[OF t]])
      (simp_all add: s_def prod_eq_iff)
qed

lemma demo_good_dispatch:
  "\<not> us_closed t \<Longrightarrow> handlePacket map_cache demo_udp_env demo_good_ack t
     = handleTXACK map_cache demo_udp_env demo_good_ack t"
  by (simp add: handlePacket_def GetPacketType_def demo_good_ack_def demo_mac_def protocolSupported_def)

lemma demo_run_result:
  "us_sent demo_run = [\<lparr>pkt_addr = ''10.0.0.1:1700'', pkt_data = [2, 35, 1, 4]\<rparr>, demo_pkt]"
  "EvTxAck (tx_ack_message demo_mac demo_frame [TX_OK, TX_IGNORED]) \<in> set (us_events demo_run)"
proof -
  define s where "s = snd (handlePacket map_cache demo_udp_env demo_pull_data
    (SetFuncs (NewBackend False False Map.empty)))"
  have s: "us_gateways s = [(demo_mac, demo_gateway)]" "\<not> us_closed s" "us_txAckFunc s"
    "us_sent s = [\<lparr>pkt_addr = ''10.0.0.1:1700'', pkt_data = [2, 35, 1, 4]\<rparr>]"
    unfolding s_def demo_run_start by (simp_all add: SetFuncs_def NewBackend_def)
  define t where "t = snd (SendDownlinkFrame map_cache demo_udp_env demo_frame s)"
  have "retrying map_cache (\<lambda>_. demo_pkt) demo_frame [] s t"
    unfolding t_def by (rule retrying_start) (simp_all add: s)
  then have t: "read_cache map_cache 291 (us_cache t) = Inr (demo_frame, 0, [TX_IGNORED, TX_IGNORED])"
    "us_sent t = us_sent s @ [demo_pkt]" "\<not> us_closed t" "us_txAckFunc t"
    using s by (simp_all add: retrying_def)
  have "demo_run = snd (handleTXACK map_cache demo_udp_env demo_good_ack t)"
    unfolding demo_run_def s_def[symmetric] t_def[symmetric] using demo_good_dispatch[OF t(3)] by simp
  also have "handleTXACK map_cache demo_udp_env demo_good_ack t
      = tx_ack_ok demo_udp_env demo_mac demo_frame 0 [TX_IGNORED, TX_IGNORED] t"
    by (rule handleTXACK_ok[OF demo_acks(2) t(1)]) simp_all
  finally have run: "demo_run = snd (tx_ack_ok demo_udp_env demo_mac demo_frame 0 [TX_IGNORED, TX_IGNORED] t)" .
  have items: "\<forall>x \<in> set (df_Items demo_frame). di_TxInfo x \<noteq> None" by simp
  note report = tx_ack_ok_report[OF items t(4), of demo_udp_env demo_mac 0 "[TX_IGNORED, TX_IGNORED]"]
  show "us_sent demo_run = [\<lparr>pkt_addr = ''10.0.0.1:1700'', pkt_data = [2, 35, 1, 4]\<rparr>, demo_pkt]"
    "EvTxAck (tx_ack_message demo_mac demo_frame [TX_OK, TX_IGNORED]) \<in> set (us_events demo_run)"
    using report t(2) s(4) by (simp_all add: run)
qed

text \<open>C25: In every run, whatever the order of datagrams, downlinks and expiry, each
  acknowledgement reported to the network server has the same shape: some items that failed
  with an error the gateway can report, then one that was accepted (or the last one, failed
  too), and then only items marked as ignored. No item follows an accepted one.\<close>

theorem reports_well_formed:
  assumes "reachable (udp_init K) (udp_step K E) s" "EvTxAck m \<in> set (us_events s)"
  shows "\<exists>vs w n. ack_Items m = vs @ w # replicate n TX_IGNORED
    \<and> (\<forall>v \<in> set vs. \<exists>err. status_value (ue_lib E) err = Some v)
    \<and> (w = TX_OK \<or> n = 0 \<and> (\<exists>err. status_value (ue_lib E) err = Some w))"
  using semtech_udp.inv_reachable[OF assms(1)] assms(2)
  by (auto simp: udp_ok_def events_ok_def report_ok_def failures_def)

theorem reports_well_formed_witness:
  "\<exists>vs w n. [TX_OK, TX_IGNORED] = vs @ w # replicate n TX_IGNORED
    \<and> (\<forall>v \<in> set vs. \<exists>err. status_value demo_lib err = Some v)
    \<and> (w = TX_OK \<or> n = 0 \<and> (\<exists>err. status_value demo_lib err = Some w))"
  using reports_well_formed[OF demo_run_reachable demo_run_result(2)]
  by (simp add: tx_ack_message_def)







text \<open>Everything the backend puts on its send channel is an acknowledgement or a downlink of
  a supported protocol version, so the sending loop drops nothing.\<close>

theorem nothing_sent_is_dropped:
  assumes "reachable (udp_init K) (udp_step K E) s"
  shows "sendPackets (us_sent s) = us_sent s
    \<and> (\<forall>p \<in> set (us_sent s). GetPacketType (pkt_data p) \<in> {Inr PushACK, Inr PullACK, Inr PullResp})"
  using semtech_udp.inv_reachable[OF assms]
  by (fastforce simp: udp_ok_def sent_ok_def sendPackets_def intro!: filter_True)

theorem nothing_sent_is_dropped_witness:
  "sendPackets (us_sent demo_run) = us_sent demo_run \<and> length (us_sent demo_run) = 2"
  using nothing_sent_is_dropped[OF demo_run_reachable] demo_run_result(1) by simp

end
