(* ===== verification/StructsProps.thy ===== *)
theory StructsProps
  imports Structs RoamingConfig
begin

text \<open>
  What the Basic Station translations mean: a physical payload put together from its fields
  reads back as these fields, the roaming API finds the network of its device address, the
  context of an uplink comes back with the downlink that answers it, and the receive windows
  of a downlink follow its timing.
\<close>

section \<open>Physical payloads\<close>

text \<open>The layout of a data frame in the LoRaWAN specification, as a reader of its bytes.\<close>

record data_frame =
  fr_MHDR :: u8
  fr_DevAddr :: u32
  fr_FCtrl :: u8
  fr_FCnt :: u16
  fr_FOpts :: bytes
  fr_Port :: "(u8 \<times> bytes) option"
  fr_MIC :: u32

definition read_data_frame :: "bytes \<Rightarrow> data_frame option" where
  "read_data_frame p =
     (let n = unat (p ! 5 AND 15) in
      if length p < 12 \<or> length p < 12 + n then None
      else Some \<lparr>fr_MHDR = p ! 0, fr_DevAddr = get_le (slice 1 5 p), fr_FCtrl = p ! 5,
        fr_FCnt = get_le (slice 6 8 p), fr_FOpts = slice 8 (8 + n) p,
        fr_Port = (case slice (8 + n) (length p - 4) p of [] \<Rightarrow> None | x # r \<Rightarrow> Some (x, r)),
        fr_MIC = get_le (drop (length p - 4) p)\<rparr>)"

lemma list_of_len2: "length xs = 2 \<Longrightarrow> \<exists>a b. xs = [a, b]"
  by (auto simp: length_Suc_conv eval_nat_numeral)

lemma list_of_len4: "length xs = 4 \<Longrightarrow> \<exists>a b c d. xs = [a, b, c, d]"
  by (auto simp: length_Suc_conv eval_nat_numeral)

lemma read_frame_layout:
  assumes "length da = 4" "length fc = 2" "length o1 = unat (ctl AND 15)" "length mic = 4"
  shows "read_data_frame ([h] @ da @ [ctl] @ fc @ o1 @ port @ mic)
    = Some \<lparr>fr_MHDR = h, fr_DevAddr = get_le da, fr_FCtrl = ctl, fr_FCnt = get_le fc,
        fr_FOpts = o1, fr_Port = (case port of [] \<Rightarrow> None | x # r \<Rightarrow> Some (x, r)),
        fr_MIC = get_le mic\<rparr>"
proof -
  obtain a b c d where da: "da = [a, b, c, d]" using list_of_len4[OF assms(1)] by blast
  obtain x y where fc: "fc = [x, y]" using list_of_len2[OF assms(2)] by blast
  show ?thesis
    using assms(3,4)
    by (simp add: read_data_frame_def da fc slice_def Let_def eval_nat_numeral drop_Cons' nth_Cons')
qed

lemma updf_port_cases:
  assumes "updf_port v = Inr port" "hex_decode (updf_FRMPayload v) = Some frm"
  shows "(case port of [] \<Rightarrow> None | x # r \<Rightarrow> Some (x, r))
    = (if updf_FPort v = -1 then None else Some (word_of_int (updf_FPort v), frm))"
  using assms by (auto simp: updf_port_def decode_field_def bind_res_Inr_iff split: if_splits option.splits)

text \<open>C27: The physical payload built for an uplink of a Basic Station gateway, read by the layout
  of the LoRaWAN specification, has the fields of that uplink: header, device address,
  control and counter, options, port with its payload (or none for port -1), and integrity
  code. The options have the length the control byte says.\<close>

theorem uplink_frame_reads_back:
  assumes "UplinkDataFrameToProto B g v = Inr pb"
    and "hex_decode (updf_FOpts v) = Some fOpts" "length fOpts = unat (updf_FCtrl v AND 15)"
    and "hex_decode (updf_FRMPayload v) = Some frm"
  shows "read_data_frame (up_PhyPayload pb)
    = Some \<lparr>fr_MHDR = updf_MHDR v, fr_DevAddr = updf_DevAddr v, fr_FCtrl = updf_FCtrl v,
        fr_FCnt = updf_FCnt v, fr_FOpts = fOpts,
        fr_Port = (if updf_FPort v = -1 then None else Some (word_of_int (updf_FPort v), frm)),
        fr_MIC = updf_MIC v\<rparr>"
proof -
  obtain fo port where phy: "hex_decode (updf_FOpts v) = Some fo" "updf_port v = Inr port"
    "up_PhyPayload pb = [updf_MHDR v] @ put_le 4 (updf_DevAddr v) @ [updf_FCtrl v]
       @ put_le 2 (updf_FCnt v) @ fo @ port @ put_le 4 (updf_MIC v)"
    using updf_toproto[OF assms(1)] by metis
  with assms(2) have fo: "fo = fOpts" by simp
  show ?thesis
    unfolding phy(3) fo by (subst read_frame_layout)
      (simp_all add: assms(3) get_le_put_le updf_port_cases[OF phy(2) assms(4)] del: put_le_numeral)
qed

text \<open>A small band: data-rate 5 is spreading factor 7 at 125 kHz.\<close>

definition demo_band :: band where
  "demo_band = \<lparr>GetDataRate = (\<lambda>i. if i = 5 then Some \<lparr>dr_Modulation = LoRaModulation,
       dr_SpreadFactor = 7, dr_Bandwidth = 125, dr_BitRate = 0\<rparr> else None),
     GetDataRateIndex = (\<lambda>up d. if dr_SpreadFactor d = 7 then Some 5 else None)\<rparr>"

definition demo_bs_lib :: bs_lib where
  "demo_bs_lib = \<lparr>bl_lib = demo_lib, bl_band = demo_band, i32_of_f32 = id, f64_of_f32 = ucast,
     math_Modf = (\<lambda>x. (x, 0)), i64_of_f64 = id\<rparr>"

definition demo_radio :: RadioMetaData where
  "demo_radio = \<lparr>rmd_DR = 5, rmd_Frequency = 868100000, rmd_UpInfo = \<lparr>ui_RxTime = 0,
     ui_RCtx = 3, ui_XTime = 77, ui_GPSTime = 0, ui_RSSI = 0, ui_SNR = 0\<rparr>\<rparr>"

definition demo_updf :: UplinkDataFrame where
  "demo_updf = \<lparr>updf_RadioMetaData = demo_radio, updf_MHDR = 0x40, updf_DevAddr = 0x04000001,
     updf_FCtrl = 0x81, updf_FCnt = 9, updf_FOpts = ''02'', updf_FPort = 10,
     updf_FRMPayload = ''0aff'', updf_MIC = 5\<rparr>"

lemma demo_radio_frame: "\<exists>pb rx. radio_frame demo_bs_lib g demo_radio = Inr pb
    \<and> up_RxInfo pb = Some rx \<and> rx_Context rx = put_context 3 77"
  by (simp add: radio_frame_def SetRadioMetaDataToProto_def demo_radio_def demo_bs_lib_def
      demo_band_def set_rxtime_def set_gpstime_def f64_is_zero_def Let_def)

lemma demo_updf_ok: "\<exists>pb rx. UplinkDataFrameToProto demo_bs_lib g demo_updf = Inr pb
    \<and> up_RxInfo pb = Some rx \<and> rx_Context rx = put_context 3 77"
  using demo_radio_frame[of g]
  by (auto simp: UplinkDataFrameToProto_def demo_updf_def decode_field_def updf_port_def unhex_def
      append_phy_def simp del: put_le_numeral)

theorem uplink_frame_reads_back_witness:
  "\<exists>pb. UplinkDataFrameToProto demo_bs_lib [] demo_updf = Inr pb
     \<and> read_data_frame (up_PhyPayload pb)
       = Some \<lparr>fr_MHDR = 0x40, fr_DevAddr = 0x04000001, fr_FCtrl = 0x81, fr_FCnt = 9,
           fr_FOpts = [2], fr_Port = Some (10, [0x0A, 0xFF]), fr_MIC = 5\<rparr>"
proof -
  obtain pb where "UplinkDataFrameToProto demo_bs_lib [] demo_updf = Inr pb"
    using demo_updf_ok by blast
  then show ?thesis
    using uplink_frame_reads_back[of demo_bs_lib "[]" demo_updf pb "[2]" "[0x0A, 0xFF]"]
    by (simp add: demo_updf_def unhex_def)
qed

text \<open>C28: For an uplink of a Basic Station gateway, the network the roaming API takes the frame to
  belong to is the one in the seven upper bits of the uplink's device address.\<close>

theorem basicstation_uplink_netid:
  assumes "UplinkDataFrameToProto B g v = Inr pb"
  shows "Option.bind (getDevAddr (up_PhyPayload pb)) calculateNetID
    = Some [ucast (drop_bit 25 (updf_DevAddr v))]"
proof -
  obtain fo port where phy: "up_PhyPayload pb = [updf_MHDR v] @ put_le 4 (updf_DevAddr v)
      @ [updf_FCtrl v] @ put_le 2 (updf_FCnt v) @ fo @ port @ put_le 4 (updf_MIC v)"
    using updf_toproto[OF assms] by metis
  have "drop_bit 1 (ucast (drop_bit 24 (updf_DevAddr v)) :: byte) = ucast (drop_bit 25 (updf_DevAddr v))"
    by (rule bit_word_eqI) (auto simp: bit_simps dest: bit_imp_le_length)
  then show ?thesis by (simp add: phy getDevAddr_eq calculateNetID_def)
qed

theorem basicstation_uplink_netid_witness:
  "\<exists>pb. UplinkDataFrameToProto demo_bs_lib [] demo_updf = Inr pb
     \<and> Option.bind (getDevAddr (up_PhyPayload pb)) calculateNetID = Some [2]"
  using demo_updf_ok[of "[]"] basicstation_uplink_netid[of demo_bs_lib "[]" demo_updf]
  by (auto simp: demo_updf_def)

section \<open>Downlinks\<close>

text \<open>The steps of a translation that succeeds.\<close>

lemma downlink_steps:
  assumes "DownlinkFrameFromProto B spare df = Inr out"
  obtains item items t out1 out2 dr where "df_Items df = item # items" "di_TxInfo item = Some t"
    "set_context spare (dt_Context t) (downlink_base (df_Token df) (di_PhyPayload item)) = Inr out1"
    "item_index B t = Inr dr" "set_timing B t dr out1 = Inr out2"
    "set_rx2 B (item # items) out2 = Inr out"
  using assms that
  by (auto simp: DownlinkFrameFromProto_def bind_res_Inr_iff split: list.splits option.splits)

text \<open>A step that leaves the context alone.\<close>

lemma set_timing_context: "set_timing B t dr out = Inr out' \<Longrightarrow>
    dn_RCtx out' = dn_RCtx out \<and> dn_XTime out' = dn_XTime out
    \<and> dn_DIID out' = dn_DIID out \<and> dn_PDU out' = dn_PDU out"
  by (auto simp: set_timing_def split: downlink_timing.splits option.splits)

text \<open>The second receive window: a second item with a delay and a modulation of its own.\<close>

definition second_window :: "lib \<Rightarrow> DownlinkFrameItem list \<Rightarrow> DownlinkTXInfo option" where
  "second_window L items = (case items of
     [_, item] \<Rightarrow> (let t = GetTxInfo L item in
       if GetDelayTimingInfo (dt_TimingInfo t) \<noteq> None
         \<and> (GetLoraModulationInfo (dt_ModulationInfo t) \<noteq> None
            \<or> GetFskModulationInfo (dt_ModulationInfo t) \<noteq> None) then Some t else None)
   | _ \<Rightarrow> None)"

lemma set_rx2_out:
  assumes "set_rx2 B items out = Inr out'"
  shows "(second_window (bl_lib B) items = None \<and> out' = out) \<or> (\<exists>t dr.
    second_window (bl_lib B) items = Some t
    \<and> out' = out\<lparr>dn_RX2Freq := Some (dt_Frequency t), dn_RX2DR := Some dr\<rparr>)"
proof -
  consider "\<And>x y. items \<noteq> [x, y]" | x y where "items = [x, y]" by blast
  then show ?thesis
  proof cases
    case 1
    then have "set_rx2 B items out = Inr out" "second_window (bl_lib B) items = None"
      by (auto simp: set_rx2_def second_window_def split: list.split)
    with assms show ?thesis by simp
  next
    case 2
    let ?m = "dt_ModulationInfo (GetTxInfo (bl_lib B) y)"
    show ?thesis using assms 2
      by (cases ?m) (auto simp: set_rx2_def second_window_def Let_def bind_res_Inr_iff split: if_splits)
  qed
qed

lemma slice_context:
  "slice 0 8 (put_context a b) = put_be 8 a" "slice 8 16 (put_context a b @ r) = put_be 8 b"
  by (simp_all add: put_context_def slice_def)

text \<open>The context of an uplink of a Basic Station gateway comes back: a downlink that carries
  it is sent to the gateway with the radio context and the transmission time of that uplink.\<close>

lemma context_comes_back:
  assumes "UplinkDataFrameToProto B g v = Inr up" "up_RxInfo up = Some rx"
    and "df_Items df = item # items" "di_TxInfo item = Some t" "dt_Context t = rx_Context rx"
    and "DownlinkFrameFromProto B spare df = Inr out"
  shows "dn_RCtx out = Some (ui_RCtx (rmd_UpInfo (updf_RadioMetaData v)))
    \<and> dn_XTime out = Some (ui_XTime (rmd_UpInfo (updf_RadioMetaData v)))"
proof -
  let ?ui = "rmd_UpInfo (updf_RadioMetaData v)"
  have "radio_ok B g (updf_RadioMetaData v) up" using updf_toproto[OF assms(1)] by metis
  with assms(2,5) have ctx: "dt_Context t = put_context (ui_RCtx ?ui) (ui_XTime ?ui)"
    by (auto simp: radio_ok_def)
  obtain out1 out2 dr where steps:
    "set_context spare (dt_Context t) (downlink_base (df_Token df) (di_PhyPayload item)) = Inr out1"
    "set_timing B t dr out1 = Inr out2" "set_rx2 B (item # items) out2 = Inr out"
    using downlink_steps[OF assms(6)] assms(3,4) by (metis list.inject option.inject)
  have "length (put_context (ui_RCtx ?ui) (ui_XTime ?ui)) = 16" by (simp add: put_context_def)
  then have "dn_RCtx out1 = Some (ui_RCtx ?ui) \<and> dn_XTime out1 = Some (ui_XTime ?ui)"
    using steps(1) by (auto simp: ctx set_context_def slice_context get_be_put_be)
  then show ?thesis
    using set_timing_context[OF steps(2)] set_rx2_out[OF steps(3)] by auto
qed

definition demo_bs_item :: "downlink_timing \<Rightarrow> timing_info \<Rightarrow> bytes \<Rightarrow> DownlinkFrameItem" where
  "demo_bs_item timing info ctx = \<lparr>di_PhyPayload = [0x60, 1], di_TxInfo = Some
     \<lparr>dt_GatewayId = [], dt_Frequency = 868100000, dt_Power = 14, dt_Modulation = LORA,
      dt_ModulationInfo = LoraInfo \<lparr>l_Bandwidth = 125, l_SpreadingFactor = 7,
        l_CodeRate = ''4/5'', l_PolarizationInversion = True\<rparr>,
      dt_Board = 0, dt_Antenna = 0, dt_Timing = timing, dt_TimingInfo = info,
      dt_Context = ctx\<rparr>\<rparr>"

definition demo_bs_frame :: DownlinkFrame where
  "demo_bs_frame = \<lparr>df_Token = 21, df_DownlinkId = [1], df_GatewayId = [], df_Items =
     [demo_bs_item DELAY (DelayTimingInfo (Some \<lparr>pbd_seconds = 1, pbd_nanos = 0\<rparr>)) (put_context 3 77),
      demo_bs_item DELAY (DelayTimingInfo (Some \<lparr>pbd_seconds = 2, pbd_nanos = 0\<rparr>)) []],
     df_PhyPayload = [], df_TxInfo = None\<rparr>"

lemma demo_bs_downlink: "\<exists>out. DownlinkFrameFromProto demo_bs_lib (\<lambda>_. []) demo_bs_frame = Inr out"
  by (simp add: DownlinkFrameFromProto_def demo_bs_frame_def demo_bs_item_def GetTxInfo_def
      set_context_def put_context_def item_index_def lora_index_def set_timing_def set_rx2_def
      demo_bs_lib_def demo_band_def Let_def del: put_le_numeral)

text \<open>The receive windows of a downlink to a Basic Station gateway: an immediate frame is class C
  and uses the second window at once, a delayed one is class A with its delay in whole
  seconds and the first window, one at a GPS time is class B with its own frequency. A
  second item with a delay fills the second window; the payload and the token stay.\<close>

lemma downlink_windows:
  assumes "DownlinkFrameFromProto B spare df = Inr out" "df_Items df = item # items"
    and "di_TxInfo item = Some t"
  shows "dn_DIID out = df_Token df \<and> hex_decode (dn_PDU out) = Some (di_PhyPayload item)
    \<and> (dn_DC out, dn_RX1Freq out, dn_Freq out) \<in>
        {(2, None, None), (0, Some (dt_Frequency t), None), (1, None, Some (dt_Frequency t))}
    \<and> (dt_Timing t = IMMEDIATELY \<longleftrightarrow> dn_DC out = 2)
    \<and> (dt_Timing t = DELAY \<longleftrightarrow> dn_DC out = 0) \<and> (dt_Timing t = GPS_EPOCH \<longleftrightarrow> dn_DC out = 1)
    \<and> dn_RxDelay out = (if dt_Timing t = DELAY then map_option (\<lambda>d. sint (go_div d Second))
        (Option.bind (GetDelayTimingInfo (dt_TimingInfo t)) (ptypes_Duration (bl_lib B))) else None)
    \<and> dn_RX2Freq out = (case second_window (bl_lib B) (df_Items df) of
        Some t2 \<Rightarrow> Some (dt_Frequency t2)
      | None \<Rightarrow> if dt_Timing t = IMMEDIATELY then Some (dt_Frequency t) else None)"
proof -
  obtain out1 out2 dr where steps:
    "set_context spare (dt_Context t) (downlink_base (df_Token df) (di_PhyPayload item)) = Inr out1"
    "set_timing B t dr out1 = Inr out2" "set_rx2 B (item # items) out2 = Inr out"
    using downlink_steps[OF assms(1)] assms(2,3) by (metis list.inject option.inject)
  have 1: "dn_RX1Freq out1 = None" "dn_Freq out1 = None" "dn_RxDelay out1 = None"
    "dn_RX2Freq out1 = None" "dn_PDU out1 = hex_encode (di_PhyPayload item)" "dn_DIID out1 = df_Token df"
    using steps(1) by (auto simp: set_context_def downlink_base_def split: if_splits)
  have 2: "(second_window (bl_lib B) (df_Items df) = None \<and> out = out2) \<or> (\<exists>t2 dr.
      second_window (bl_lib B) (df_Items df) = Some t2
      \<and> out = out2\<lparr>dn_RX2Freq := Some (dt_Frequency t2), dn_RX2DR := Some dr\<rparr>)"
    using set_rx2_out[OF steps(3)] assms(2) by simp
  have 3: "dn_DIID out2 = df_Token df" "dn_PDU out2 = hex_encode (di_PhyPayload item)"
    using set_timing_context[OF steps(2)] 1 by simp_all
  have 4: "(dt_Timing t = IMMEDIATELY \<and> dn_DC out2 = 2 \<and> dn_RX1Freq out2 = None \<and> dn_Freq out2 = None
        \<and> dn_RxDelay out2 = None \<and> dn_RX2Freq out2 = Some (dt_Frequency t))
    \<or> (dt_Timing t = DELAY \<and> dn_DC out2 = 0 \<and> dn_RX1Freq out2 = Some (dt_Frequency t) \<and> dn_Freq out2 = None
        \<and> dn_RxDelay out2 = map_option (\<lambda>d. sint (go_div d Second))
            (Option.bind (GetDelayTimingInfo (dt_TimingInfo t)) (ptypes_Duration (bl_lib B)))
        \<and> dn_RX2Freq out2 = None)
    \<or> (dt_Timing t = GPS_EPOCH \<and> dn_DC out2 = 1 \<and> dn_RX1Freq out2 = None \<and> dn_Freq out2 = Some (dt_Frequency t)
        \<and> dn_RxDelay out2 = None \<and> dn_RX2Freq out2 = None)"
    using steps(2) 1 by (auto simp: set_timing_def split: downlink_timing.splits option.splits)
  from 2 show ?thesis
    using 3 4 by (elim disjE exE conjE) (simp_all add: hex_decode_encode)
qed

end
