(* ===== verification/BasicStationInv.thy ===== *)
theory BasicStationInv
  imports BasicStation StructsProps SemtechProps
begin

text \<open>
  The invariant of the Basic Station backend over all orders of connections, messages of
  gateways, downlinks, statistics and cache expiry: the statistics are consistent, the cached
  downlinks can be counted, and the subscription events describe the registered gateways.
\<close>

section \<open>The parts\<close>

definition conns_ok :: "connections \<Rightarrow> bool" where
  "conns_ok c \<longleftrightarrow> distinct (map fst c) \<and> (\<forall>g x. map_of c g = Some x \<longrightarrow> collector_ok (bc_stats x))"

text \<open>A cached downlink has a first item with transmission info.\<close>

definition countable :: "DownlinkFrame \<Rightarrow> bool" where
  "countable f \<longleftrightarrow> (\<exists>item items t. df_Items f = item # items \<and> di_TxInfo item = Some t)"

definition diid_ok :: "'c cache_lib \<Rightarrow> 'c \<Rightarrow> bool" where
  "diid_ok K c \<longleftrightarrow> (\<forall>k v. cache_get K c k = Some v \<longrightarrow> (\<exists>f. v = CFrame f \<and> countable f))"

fun bs_subs :: "bs_event list \<Rightarrow> Subscribe list" where
  "bs_subs [] = []"
| "bs_subs (BsSubscribe e # es) = e # bs_subs es"
| "bs_subs (_ # es) = bs_subs es"

definition bs_ok :: "'c cache_lib \<Rightarrow> 'c bs_state \<Rightarrow> bool" where
  "bs_ok K s \<longleftrightarrow> conns_ok (bst_gateways s) \<and> diid_ok K (bst_diidCache s) \<and> bst_subscribeFunc s
     \<and> replay (bs_subs (bst_events s)) {} = fst ` set (bst_gateways s)"

lemma bs_subs_append [simp]: "bs_subs (es @ fs) = bs_subs es @ bs_subs fs"
  by (induction es rule: bs_subs.induct) auto

lemma bs_subs_map [simp]: "bs_subs (map BsSubscribe es) = es"
  by (induction es) auto

lemma bs_ok_event: "bs_ok K s \<Longrightarrow> bs_subs [e] = [] \<Longrightarrow> bs_ok K (bst_event b e s)"
  by (simp add: bs_ok_def bst_event_def)

lemma bs_ok_fields [simp]:
  "bs_ok K (s\<lparr>bst_draws := n\<rparr>) = bs_ok K s" "bs_ok K (s\<lparr>bst_written := w\<rparr>) = bs_ok K s"
  "bs_ok K (s\<lparr>bst_isClosed := b\<rparr>) = bs_ok K s"
  by (simp_all add: bs_ok_def)

lemma bs_ok_get: "bs_ok K s \<Longrightarrow> bs_get (bst_gateways s) g = Inr x \<Longrightarrow>
    collector_ok (bc_stats x) \<and> map_of (bst_gateways s) g = Some x"
  by (auto simp: bs_ok_def conns_ok_def bs_get_def split: option.splits)

text \<open>An entry that exists is replaced: the registered gateways stay.\<close>

lemma bs_ok_update:
  assumes "bs_ok K s" "map_of (bst_gateways s) g = Some x" "collector_ok (bc_stats y)"
  shows "bs_ok K (s\<lparr>bst_gateways := AList.update g y (bst_gateways s)\<rparr>)"
proof -
  have "g \<in> fst ` set (bst_gateways s)" using assms(2) by (metis map_of_eq_None_iff option.distinct(1))
  then have "fst ` set (AList.update g y (bst_gateways s)) = fst ` set (bst_gateways s)"
    by (simp add: dom_update insert_absorb)
  then show ?thesis
    using assms by (auto simp: bs_ok_def conns_ok_def distinct_update update_conv')
qed

section \<open>Every operation keeps the invariant\<close>

lemma sendToGateway_ok [inv_intros]: "bs_ok K s \<Longrightarrow> sendToGateway E g v s = (e, t) \<Longrightarrow> bs_ok K t"
  by (auto simp: sendToGateway_def Let_def split: sum.splits option.splits if_splits)

lemma sendToGateway_snd_ok: "bs_ok K s \<Longrightarrow> bs_ok K (snd (sendToGateway E g v s))"
  using sendToGateway_ok by (metis prod.collapse)

lemma sendRawToGateway_ok [inv_intros]: "bs_ok K s \<Longrightarrow> sendRawToGateway E g mt d s = (e, t) \<Longrightarrow> bs_ok K t"
  by (auto simp: sendRawToGateway_def Let_def split: sum.splits option.splits if_splits)

lemma downlink_countable:
  assumes "DownlinkFrameFromProto B sp df = Inr out"
  shows "countable df \<and> dn_DIID out = df_Token df"
proof -
  obtain item items t out1 out2 dr where steps: "df_Items df = item # items" "di_TxInfo item = Some t"
    "set_context sp (dt_Context t) (downlink_base (df_Token df) (di_PhyPayload item)) = Inr out1"
    "set_timing B t dr out1 = Inr out2" "set_rx2 B (item # items) out2 = Inr out"
    using downlink_steps[OF assms] by metis
  have "dn_DIID out = df_Token df"
    using steps(3) set_timing_context[OF steps(4)] set_rx2_out[OF steps(5)]
    by (auto simp: set_context_def downlink_base_def split: if_splits)
  then show ?thesis using steps(1,2) by (auto simp: countable_def)
qed

lemma bs_send_frame_ok [inv_intros]:
  assumes "cache_laws K" "bs_ok K s" "bs_send_frame K E df s = (e, t)"
  shows "bs_ok K t"
proof (cases "DownlinkFrameFromProto (be_lib E) (be_spare E) df")
  case (Inl err)
  then show ?thesis using assms by (simp add: bs_send_frame_def)
next
  case (Inr pl)
  let ?s = "s\<lparr>bst_diidCache := cache_set K (bst_diidCache s) (diid_key (dn_DIID pl)) (CFrame df)\<rparr>"
  have "bs_ok K ?s"
    using assms(1,2) downlink_countable[OF Inr] by (simp add: bs_ok_def diid_ok_def)
  then show ?thesis
    using assms(3) Inr by (auto simp: bs_send_frame_def split: prod.splits option.splits intro: inv_intros)
qed

lemma bs_SendDownlinkFrame_ok [inv_intros]:
  assumes "cache_laws K" "bs_ok K s" "bs_SendDownlinkFrame K E df s = (e, t)"
  shows "bs_ok K t"
proof (cases "df_Token df = 0")
  case True
  then consider "t = s" | r :: u16 where
    "bs_send_frame K E (df\<lparr>df_Token := ucast r\<rparr>) (s\<lparr>bst_draws := bst_draws s + 1\<rparr>) = (e, t)"
    using assms(3) by (auto simp: bs_SendDownlinkFrame_def split: option.splits)
  then show ?thesis
  proof cases
    case 2
    show ?thesis by (rule bs_send_frame_ok[OF assms(1) _ 2]) (use assms(2) in simp)
  qed (use assms(2) in simp)
qed (use assms in \<open>auto simp: bs_SendDownlinkFrame_def intro: bs_send_frame_ok[OF assms(1)]\<close>)

lemma bs_Raw_ok [inv_intros]:
  "bs_ok K s \<Longrightarrow> bs_RawPacketForwarderCommand E pl s = (e, t) \<Longrightarrow> bs_ok K t"
  by (auto simp: bs_RawPacketForwarderCommand_def Let_def split: if_splits prod.splits option.splits
      dest: sendRawToGateway_ok)

text \<open>Connecting and leaving follow the contract of the registry.\<close>

lemma bs_set_ok: "conns_ok c \<Longrightarrow> collector_ok (bc_stats x) \<Longrightarrow> conns_ok (fst (bs_set b g x c))"
  by (auto simp: conns_ok_def bs_set_def distinct_update update_conv')

lemma bs_remove_ok: "conns_ok c \<Longrightarrow> conns_ok (fst (bs_remove b g c))"
  by (auto simp: conns_ok_def bs_remove_def distinct_delete delete_conv' split: if_splits)

lemma registry_step:
  assumes "bs_ok K s" "bs_run op (bst_gateways s) = (gws, es)" "conns_ok gws"
  shows "bs_ok K (s\<lparr>bst_gateways := gws, bst_events := bst_events s @ map BsSubscribe es\<rparr>)"
  using bs.run_events[OF _ assms(2)] assms by (simp add: bs_ok_def conns_ok_def)

lemma bs_connect_ok [inv_intros]:
  assumes "bs_ok K s" "bs_connect E path cn conn s = (r, t)"
  shows "bs_ok K t"
proof -
  have sub: "bst_subscribeFunc s" using assms(1) by (simp add: bs_ok_def)
  consider "t = s" | g x where "collector_ok (bc_stats x)"
    "t = s\<lparr>bst_gateways := fst (bs_set True g x (bst_gateways s)),
       bst_events := bst_events s @ map BsSubscribe (snd (bs_set True g x (bst_gateways s)))\<rparr>"
    using assms(2) that
    by (simp add: bs_connect_def sub Let_def case_prod_beta split: option.splits if_splits sum.splits)
      (metis NewCollector_ok connection.select_convs(2))+
  then show ?thesis
  proof cases
    case 2
    have "conns_ok (fst (bs_set True g x (bst_gateways s)))"
      using assms(1) bs_set_ok[OF _ 2(1)] by (simp add: bs_ok_def)
    then show ?thesis
      unfolding 2(2) by (intro registry_step[OF assms(1), of "OpConnect g x"]) simp_all
  qed (use assms(1) in simp)
qed

lemma bs_disconnect_ok [inv_intros]:
  assumes "bs_ok K s"
  shows "bs_ok K (bs_disconnect g s)"
proof -
  obtain gws es where r: "bs_remove True g (bst_gateways s) = (gws, es)" by fastforce
  have "conns_ok gws" using assms bs_remove_ok[of "bst_gateways s" True g] r by (simp add: bs_ok_def)
  then show ?thesis
    using registry_step[OF assms, of "OpRemove g" gws es] r assms by (simp add: bs_disconnect_def bs_ok_def)
qed

text \<open>Messages. Counting in the statistics of a connection keeps the others.\<close>

lemma bs_count_ok:
  assumes "bs_ok K s" "bs_count E g f s = (e, t)" "\<And>c c'. f c = Inr c' \<Longrightarrow> collector_ok c \<Longrightarrow> collector_ok c'"
  shows "bs_ok K t"
proof -
  consider "t = s" | x c where "bs_get (bst_gateways s) g = Inr x" "f (bc_stats x) = Inr c"
    "t = s\<lparr>bst_gateways := AList.update g (x\<lparr>bc_stats := c\<rparr>) (bst_gateways s)\<rparr>"
    using assms(2) by (auto simp: bs_count_def split: sum.splits)
  then show ?thesis
  proof cases
    case 2
    from bs_ok_get[OF assms(1) 2(1)] show ?thesis
      unfolding 2(3) by (intro bs_ok_update[OF assms(1)]) (use assms(3)[OF 2(2)] in auto)
  qed (use assms(1) in simp)
qed

lemma bs_count_none: "\<forall>c. \<exists>c'. f c = Inr c' \<Longrightarrow> \<exists>t. bs_count E g f s = (None, t)"
  by (auto simp: bs_count_def split: sum.split) (metis Inr_Inl_False)

lemma bs_uplink_ok:
  assumes "bs_ok K s" "bs_uplink E g frame s = (e, t)"
  shows "bs_ok K t"
proof -
  consider "t = s" | "t = s\<lparr>bst_draws := bst_draws s + 1\<rparr>" | uf e1 s1 where
    "bs_count E g (CountUplink (be_proto_marshal E) uf) (s\<lparr>bst_draws := bst_draws s + 1\<rparr>) = (e1, s1)"
    "t = s1 \<or> t = bst_event (bst_uplinkFunc s1) (BsUplink uf) s1"
    using assms(2) unfolding bs_uplink_def
    by (auto simp: Let_def split: sum.splits option.splits if_splits prod.splits)
  then show ?thesis
  proof cases
    case 3
    have "bs_ok K s1"
      by (rule bs_count_ok[OF _ 3(1)]) (use assms(1) in \<open>auto intro: CountUplink_ok\<close>)
    then show ?thesis using 3(2) bs_ok_event by fastforce
  qed (use assms(1) in simp_all)
qed

text \<open>A frame built from radio meta-data can be counted: no uplink makes the handler panic.\<close>

definition built :: "UplinkFrame result \<Rightarrow> bool" where
  "built frame \<longleftrightarrow> (\<forall>uf. frame = Inr uf \<longrightarrow> up_TxInfo uf \<noteq> None \<and> up_RxInfo uf \<noteq> None)"

lemma built_frames:
  "built (UplinkDataFrameToProto B g v)" "built (JoinRequestToProto B g w)"
  "built (UplinkProprietaryFrameToProto B g x)"
  by (auto simp: built_def UplinkDataFrameToProto_def JoinRequestToProto_def
      UplinkProprietaryFrameToProto_def bind_res_Inr_iff radio_ok_def append_phy_def
      simp del: put_le_numeral dest!: radio_frame_ok)

lemma CountUplink_total: "up_TxInfo uf \<noteq> None \<Longrightarrow> \<exists>c'. CountUplink pm uf c = Inr c'"
  by (auto simp: CountUplink_def split: option.split)

lemma bs_uplink_none:
  assumes "built frame"
  shows "\<exists>t. bs_uplink E g frame s = (None, t)"
proof (cases frame)
  case (Inr uf)
  then have info: "up_TxInfo uf \<noteq> None" "up_RxInfo uf \<noteq> None" using assms by (auto simp: built_def)
  show ?thesis
  proof (cases "be_uuid E (bst_draws s)")
    case (Some i)
    have "\<forall>c. \<exists>c'. CountUplink (be_proto_marshal E) (set_UplinkId i uf) c = Inr c'"
      using CountUplink_total info by (auto simp: set_UplinkId_def)
    from bs_count_none[OF this] obtain t where "bs_count E g (CountUplink (be_proto_marshal E)
        (set_UplinkId i uf)) (s\<lparr>bst_draws := bst_draws s + 1\<rparr>) = (None, t)" by blast
    then show ?thesis using Inr Some info by (simp add: bs_uplink_def)
  qed (simp add: bs_uplink_def Inr)
qed (simp add: bs_uplink_def)

lemma CountDownlink_total:
  assumes "countable pl" "ack_Items ack = [TX_OK]"
  shows "\<exists>c'. CountDownlink L pm pl ack c = Inr c'"
proof -
  from assms(1) obtain item items t where "df_Items pl = item # items" "di_TxInfo item = Some t"
    by (auto simp: countable_def)
  then show ?thesis using assms(2) by (auto simp: CountDownlink_def Let_def split: option.split)
qed

lemma transmitted_ok:
  assumes "bs_ok K s" "handleDownlinkTransmittedMessage K E g v s = (e, t)"
  shows "bs_ok K t \<and> e = None"
proof (cases "cache_get K (bst_diidCache s) (diid_key (dnt_DIID v))")
  case None
  then show ?thesis using assms by (auto simp: handleDownlinkTransmittedMessage_def bs_ok_event)
next
  case (Some w)
  with assms(1) obtain pl where pl: "w = CFrame pl" "countable pl"
    unfolding bs_ok_def diid_ok_def by blast
  let ?ack = "DownlinkTransmittedToProto g v\<lparr>ack_DownlinkId := df_DownlinkId pl\<rparr>"
  let ?f = "CountDownlink (bl_lib (be_lib E)) (be_proto_marshal E) pl ?ack"
  have "ack_Items ?ack = [TX_OK]" by (simp add: DownlinkTransmittedToProto_def)
  then obtain s1 where s1: "bs_count E g ?f s = (None, s1)"
    using bs_count_none[of ?f E g s] CountDownlink_total[OF pl(2)] by blast
  have "bs_ok K s1" by (rule bs_count_ok[OF assms(1) s1]) (auto intro: CountDownlink_ok)
  then show ?thesis
    using assms(2) Some pl s1 by (auto simp: handleDownlinkTransmittedMessage_def Let_def bs_ok_event)
qed

lemma timesync_ok: "bs_ok K s \<Longrightarrow> bs_ok K (sendTimesyncRequest E g ui s)"
proof -
  assume ok: "bs_ok K s"
  have "bs_ok K (s\<lparr>bst_gateways := gws, bst_draws := n\<rparr>)"
    if "bs_setLastTimesync g ts (bst_gateways s) = (None, gws)" for ts gws n
  proof -
    from that obtain x where x: "map_of (bst_gateways s) g = Some x"
      "gws = AList.update g (x\<lparr>bc_lastTimesync := ts\<rparr>) (bst_gateways s)"
      by (auto simp: bs_setLastTimesync_def split: option.splits)
    have "collector_ok (bc_stats x)" using ok x(1) by (auto simp: bs_ok_def conns_ok_def)
    then have "bs_ok K (s\<lparr>bst_gateways := gws\<rparr>)"
      unfolding x(2) by (intro bs_ok_update[OF ok x(1)]) simp
    then show ?thesis by (simp add: bs_ok_def)
  qed
  then show ?thesis
    using ok by (auto simp: sendTimesyncRequest_def Let_def intro!: sendToGateway_snd_ok
        split: sum.splits option.splits prod.splits)
qed

lemma then_timesync_ok:
  assumes "bs_ok K (snd r)" "fst r = None"
  shows "fst (then_timesync E g rmd r) = None \<and> bs_ok K (snd (then_timesync E g rmd r))"
  using assms by (cases r) (auto simp: then_timesync_def timesync_ok)

lemma uplink_then_timesync_ok:
  assumes "bs_ok K s" "built frame"
  shows "fst (then_timesync E g rmd (bs_uplink E g frame s)) = None
    \<and> bs_ok K (snd (then_timesync E g rmd (bs_uplink E g frame s)))"
proof -
  obtain t where "bs_uplink E g frame s = (None, t)" using bs_uplink_none[OF assms(2)] by blast
  with bs_uplink_ok[OF assms(1)] show ?thesis using then_timesync_ok by fastforce
qed

lemma raw_event_ok: "bs_ok K s \<Longrightarrow> bs_ok K (handleRawPacketForwarderEvent E g pl s)"
  by (auto simp: handleRawPacketForwarderEvent_def Let_def bs_ok_event split: option.split)

text \<open>Whatever a gateway sends is handled without a panic.\<close>

lemma bs_receive_ok:
  assumes "bs_ok K s"
  shows "fst (bs_receive K E g mt msg s) = None \<and> bs_ok K (snd (bs_receive K E g mt msg s))"
proof -
  have transmitted: "fst (handleDownlinkTransmittedMessage K E g v s) = None
      \<and> bs_ok K (snd (handleDownlinkTransmittedMessage K E g v s))" for v
    using transmitted_ok[OF assms] by (metis prod.collapse)
  note keep = uplink_then_timesync_ok[OF assms] built_frames raw_event_ok[OF assms] transmitted
  show ?thesis
  proof (cases "mt = BinaryMessage")
    case False
    show ?thesis
    proof (cases "GetMessageType (be_msgtype E) msg")
      case (Inr ty)
      then show ?thesis using False assms keep
        by (cases ty) (auto simp: bs_receive_def handleUplinkDataFrame_def handleJoinRequest_def
            handleProprietaryDataFrame_def handleVersion_def handleTimeSync_def
            intro!: sendToGateway_snd_ok split: option.split)
    qed (use assms False in \<open>simp add: bs_receive_def\<close>)
  qed (use keep in \<open>simp add: bs_receive_def\<close>)
qed

lemma stats_tick_ok: "bs_ok K s \<Longrightarrow> bs_ok K (bs_stats_tick E g s)"
proof -
  assume ok: "bs_ok K s"
  show ?thesis
  proof (cases "be_uuid E (bst_draws s)")
    case (Some i)
    show ?thesis
    proof (cases "bs_get (bst_gateways s) g")
      case (Inr conn)
      let ?c = "snd (ExportStats (be_proto_unmarshal E) (bc_stats conn))"
      have "bs_ok K (s\<lparr>bst_gateways := AList.update g (conn\<lparr>bc_stats := ?c\<rparr>) (bst_gateways s)\<rparr>)"
        using bs_ok_get[OF ok Inr] by (intro bs_ok_update[OF ok]) (auto simp: ExportStats_def)
      then have "bs_ok K (s\<lparr>bst_gateways := AList.update g (conn\<lparr>bc_stats := ?c\<rparr>) (bst_gateways s),
          bst_draws := bst_draws s + 1\<rparr>)" by (simp add: bs_ok_def)
      then show ?thesis using Some Inr
        by (simp add: bs_stats_tick_def case_prod_beta bs_ok_event)
    qed (use ok Some in \<open>simp add: bs_stats_tick_def\<close>)
  qed (use ok in \<open>simp add: bs_stats_tick_def\<close>)
qed

section \<open>Runs\<close>

inductive bs_step :: "'c cache_lib \<Rightarrow> bs_env \<Rightarrow> 'c bs_state \<Rightarrow> 'c bs_state \<Rightarrow> bool" for K E where
  bst_connect: "bs_connect E path cn conn s = (r, t) \<Longrightarrow> bs_step K E s t"
| bst_disconnect: "bs_step K E s (bs_disconnect g s)"
| bst_receive: "bs_receive K E g mt msg s = (e, t) \<Longrightarrow> bs_step K E s t"
| bst_stats: "bs_step K E s (bs_stats_tick E g s)"
| bst_downlink: "bs_SendDownlinkFrame K E df s = (e, t) \<Longrightarrow> bs_step K E s t"
| bst_command: "bs_RawPacketForwarderCommand E pl s = (e, t) \<Longrightarrow> bs_step K E s t"
| bst_expire: "cache_expired K (bst_diidCache s) c \<Longrightarrow> bs_step K E s (s\<lparr>bst_diidCache := c\<rparr>)"
| bst_stop: "bs_step K E s (bs_Stop s)"

text \<open>A backend that has been built, with the callbacks of the forwarder and an empty cache.\<close>

definition bs_init :: "'c cache_lib \<Rightarrow> 'c bs_state \<Rightarrow> bool" where
  "bs_init K s \<longleftrightarrow> cache_laws K \<and> (\<exists>srt GC W ns js rg lo hi confs ts c b s0.
     bs_NewBackend srt GC W ns js rg lo hi confs ts c = Inr (s0, b)
     \<and> (\<forall>k. cache_get K c k = None) \<and> s = bs_SetFuncs s0)"

definition bs_inv :: "'c cache_lib \<Rightarrow> 'c bs_state \<Rightarrow> bool" where
  "bs_inv K s \<longleftrightarrow> cache_laws K \<and> bs_ok K s"

lemma bs_init_inv: "bs_init K s \<Longrightarrow> bs_inv K s"
  by (auto simp: bs_init_def bs_inv_def bs_NewBackend_def bind_res_Inr_iff bs_SetFuncs_def bs_ok_def
      conns_ok_def diid_ok_def split: option.splits)

lemma bs_step_inv:
  assumes "bs_inv K s" "bs_step K E s t"
  shows "bs_inv K t"
proof -
  have laws: "cache_laws K" and ok: "bs_ok K s" using assms(1) by (simp_all add: bs_inv_def)
  from assms(2) have "bs_ok K t"
  proof cases
    case (bst_receive g mt msg e)
    then show ?thesis using bs_receive_ok[OF ok] by (metis snd_conv)
  next
    case (bst_expire c)
    then show ?thesis using ok by (fastforce simp: bs_ok_def diid_ok_def cache_expired_def)
  next
    case bst_stop
    then show ?thesis using ok by (simp add: bs_Stop_def)
  qed (use ok laws stats_tick_ok in \<open>auto intro: inv_intros\<close>)
  with laws show ?thesis by (simp add: bs_inv_def)
qed

interpretation basic_station: inductive_invariant "bs_init K" "bs_step K E" "bs_inv K" for K E
  by unfold_locales (auto intro: bs_init_inv bs_step_inv)

end
