(* ===== verification/BackendEvents.thy ===== *)
theory BackendEvents
  imports Forwarder SemtechInv BasicStationInv "HOL-Library.Sublist"
begin

text \<open>
  No operation and no step of a backend takes back an event it has handed out: the events of
  the new state begin with those of the old one.
\<close>

section \<open>Backends only add events\<close>

lemma us_event_grows [simp]: "prefix (us_events s) (us_events (us_event h e s))"
  by (simp add: us_event_def)

lemma udp_send_events [simp]: "us_events (snd (udp_send p s)) = us_events s"
  by (simp add: udp_send_def)

lemma sendDownlinkFrame_events [simp]: "us_events (snd (sendDownlinkFrame K E f i acks s)) = us_events s"
  by (simp add: sendDownlinkFrame_def Let_def split: sum.split)

lemma SendDownlinkFrame_events [simp]: "us_events (snd (SendDownlinkFrame K E f s)) = us_events s"
  by (simp add: SendDownlinkFrame_def Let_def split: option.split)

lemma count_in_events [simp]: "us_events (snd (count_in g f s)) = us_events s"
  by (simp add: count_in_def Let_def split: sum.split)

lemma counted_event_grows:
  "prefix (us_events s) (us_events (us_event h e (snd (count_in g f s))))"
  using us_event_grows[of "snd (count_in g f s)" h e] by simp

lemma tx_ack_grows:
  "prefix (us_events s) (us_events (snd (tx_ack_failed K E mac err f i acks s)))"
  "prefix (us_events s) (us_events (snd (tx_ack_ok E mac f i acks s)))"
  by (simp_all add: tx_ack_failed_def tx_ack_ok_def Let_def case_prod_beta counted_event_grows
      split: option.split)

lemma handleTXACK_grows: "prefix (us_events s) (us_events (snd (handleTXACK K E up s)))"
  by (simp add: handleTXACK_def tx_ack_grows case_prod_beta split: sum.split option.split)

lemma handlePullData_grows: "prefix (us_events s) (us_events (snd (handlePullData E up s)))"
  by (simp add: handlePullData_def Let_def case_prod_beta split: sum.split)

lemma handleStats_grows: "prefix (us_events s) (us_events (handleStats E g st s))"
  by (simp add: handleStats_def Let_def case_prod_beta us_event_def split: sum.split)

lemma handleUplinkFrames_grows: "prefix (us_events s) (us_events (snd (handleUplinkFrames E fs s)))"
proof (induction fs arbitrary: s)
  case (Cons f fs)
  define r where "r = count_in (frame_gateway f) (CountUplink (ue_proto_marshal E) f) s"
  have "us_events (snd r) = us_events s" by (simp add: r_def)
  then show ?case
    using Cons.IH[of "snd r"] Cons.IH[of "us_event (us_uplinkFunc (snd r)) (EvUplink f) (snd r)"]
      us_event_grows[of "snd r" "us_uplinkFunc (snd r)" "EvUplink f"]
    by (auto simp: case_prod_beta r_def[symmetric] split: option.split intro: prefix_order.trans)
qed simp

lemma handlePushData_grows: "prefix (us_events s) (us_events (snd (handlePushData E up s)))"
proof -
  have stats: "prefix (us_events t) (us_events (snd (push_stats E up p t)))" for p t
    using handleStats_grows[of "t\<lparr>us_draws := us_draws t + 1\<rparr>"]
    by (simp add: push_stats_def split: sum.split option.split)
  have frames: "prefix (us_events t) (us_events (snd (push_frames E p t)))" for p t
    using handleUplinkFrames_grows[of "t\<lparr>us_draws := n\<rparr>" for n]
    by (simp add: push_frames_def split: sum.split)
  show ?thesis
  proof (cases "PushDataPacket_UnmarshalBinary (ue_push_unmarshal E) (pkt_data up)")
    case (Inr p)
    define r where "r = udp_send \<lparr>pkt_addr = pkt_addr up, pkt_data = PushACKPacket_MarshalBinary
      \<lparr>pa_ProtocolVersion = pu_ProtocolVersion p, pa_RandomToken = pu_RandomToken p\<rparr>\<rparr> s"
    have r: "us_events (snd r) = us_events s" by (simp add: r_def)
    show ?thesis
      using r stats[of "snd r" p] frames[of "snd (push_stats E up p (snd r))" p] Inr
      by (auto simp: handlePushData_def Let_def case_prod_beta r_def[symmetric] split: option.split
          intro: prefix_order.trans)
  qed (simp add: handlePushData_def)
qed

lemma handlePacket_grows: "prefix (us_events s) (us_events (snd (handlePacket K E up s)))"
  by (simp add: handlePacket_def handleTXACK_grows handlePullData_grows handlePushData_grows
      split: sum.split)

lemma udp_step_grows: "udp_step K E s t \<Longrightarrow> prefix (us_events s) (us_events t)"
proof (induction rule: udp_step.induct)
  case (step_packet s up e t)
  then show ?case using handlePacket_grows[of s K E up] by simp
next
  case (step_send s f e t)
  then show ?case using SendDownlinkFrame_events[of K E f s] by simp
qed (auto simp: cleanup_run_def case_prod_beta SetFuncs_def Stop_def Let_def split: option.splits)

lemma bst_event_grows [simp]: "prefix (bst_events s) (bst_events (bst_event h e s))"
  by (simp add: bst_event_def)

lemma to_gateway_events [simp]:
  "bst_events (snd (sendToGateway E g v s)) = bst_events s"
  "bst_events (snd (sendRawToGateway E g mt d s)) = bst_events s"
  by (simp_all add: sendToGateway_def sendRawToGateway_def Let_def split: sum.split option.split)

lemma bs_commands_events [simp]:
  "bst_events (snd (bs_SendDownlinkFrame K E df s)) = bst_events s"
  "bst_events (snd (bs_RawPacketForwarderCommand E pl s)) = bst_events s"
  by (simp_all add: bs_SendDownlinkFrame_def bs_send_frame_def bs_RawPacketForwarderCommand_def Let_def
      case_prod_beta split: sum.split option.split)

lemma bs_count_events [simp]: "bst_events (snd (bs_count E g f s)) = bst_events s"
  by (simp add: bs_count_def split: sum.split)

lemma bs_uplink_grows: "prefix (bst_events s) (bst_events (snd (bs_uplink E g r s)))"
proof -
  have "prefix (bst_events s) (bst_events (bst_event h e (snd (bs_count E g f (s\<lparr>bst_draws := n\<rparr>)))))"
    for h e f n
    using bst_event_grows[of "snd (bs_count E g f (s\<lparr>bst_draws := n\<rparr>))" h e] by simp
  then show ?thesis
    by (simp add: bs_uplink_def Let_def case_prod_beta split: sum.split option.split)
qed

lemma bs_txed_grows:
  "prefix (bst_events s) (bst_events (snd (handleDownlinkTransmittedMessage K E g v s)))"
proof -
  have "prefix (bst_events s) (bst_events (bst_event h e (snd (bs_count E g f s))))" for h e f
    using bst_event_grows[of "snd (bs_count E g f s)" h e] by simp
  then show ?thesis
    by (simp add: handleDownlinkTransmittedMessage_def Let_def case_prod_beta
        split: option.split cache_val.split)
qed

lemma bs_raw_grows: "prefix (bst_events s) (bst_events (handleRawPacketForwarderEvent E g pl s))"
  by (simp add: handleRawPacketForwarderEvent_def Let_def bst_event_def split: option.split)

lemma bs_sync_events [simp]:
  "bst_events (handleTimeSync E g v s) = bst_events s" "bst_events (handleVersion E g s) = bst_events s"
  "bst_events (sendTimesyncRequest E g u s) = bst_events s"
  by (simp_all add: handleTimeSync_def handleVersion_def sendTimesyncRequest_def Let_def case_prod_beta
      split: sum.split option.split)

lemma then_timesync_grows:
  "prefix (bst_events s) (bst_events (snd r)) \<Longrightarrow> prefix (bst_events s) (bst_events (snd (then_timesync E g m r)))"
  by (simp add: then_timesync_def case_prod_beta split: option.split)

lemma bs_receive_grows: "prefix (bst_events s) (bst_events (snd (bs_receive K E g mt msg s)))"
  by (simp add: bs_receive_def then_timesync_grows bs_uplink_grows bs_txed_grows bs_raw_grows
      handleUplinkDataFrame_def handleJoinRequest_def handleProprietaryDataFrame_def
      split: sum.split option.split MessageType.split)

lemma bs_step_grows: "bs_step K E s t \<Longrightarrow> prefix (bst_events s) (bst_events t)"
proof (induction rule: bs_step.induct)
  case (bst_connect path cn conn s r t)
  then show ?case
    by (auto simp: bs_connect_def Let_def case_prod_beta split: option.splits if_splits sum.splits)
next
  case (bst_receive g mt msg s e t)
  then show ?case using bs_receive_grows[of s K E g mt msg] by simp
next
  case (bst_downlink df s e t)
  then show ?case using bs_commands_events(1)[of K E df s] by simp
next
  case (bst_command pl s e t)
  then show ?case using bs_commands_events(2)[of E pl s] by simp
qed (simp_all add: bs_disconnect_def bs_stats_tick_def bs_Stop_def case_prod_beta bst_event_def
    split: option.split sum.split)

lemma cd_request_events [simp]: "cd_events (snd (commandRequest E c v s)) = cd_events s"
  by (simp add: commandRequest_def dialCommandSock_def Let_def split: option.split)

lemma cd_emit_grows [simp]: "prefix (cd_events s) (cd_events (cd_emit h e s))"
  by (simp add: cd_emit_def)

lemma cd_commands_grow:
  "prefix (cd_events s) (cd_events (snd (cd_SendDownlinkFrame E pl s)))"
  "cd_events (snd (cd_ApplyConfiguration E c s)) = cd_events s"
proof -
  have "prefix (cd_events s) (cd_events (cd_emit h e (snd (commandRequest E c v s))))" for h e c v
    using cd_emit_grows[of "snd (commandRequest E c v s)" h e] by simp
  then show "prefix (cd_events s) (cd_events (snd (cd_SendDownlinkFrame E pl s)))"
    by (simp add: cd_SendDownlinkFrame_def case_prod_beta split: sum.split option.split)
  show "cd_events (snd (cd_ApplyConfiguration E c s)) = cd_events s"
    by (simp add: cd_ApplyConfiguration_def Let_def case_prod_beta split: sum.split)
qed

text \<open>The dial loops leave the events alone, if they end.\<close>

lemma dialEventSockLoop_events: "dialEventSockLoop E s = Some t \<Longrightarrow> cd_events t = cd_events s"
  by (rule dialEventSockLoop.raw_induct[where P = "\<lambda>E s t. cd_events t = cd_events s"])
    (auto simp: dialEventSock_def Let_def split: if_splits)

lemma dialCommandSockLoop_events: "dialCommandSockLoop E s = Some t \<Longrightarrow> cd_events t = cd_events s"
  by (rule dialCommandSockLoop.raw_induct[where P = "\<lambda>E s t. cd_events t = cd_events s"])
    (auto simp: dialCommandSock_def Let_def split: if_splits)

inductive cd_step :: "cd_env \<Rightarrow> cd_state \<Rightarrow> cd_state \<Rightarrow> bool" for E where
  cd_start: "cd_Start E s = Some (r, t) \<Longrightarrow> cd_step E s t"
| cd_round: "event_round E s = Some t \<Longrightarrow> cd_step E s t"
| cd_stop: "cd_step E s (cd_Stop s)"

lemma event_round_grows:
  assumes "event_round E s = Some t"
  shows "prefix (cd_events s) (cd_events t)"
proof -
  have msg: "prefix (cd_events s) (cd_events (snd (cd_handleUplinkFrame E m (s\<lparr>cd_draws := n\<rparr>))))"
    "prefix (cd_events s) (cd_events (snd (cd_handleGatewayStats E m (s\<lparr>cd_draws := n\<rparr>))))" for m n
    using cd_emit_grows[of "s\<lparr>cd_draws := n\<rparr>"]
    by (simp_all add: cd_handleUplinkFrame_def cd_handleGatewayStats_def split: option.split)
  have "cd_recover E u = Some t \<Longrightarrow> cd_events t = cd_events u" for u
    by (auto simp: cd_recover_def split: option.splits)
      (metis dialEventSockLoop_events dialCommandSockLoop_events)
  then show ?thesis
    using assms msg unfolding event_round_def Let_def
    by (fastforce split: option.splits list.splits if_splits)
qed

lemma cd_step_grows: "cd_step E s t \<Longrightarrow> prefix (cd_events s) (cd_events t)"
proof (induction rule: cd_step.induct)
  case (cd_start s r t)
  then obtain s1 s2 where s: "dialEventSockLoop E s = Some s1" "dialCommandSockLoop E s1 = Some s2"
    by (auto simp: cd_Start_def split: option.splits)
  have "cd_events s2 = cd_events s"
    using dialEventSockLoop_events[OF s(1)] dialCommandSockLoop_events[OF s(2)] by simp
  moreover have "cd_events (snd (getGatewayID E s2)) = cd_events s2"
    using cd_request_events[of E "''gateway_id''" None s2]
    by (simp add: getGatewayID_def case_prod_beta split: sum.split)
  ultimately show ?case using cd_start s
    by (auto simp: cd_Start_def cd_emit_def split: prod.splits sum.splits if_splits)
qed (simp_all add: event_round_grows cd_Stop_def)

end
