(* ===== verification/MqttProps.thy ===== *)
theory MqttProps
  imports Mqtt Registry
begin

text \<open>
  The subscriptions of the MQTT integration: what one round of the loop does when the broker
  is reachable, that the loop settles on exactly the wanted gateways, and the case in which
  it never does.
\<close>

section \<open>Effect of the operations\<close>

text \<open>Publishing changes nothing but the messages at the broker.\<close>

definition only_published :: "mq_state \<Rightarrow> mq_state \<Rightarrow> bool" where
  "only_published s t \<longleftrightarrow> t\<lparr>mq_published := [], mq_requests := 0\<rparr>
     = s\<lparr>mq_published := [], mq_requests := 0\<rparr> \<and> mq_requests s \<le> mq_requests t"

lemma only_published_refl [simp]: "only_published s s"
  by (simp add: only_published_def)

lemma mq_publish_only: "only_published s (snd (mq_publish E topic r b s))"
  by (simp add: only_published_def mq_publish_def mq_request_def Let_def)

lemma PublishState_only: "only_published s (snd (PublishState E g st v s))"
  by (simp add: PublishState_def mq_publish_only split: option.split sum.split)

lemma PublishEvent_only: "only_published s (snd (PublishEvent E g ev i v s))"
  by (simp add: PublishEvent_def publishEvent_def mq_publish_only split: option.split sum.split)

lemma only_publishedD:
  assumes "only_published s t"
  shows "mq_gateways t = mq_gateways s" "mq_subscribed t = mq_subscribed s"
    "mq_broker t = mq_broker s" "mq_conn t = mq_conn s" "mq_connClosed t = mq_connClosed s"
    "mq_commandTopic t = mq_commandTopic s" "mq_stateTopic t = mq_stateTopic s"
    "mq_marshaler t = mq_marshaler s" "mq_auth t = mq_auth s"
    "mq_requests s \<le> mq_requests t"
  using assms by (cases s, cases t, simp add: only_published_def)+

section \<open>A broker that answers\<close>

text \<open>From the n-th request on everything reaches the broker and is confirmed in time.\<close>

definition reliable :: "mq_env \<Rightarrow> nat \<Rightarrow> bool" where
  "reliable E n \<longleftrightarrow> (\<forall>k \<ge> n. me_reaches E k \<and> me_IsConnected E k
     \<and> (\<forall>d. tk_WaitTimeout (me_token E k) d) \<and> tk_Error (me_token E k) = None)"

text \<open>\<open>ct\<close> is the command topic of a gateway; states can be published.\<close>

definition working :: "mq_env \<Rightarrow> (EUI64 \<Rightarrow> string) \<Rightarrow> mq_state \<Rightarrow> bool" where
  "working E ct s \<longleftrightarrow> mq_conn s \<and> \<not> mq_connClosed s \<and> reliable E (mq_requests s)
     \<and> (\<forall>g. mq_commandTopic s (command_fields E g) = Inr (ct g))
     \<and> (\<forall>m. pm_marshal (mq_marshaler s) m \<noteq> None)
     \<and> (\<forall>t g. mq_stateTopic s = Some t \<longrightarrow> (\<exists>topic. t (state_fields E g ''conn'') = Inr topic))"

lemma reliable_mono: "reliable E n \<Longrightarrow> n \<le> m \<Longrightarrow> reliable E m"
  by (simp add: reliable_def)

lemma working_only: "working E ct s \<Longrightarrow> only_published s t \<Longrightarrow> working E ct t"
  using only_publishedD[of s t] by (auto simp: working_def intro: reliable_mono)

lemma working_update [simp]:
  "working E ct (s\<lparr>mq_subscribed := xs\<rparr>) = working E ct s"
  "working E ct (s\<lparr>mq_broker := b\<rparr>) = working E ct s"
  "working E ct (s\<lparr>mq_gateways := gs\<rparr>) = working E ct s"
  by (simp_all add: working_def)

lemma PublishState_working:
  assumes "working E ct s"
  shows "fst (PublishState E g ''conn'' v s) = None"
proof (cases "mq_stateTopic s")
  case (Some t)
  then obtain topic where "t (state_fields E g ''conn'') = Inr topic"
    using assms unfolding working_def by blast
  moreover have "pm_marshal (mq_marshaler s) v \<noteq> None"
    using assms unfolding working_def by blast
  then obtain b where "pm_marshal (mq_marshaler s) v = Some b" by blast
  ultimately show ?thesis using assms Some
    by (simp add: PublishState_def mq_publish_def mq_request_def Let_def working_def reliable_def
        tokenWrapper_def)
qed (simp add: PublishState_def)

lemma requests_working:
  assumes "working E ct s"
  shows "fst (mq_request E f s) = None"
    "snd (mq_request E f s) = f (s\<lparr>mq_requests := mq_requests s + 1\<rparr>)"
  using assms by (simp_all add: mq_request_def Let_def working_def reliable_def tokenWrapper_def)

section \<open>One gateway\<close>

text \<open>The state after a change of subscriptions, but for what was published.\<close>

definition settles :: "mq_state \<Rightarrow> string set \<Rightarrow> EUI64 list \<Rightarrow> mq_state \<Rightarrow> bool" where
  "settles s b xs t \<longleftrightarrow> mq_broker t = b \<and> mq_subscribed t = xs \<and> mq_requests s \<le> mq_requests t
     \<and> t\<lparr>mq_broker := {}, mq_subscribed := [], mq_published := [], mq_requests := 0\<rparr>
       = s\<lparr>mq_broker := {}, mq_subscribed := [], mq_published := [], mq_requests := 0\<rparr>"

lemma settlesD:
  assumes "settles s b xs t"
  shows "mq_broker t = b" "mq_subscribed t = xs" "mq_gateways t = mq_gateways s"
    "mq_connClosed t = mq_connClosed s" "mq_auth t = mq_auth s" "mq_conn t = mq_conn s"
    "mq_commandTopic t = mq_commandTopic s" "mq_stateTopic t = mq_stateTopic s"
    "mq_marshaler t = mq_marshaler s" "mq_requests s \<le> mq_requests t"
  using assms by (cases s, cases t, simp add: settles_def)+

lemma settles_working: "settles s b xs t \<Longrightarrow> working E ct s \<Longrightarrow> working E ct t"
  using settlesD[of s b xs t] by (auto simp: working_def intro: reliable_mono)

lemma settles_refl: "settles s (mq_broker s) (mq_subscribed s) s"
  by (simp add: settles_def)

lemma settles_trans: "settles s b xs t \<Longrightarrow> settles t b' xs' u \<Longrightarrow> settles s b' xs' u"
  by (simp add: settles_def)

lemma only_published_settles:
  "only_published (s\<lparr>mq_broker := b, mq_requests := Suc (mq_requests s)\<rparr>) t
    \<Longrightarrow> settles s b xs (t\<lparr>mq_subscribed := xs\<rparr>)"
  by (cases s, cases t, simp add: settles_def only_published_def)

lemma subscribe_one_working:
  assumes w: "working E ct s"
  shows "settles s (insert (ct g) (mq_broker s)) (List.insert g (mq_subscribed s)) (subscribe_one E g s)"
proof -
  define s1 where "s1 = s\<lparr>mq_broker := insert (ct g) (mq_broker s), mq_requests := Suc (mq_requests s)\<rparr>"
  have sub: "subscribeGateway E g s = (None, s1)"
    using requests_working[OF w] w
    by (simp add: subscribeGateway_def working_def s1_def case_prod_beta split: option.split)
  have w1: "working E ct s1"
    using w by (auto simp: working_def s1_def intro: reliable_mono)
  obtain s2 where p: "PublishState E g ''conn'' (conn_msg g ONLINE) s1 = (None, s2)"
    using PublishState_working[OF w1] by (metis prod.collapse)
  have o: "only_published s1 s2"
    using PublishState_only[of s1 E g "''conn''" "conn_msg g ONLINE"] p by simp
  show ?thesis
    using only_published_settles[OF o[unfolded s1_def]] only_publishedD(2)[OF o] sub p
    by (simp add: subscribe_one_def s1_def)
qed

lemma unsubscribe_one_working:
  assumes w: "working E ct s"
  shows "settles s (mq_broker s - {ct g}) (removeAll g (mq_subscribed s)) (unsubscribe_one E g s)"
proof -
  define s1 where "s1 = s\<lparr>mq_broker := mq_broker s - {ct g}, mq_requests := Suc (mq_requests s)\<rparr>"
  have sub: "unsubscribeGateway E g s = (None, s1)"
    using requests_working[OF w] w
    by (simp add: unsubscribeGateway_def working_def s1_def case_prod_beta split: option.split)
  have w1: "working E ct s1"
    using w by (auto simp: working_def s1_def intro: reliable_mono)
  obtain s2 where p: "PublishState E g ''conn'' (conn_msg g OFFLINE) s1 = (None, s2)"
    using PublishState_working[OF w1] by (metis prod.collapse)
  have o: "only_published s1 s2"
    using PublishState_only[of s1 E g "''conn''" "conn_msg g OFFLINE"] p by simp
  show ?thesis
    using only_published_settles[OF o[unfolded s1_def]] only_publishedD(2)[OF o] sub p
    by (simp add: unsubscribe_one_def s1_def)
qed

section \<open>One round\<close>

lemma subscribe_all_working:
  "working E ct s \<Longrightarrow> settles s (mq_broker s \<union> ct ` set gs) (fold List.insert gs (mq_subscribed s))
     (fold (subscribe_one E) gs s)"
proof (induction gs arbitrary: s)
  case (Cons g gs)
  note one = subscribe_one_working[OF Cons.prems, of g]
  show ?case
    using settles_trans[OF one Cons.IH[OF settles_working[OF one Cons.prems]]] settlesD(1,2)[OF one]
    by simp
qed (simp add: settles_refl)

lemma unsubscribe_all_working:
  "working E ct s \<Longrightarrow> settles s (mq_broker s - ct ` set gs) (fold removeAll gs (mq_subscribed s))
     (fold (unsubscribe_one E) gs s)"
proof (induction gs arbitrary: s)
  case (Cons g gs)
  note one = unsubscribe_one_working[OF Cons.prems, of g]
  have "mq_broker s - insert (ct g) (ct ` set gs) = mq_broker s - {ct g} - ct ` set gs" by auto
  then show ?case
    using settles_trans[OF one Cons.IH[OF settles_working[OF one Cons.prems]]] settlesD(1,2)[OF one]
    by simp
qed (simp add: settles_refl)

lemma set_fold_insert [simp]: "set (fold List.insert gs xs) = set gs \<union> set xs"
  by (induction gs arbitrary: xs) auto

lemma set_fold_removeAll [simp]: "set (fold removeAll gs xs) = set xs - set gs"
  by (induction gs arbitrary: xs) auto

lemma set_range [simp]: "ranges E \<Longrightarrow> set (me_range E n xs) = set xs"
  unfolding ranges_def by (metis set_mset_mset)

lemma ranges_small:
  assumes "ranges E"
  shows "me_range E n [] = []" "me_range E n [g] = [g]"
proof -
  have "mset (me_range E n xs) = mset xs" for xs using assms by (simp add: ranges_def)
  from this[of "[]"] this[of "[g]"] show "me_range E n [] = []" "me_range E n [g] = [g]"
    by simp_all
qed

text \<open>The gateways the code counts as subscribed are those the broker has.\<close>

definition in_sync :: "(EUI64 \<Rightarrow> string) \<Rightarrow> mq_state \<Rightarrow> bool" where
  "in_sync ct s \<longleftrightarrow> mq_broker s = ct ` set (mq_subscribed s)"

lemma subscribe_pass_working:
  assumes "working E ct s" "ranges E"
  obtains xs where "set xs = set (mq_gateways s)"
    "settles s ((mq_broker s \<union> ct ` (set (mq_gateways s) - set (mq_subscribed s)))
       - ct ` (set (mq_subscribed s) - set (mq_gateways s))) xs (subscribe_pass E s)"
proof
  let ?ns = "to_subscribe E s" and ?os = "to_unsubscribe E s"
  let ?xs = "fold removeAll ?os (fold List.insert ?ns (mq_subscribed s))"
  note up = subscribe_all_working[OF assms(1), of ?ns]
  note down = unsubscribe_all_working[OF settles_working[OF up assms(1)], of ?os]
  have sets: "set ?ns = set (mq_gateways s) - set (mq_subscribed s)"
    "set ?os = set (mq_subscribed s) - set (mq_gateways s)"
    using assms(2) by (auto simp: to_subscribe_def to_unsubscribe_def)
  show "set ?xs = set (mq_gateways s)" using sets by auto
  have "subscribe_pass E s = fold (unsubscribe_one E) ?os (fold (subscribe_one E) ?ns s)"
    using assms(1) by (simp add: subscribe_pass_def working_def reliable_def)
  then show "settles s ((mq_broker s \<union> ct ` (set (mq_gateways s) - set (mq_subscribed s)))
      - ct ` (set (mq_subscribed s) - set (mq_gateways s))) ?xs (subscribe_pass E s)"
    using settles_trans[OF up down] settlesD(1,2)[OF up] sets by simp
qed

lemma subscribe_pass_sync:
  assumes "working E ct s" "ranges E" "inj ct" "in_sync ct s"
  shows "set (mq_subscribed (subscribe_pass E s)) = set (mq_gateways s)"
    "in_sync ct (subscribe_pass E s)" "working E ct (subscribe_pass E s)"
    "mq_gateways (subscribe_pass E s) = mq_gateways s" "mq_auth (subscribe_pass E s) = mq_auth s"
proof -
  obtain xs where xs: "set xs = set (mq_gateways s)"
    and *: "settles s ((mq_broker s \<union> ct ` (set (mq_gateways s) - set (mq_subscribed s)))
       - ct ` (set (mq_subscribed s) - set (mq_gateways s))) xs (subscribe_pass E s)"
    using subscribe_pass_working[OF assms(1,2)] .
  show "set (mq_subscribed (subscribe_pass E s)) = set (mq_gateways s)"
    "working E ct (subscribe_pass E s)" "mq_gateways (subscribe_pass E s) = mq_gateways s"
    "mq_auth (subscribe_pass E s) = mq_auth s"
    using settlesD[OF *] settles_working[OF * assms(1)] xs by simp_all
  have "(ct ` set (mq_subscribed s) \<union> ct ` (set (mq_gateways s) - set (mq_subscribed s)))
      - ct ` (set (mq_subscribed s) - set (mq_gateways s)) = ct ` set (mq_gateways s)"
    using assms(3) by (auto dest: injD)
  then show "in_sync ct (subscribe_pass E s)"
    using settlesD(1,2)[OF *] xs assms(4) by (simp add: in_sync_def)
qed

text \<open>A round with nothing to do makes no request.\<close>

lemma subscribe_pass_idle:
  "ranges E \<Longrightarrow> set (mq_subscribed s) = set (mq_gateways s) \<Longrightarrow> subscribe_pass E s = s"
  by (simp add: subscribe_pass_def to_subscribe_def to_unsubscribe_def cong: filter_cong)

section \<open>Runs\<close>

text \<open>
  What happens between two connects: the set of wanted gateways changes, and rounds of the
  loop. A change in the middle of a round commutes with the rest of it.
\<close>

datatype mq_op = OpSet Subscribe | OpRound

fun mq_run :: "mq_env \<Rightarrow> mq_op list \<Rightarrow> mq_state \<Rightarrow> mq_state" where
  "mq_run E [] s = s"
| "mq_run E (OpSet e # ops) s =
     mq_run E ops (snd (SetGatewaySubscription E (sub_Subscribe e) (sub_GatewayID e) s))"
| "mq_run E (OpRound # ops) s = mq_run E ops (subscribe_pass E s)"

fun op_subs :: "mq_op list \<Rightarrow> Subscribe list" where
  "op_subs [] = []"
| "op_subs (OpSet e # ops) = e # op_subs ops"
| "op_subs (OpRound # ops) = op_subs ops"

lemma set_subscription:
  assumes "auth_GetGatewayID (me_auth E) (mq_auth s) = None"
  shows "set (mq_gateways (snd (SetGatewaySubscription E (sub_Subscribe e) (sub_GatewayID e) s)))
      = apply_event e (set (mq_gateways s))"
    "working E ct (snd (SetGatewaySubscription E b g s)) = working E ct s"
    "in_sync ct (snd (SetGatewaySubscription E b g s)) = in_sync ct s"
    "mq_auth (snd (SetGatewaySubscription E b g s)) = mq_auth s"
  using assms by (auto simp: SetGatewaySubscription_def apply_event_def in_sync_def)

lemma mq_run_sync:
  assumes "working E ct s" "ranges E" "inj ct" "in_sync ct s"
    and "auth_GetGatewayID (me_auth E) (mq_auth s) = None"
  shows "working E ct (mq_run E ops s) \<and> in_sync ct (mq_run E ops s)
    \<and> set (mq_gateways (mq_run E ops s)) = replay (op_subs ops) (set (mq_gateways s))"
  using assms(1,4,5)
proof (induction ops arbitrary: s)
  case (Cons op ops)
  note IH = Cons.IH and prems = Cons.prems
  show ?case
  proof (cases op)
    case (OpSet e)
    then show ?thesis
      using IH[of "snd (SetGatewaySubscription E (sub_Subscribe e) (sub_GatewayID e) s)"] prems
        set_subscription[OF prems(3)] by simp
  next
    case OpRound
    then show ?thesis
      using IH[of "subscribe_pass E s"] prems
        subscribe_pass_sync[OF prems(1) assms(2,3) prems(2)] by simp
  qed
qed simp

text \<open>A round does not look at the wanted gateways again once its lists are made.\<close>

abbreviation with_gateways :: "EUI64 list \<Rightarrow> mq_state \<Rightarrow> mq_state" where
  "with_gateways gs s \<equiv> s\<lparr>mq_gateways := gs\<rparr>"

lemma publish_commutes:
  "PublishState E g st v (with_gateways gs s) = apsnd (with_gateways gs) (PublishState E g st v s)"
  by (simp add: PublishState_def mq_publish_def mq_request_def Let_def split: option.split sum.split)

lemma request_commutes:
  "subscribeGateway E g (with_gateways gs s) = apsnd (with_gateways gs) (subscribeGateway E g s)"
  "unsubscribeGateway E g (with_gateways gs s) = apsnd (with_gateways gs) (unsubscribeGateway E g s)"
  by (simp_all add: subscribeGateway_def unsubscribeGateway_def mq_request_def Let_def
      split: option.split sum.split)

lemma gateways_update_commutes:
  "subscribe_one E g (with_gateways gs s) = with_gateways gs (subscribe_one E g s)"
  "unsubscribe_one E g (with_gateways gs s) = with_gateways gs (unsubscribe_one E g s)"
  by (simp_all add: subscribe_one_def unsubscribe_one_def publish_commutes request_commutes
      case_prod_beta split: option.split)

section \<open>Connecting\<close>

lemma connect_generic:
  assumes "mq_auth s = GenericAuth a"
  shows "fst (mq_connect E s) = tokenWrapper (me_token E (mq_requests s)) (mq_maxTokenWait s)"
    "mq_requests (snd (mq_connect E s)) = mq_requests s + 1"
    "mq_auth (snd (mq_connect E s)) = mq_auth s"
    "mq_maxTokenWait (snd (mq_connect E s)) = mq_maxTokenWait s"
    "mq_terminateOnConnectError (snd (mq_connect E s)) = mq_terminateOnConnectError s"
    "mq_conn (snd (mq_connect E s))"
  using assms by (simp_all add: mq_connect_def mq_request_def Let_def session_end_def)

section \<open>An example\<close>

definition demo_token :: token where
  "demo_token = \<lparr>tk_WaitTimeout = (\<lambda>_. True), tk_Error = None\<rparr>"

definition demo_marshaler :: marshaler where
  "demo_marshaler = \<lparr>pm_marshal = (\<lambda>_. Some [1]), pm_DownlinkFrame = (\<lambda>_. None),
     pm_GatewayConfiguration = (\<lambda>_. None), pm_ExecRequest = (\<lambda>_. None), pm_RawCommand = (\<lambda>_. None)\<rparr>"

definition demo_mq_env :: mq_env where
  "demo_mq_env = \<lparr>me_auth = demo_auth_env, me_NewClientOptions = demo_opts,
     me_template = (\<lambda>_. Inl (LibErr ''text/template'')), me_jsonpb = demo_marshaler,
     me_protobuf = demo_marshaler, me_token = (\<lambda>_. demo_token), me_reaches = (\<lambda>_. True),
     me_IsConnected = (\<lambda>_. True), me_range = (\<lambda>_ xs. xs), me_eui_string = hex_encode\<rparr>"

definition command_pieces :: "tmpl_piece list" where
  "command_pieces = [TText ''gateway/'', TField ''GatewayID'', TText ''/command/#'']"

definition state_pieces :: "tmpl_piece list" where
  "state_pieces = [TText ''gateway/'', TField ''GatewayID'', TText ''/state/'', TField ''StateType'', TText []]"

definition event_pieces :: "tmpl_piece list" where
  "event_pieces = [TText ''gateway/'', TField ''GatewayID'', TText ''/event/'', TField ''EventType'', TText []]"

text \<open>The default topics, and the state of a backend that has connected with them.\<close>

definition demo_mq :: mq_state where
  "demo_mq = \<lparr>mq_auth = GenericAuth \<lparr>ga_servers = [], ga_username = [], ga_password = [],
       ga_cleanSession = True, ga_clientID = [], ga_tlsConfig = None\<rparr>,
     mq_conn = True, mq_connClosed = False, mq_clientOpts = demo_opts, mq_downlinkFunc = True,
     mq_configFunc = True, mq_execFunc = True, mq_rawFunc = True, mq_gateways = [],
     mq_subscribed = [], mq_terminateOnConnectError = False, mq_stateRetained = True,
     mq_maxTokenWait = 1, mq_qos = 0, mq_eventTopic = exec_pieces event_pieces,
     mq_stateTopic = Some (exec_pieces state_pieces), mq_commandTopic = exec_pieces command_pieces,
     mq_marshaler = demo_marshaler, mq_broker = {}, mq_published = [], mq_calls = [],
     mq_requests = 0\<rparr>"

definition demo_ct :: "EUI64 \<Rightarrow> string" where
  "demo_ct g = ''gateway/'' @ hex_encode g @ ''/command/#''"

lemma demo_hex: "hex_digit 0 = CHR ''0''" "hex_digit (Suc 0) = CHR ''1''" "hex_digit 2 = CHR ''2''"
  by code_simp+

lemma demo_mq_working: "working demo_mq_env demo_ct demo_mq"
  by (simp add: working_def demo_mq_def reliable_def demo_mq_env_def demo_token_def demo_ct_def
      command_pieces_def state_pieces_def command_fields_def state_fields_def demo_marshaler_def)

lemma demo_mq_facts:
  "ranges demo_mq_env" "mq_broker demo_mq = {}" "mq_gateways demo_mq = []"
  "auth_GetGatewayID (me_auth demo_mq_env) (mq_auth demo_mq) = None"
  by (simp_all add: ranges_def demo_mq_env_def demo_mq_def generic_GetGatewayID_def)

section \<open>Properties\<close>

text \<open>C36: Starting the integration ends: with the generic authentication, and connect errors not
  set to end the process, the connect loop returns connected as soon as one of its attempts
  is confirmed in time, however many failed before it.\<close>

theorem connectLoop_returns:
  assumes "mq_auth s = GenericAuth a" "\<not> mq_terminateOnConnectError s"
    and "tokenWrapper (me_token E (mq_requests s + k)) (mq_maxTokenWait s) = None"
  shows "\<exists>t. connectLoop E s = Some (None, t) \<and> mq_conn t
    \<and> mq_requests t \<le> mq_requests s + k + 1"
  using assms
proof (induction k arbitrary: s)
  case 0
  obtain t where t: "mq_connect E s = (None, t)"
    using connect_generic(1)[OF 0(1), of E] 0(3) by (metis add_0_right prod.collapse)
  then show ?case
    using connect_generic(2,6)[OF 0(1), of E] by (subst connectLoop.simps) simp
next
  case (Suc k)
  define u where "u = snd (mq_connect E s)"
  note u = connect_generic[OF Suc.prems(1), of E, folded u_def]
  obtain t where t: "connectLoop E u = Some (None, t)" "mq_conn t" "mq_requests t \<le> mq_requests u + k + 1"
    using Suc.IH[of u] Suc.prems u by auto
  show ?case
  proof (cases "fst (mq_connect E s)")
    case None
    then show ?thesis using u(2,6)
      by (subst connectLoop.simps) (simp add: case_prod_beta u_def[symmetric])
  next
    case (Some e)
    then show ?thesis using t u Suc.prems(2)
      by (subst connectLoop.simps) (simp add: case_prod_beta u_def[symmetric])
  qed
qed

definition late_env :: mq_env where
  "late_env = demo_mq_env\<lparr>me_token := (\<lambda>n. if n < 3 then \<lparr>tk_WaitTimeout = (\<lambda>_. False), tk_Error = None\<rparr>
     else demo_token)\<rparr>"

theorem connectLoop_returns_witness:
  "\<exists>t. connectLoop late_env (demo_mq\<lparr>mq_conn := False\<rparr>) = Some (None, t) \<and> mq_conn t"
  using connectLoop_returns[of "demo_mq\<lparr>mq_conn := False\<rparr>" _ late_env 3]
  by (auto simp: demo_mq_def late_env_def tokenWrapper_def demo_token_def)


text \<open>C34: After a connect that began a clean session, with a broker that answers, whatever
  subscription changes and rounds of the loop have happened since: the next round leaves the
  broker with a subscription for the command topic of exactly the wanted gateways, which are
  those the changes leave over in their order, and the round after it has nothing to do.\<close>

theorem subscriptions_converge:
  assumes "working E ct s" "ranges E" "inj ct" "mq_broker s = {}"
    and "auth_GetGatewayID (me_auth E) (mq_auth s) = None"
    and "t = subscribe_pass E (mq_run E ops (onConnected s))"
  shows "set (mq_gateways t) = replay (op_subs ops) (set (mq_gateways s))
    \<and> mq_broker t = ct ` replay (op_subs ops) (set (mq_gateways s))
    \<and> subscribe_pass E t = t"
proof -
  have "in_sync ct (onConnected s)" using assms(4) by (simp add: in_sync_def onConnected_def)
  then have run: "working E ct (mq_run E ops (onConnected s))" "in_sync ct (mq_run E ops (onConnected s))"
    "set (mq_gateways (mq_run E ops (onConnected s))) = replay (op_subs ops) (set (mq_gateways s))"
    using mq_run_sync[OF _ assms(2,3), of "onConnected s" ops] assms(1,5)
    by (simp_all add: onConnected_def)
  note pass = subscribe_pass_sync[OF run(1) assms(2,3) run(2)]
  show ?thesis
    using pass run(3) subscribe_pass_idle[OF assms(2), of t] assms(6) by (simp add: in_sync_def)
qed

theorem subscriptions_converge_witness:
  "mq_broker (subscribe_pass demo_mq_env (mq_run demo_mq_env
      [OpSet \<lparr>sub_Subscribe = True, sub_GatewayID = [1]\<rparr>, OpRound,
       OpSet \<lparr>sub_Subscribe = True, sub_GatewayID = [2]\<rparr>,
       OpSet \<lparr>sub_Subscribe = False, sub_GatewayID = [1]\<rparr>] (onConnected demo_mq)))
    = {''gateway/02/command/#''}"
proof -
  let ?ops = "[OpSet \<lparr>sub_Subscribe = True, sub_GatewayID = [1]\<rparr>, OpRound,
       OpSet \<lparr>sub_Subscribe = True, sub_GatewayID = [2]\<rparr>,
       OpSet \<lparr>sub_Subscribe = False, sub_GatewayID = [1]\<rparr>]"
  have "inj demo_ct" by (rule injI) (simp add: demo_ct_def hex_encode_inject)
  then have "mq_broker (subscribe_pass demo_mq_env (mq_run demo_mq_env ?ops (onConnected demo_mq)))
      = demo_ct ` replay (op_subs ?ops) (set (mq_gateways demo_mq))"
    using subscriptions_converge[OF demo_mq_working _ _ _ _ refl, of ?ops] demo_mq_facts by blast
  then show ?thesis by (simp add: apply_event_def demo_ct_def demo_hex demo_mq_facts insert_Diff_if)
qed

text \<open>C35: A gateway can stay unsubscribed for good. If the unsubscription of a gateway that is no
  longer wanted succeeds and the publishing of its OFFLINE state fails, the gateway is still
  counted as subscribed; when it is wanted again before the next round, no later round does
  anything about it, whatever the broker answers, until there is a new connection.\<close>

theorem lost_resubscription:
  assumes "mq_conn s" "\<not> mq_connClosed s" "me_IsConnected E (mq_requests s)" "ranges E"
    and "mq_gateways s = []" "mq_subscribed s = [g]"
    and "mq_commandTopic s (command_fields E g) = Inr topic"
    and "tokenWrapper (me_token E (mq_requests s)) (mq_maxTokenWait s) = None"
    and "me_reaches E (mq_requests s)"
    and "fst (PublishState E g ''conn'' (conn_msg g OFFLINE) (s\<lparr>mq_broker := mq_broker s - {topic},
          mq_requests := mq_requests s + 1\<rparr>)) \<noteq> None"
    and "auth_GetGatewayID (me_auth E) (mq_auth s) \<noteq> Some g"
  shows "topic \<notin> mq_broker ((subscribe_pass E ^^ k)
    (snd (SetGatewaySubscription E True g (subscribe_pass E s))))"
proof -
  define s1 where "s1 = s\<lparr>mq_broker := mq_broker s - {topic}, mq_requests := mq_requests s + 1\<rparr>"
  obtain e s2 where p: "PublishState E g ''conn'' (conn_msg g OFFLINE) s1 = (Some e, s2)"
    using assms(10) by (metis not_None_eq prod.collapse s1_def)
  have o: "only_published s1 s2"
    using PublishState_only[of s1 E g "''conn''" "conn_msg g OFFLINE"] p by simp
  have un: "unsubscribeGateway E g s = (None, s1)"
    using assms(1,7-9) by (simp add: unsubscribeGateway_def mq_request_def Let_def s1_def)
  have lists: "to_subscribe E s = []" "to_unsubscribe E s = [g]"
    using assms(5,6) ranges_small[OF assms(4)] by (simp_all add: to_subscribe_def to_unsubscribe_def)
  have pass: "subscribe_pass E s = s2"
    using assms(2,3) lists un p by (simp add: subscribe_pass_def unsubscribe_one_def)
  define t where "t = snd (SetGatewaySubscription E True g s2)"
  have t: "mq_gateways t = [g]" "mq_subscribed t = [g]" "topic \<notin> mq_broker t"
    using only_publishedD[OF o] assms(5,6,11) by (simp_all add: t_def SetGatewaySubscription_def s1_def)
  have "subscribe_pass E t = t" using t assms(4) by (simp add: subscribe_pass_idle)
  then have "(subscribe_pass E ^^ k) t = t" by (induction k) simp_all
  then show ?thesis using t(3) pass by (simp add: t_def)
qed

definition bad_env :: mq_env where
  "bad_env = demo_mq_env\<lparr>me_token := (\<lambda>n. if n = 1 then \<lparr>tk_WaitTimeout = (\<lambda>_. False), tk_Error = None\<rparr>
     else demo_token)\<rparr>"

theorem lost_resubscription_witness:
  "''gateway/01/command/#'' \<notin> mq_broker ((subscribe_pass bad_env ^^ 5)
    (snd (SetGatewaySubscription bad_env True [1] (subscribe_pass bad_env
      (demo_mq\<lparr>mq_subscribed := [[1]], mq_broker := {''gateway/01/command/#''}\<rparr>)))))"
  by (rule lost_resubscription)
    (simp_all add: bad_env_def demo_mq_env_def demo_mq_def ranges_def demo_token_def command_fields_def
      command_pieces_def demo_hex tokenWrapper_def PublishState_def state_pieces_def
      state_fields_def demo_marshaler_def mq_publish_def mq_request_def generic_GetGatewayID_def)

end
