(* ===== verification/BasicStationProps.thy ===== *)
theory BasicStationProps
  imports BasicStationInv
begin

text \<open>
  The properties of the Basic Station backend, with one run of it as the example.
\<close>

section \<open>An example\<close>

definition demo_eui :: EUI64 where "demo_eui = [1, 2, 3, 4, 5, 6, 7, 8]"

definition demo_bs_env :: bs_env where
  "demo_bs_env = \<lparr>be_lib = demo_bs_lib, be_spare = (\<lambda>_. []), be_rand16 = (\<lambda>n. Some (word_of_nat n)),
     be_uuid = (\<lambda>n. Some [word_of_nat n]), be_now = int, be_timestamp = id, be_since_gps = word_of_int,
     be_write_ok = (\<lambda>_. True), be_marshal = (\<lambda>_. Some [0x7B, 0x7D]), be_msgtype = (\<lambda>_. Some ''updf''),
     be_version = (\<lambda>_. True), be_updf = (\<lambda>_. Some demo_updf), be_jreq = (\<lambda>_. None),
     be_propdf = (\<lambda>_. None), be_dntxed = (\<lambda>_. None), be_timesync = (\<lambda>_. None),
     be_proto_marshal = (\<lambda>_. Some [1]), be_proto_unmarshal = (\<lambda>_. NoModulationInfo),
     be_eui_unmarshal = (\<lambda>s. if s = ''0102030405060708'' then Some demo_eui else None),
     be_eui_string = hex_encode\<rparr>"

definition no_band :: band where
  "no_band = \<lparr>GetDataRate = \<lambda>_. None, GetDataRateIndex = \<lambda>_ _. None\<rparr>"

definition demo_lorawan :: lorawan_lib where
  "demo_lorawan = \<lparr>netid_unmarshal = (\<lambda>_. None), eui64_unmarshal = (\<lambda>_. None),
     phy_unmarshal = (\<lambda>_. None), is_netid = (\<lambda>_ _. False)\<rparr>"

definition demo_bs_start :: "(string \<rightharpoonup> cache_val) bs_state" where
  "demo_bs_start = bs_SetFuncs (fst (projr (bs_NewBackend (sort_key minRadioCenterFreq)
     (\<lambda>_. Some no_band) demo_lorawan [] [] ''EU868'' 0 0 [] 0 Map.empty)))"

lemma demo_bs_new: "bs_NewBackend (sort_key minRadioCenterFreq) (\<lambda>_. Some no_band) demo_lorawan [] []
    ''EU868'' 0 0 [] 0 Map.empty = Inr (fst (projr (bs_NewBackend (sort_key minRadioCenterFreq)
     (\<lambda>_. Some no_band) demo_lorawan [] [] ''EU868'' 0 0 [] 0 Map.empty)), no_band)"
  by (simp add: bs_NewBackend_def GetRouterConfig_def)

lemma demo_bs_init: "bs_init map_cache demo_bs_start"
  unfolding bs_init_def demo_bs_start_def using demo_bs_new
  by (intro conjI map_cache_laws exI) (auto simp: map_cache_def)

definition demo_bs_run :: "(string \<rightharpoonup> cache_val) bs_state" where
  "demo_bs_run = snd (bs_connect demo_bs_env ''/gateway/0102030405060708'' None 7 demo_bs_start)"

lemma demo_bs_reachable: "reachable (bs_init map_cache) (bs_step map_cache demo_bs_env) demo_bs_run"
proof (rule reachable.intros(2))
  show "reachable (bs_init map_cache) (bs_step map_cache demo_bs_env) demo_bs_start"
    by (rule reachable.intros(1)) (rule demo_bs_init)
  show "bs_step map_cache demo_bs_env demo_bs_start demo_bs_run"
    unfolding demo_bs_run_def by (rule bst_connect) (rule prod.collapse[symmetric])
qed

lemma demo_bs_fields:
  "bst_gateways demo_bs_start = []" "bst_subscribeFunc demo_bs_start" "bst_txAckFunc demo_bs_start"
  "bst_events demo_bs_start = []" "bst_written demo_bs_start = []"
  by (simp_all add: demo_bs_start_def bs_NewBackend_def GetRouterConfig_def bs_SetFuncs_def)

lemma demo_bs_connected:
  "bst_gateways demo_bs_run = [(demo_eui, \<lparr>bc_conn = 7, bc_stats = NewCollector, bc_lastTimesync = 0\<rparr>)]"
  "bst_txAckFunc demo_bs_run" "bst_written demo_bs_run = []"
  "bst_events demo_bs_run = [BsSubscribe \<lparr>sub_Subscribe = True, sub_GatewayID = demo_eui\<rparr>]"
  by (simp_all add: demo_bs_run_def bs_connect_def url_gateway_def demo_bs_env_def cn_matches_def
      bs_get_def bs_set_def demo_bs_fields)

section \<open>Properties\<close>



text \<open>C31: The subscription events of the Basic Station backend, in order, describe the gateways that
  are connected: a gateway is registered exactly when its last event was a subscription.\<close>

theorem subscriptions_follow_connections:
  assumes "reachable (bs_init K) (bs_step K E) s"
  shows "(\<exists>x. bs_get (bst_gateways s) g = Inr x) \<longleftrightarrow> g \<in> replay (bs_subs (bst_events s)) {}"
proof -
  have "replay (bs_subs (bst_events s)) {} = fst ` set (bst_gateways s)"
    using basic_station.inv_reachable[OF assms] by (simp add: bs_inv_def bs_ok_def)
  moreover have "(\<exists>x. bs_get (bst_gateways s) g = Inr x) \<longleftrightarrow> ok_result (bs_get (bst_gateways s) g) \<noteq> None"
    by (cases "bs_get (bst_gateways s) g") simp_all
  ultimately show ?thesis using bs.find_iff[of "bst_gateways s" g] by (simp del: ok_result_simps)
qed

theorem subscriptions_follow_connections_witness:
  "(\<exists>x. bs_get (bst_gateways demo_bs_run) demo_eui = Inr x)
     \<longleftrightarrow> demo_eui \<in> replay (bs_subs (bst_events demo_bs_run)) {}"
  by (rule subscriptions_follow_connections) (rule demo_bs_reachable)

text \<open>C32: A downlink that was sent to a Basic Station gateway is written to the websocket of exactly
  that gateway, and the confirmation with its token is reported with the identifier of that
  downlink, as successful.\<close>

theorem downlink_confirmed:
  assumes "reachable (bs_init K) (bs_step K E) s" "bst_txAckFunc s"
    and "df_Token df \<noteq> 0" "bs_SendDownlinkFrame K E df s = (None, t)"
  shows "\<exists>conn bb. bs_get (bst_gateways s) (copy_fixed 8 (df_GatewayId df)) = Inr conn
    \<and> bst_written t = bst_written s @ [\<lparr>ww_conn = bc_conn conn, ww_type = TextMessage, ww_data = bb\<rparr>]
    \<and> bst_events (snd (handleDownlinkTransmittedMessage K E g \<lparr>dnt_DIID = df_Token df\<rparr> t))
      = bst_events s @ [BsTxAck \<lparr>ack_GatewayId = g, ack_Token = df_Token df,
          ack_DownlinkId = df_DownlinkId df, ack_Error = [], ack_Items = [TX_OK]\<rparr>]"
proof -
  have laws: "cache_laws K" and ok: "bs_ok K s"
    using basic_station.inv_reachable[OF assms(1)] by (simp_all add: bs_inv_def)
  obtain pl where pl: "DownlinkFrameFromProto (be_lib E) (be_spare E) df = Inr pl"
    using assms(3,4) by (auto simp: bs_SendDownlinkFrame_def bs_send_frame_def split: sum.splits)
  note dn = downlink_countable[OF pl]
  obtain conn bb where sent: "bs_get (bst_gateways s) (copy_fixed 8 (df_GatewayId df)) = Inr conn"
    "t = s\<lparr>bst_diidCache := cache_set K (bst_diidCache s) (diid_key (df_Token df)) (CFrame df),
       bst_written := bst_written s @ [\<lparr>ww_conn = bc_conn conn, ww_type = TextMessage, ww_data = bb\<rparr>]\<rparr>"
    using assms(3,4) pl dn by (auto simp: bs_SendDownlinkFrame_def bs_send_frame_def sendToGateway_def
        Let_def split: sum.splits option.splits if_splits prod.splits)
  let ?ack = "DownlinkTransmittedToProto g \<lparr>dnt_DIID = df_Token df\<rparr>\<lparr>ack_DownlinkId := df_DownlinkId df\<rparr>"
  let ?f = "CountDownlink (bl_lib (be_lib E)) (be_proto_marshal E) df ?ack"
  have "ack_Items ?ack = [TX_OK]" by (simp add: DownlinkTransmittedToProto_def)
  then obtain s1 where s1: "bs_count E g ?f t = (None, s1)"
    using bs_count_none[of ?f E g t] CountDownlink_total dn by blast
  then have keep: "bst_events s1 = bst_events t" "bst_txAckFunc s1 = bst_txAckFunc t"
    by (auto simp: bs_count_def split: sum.splits)
  have "cache_get K (bst_diidCache t) (diid_key (df_Token df)) = Some (CFrame df)"
    using laws sent(2) by simp
  then have "bst_events (snd (handleDownlinkTransmittedMessage K E g \<lparr>dnt_DIID = df_Token df\<rparr> t))
      = bst_events s @ [BsTxAck ?ack]"
    using s1 keep sent(2) assms(2)
    by (simp add: handleDownlinkTransmittedMessage_def bst_event_def)
  then show ?thesis using sent by (auto simp: DownlinkTransmittedToProto_def)
qed

theorem downlink_confirmed_witness:
  "\<exists>t. bs_SendDownlinkFrame map_cache demo_bs_env (demo_bs_frame\<lparr>df_GatewayId := demo_eui\<rparr>) demo_bs_run
      = (None, t)
    \<and> bst_events (snd (handleDownlinkTransmittedMessage map_cache demo_bs_env demo_eui \<lparr>dnt_DIID = 21\<rparr> t))
      = bst_events demo_bs_run @ [BsTxAck \<lparr>ack_GatewayId = demo_eui, ack_Token = 21,
          ack_DownlinkId = [1], ack_Error = [], ack_Items = [TX_OK]\<rparr>]"
proof -
  let ?df = "demo_bs_frame\<lparr>df_GatewayId := demo_eui\<rparr>"
  have token: "df_Token ?df = 21" "df_DownlinkId ?df = [1]" by (simp_all add: demo_bs_frame_def)
  have "DownlinkFrameFromProto demo_bs_lib (\<lambda>_. []) ?df = DownlinkFrameFromProto demo_bs_lib (\<lambda>_. []) demo_bs_frame"
    by (simp add: DownlinkFrameFromProto_def split: list.split option.split)
  then obtain out where "DownlinkFrameFromProto demo_bs_lib (\<lambda>_. []) ?df = Inr out"
    using demo_bs_downlink by auto
  then obtain t where t: "bs_SendDownlinkFrame map_cache demo_bs_env ?df demo_bs_run = (None, t)"
    using token by (simp add: bs_SendDownlinkFrame_def bs_send_frame_def sendToGateway_def bs_get_def
        demo_bs_connected demo_bs_env_def copy_fixed_def demo_eui_def)
  from downlink_confirmed[OF demo_bs_reachable demo_bs_connected(2) _ t, of demo_eui] t token
  show ?thesis by auto
qed

end
