(* ===== verification/ForwarderProps.thy ===== *)
theory ForwarderProps
  imports BackendEvents MqttProps BasicStationProps
begin

text \<open>
  What the forwarder makes of the events of a backend. The contract \<open>event_source\<close> says that
  a backend only ever adds to what it has handed out; all three backends keep it, and from it
  follows that no event is lost, invented or published twice on its way to the broker, and that
  no command of the broker is lost or run twice.
\<close>

section \<open>What is published for an event\<close>

definition event_msg ::
  "fw_env \<Rightarrow> (string \<rightharpoonup> string) \<Rightarrow> fw_event \<Rightarrow> (EUI64 \<times> string \<times> proto_msg) option" where
  "event_msg F md e = (case e of
     FwSubscribe pl \<Rightarrow> None
   | FwUplink pl \<Rightarrow> map_option (\<lambda>rx. (copy_fixed 8 (rx_GatewayId rx), ''up'', PmUplink pl)) (up_RxInfo pl)
   | FwStats pl \<Rightarrow> Some (copy_fixed 8 (st_GatewayId pl), ''stats'', PmStats (add_metadata md pl))
   | FwTxAck pl \<Rightarrow> Some (copy_fixed 8 (ack_GatewayId pl), ''ack'', PmTxAck (pl\<lparr>ack_Error :=
       ack_error (fe_ack_item_String F) (ack_Items pl) (ack_Error pl)\<rparr>))
   | FwRaw pl \<Rightarrow> Some (copy_fixed 8 (re_GatewayId pl), ''raw'', PmRaw pl))"

definition done_msg :: "fw_env \<Rightarrow> done_task \<Rightarrow> (EUI64 \<times> string \<times> proto_msg) option" where
  "done_msg F d = (case d of
     DoneEvent e md \<Rightarrow> event_msg F md e
   | DoneExec r \<Rightarrow> Some (copy_fixed 8 (xr_GatewayId r), ''exec'', PmExec r))"

definition event_publish ::
  "mq_env \<Rightarrow> mq_state \<Rightarrow> (EUI64 \<times> string \<times> proto_msg) option \<Rightarrow> mqtt_publish option" where
  "event_publish E m msg = (case msg of
     None \<Rightarrow> None
   | Some (g, ev, v) \<Rightarrow> (case mq_eventTopic m (event_fields E g ev) of
         Inl err \<Rightarrow> None
       | Inr topic \<Rightarrow> map_option (\<lambda>b. \<lparr>mp_topic = topic, mp_qos = mq_qos m, mp_retained = False,
           mp_payload = b\<rparr>) (pm_marshal (mq_marshaler m) v)))"

definition opt_list :: "'a option \<Rightarrow> 'a list" where
  "opt_list p = (case p of None \<Rightarrow> [] | Some x \<Rightarrow> [x])"

lemma opt_list_simps [simp]: "opt_list None = []" "opt_list (Some x) = [x]"
  by (simp_all add: opt_list_def)

text \<open>What the goroutines that have run publish, in their order.\<close>

definition published :: "fw_env \<Rightarrow> mq_state \<Rightarrow> done_task list \<Rightarrow> mqtt_publish list" where
  "published F m ds = concat (map (\<lambda>d. opt_list (event_publish (fe_mqtt F) m (done_msg F d))) ds)"

lemma published_simps [simp]:
  "published F m [] = []" "published F m (ds @ es) = published F m ds @ published F m es"
  "published F m (d # ds) = opt_list (event_publish (fe_mqtt F) m (done_msg F d)) @ published F m ds"
  by (simp_all add: published_def)

text \<open>The settings of the integration that no operation changes, and the events at the broker:
  states are retained, events are not.\<close>

definition settings :: "mq_state \<Rightarrow> template \<times> u8 \<times> marshaler \<times> bool" where
  "settings m = (mq_eventTopic m, mq_qos m, mq_marshaler m, mq_stateRetained m)"

definition events_out :: "mq_state \<Rightarrow> mqtt_publish list" where
  "events_out m = filter (\<lambda>p. \<not> mp_retained p) (mq_published m)"

definition quiet :: "mq_state \<Rightarrow> mq_state \<Rightarrow> bool" where
  "quiet m m' \<longleftrightarrow> settings m' = settings m \<and> events_out m' = events_out m
     \<and> prefix (mq_calls m) (mq_calls m')"

lemma silent_refl [simp]: "quiet m m"
  by (simp add: quiet_def)

lemma silent_trans: "quiet a b \<Longrightarrow> quiet b c \<Longrightarrow> quiet a c"
  by (auto simp: quiet_def intro: prefix_order.trans)

lemma event_publish_settings: "settings m' = settings m \<Longrightarrow> event_publish E m' = event_publish E m"
  by (rule ext) (auto simp: settings_def event_publish_def split: option.split sum.split)

lemma published_settings: "settings m' = settings m \<Longrightarrow> published F m' = published F m"
  using event_publish_settings[of m' m "fe_mqtt F"] by (intro ext) (simp add: published_def)

lemma PublishState_quiet: "mq_stateRetained m \<Longrightarrow> quiet m (snd (PublishState E g st v m))"
  by (simp add: PublishState_def mq_publish_def mq_request_def quiet_def settings_def events_out_def
      Let_def split: option.split sum.split)

lemma requests_quiet:
  "quiet m (snd (subscribeGateway E g m))" "quiet m (snd (unsubscribeGateway E g m))"
  by (simp_all add: subscribeGateway_def unsubscribeGateway_def mq_request_def quiet_def settings_def
      events_out_def Let_def case_prod_beta split: option.split sum.split)

lemma quiet_retained: "quiet m m' \<Longrightarrow> mq_stateRetained m' = mq_stateRetained m"
  by (simp add: quiet_def settings_def)

lemma quiet_update [simp]:
  "quiet m (m'\<lparr>mq_subscribed := xs\<rparr>) = quiet m m'" "quiet m (m'\<lparr>mq_gateways := xs\<rparr>) = quiet m m'"
  "quiet m (m'\<lparr>mq_connClosed := c\<rparr>) = quiet m m'" "quiet m (m'\<lparr>mq_clientOpts := os, mq_conn := co\<rparr>) = quiet m m'"
  by (simp_all add: quiet_def settings_def events_out_def)

lemma subscribe_one_quiet:
  assumes "mq_stateRetained m"
  shows "quiet m (subscribe_one E g m)" "quiet m (unsubscribe_one E g m)"
proof -
  have "quiet m (snd (PublishState E g st v (snd (subscribeGateway E g m))))"
    "quiet m (snd (PublishState E g st v (snd (unsubscribeGateway E g m))))" for st v
    using PublishState_quiet requests_quiet[of m E g] assms quiet_retained silent_trans by blast+
  then show "quiet m (subscribe_one E g m)" "quiet m (unsubscribe_one E g m)"
    using requests_quiet[of m E g]
    by (simp_all add: subscribe_one_def unsubscribe_one_def case_prod_beta split: option.split)
qed

lemma fold_quiet:
  assumes "\<And>g m. mq_stateRetained m \<Longrightarrow> quiet m (f g m)" "mq_stateRetained m"
  shows "quiet m (fold f gs m)"
  using assms(2)
proof (induction gs arbitrary: m)
  case (Cons g gs)
  have q: "quiet m (f g m)" using assms(1) Cons.prems by blast
  then show ?case using Cons.IH[of "f g m"] Cons.prems quiet_retained silent_trans by fastforce
qed simp

lemma subscribe_pass_quiet: "mq_stateRetained m \<Longrightarrow> quiet m (subscribe_pass E m)"
  unfolding subscribe_pass_def
  using fold_quiet[of "subscribe_one E"] fold_quiet[of "unsubscribe_one E"] subscribe_one_quiet
    quiet_retained silent_trans by (smt (verit) silent_refl)

text \<open>Reconnecting and the end of the process touch no event either.\<close>

lemma mq_connect_quiet: "quiet m (snd (mq_connect E m))"
  by (simp add: mq_connect_def mq_request_def session_end_def quiet_def settings_def events_out_def
      Let_def split: sum.split)

lemma connectLoop_quiet: "connectLoop E m = Some x \<Longrightarrow> quiet m (snd x)"
  by (rule connectLoop.raw_induct[where P = "\<lambda>E m x. quiet m (snd x)"])
    (auto split: prod.splits option.splits if_splits, (metis mq_connect_quiet silent_trans snd_conv)+)

lemma session_end_quiet: "quiet m (session_end m)"
  by (simp add: session_end_def quiet_def settings_def events_out_def)

lemma reconnect_round_quiet: "reconnect_round E m = Some (r, t) \<Longrightarrow> quiet m t"
  using connectLoop_quiet[of E "session_end m" "(r, t)"] session_end_quiet silent_trans
  by (auto simp: reconnect_round_def mq_disconnect_def split: if_splits)

lemma publish_offline_quiet: "mq_stateRetained m \<Longrightarrow> quiet m (publish_offline E gs m)"
proof (induction gs arbitrary: m)
  case (Cons g gs)
  have q: "quiet m (snd (PublishState E g ''conn'' (conn_msg g OFFLINE) m))"
    by (rule PublishState_quiet[OF Cons.prems])
  then show ?case using Cons.IH Cons.prems quiet_retained silent_trans by fastforce
qed simp

lemma mq_Stop_quiet: "mq_stateRetained m \<Longrightarrow> quiet m (mq_Stop E m)"
  using publish_offline_quiet session_end_quiet silent_trans by (simp add: mq_Stop_def mq_disconnect_def) blast

lemma messages_quiet:
  "quiet m (handleCommand L topic payload m)" "quiet m (onConnected m)"
  "quiet m (snd (SetGatewaySubscription E b g m))" "quiet m (snd (onConnectionLost m))"
  by (simp_all add: handleCommand_def handleDownlinkFrame_def handleGatewayConfiguration_def
      handleGatewayCommandExecRequest_def handleRawPacketForwarderCommand_def mq_call_def Let_def
      onConnected_def SetGatewaySubscription_def onConnectionLost_def quiet_def settings_def events_out_def
      split: option.split)

text \<open>An event that is handed on is published, if its request reaches the broker.\<close>

definition reaches_all :: "mq_env \<Rightarrow> bool" where
  "reaches_all E \<longleftrightarrow> (\<forall>n. me_reaches E n)"

definition handed_on ::
  "mq_env \<Rightarrow> mq_state \<Rightarrow> mqtt_publish option \<Rightarrow> mq_state \<Rightarrow> bool" where
  "handed_on E m p m' \<longleftrightarrow> settings m' = settings m \<and> mq_calls m' = mq_calls m
     \<and> (\<exists>b. events_out m' = events_out m @ (if b then opt_list p else [])
        \<and> (reaches_all E \<longrightarrow> b))"

lemma handed_on_refl: "handed_on E m None m"
  by (auto simp: handed_on_def)

lemma mq_publish_handed_on:
  assumes "\<not> is_panic (fst (mq_publish E topic False b m))"
  shows "handed_on E m (Some \<lparr>mp_topic = topic, mp_qos = mq_qos m, mp_retained = False, mp_payload = b\<rparr>)
    (snd (mq_publish E topic False b m))"
proof (cases "me_reaches E (mq_requests m)")
  case True
  then show ?thesis using assms
    by (auto simp: handed_on_def mq_publish_def mq_request_def is_panic_def Let_def settings_def
        events_out_def split: if_splits intro!: exI[of _ True])
next
  case False
  then show ?thesis using assms
    by (auto simp: handed_on_def mq_publish_def mq_request_def is_panic_def Let_def settings_def
        events_out_def reaches_all_def split: if_splits intro!: exI[of _ False])
qed

lemma PublishEvent_handed_on:
  assumes "PublishEvent E g ev i msg m = (r, m')" "\<not> is_panic r"
  shows "handed_on E m (event_publish E m (Some (g, ev, msg))) m'"
proof (cases "mq_eventTopic m (event_fields E g ev)")
  case (Inl err)
  then show ?thesis using assms
    by (simp add: PublishEvent_def publishEvent_def event_publish_def handed_on_refl)
next
  case (Inr topic)
  show ?thesis
  proof (cases "pm_marshal (mq_marshaler m) msg")
    case None
    then show ?thesis using Inr assms
      by (simp add: PublishEvent_def publishEvent_def event_publish_def handed_on_refl)
  next
    case (Some b)
    then have "mq_publish E topic False b m = (r, m')"
      using Inr assms(1) by (simp add: PublishEvent_def publishEvent_def)
    then show ?thesis using Inr Some assms(2) mq_publish_handed_on[of E topic b m]
      by (simp add: event_publish_def)
  qed
qed

lemma event_handed_on:
  assumes "fw_event_run F md e m = (r, m')" "\<not> is_panic r"
  shows "handed_on (fe_mqtt F) m (event_publish (fe_mqtt F) m (event_msg F md e)) m'"
proof (cases e)
  case (FwSubscribe pl)
  then have "settings m' = settings m \<and> events_out m' = events_out m \<and> mq_calls m' = mq_calls m"
    using assms(1) by (auto simp: gatewaySubscribeFunc_def SetGatewaySubscription_def settings_def
        events_out_def split: if_splits)
  then show ?thesis using FwSubscribe
    by (auto simp: handed_on_def event_msg_def event_publish_def intro: exI[of _ True])
next
  case (FwUplink pl)
  then show ?thesis using assms PublishEvent_handed_on
    by (cases "up_RxInfo pl") (auto simp: uplinkFrameFunc_def event_msg_def is_panic_def)
qed (use assms PublishEvent_handed_on in \<open>auto simp: event_msg_def gatewayStatsFunc_def
    downlinkTxAckFunc_def rawPacketForwarderEventFunc_def\<close>)

lemma exec_handed_on:
  assumes "executeCommand (fe_mqtt F) X cmds q m = (r, m')" "\<not> is_panic r"
  shows "handed_on (fe_mqtt F) m (event_publish (fe_mqtt F) m (done_msg F (DoneExec (exec_response X cmds q)))) m'"
  using assms PublishEvent_handed_on
  by (simp add: executeCommand_def done_msg_def exec_response_def Let_def)

section \<open>The account\<close>

text \<open>
  Every event of the backend is waiting or has been run once. The events at the broker are
  what the goroutines have published, in the order they ran, but for those whose request did
  not reach it.
\<close>

definition done_events :: "done_task list \<Rightarrow> fw_event list" where
  "done_events ds = concat (map (\<lambda>d. case d of DoneEvent e md \<Rightarrow> [e] | DoneExec r \<Rightarrow> []) ds)"

definition done_responses :: "done_task list \<Rightarrow> GatewayCommandExecResponse list" where
  "done_responses ds = concat (map (\<lambda>d. case d of DoneEvent e md \<Rightarrow> [] | DoneExec r \<Rightarrow> [r]) ds)"

definition exec_requests :: "mq_call list \<Rightarrow> GatewayCommandExecRequest list" where
  "exec_requests cs = concat (map (\<lambda>c. case c of CallExec q \<Rightarrow> [q] | _ \<Rightarrow> []) cs)"

lemma done_simps [simp]:
  "done_events [] = []" "done_events (ds @ es) = done_events ds @ done_events es"
  "done_events [DoneEvent e md] = [e]" "done_events [DoneExec r] = []"
  "done_responses [] = []" "done_responses (ds @ es) = done_responses ds @ done_responses es"
  "done_responses [DoneEvent e md] = []" "done_responses [DoneExec r] = [r]"
  "exec_requests [] = []" "exec_requests (cs @ cs') = exec_requests cs @ exec_requests cs'"
  "exec_requests [CallExec q] = [q]"
  by (simp_all add: done_events_def done_responses_def exec_requests_def)

definition events_accounted :: "fw_env \<Rightarrow> 's backend_ops \<Rightarrow> 's bridge \<Rightarrow> bool" where
  "events_accounted F B b \<longleftrightarrow> mq_stateRetained (br_mqtt b)
     \<and> mset (bo_events B (br_backend b)) = mset (br_events b) + mset (done_events (br_done b))
     \<and> subseq (events_out (br_mqtt b)) (published F (br_mqtt b) (br_done b))
     \<and> (reaches_all (fe_mqtt F) \<longrightarrow> events_out (br_mqtt b) = published F (br_mqtt b) (br_done b))"

text \<open>Every command of the broker is waiting or has been run once; execution requests are
  answered in the order they are run, under their own identifiers.\<close>

definition calls_accounted :: "'s bridge \<Rightarrow> bool" where
  "calls_accounted b \<longleftrightarrow> mset (mq_calls (br_mqtt b)) = mset (br_calls b) + mset (br_called b)
     \<and> map (\<lambda>r. (xr_GatewayId r, xr_ExecId r)) (done_responses (br_done b))
       = map (\<lambda>q. (xq_GatewayId q, xq_ExecId q)) (exec_requests (br_called b))"

definition accounted :: "fw_env \<Rightarrow> 's backend_ops \<Rightarrow> 's bridge \<Rightarrow> bool" where
  "accounted F B b \<longleftrightarrow> events_accounted F B b \<and> calls_accounted b"

lemma accounted_mqtt:
  assumes "accounted F B b" "quiet (br_mqtt b) m"
  shows "accounted F B (mqtt_moves m b)"
proof -
  have "settings m = settings (br_mqtt b)" "events_out m = events_out (br_mqtt b)"
    using assms(2) by (simp_all add: quiet_def)
  then have "events_accounted F B (mqtt_moves m b)"
    using assms(1) published_settings[of m "br_mqtt b" F]
    by (auto simp: accounted_def events_accounted_def mqtt_moves_def settings_def)
  moreover obtain cs where "mq_calls m = mq_calls (br_mqtt b) @ cs"
    using assms(2) by (auto simp: quiet_def prefix_def)
  then have "calls_accounted (mqtt_moves m b)"
    using assms(1) by (simp add: accounted_def calls_accounted_def mqtt_moves_def)
  ultimately show ?thesis by (simp add: accounted_def)
qed

text \<open>A goroutine that publishes: what it was for, and the effect of its request.\<close>

lemma events_accounted_done:
  assumes "events_accounted F B b" "handed_on (fe_mqtt F) (br_mqtt b) (event_publish (fe_mqtt F) (br_mqtt b) (done_msg F d)) m"
    and "mset (br_events b) = mset es + mset (done_events [d])"
  shows "mq_stateRetained m
    \<and> mset (bo_events B (br_backend b)) = mset es + mset (done_events (br_done b @ [d]))
    \<and> subseq (events_out m) (published F m (br_done b @ [d]))
    \<and> (reaches_all (fe_mqtt F) \<longrightarrow> events_out m = published F m (br_done b @ [d]))"
proof -
  obtain p where p: "settings m = settings (br_mqtt b)" "reaches_all (fe_mqtt F) \<longrightarrow> p"
    "events_out m = events_out (br_mqtt b)
      @ (if p then opt_list (event_publish (fe_mqtt F) (br_mqtt b) (done_msg F d)) else [])"
    using assms(2) by (auto simp: handed_on_def)
  have same: "published F m (br_done b @ [d]) = published F (br_mqtt b) (br_done b)
      @ opt_list (event_publish (fe_mqtt F) (br_mqtt b) (done_msg F d))"
    using published_settings[OF p(1), of F] event_publish_settings[OF p(1)] by simp
  have old: "subseq (events_out (br_mqtt b)) (published F (br_mqtt b) (br_done b))"
    "reaches_all (fe_mqtt F) \<longrightarrow> events_out (br_mqtt b) = published F (br_mqtt b) (br_done b)"
    "mset (bo_events B (br_backend b)) = mset (br_events b) + mset (done_events (br_done b))"
    "mq_stateRetained (br_mqtt b)"
    using assms(1) by (simp_all add: events_accounted_def)
  have "subseq (events_out m) (published F m (br_done b @ [d]))"
    unfolding same p(3) by (rule list_emb_append_mono[OF old(1)]) simp
  moreover have "reaches_all (fe_mqtt F) \<longrightarrow> events_out m = published F m (br_done b @ [d])"
    unfolding same p(3) using old(2) p(2) by simp
  moreover have "mq_stateRetained m" using old(4) p(1) by (simp add: settings_def)
  ultimately show ?thesis using old(3) assms(3) by simp
qed

definition bridge_init :: "('s \<Rightarrow> bool) \<Rightarrow> 's backend_ops \<Rightarrow> 's bridge \<Rightarrow> bool" where
  "bridge_init init B b \<longleftrightarrow> init (br_backend b) \<and> bo_events B (br_backend b) = [] \<and> br_events b = []
     \<and> br_calls b = [] \<and> br_done b = [] \<and> br_called b = [] \<and> \<not> br_ended b
     \<and> mq_published (br_mqtt b) = [] \<and> mq_calls (br_mqtt b) = [] \<and> mq_stateRetained (br_mqtt b)"

section \<open>The contract\<close>

locale event_source =
  fixes B :: "'s backend_ops" and own :: "'s \<Rightarrow> 's \<Rightarrow> bool"
  assumes own_grows: "own s t \<Longrightarrow> prefix (bo_events B s) (bo_events B t)"
    and send_grows: "prefix (bo_events B s) (bo_events B (snd (bo_SendDownlinkFrame B f s)))"
    and apply_grows: "prefix (bo_events B s) (bo_events B (snd (bo_ApplyConfiguration B c s)))"
    and raw_grows: "prefix (bo_events B s) (bo_events B (snd (bo_RawPacketForwarderCommand B r s)))"
begin

lemma call_grows:
  assumes "fw_call_run B c s = Some (r, t)"
  shows "prefix (bo_events B s) (bo_events B t)"
proof (cases c)
  case (CallDownlink f)
  then have "snd (bo_SendDownlinkFrame B f s) = t" using assms by (simp add: downlinkFrameFunc_def)
  then show ?thesis using send_grows[of s f] by simp
next
  case (CallConfig g)
  then have "snd (bo_ApplyConfiguration B g s) = t" using assms by (simp add: gatewayConfigurationFunc_def)
  then show ?thesis using apply_grows[of s g] by simp
next
  case (CallRaw w)
  then have "snd (bo_RawPacketForwarderCommand B w s) = t"
    using assms by (simp add: rawPacketForwarderCommandFunc_def)
  then show ?thesis using raw_grows[of s w] by simp
qed (use assms in simp)

lemma accounted_backend:
  assumes "accounted F B b" "prefix (bo_events B (br_backend b)) (bo_events B t)"
  shows "accounted F B (backend_moves B t b)"
proof -
  obtain es where "bo_events B t = bo_events B (br_backend b) @ es" using assms(2) by (auto simp: prefix_def)
  then show ?thesis using assms(1)
    by (simp add: accounted_def events_accounted_def calls_accounted_def backend_moves_def)
qed

lemma accounted_event:
  assumes "accounted F B b" "br_events b = xs @ e # ys"
    and "fw_event_run F (metadata_Get (br_metadata b)) e (br_mqtt b) = (r, m)" "\<not> is_panic r"
  shows "accounted F B (mqtt_moves m (finish_event (xs @ ys) e b))"
proof -
  let ?d = "DoneEvent e (metadata_Get (br_metadata b))"
  have h: "handed_on (fe_mqtt F) (br_mqtt b) (event_publish (fe_mqtt F) (br_mqtt b) (done_msg F ?d)) m"
    using event_handed_on[OF assms(3,4)] by (simp add: done_msg_def)
  moreover have "mset (br_events b) = mset (xs @ ys) + mset (done_events [?d])" by (simp add: assms(2))
  ultimately have "events_accounted F B (mqtt_moves m (finish_event (xs @ ys) e b))"
    using events_accounted_done[of F B b ?d m "xs @ ys"] assms(1)
    by (simp add: accounted_def events_accounted_def mqtt_moves_def finish_event_def)
  moreover have "mq_calls m = mq_calls (br_mqtt b)" using h by (simp add: handed_on_def)
  then have "calls_accounted (mqtt_moves m (finish_event (xs @ ys) e b))"
    using assms(1) by (simp add: accounted_def calls_accounted_def mqtt_moves_def finish_event_def)
  ultimately show ?thesis by (simp add: accounted_def)
qed

lemma accounted_call:
  assumes "accounted F B b" "br_calls b = xs @ c # ys" "fw_call_run B c (br_backend b) = Some (r, t)"
  shows "accounted F B (backend_moves B t (finish_call (xs @ ys) c b))"
proof (rule accounted_backend)
  have "exec_requests [c] = []" using assms(3) by (cases c) (simp_all add: exec_requests_def)
  then show "accounted F B (finish_call (xs @ ys) c b)"
    using assms(1,2) by (simp add: accounted_def events_accounted_def calls_accounted_def finish_call_def)
qed (use call_grows[OF assms(3)] in \<open>simp add: finish_call_def\<close>)

lemma accounted_exec:
  assumes "accounted F B b" "br_calls b = xs @ CallExec q # ys"
    and "executeCommand (fe_mqtt F) X (fe_commands F) q (br_mqtt b) = (r, m)" "\<not> is_panic r"
  shows "accounted F B (mqtt_moves m
    (finish_exec (exec_response X (fe_commands F) q) (finish_call (xs @ ys) (CallExec q) b)))"
proof -
  let ?d = "DoneExec (exec_response X (fe_commands F) q)"
  let ?c = "mqtt_moves m (finish_exec (exec_response X (fe_commands F) q) (finish_call (xs @ ys) (CallExec q) b))"
  have h: "handed_on (fe_mqtt F) (br_mqtt b) (event_publish (fe_mqtt F) (br_mqtt b) (done_msg F ?d)) m"
    by (rule exec_handed_on[OF assms(3,4)])
  then have "events_accounted F B ?c"
    using events_accounted_done[of F B b ?d m "br_events b"] assms(1)
    by (simp add: accounted_def events_accounted_def mqtt_moves_def finish_exec_def finish_call_def)
  moreover have "mq_calls m = mq_calls (br_mqtt b)" using h by (simp add: handed_on_def)
  then have "calls_accounted ?c"
    using assms(1,2) by (simp add: accounted_def calls_accounted_def mqtt_moves_def finish_exec_def
        finish_call_def exec_response_def Let_def)
  ultimately show ?thesis by (simp add: accounted_def)
qed

lemma accounted_frame:
  "accounted F B (b\<lparr>br_ended := e\<rparr>) = accounted F B b"
  "accounted F B (b\<lparr>br_metadata := md\<rparr>) = accounted F B b"
  by (simp_all add: accounted_def events_accounted_def calls_accounted_def)

lemma accounted_step: "bridge_step F B own b c \<Longrightarrow> accounted F B b \<Longrightarrow> accounted F B c"
proof (induction rule: bridge_step.induct)
  case (br_own b t)
  then show ?case using accounted_backend own_grows by blast
next
  case (br_call b xs c ys r t)
  then show ?case using accounted_call by blast
next
  case (br_exec b xs q ys X r m)
  then show ?case using accounted_exec by blast
next
  case (br_event b xs e ys r m)
  then show ?case using accounted_event by blast
next
  case (br_round b)
  then have "mq_stateRetained (br_mqtt b)" by (simp add: accounted_def events_accounted_def)
  then show ?case using accounted_mqtt[OF br_round(2) subscribe_pass_quiet] by simp
next
  case (br_reconnect b r m)
  then show ?case using accounted_mqtt reconnect_round_quiet by blast
next
  case (br_connected b)
  then show ?case using accounted_mqtt messages_quiet(2) by blast
next
  case (br_lost b r m)
  then show ?case using accounted_mqtt[OF br_lost(3)] messages_quiet(4)[of "br_mqtt b"]
    by (simp add: accounted_frame)
next
  case (br_message b topic payload)
  then show ?case using accounted_mqtt messages_quiet(1) by blast
next
  case (br_signal b)
  then have "mq_stateRetained (br_mqtt b)" by (simp add: accounted_def events_accounted_def)
  then show ?case using accounted_mqtt[OF br_signal(2) mq_Stop_quiet] by (simp add: accounted_frame)
qed (simp_all add: accounted_frame)

lemma accounted_init: "bridge_init init B b \<Longrightarrow> accounted F B b"
  by (simp add: bridge_init_def accounted_def events_accounted_def calls_accounted_def events_out_def)

text \<open>A run of the backend alone, with none of its events taken up.\<close>

lemma backend_alone:
  assumes "reachable init own s" "mq_published m = []" "mq_calls m = []" "mq_stateRetained m"
    and "\<And>s. init s \<Longrightarrow> bo_events B s = []"
  shows "reachable (bridge_init init B) (bridge_step F B own) \<lparr>br_backend = s, br_mqtt = m, br_metadata = md,
    br_events = bo_events B s, br_calls = [], br_done = [], br_called = [], br_ended = False\<rparr>"
  using assms(1)
proof (induction rule: reachable.induct)
  case (reach_init s)
  then show ?case using assms(2-5) by (intro reachable.reach_init) (simp add: bridge_init_def)
next
  case (reach_step s t)
  let ?b = "\<lparr>br_backend = s, br_mqtt = m, br_metadata = md, br_events = bo_events B s, br_calls = [],
    br_done = [], br_called = [], br_ended = False\<rparr>"
  have "bridge_step F B own ?b (backend_moves B t ?b)"
    using reach_step(2) by (intro br_own) simp_all
  moreover have "backend_moves B t ?b = ?b\<lparr>br_backend := t, br_events := bo_events B t\<rparr>"
    using own_grows[OF reach_step(2)] by (auto simp: backend_moves_def prefix_def)
  ultimately show ?case using reachable.reach_step[OF reach_step(3)] by simp
qed

end

sublocale event_source \<subseteq> bridge_runs: inductive_invariant "bridge_init init B" "bridge_step F B own"
  "accounted F B" for init F
  by unfold_locales (rule accounted_init accounted_step; assumption)+

interpretation semtech_source: event_source "semtech_ops K E" "udp_step K E" for K E
  by unfold_locales
    (auto simp: semtech_ops_def map_mono_prefix udp_step_grows udp_ApplyConfiguration_def
      udp_RawPacketForwarderCommand_def)

interpretation basicstation_source: event_source "basicstation_ops K E" "bs_step K E" for K E
  by unfold_locales
    (auto simp: basicstation_ops_def map_mono_prefix bs_step_grows ApplyConfiguration_def)

interpretation concentratord_source: event_source "concentratord_ops E" "cd_step E" for E
  by unfold_locales
    (auto simp: concentratord_ops_def map_mono_prefix cd_step_grows cd_commands_grow
      cd_RawPacketForwarderCommand_def)

text \<open>Whichever backend the interface holds keeps the contract, so every backend the
  configuration can choose does.\<close>

definition any_step ::
  "'c cache_lib \<Rightarrow> udp_env \<Rightarrow> bs_env \<Rightarrow> cd_env \<Rightarrow> 'c any_backend \<Rightarrow> 'c any_backend \<Rightarrow> bool" where
  "any_step K U S C a b = (case (a, b) of
     (SemtechUdp s, SemtechUdp t) \<Rightarrow> udp_step K U s t
   | (BasicStation s, BasicStation t) \<Rightarrow> bs_step K S s t
   | (Concentratord s, Concentratord t) \<Rightarrow> cd_step C s t
   | _ \<Rightarrow> False)"

lemma any_step_cases [simp]:
  "any_step K U S C (SemtechUdp s) b \<longleftrightarrow> (\<exists>t. b = SemtechUdp t \<and> udp_step K U s t)"
  "any_step K U S C (BasicStation s') b \<longleftrightarrow> (\<exists>t. b = BasicStation t \<and> bs_step K S s' t)"
  "any_step K U S C (Concentratord s'') b \<longleftrightarrow> (\<exists>t. b = Concentratord t \<and> cd_step C s'' t)"
  by (cases b; simp add: any_step_def)+

lemmas any_defs = any_ops_def any_events_def any_call_def

interpretation any_source: event_source "any_ops K U S C" "any_step K U S C" for K U S C
proof
  fix s t and f and c and r
  show "any_step K U S C s t \<Longrightarrow> prefix (bo_events (any_ops K U S C) s) (bo_events (any_ops K U S C) t)"
    using semtech_source.own_grows basicstation_source.own_grows concentratord_source.own_grows
    by (cases s) (auto simp: any_defs semtech_ops_def basicstation_ops_def concentratord_ops_def)
  show "prefix (bo_events (any_ops K U S C) s)
      (bo_events (any_ops K U S C) (snd (bo_SendDownlinkFrame (any_ops K U S C) f s)))"
    using semtech_source.send_grows[of K U] basicstation_source.send_grows[of K S]
      concentratord_source.send_grows[of C]
    by (cases s) (simp_all add: any_defs semtech_ops_def basicstation_ops_def concentratord_ops_def)
  show "prefix (bo_events (any_ops K U S C) s)
      (bo_events (any_ops K U S C) (snd (bo_ApplyConfiguration (any_ops K U S C) c s)))"
    using semtech_source.apply_grows[of K U] basicstation_source.apply_grows[of K S]
      concentratord_source.apply_grows[of C]
    by (cases s) (simp_all add: any_defs semtech_ops_def basicstation_ops_def concentratord_ops_def)
  show "prefix (bo_events (any_ops K U S C) s)
      (bo_events (any_ops K U S C) (snd (bo_RawPacketForwarderCommand (any_ops K U S C) r s)))"
    using semtech_source.raw_grows[of K U] basicstation_source.raw_grows[of K S]
      concentratord_source.raw_grows[of C]
    by (cases s) (simp_all add: any_defs semtech_ops_def basicstation_ops_def concentratord_ops_def)
qed

lemma semtech_reachable_any:
  assumes "reachable I (udp_step K U) s"
  shows "reachable (\<lambda>b. \<exists>s. b = SemtechUdp s \<and> I s) (any_step K U S C) (SemtechUdp s)"
  using assms by (induction rule: reachable.induct) (auto intro: reachable.intros)

section \<open>Properties\<close>

text \<open>C5: Across the whole bridge with any of its three backends, whatever the order in which datagrams,
  websocket and ConcentratorD messages, broker messages, subscription and meta-data rounds, losses of
  the connection, reconnections and the goroutines of the forwarder and of the command runner run:
  every event the backend has handed out is waiting or has been taken up exactly once; the event
  messages at the broker are those of the events taken up and of the execution requests answered,
  in that order, each under its event topic with its payload (statistics with the meta-data of the
  moment), and none is missing but for a request that does not reach the broker. Every command of the
  broker is waiting or has been run exactly once, and the responses to execution requests carry the
  identifiers of the requests, in their order.\<close>

theorem events_forwarded_once:
  assumes "reachable (bridge_init init (any_ops K U S C)) (bridge_step F (any_ops K U S C) (any_step K U S C)) b"
  shows "mset (any_events (br_backend b)) = mset (br_events b) + mset (done_events (br_done b))
    \<and> subseq (events_out (br_mqtt b)) (published F (br_mqtt b) (br_done b))
    \<and> (reaches_all (fe_mqtt F) \<longrightarrow> events_out (br_mqtt b) = published F (br_mqtt b) (br_done b))
    \<and> mset (mq_calls (br_mqtt b)) = mset (br_calls b) + mset (br_called b)
    \<and> map (\<lambda>r. (xr_GatewayId r, xr_ExecId r)) (done_responses (br_done b))
      = map (\<lambda>q. (xq_GatewayId q, xq_ExecId q)) (exec_requests (br_called b))"
  using any_source.bridge_runs.inv_reachable[OF assms]
  by (simp add: accounted_def events_accounted_def calls_accounted_def any_ops_def)

text \<open>The run of the Semtech backend of before, its acknowledgement taken up first.\<close>

definition demo_fw :: fw_env where
  "demo_fw = \<lparr>fe_mqtt = demo_mq_env, fe_lib = demo_lib, fe_commands = Map.empty,
     fe_ack_item_String = (\<lambda>_. [])\<rparr>"

definition demo_metadata :: metadata_state where
  "demo_metadata = metadata_Setup \<lparr>mdc_Static = [], mdc_Commands = [], mdc_ExecutionInterval = 60,
     mdc_MaxExecutionDuration = 1, mdc_SplitDelimiter = ''=''\<rparr>"

definition demo_ack_publish :: mqtt_publish where
  "demo_ack_publish = \<lparr>mp_topic = ''gateway/'' @ hex_encode demo_mac @ ''/event/ack'', mp_qos = 0,
     mp_retained = False, mp_payload = [1]\<rparr>"

lemma demo_ack_runs:
  "\<exists>m. fw_event_run demo_fw md (FwTxAck (tx_ack_message demo_mac demo_frame acks)) demo_mq = (None, m)
    \<and> events_out m = [demo_ack_publish]"
  by (simp add: demo_fw_def downlinkTxAckFunc_def PublishEvent_def publishEvent_def demo_mq_def
      event_pieces_def event_fields_def demo_mq_env_def demo_marshaler_def mq_publish_def
      mq_request_def tokenWrapper_def demo_token_def events_out_def tx_ack_message_def
      demo_ack_publish_def demo_mac_def)

theorem events_forwarded_once_witness:
  "\<exists>b :: (string \<rightharpoonup> cache_val) any_backend bridge.
    events_out (br_mqtt b) = [demo_ack_publish]
    \<and> [demo_ack_publish] = published demo_fw (br_mqtt b) (br_done b)
    \<and> FwTxAck (tx_ack_message demo_mac demo_frame [TX_OK, TX_IGNORED]) \<in># mset (any_events (br_backend b))"
proof -
  fix C :: cd_env
  let ?B = "any_ops map_cache demo_udp_env demo_bs_env C"
  let ?own = "any_step map_cache demo_udp_env demo_bs_env C"
  let ?init = "\<lambda>b. \<exists>s. b = SemtechUdp s \<and> udp_init map_cache s"
  define a where "a = FwTxAck (tx_ack_message demo_mac demo_frame [TX_OK, TX_IGNORED])"
  define b where "b = \<lparr>br_backend = SemtechUdp demo_run, br_mqtt = demo_mq, br_metadata = demo_metadata,
    br_events = bo_events ?B (SemtechUdp demo_run), br_calls = [], br_done = [], br_called = [],
    br_ended = False\<rparr>"
  have b: "reachable (bridge_init ?init ?B) (bridge_step demo_fw ?B ?own) b"
    unfolding b_def by (rule any_source.backend_alone[OF semtech_reachable_any[OF demo_run_reachable]])
      (auto simp: demo_mq_def udp_init_def NewBackend_def any_ops_def any_events_def)
  have "a \<in> set (br_events b)"
    using demo_run_result(2) by (force simp: b_def a_def any_ops_def any_events_def)
  then obtain xs ys where xs: "br_events b = xs @ a # ys" by (meson split_list)
  obtain m where m: "fw_event_run demo_fw (metadata_Get (br_metadata b)) a (br_mqtt b) = (None, m)"
    "events_out m = [demo_ack_publish]"
    using demo_ack_runs by (auto simp: a_def b_def)
  let ?c = "mqtt_moves m (finish_event (xs @ ys) a b)"
  have "reachable (bridge_init ?init ?B) (bridge_step demo_fw ?B ?own) ?c"
    by (rule reachable.reach_step[OF b], rule br_event[OF _ xs m(1)]) (simp_all add: b_def is_panic_def)
  note account = events_forwarded_once[OF this]
  have out: "events_out (br_mqtt ?c) = [demo_ack_publish]" using m(2) by (simp add: mqtt_moves_def)
  have "reaches_all (fe_mqtt demo_fw)" by (simp add: reaches_all_def demo_fw_def demo_mq_env_def)
  then have "[demo_ack_publish] = published demo_fw (br_mqtt ?c) (br_done ?c)"
    using account out by metis
  moreover have "done_events (br_done ?c) = [a]" by (simp add: mqtt_moves_def finish_event_def b_def)
  then have "a \<in># mset (any_events (br_backend ?c))" using account by simp
  ultimately show ?thesis using out unfolding a_def by blast
qed

end
