(* ===== verification/StartupProps.thy ===== *)
theory StartupProps
  imports StartupEnv ForwarderProps
begin

text \<open>
  A start without an error ends in a bridge whose parts are wired to each other, from which the
  runs of \<open>ForwarderProps\<close> begin.
\<close>

section \<open>Running tasks\<close>

lemma run_tasks_ok [simp]:
  "run_tasks [] a = Some (None, c) \<longleftrightarrow> c = a"
  "run_tasks (t # ts) a = Some (None, c) \<longleftrightarrow> (\<exists>b. t a = Some (None, b) \<and> run_tasks ts b = Some (None, c))"
  by (auto simp: run_tasks.simps split: option.split prod.split)

declare run_tasks.simps [simp del]

lemma wrap_opt_simps [simp]: "wrap_opt msg None = None"
  by (simp add: wrap_opt_def)

lemma wrap_opt_None [simp]: "wrap_opt msg e = None \<longleftrightarrow> e = None"
  by (simp add: wrap_opt_def split: option.split go_err.split)

section \<open>What starting leaves as it is\<close>

definition wired :: "mq_state \<Rightarrow> bool \<times> bool \<times> bool \<times> bool" where
  "wired m = (mq_downlinkFunc m, mq_configFunc m, mq_rawFunc m, mq_execFunc m)"

definition mq_start_frame :: "mq_state \<Rightarrow> mq_state \<Rightarrow> bool" where
  "mq_start_frame m t \<longleftrightarrow> wired t = wired m \<and> mq_published t = mq_published m
     \<and> mq_stateRetained t = mq_stateRetained m \<and> mq_calls t = mq_calls m"

lemma mq_connect_frame: "mq_connect E m = (r, t) \<Longrightarrow> mq_start_frame m t \<and> (r = None \<longrightarrow> mq_conn t)"
  by (auto simp: mq_connect_def mq_request_def mq_start_frame_def wired_def session_end_def Let_def
      split: sum.splits if_splits)

lemma mq_start_frame_trans: "mq_start_frame a b \<Longrightarrow> mq_start_frame b c \<Longrightarrow> mq_start_frame a c"
  by (simp add: mq_start_frame_def)

lemma connectLoop_frame:
  "connectLoop E m = Some x \<Longrightarrow> mq_start_frame m (snd x) \<and> (fst x = None \<longrightarrow> mq_conn (snd x))"
  by (rule connectLoop.raw_induct[where P = "\<lambda>E m x. mq_start_frame m (snd x) \<and> (fst x = None \<longrightarrow> mq_conn (snd x))"])
    (auto dest: mq_connect_frame split: prod.splits option.splits if_splits,
      metis mq_connect_frame mq_start_frame_trans)

definition cd_funcs :: "cd_state \<Rightarrow> bool" where
  "cd_funcs s \<longleftrightarrow> cd_txAckFunc s \<and> cd_statsFunc s \<and> cd_uplinkFunc s \<and> cd_subscribeFunc s"

lemma dialEventSockLoop_funcs: "dialEventSockLoop E s = Some t \<Longrightarrow> cd_funcs t = cd_funcs s"
  by (rule dialEventSockLoop.raw_induct[where P = "\<lambda>E s t. cd_funcs t = cd_funcs s"])
    (auto simp: dialEventSock_def cd_funcs_def Let_def split: if_splits)

lemma dialCommandSockLoop_funcs: "dialCommandSockLoop E s = Some t \<Longrightarrow> cd_funcs t = cd_funcs s"
  by (rule dialCommandSockLoop.raw_induct[where P = "\<lambda>E s t. cd_funcs t = cd_funcs s"])
    (auto simp: dialCommandSock_def cd_funcs_def Let_def split: if_splits)

lemma getGatewayID_funcs: "cd_funcs (snd (getGatewayID E s)) = cd_funcs s"
  by (simp add: getGatewayID_def commandRequest_def dialCommandSock_def cd_funcs_def Let_def case_prod_beta
      split: sum.split option.split)

lemma cd_Start_funcs:
  assumes "cd_Start E s = Some (r, t)"
  shows "cd_funcs t = cd_funcs s"
proof -
  obtain s1 s2 where s: "dialEventSockLoop E s = Some s1" "dialCommandSockLoop E s1 = Some s2"
    using assms by (auto simp: cd_Start_def split: option.splits)
  have "cd_funcs (snd (getGatewayID E s2)) = cd_funcs s"
    using getGatewayID_funcs dialEventSockLoop_funcs[OF s(1)] dialCommandSockLoop_funcs[OF s(2)] by simp
  then show ?thesis using assms s
    by (cases "getGatewayID E s2") (auto simp: cd_Start_def cd_emit_def cd_funcs_def split: sum.splits if_splits)
qed

section \<open>Properties\<close>

definition callbacks_set :: "'c any_backend \<Rightarrow> bool" where
  "callbacks_set b \<longleftrightarrow> (case b of
     SemtechUdp s \<Rightarrow> us_txAckFunc s \<and> us_statsFunc s \<and> us_uplinkFunc s \<and> us_subscribeFunc s
   | BasicStation s \<Rightarrow> bst_txAckFunc s \<and> bst_statsFunc s \<and> bst_uplinkFunc s \<and> bst_rawFunc s \<and> bst_subscribeFunc s
   | Concentratord s \<Rightarrow> cd_funcs s)"

definition configured_backend :: "'c start_env \<Rightarrow> config \<Rightarrow> 'c any_backend result" where
  "configured_backend V conf = backend_Setup (cf_BackendType conf) (udp_new V conf) (bs_new V conf)
     (Inr (cd_NewBackend (cf_CRCCheck conf)))"

lemma bs_NewBackend_events: "bs_NewBackend srt GC W ns js rg lo hi confs ts c = Inr (s, b) \<Longrightarrow> bst_events s = []"
  by (auto simp: bs_NewBackend_def bind_res_Inr_iff split: option.splits)

lemma configured_backend_new:
  assumes "configured_backend V conf = Inr b"
  shows "callbacks_set (any_SetFuncs b)" "any_events (any_SetFuncs b) = []"
  using assms
  by (auto simp: configured_backend_def backend_Setup_def bind_res_Inr_iff udp_new_def bs_new_def
      NewBackend_def cd_NewBackend_def any_SetFuncs_def callbacks_set_def SetFuncs_def bs_SetFuncs_def
      cd_SetFuncs_def cd_funcs_def any_events_def
      dest!: bs_NewBackend_events split: if_splits option.splits)

lemma set_will_frame: "set_will E g m = Inr t \<Longrightarrow> mq_start_frame m t"
  by (auto simp: set_will_def mq_start_frame_def wired_def split: option.splits sum.splits)

lemma choose_auth_retained: "choose_auth E conf = Inr (a, c) \<Longrightarrow> mc_StateRetained c = mc_StateRetained conf"
  by (auto simp: choose_auth_def bind_res_Inr_iff split: if_splits)

lemma mq_NewBackend_new:
  assumes "mq_NewBackend E conf = Inr m"
  shows "mq_published m = []" "mq_calls m = []" "mq_stateRetained m = mc_StateRetained conf"
  using assms choose_auth_retained
  by (auto simp: mq_NewBackend_def bind_res_Inr_iff mq_start_frame_def Let_def
      dest!: set_will_frame split: option.splits)

lemma startBackend_ok:
  assumes "startBackend V a = Some (None, b)" "ap_backend a = Some x"
  shows "\<exists>y. b = a\<lparr>ap_backend := Some y\<rparr> \<and> callbacks_set y = callbacks_set x
    \<and> (y = x \<or> any_step K U S (ve_cd V) x y)"
proof (cases x)
  case (Concentratord s)
  then obtain t where "cd_Start (ve_cd V) s = Some (None, t)" "b = a\<lparr>ap_backend := Some (Concentratord t)\<rparr>"
    using assms by (auto simp: startBackend_def)
  then show ?thesis using Concentratord cd_Start_funcs
    by (intro exI[of _ "Concentratord t"]) (auto simp: callbacks_set_def intro: cd_start)
qed (use assms in \<open>auto simp: startBackend_def intro!: exI[of _ x]\<close>)

text \<open>What a task without an error has done, one task after the other.\<close>

lemma setSyslog_ok: "setSyslog V conf a = Some (None, b) \<Longrightarrow> \<exists>p. b = a\<lparr>ap_syslog := p\<rparr>"
  by (auto simp: setSyslog_def Let_def split: if_splits option.splits intro: exI[of _ "ap_syslog a"])

lemma setupFilters_ok: "setupFilters V conf a = Some (None, b) \<longleftrightarrow>
  (\<exists>f. Filters_Setup (ve_lorawan V) (cf_NetIDs conf) (cf_JoinEUIs conf) (ap_filters a) = Inr f
    \<and> b = a\<lparr>ap_filters := f\<rparr>)"
  by (auto simp: setupFilters_def split: sum.split)

lemma setupBackend_ok: "setupBackend V conf a = Some (None, b) \<longleftrightarrow>
  (\<exists>x. configured_backend V conf = Inr x \<and> b = a\<lparr>ap_backend := Some x\<rparr>)"
  by (auto simp: setupBackend_def configured_backend_def split: sum.split)

lemma setupIntegration_ok: "setupIntegration V conf a = Some (None, b) \<longleftrightarrow>
  (\<exists>m. mq_NewBackend (ve_mqtt V) (cf_MQTT conf) = Inr m \<and> b = a\<lparr>ap_integration := Some m\<rparr>)"
  by (auto simp: setupIntegration_def integration_Setup_def split: sum.split)

lemma setupForwarder_ok:
  assumes "ap_backend a = Some x" "ap_integration a = Some m"
  shows "setupForwarder a = Some (None, b) \<longleftrightarrow>
    b = a\<lparr>ap_backend := Some (any_SetFuncs x), ap_integration := Some (mq_SetFuncs m)\<rparr>"
  using assms by (auto simp: setupForwarder_def forwarder_Setup_def)

lemma setupMetrics_ok: "setupMetrics conf a = Some (None, b) \<Longrightarrow> \<exists>p. b = a\<lparr>ap_metrics := p\<rparr>"
  by (auto simp: setupMetrics_def)

lemma setupCommands_ok:
  assumes "ap_integration a = Some m"
  shows "setupCommands conf a = Some (None, b) \<longleftrightarrow>
    b = a\<lparr>ap_commands := cf_Commands conf, ap_integration := Some (mq_SetExecFunc m)\<rparr>"
  using assms by (auto simp: setupCommands_def commands_Setup_def)

lemma startIntegration_ok:
  assumes "ap_integration a = Some m"
  shows "startIntegration V a = Some (None, b) \<longleftrightarrow>
    (\<exists>t. connectLoop (ve_mqtt V) m = Some (None, t) \<and> b = a\<lparr>ap_integration := Some t\<rparr>)"
  using assms by (auto simp: startIntegration_def mq_Start_def)

lemma start_parts:
  assumes "run V conf = Some (None, a)"
  obtains y m0 m b where "Filters_Setup (ve_lorawan V) (cf_NetIDs conf) (cf_JoinEUIs conf)
      \<lparr>f_netIDs = [], f_joinEUIs = []\<rparr> = Inr (ap_filters a)"
    and "configured_backend V conf = Inr y" and "mq_NewBackend (ve_mqtt V) (cf_MQTT conf) = Inr m0"
    and "connectLoop (ve_mqtt V) (mq_SetExecFunc (mq_SetFuncs m0)) = Some (None, m)"
    and "ap_metadata a = Some (metadata_Setup (cf_MetaData conf))"
    and "ap_integration a = Some m" and "ap_backend a = Some b" and "callbacks_set b" and "ap_listening a"
    and "b = any_SetFuncs y \<or> any_step K U S (ve_cd V) (any_SetFuncs y) b"
proof -
  obtain a1 a2 a3 a4 a5 a6 a7 a8 a9 a10 a11 where st: "setLogLevel conf new_app = Some (None, a1)"
    "setSyslog V conf a1 = Some (None, a2)" "setupFilters V conf a2 = Some (None, a3)"
    "setupBackend V conf a3 = Some (None, a4)" "setupIntegration V conf a4 = Some (None, a5)"
    "setupForwarder a5 = Some (None, a6)" "setupMetrics conf a6 = Some (None, a7)"
    "setupMetaData conf a7 = Some (None, a8)" "setupCommands conf a8 = Some (None, a9)"
    "startIntegration V a9 = Some (None, a10)" "startBackend V a10 = Some (None, a11)"
    "a = a11\<lparr>ap_listening := True\<rparr>"
    using assms(1) by (auto simp: run_def tasks_def printStartMessage_def api_Launch_def)
  obtain f where f: "Filters_Setup (ve_lorawan V) (cf_NetIDs conf) (cf_JoinEUIs conf)
      \<lparr>f_netIDs = [], f_joinEUIs = []\<rparr> = Inr f" "a3 = a2\<lparr>ap_filters := f\<rparr>"
    using st(1,3) setSyslog_ok[OF st(2)] by (auto simp: setLogLevel_def new_app_def setupFilters_ok)
  obtain y where y: "configured_backend V conf = Inr y" "a4 = a3\<lparr>ap_backend := Some y\<rparr>"
    using st(4) by (auto simp: setupBackend_ok)
  obtain m0 where m0: "mq_NewBackend (ve_mqtt V) (cf_MQTT conf) = Inr m0" "a5 = a4\<lparr>ap_integration := Some m0\<rparr>"
    using st(5) by (auto simp: setupIntegration_ok)
  have a6: "a6 = a5\<lparr>ap_backend := Some (any_SetFuncs y), ap_integration := Some (mq_SetFuncs m0)\<rparr>"
    using st(6) y(2) m0(2) by (simp add: setupForwarder_ok)
  have md: "ap_metadata a8 = Some (metadata_Setup (cf_MetaData conf))"
    using st(8) by (auto simp: setupMetaData_def)
  have a8: "ap_integration a8 = Some (mq_SetFuncs m0)" "ap_backend a8 = Some (any_SetFuncs y)" "ap_filters a8 = f"
    using st(8) setupMetrics_ok[OF st(7)] a6 m0(2) y(2) f(2) by (auto simp: setupMetaData_def)
  have a9: "a9 = a8\<lparr>ap_commands := cf_Commands conf, ap_integration := Some (mq_SetExecFunc (mq_SetFuncs m0))\<rparr>"
    using st(9) setupCommands_ok[OF a8(1)] by blast
  obtain m where m: "connectLoop (ve_mqtt V) (mq_SetExecFunc (mq_SetFuncs m0)) = Some (None, m)"
    "a10 = a9\<lparr>ap_integration := Some m\<rparr>"
    using st(10) a9 startIntegration_ok[of a9 "mq_SetExecFunc (mq_SetFuncs m0)" V a10] by auto
  obtain b where b: "a11 = a10\<lparr>ap_backend := Some b\<rparr>" "callbacks_set b"
    "b = any_SetFuncs y \<or> any_step K U S (ve_cd V) (any_SetFuncs y) b"
    using startBackend_ok[where K = K and U = U and S = S, OF st(11), of "any_SetFuncs y"] m(2) a9 a8(2) configured_backend_new(1)[OF y(1)] by auto
  show thesis
    by (rule that[OF _ y(1) m0(1) m(1) _ _ _ b(2) _ b(3)]) (use st(12) b(1) m(2) f(1) a8(3) a9 md in simp_all)
qed

text \<open>C38: The composition of the whole program: a start without an error, with retained states, has
  installed the configured filters and the meta-data, set every callback of the backend and of the integration,
  and connected the integration; and what it leaves, with the events the backend has handed out
  in starting, is a state of the runs of the bridge with the configured backend, in which every
  event is forwarded once. No backend hands out an event before its callbacks are set.\<close>

theorem start_reaches_bridge:
  fixes V :: "'c start_env"
  assumes "run V conf = Some (None, a)" "mc_StateRetained (cf_MQTT conf)"
  shows "\<exists>b m. ap_backend a = Some b \<and> ap_integration a = Some m
    \<and> Filters_Setup (ve_lorawan V) (cf_NetIDs conf) (cf_JoinEUIs conf) \<lparr>f_netIDs = [], f_joinEUIs = []\<rparr>
        = Inr (ap_filters a)
    \<and> ap_metadata a = Some (metadata_Setup (cf_MetaData conf))
    \<and> callbacks_set b \<and> wired m = (True, True, True, True) \<and> mq_conn m \<and> ap_listening a
    \<and> reachable
        (bridge_init (\<lambda>x. \<exists>y. configured_backend V conf = Inr y \<and> x = any_SetFuncs y) (any_ops K U S (ve_cd V)))
        (bridge_step F (any_ops K U S (ve_cd V)) (any_step K U S (ve_cd V)))
        \<lparr>br_backend = b, br_mqtt = m, br_metadata = metadata_Setup (cf_MetaData conf),
          br_events = any_events b, br_calls = [], br_done = [], br_called = [], br_ended = False\<rparr>"
proof -
  obtain y m0 m b where st: "Filters_Setup (ve_lorawan V) (cf_NetIDs conf) (cf_JoinEUIs conf)
      \<lparr>f_netIDs = [], f_joinEUIs = []\<rparr> = Inr (ap_filters a)"
    "configured_backend V conf = Inr y" "mq_NewBackend (ve_mqtt V) (cf_MQTT conf) = Inr m0"
    "connectLoop (ve_mqtt V) (mq_SetExecFunc (mq_SetFuncs m0)) = Some (None, m)"
    "ap_metadata a = Some (metadata_Setup (cf_MetaData conf))"
    "ap_integration a = Some m" "ap_backend a = Some b" "callbacks_set b" "ap_listening a"
    "b = any_SetFuncs y \<or> any_step K U S (ve_cd V) (any_SetFuncs y) b"
    by (rule start_parts[OF assms(1), where K = K and U = U and S = S])
  have frame: "wired m = (True, True, True, True)" "mq_conn m" "mq_published m = []" "mq_calls m = []" "mq_stateRetained m"
    using connectLoop_frame[OF st(4)] mq_NewBackend_new[OF st(3)] assms(2)
    by (simp_all add: mq_start_frame_def wired_def mq_SetExecFunc_def mq_SetFuncs_def)
  let ?init = "\<lambda>x. \<exists>y. configured_backend V conf = Inr y \<and> x = any_SetFuncs y"
  have "reachable ?init (any_step K U S (ve_cd V)) b"
    using st(10,2) by (metis (mono_tags, lifting) reachable.intros)
  moreover have "bo_events (any_ops K U S (ve_cd V)) = any_events" by (simp add: any_ops_def)
  moreover have "\<And>x. ?init x \<Longrightarrow> any_events x = []" using configured_backend_new(2) by auto
  ultimately have "reachable (bridge_init ?init (any_ops K U S (ve_cd V)))
      (bridge_step F (any_ops K U S (ve_cd V)) (any_step K U S (ve_cd V)))
      \<lparr>br_backend = b, br_mqtt = m, br_metadata = metadata_Setup (cf_MetaData conf),
          br_events = any_events b, br_calls = [], br_done = [], br_called = [], br_ended = False\<rparr>"
    using any_source.backend_alone[of ?init K U S "ve_cd V" b m, OF _ frame(3,4,5)] by simp
  then show ?thesis using st(1,5-9) frame(1,2) by auto
qed

text \<open>A start with the ConcentratorD backend and the default topics.\<close>

definition demo_mqtt_conf :: mqtt_conf where
  "demo_mqtt_conf = \<lparr>mc_EventTopicTemplate = ''gateway/{{ .GatewayID }}/event/{{ .EventType }}'',
     mc_CommandTopicTemplate = ''gateway/{{ .GatewayID }}/command/#'',
     mc_StateTopicTemplate = ''gateway/{{ .GatewayID }}/state/{{ .StateType }}'',
     mc_StateRetained = True, mc_KeepAlive = 30, mc_MaxReconnectInterval = 60,
     mc_TerminateOnConnectError = False, mc_MaxTokenWait = 5, mc_AuthType = ''generic'',
     mc_Generic = \<lparr>gen_Servers = [''tcp://127.0.0.1:1883''], gen_Username = [], gen_Password = [],
       gen_CACert = [], gen_TLSCert = [], gen_TLSKey = [], gen_QOS = 0, gen_CleanSession = True,
       gen_ClientID = []\<rparr>,
     mc_GCP = \<lparr>gcp_Server = [], gcp_DeviceID = [], gcp_ProjectID = [], gcp_CloudRegion = [],
       gcp_RegistryID = [], gcp_JWTExpiration = 0, gcp_JWTKeyFile = []\<rparr>,
     mc_Azure = demo_azure, mc_Marshaler = ''protobuf''\<rparr>"

definition demo_config :: config where
  "demo_config = \<lparr>cf_LogLevel = 4, cf_LogToSyslog = False, cf_NetIDs = [], cf_JoinEUIs = [],
     cf_BackendType = ''concentratord'', cf_UDPBind = [], cf_SkipCRCCheck = False, cf_FakeRxTime = False,
     cf_BS_Bind = [], cf_BS_TLSCert = [], cf_BS_TLSKey = [], cf_BS_CACert = [], cf_BS_StatsInterval = 0,
     cf_BS_PingInterval = 0, cf_BS_TimesyncInterval = 0, cf_BS_ReadTimeout = 0, cf_BS_WriteTimeout = 0,
     cf_BS_NetIDs = [], cf_BS_JoinEUIs = [], cf_BS_Region = [], cf_BS_FrequencyMin = 0,
     cf_BS_FrequencyMax = 0, cf_BS_Concentrators = [], cf_EventURL = [], cf_CommandURL = [],
     cf_CRCCheck = True, cf_MQTT = demo_mqtt_conf, cf_GenericServer = [], cf_EndpointEnabled = False,
     cf_PrometheusBind = [], cf_MetaData = \<lparr>mdc_Static = [], mdc_Commands = [],
       mdc_ExecutionInterval = 60, mdc_MaxExecutionDuration = 1, mdc_SplitDelimiter = ''=''\<rparr>,
     cf_Commands = Map.empty\<rparr>"

definition demo_cd_env :: cd_env where
  "demo_cd_env = \<lparr>ce_dial = (\<lambda>n. 0 < n), ce_option = (\<lambda>_. True), ce_send = (\<lambda>_. True), ce_reply = (\<lambda>_. Some [1, 2, 3, 4, 5, 6, 7, 8]),
     ce_event = (\<lambda>_. None), ce_marshal = (\<lambda>_. None), ce_txack = (\<lambda>_. None), ce_uplink = (\<lambda>_. None),
     ce_stats = (\<lambda>_. None), ce_zero_crc = CRC_OK,
     ce_lorawan = \<lparr>netid_unmarshal = (\<lambda>_. None), eui64_unmarshal = (\<lambda>_. None), phy_unmarshal = (\<lambda>_. None),
       is_netid = (\<lambda>_ _. False)\<rparr>,
     ce_filters = \<lparr>f_netIDs = [], f_joinEUIs = []\<rparr>\<rparr>"

definition demo_start_env :: "(string \<rightharpoonup> cache_val) start_env" where
  "demo_start_env = \<lparr>ve_cache = Map.empty, ve_udp_addr = (\<lambda>_. None), ve_udp_listen = (\<lambda>_. None),
     ve_tcp_listen = (\<lambda>_. None), ve_ReadFile = (\<lambda>_. Inr []), ve_syslog = (\<lambda>_. None), ve_sort = id,
     ve_GetConfig = (\<lambda>_. None), ve_lorawan = ce_lorawan demo_cd_env, ve_mqtt = demo_mq_env,
     ve_cd = demo_cd_env\<rparr>"

lemma demo_templates:
  "template_pieces ''gateway/{{ .GatewayID }}/event/{{ .EventType }}'' = Some event_pieces"
  "template_pieces ''gateway/{{ .GatewayID }}/state/{{ .StateType }}'' = Some state_pieces"
  "template_pieces ''gateway/{{ .GatewayID }}/command/#'' = Some command_pieces"
  by code_simp+

lemma connected_at_once: "mq_connect E m = (None, t) \<Longrightarrow> connectLoop E m = Some (None, t)"
  by (subst connectLoop.simps) simp

lemma demo_mq_new: "\<exists>m. mq_NewBackend demo_mq_env demo_mqtt_conf = Inr m
    \<and> (\<exists>t. mq_connect demo_mq_env (mq_SetExecFunc (mq_SetFuncs m)) = (None, t))"
  by (simp add: mq_NewBackend_def demo_mqtt_conf_def choose_auth_def NewGenericAuthentication_def
      newTLSConfig_def choose_marshaler_def template_Parse_def demo_templates generic_Init_def Let_def
      generic_GetGatewayID_def mq_connect_def mq_request_def mq_SetExecFunc_def mq_SetFuncs_def
      demo_mq_env_def tokenWrapper_def demo_token_def)

lemma demo_cd_start: "cd_Start demo_cd_env (cd_SetFuncs (cd_NewBackend True)) = Some (None,
    (cd_SetFuncs (cd_NewBackend True))\<lparr>cd_eventSock := True, cd_commandSock := True, cd_draws := 4,
      cd_gatewayID := [1, 2, 3, 4, 5, 6, 7, 8], cd_requests := [(''gateway_id'', [])],
      cd_events := [CdSubscribe \<lparr>sub_Subscribe = True, sub_GatewayID = [1, 2, 3, 4, 5, 6, 7, 8]\<rparr>]\<rparr>)"
  by (simp add: cd_Start_def dialEventSockLoop.simps dialCommandSockLoop.simps dialEventSock_def
      dialCommandSock_def demo_cd_env_def cd_SetFuncs_def cd_NewBackend_def getGatewayID_def
      commandRequest_def cd_emit_def Let_def)

lemma demo_run_ok: "\<exists>a. run demo_start_env demo_config = Some (None, a)
    \<and> map_option any_events (ap_backend a)
      = Some [FwSubscribe \<lparr>sub_Subscribe = True, sub_GatewayID = [1, 2, 3, 4, 5, 6, 7, 8]\<rparr>]"
proof -
  obtain m t where m: "mq_NewBackend demo_mq_env demo_mqtt_conf = Inr m"
    "connectLoop demo_mq_env (mq_SetExecFunc (mq_SetFuncs m)) = Some (None, t)"
    using demo_mq_new connected_at_once by blast
  have fields: "ve_mqtt demo_start_env = demo_mq_env" "ve_cd demo_start_env = demo_cd_env"
    "cf_MQTT demo_config = demo_mqtt_conf" "cf_BackendType demo_config = ''concentratord''"
    "cf_CRCCheck demo_config = True" "cf_NetIDs demo_config = []" "cf_JoinEUIs demo_config = []"
    "\<not> cf_LogToSyslog demo_config"
    by (simp_all add: demo_start_env_def demo_config_def)
  show ?thesis
    by (simp add: run_def tasks_def setLogLevel_def setSyslog_def printStartMessage_def setupFilters_ok
        Filters_Setup_def setupBackend_ok configured_backend_def backend_Setup_def setupIntegration_ok
        setupForwarder_ok setupMetrics_def setupMetaData_def setupCommands_ok startIntegration_ok
        api_Launch_def fields m startBackend_def any_SetFuncs_def demo_cd_start any_events_def)
qed

theorem start_reaches_bridge_witness:
  "\<exists>a b m. run demo_start_env demo_config = Some (None, a)
    \<and> any_events b = [FwSubscribe \<lparr>sub_Subscribe = True, sub_GatewayID = [1, 2, 3, 4, 5, 6, 7, 8]\<rparr>]
    \<and> reachable
        (bridge_init (\<lambda>x. \<exists>y. configured_backend demo_start_env demo_config = Inr y \<and> x = any_SetFuncs y)
          (any_ops map_cache demo_udp_env demo_bs_env demo_cd_env))
        (bridge_step demo_fw (any_ops map_cache demo_udp_env demo_bs_env demo_cd_env)
          (any_step map_cache demo_udp_env demo_bs_env demo_cd_env))
        \<lparr>br_backend = b, br_mqtt = m, br_metadata = metadata_Setup (cf_MetaData demo_config),
          br_events = any_events b, br_calls = [], br_done = [], br_called = [], br_ended = False\<rparr>"
proof -
  obtain a where a: "run demo_start_env demo_config = Some (None, a)" "map_option any_events (ap_backend a)
      = Some [FwSubscribe \<lparr>sub_Subscribe = True, sub_GatewayID = [1, 2, 3, 4, 5, 6, 7, 8]\<rparr>]"
    using demo_run_ok by blast
  have "mc_StateRetained (cf_MQTT demo_config)" "ve_cd demo_start_env = demo_cd_env"
    by (simp_all add: demo_config_def demo_mqtt_conf_def demo_start_env_def)
  then show ?thesis
    using start_reaches_bridge[OF a(1), of map_cache demo_udp_env demo_bs_env demo_fw] a by auto
qed

end
