(* ===== verification/PfConfig.thy ===== *)
theory PfConfig
  imports Sx1301 Json "HOL-Library.AList"
begin

text \<open>
  The packet-forwarder configuration of the Semtech UDP backend
  (\<open>internal/backend/semtechudp/pf_config.go\<close>): radios and channels are computed from a
  gateway configuration and merged into the packet-forwarder's JSON file. The code is a second
  version of the placement in \<open>sx1301v1\<close>, in 64-bit integers and with fixed arrays; integers
  of the code are \<open>int\<close> here, since no value gets near their bounds.

  The last part shows that both versions place radios and channels alike.
\<close>

section \<open>Radios and channels\<close>

definition radioCount :: nat where "radioCount = 2"
definition channelCount :: nat where "channelCount = 8"

record radioConfig =
  rad_Enable :: bool
  rad_Freq :: int

record multiSFChannelConfig =
  msf_Enable :: bool
  msf_Radio :: nat
  msf_IF :: int
  msf_Freq :: int

record loRaSTDChannelConfig =
  std_Enable :: bool
  std_Radio :: nat
  std_IF :: int
  std_Bandwidth :: int
  std_SpreadFactor :: int
  std_Freq :: int

record fskChannelConfig =
  fsk_Enable :: bool
  fsk_Radio :: nat
  fsk_IF :: int
  fsk_Bandwidth :: int
  fsk_DataRate :: int
  fsk_Freq :: int

record pf_gatewayConfiguration =
  pf_Radios :: "radioConfig list"
  pf_MultiSFChannels :: "multiSFChannelConfig list"
  pf_LoRaSTD :: loRaSTDChannelConfig
  pf_FSK :: fskChannelConfig

definition empty_gc :: pf_gatewayConfiguration where
  "empty_gc = \<lparr>pf_Radios = replicate radioCount \<lparr>rad_Enable = False, rad_Freq = 0\<rparr>,
     pf_MultiSFChannels = replicate channelCount
       \<lparr>msf_Enable = False, msf_Radio = 0, msf_IF = 0, msf_Freq = 0\<rparr>,
     pf_LoRaSTD = \<lparr>std_Enable = False, std_Radio = 0, std_IF = 0, std_Bandwidth = 0,
       std_SpreadFactor = 0, std_Freq = 0\<rparr>,
     pf_FSK = \<lparr>fsk_Enable = False, fsk_Radio = 0, fsk_IF = 0, fsk_Bandwidth = 0, fsk_DataRate = 0,
       fsk_Freq = 0\<rparr>\<rparr>"

definition pf_radioBandwidths :: "int \<Rightarrow> int option" where
  "pf_radioBandwidths bw =
     (if bw = 500000 then Some 1100000 else if bw = 250000 then Some 1000000
      else if bw = 125000 then Some 925000 else None)"

definition pf_channelBandwidth :: "ChannelConfiguration \<Rightarrow> int" where
  "pf_channelBandwidth c = (case ch_Modulation c of
     LORA \<Rightarrow> (case GetLoraModulationConfig (ch_ModulationConfig c) of
         Some m \<Rightarrow> uint (lc_Bandwidth m) * 1000 | None \<Rightarrow> 0)
   | FSK \<Rightarrow> (case GetFskModulationConfig (ch_ModulationConfig c) of
         Some m \<Rightarrow> uint (fc_Bandwidth m) * 1000 | None \<Rightarrow> 0)
   | _ \<Rightarrow> 0)"

definition pf_radioBandwidth :: "ChannelConfiguration \<Rightarrow> int" where
  "pf_radioBandwidth c = (case pf_radioBandwidths (pf_channelBandwidth c) of
     Some w \<Rightarrow> w | None \<Rightarrow> 925000)"

definition pf_minRadioCenterFreq :: "ChannelConfiguration \<Rightarrow> int" where
  "pf_minRadioCenterFreq c =
     uint (ch_Frequency c) - pf_channelBandwidth c div 2 + pf_radioBandwidth c div 2"

definition pf_channelMax :: "ChannelConfiguration \<Rightarrow> int" where
  "pf_channelMax c = uint (ch_Frequency c) + pf_channelBandwidth c div 2"

definition pf_channelMin :: "ChannelConfiguration \<Rightarrow> int" where
  "pf_channelMin c = uint (ch_Frequency c) - pf_channelBandwidth c div 2"

text \<open>A channel that fits no radio is passed over here.\<close>

fun pf_place :: "ChannelConfiguration \<Rightarrow> radioConfig list \<Rightarrow> radioConfig list" where
  "pf_place c [] = []"
| "pf_place c (r # rs) =
     (if \<not> rad_Enable r then \<lparr>rad_Enable = True, rad_Freq = pf_minRadioCenterFreq c\<rparr> # rs
      else if pf_channelMax c \<le> rad_Freq r + pf_radioBandwidth c div 2 then r # rs
      else r # pf_place c rs)"

text \<open>The radio of a channel, and the first one for a channel that has none.\<close>

fun pf_radio_from :: "ChannelConfiguration \<Rightarrow> nat \<Rightarrow> radioConfig list \<Rightarrow> nat" where
  "pf_radio_from c i [] = 0"
| "pf_radio_from c i (r # rs) =
     (if pf_channelMin c \<ge> rad_Freq r - pf_radioBandwidth c div 2
         \<and> pf_channelMax c \<le> rad_Freq r + pf_radioBandwidth c div 2
      then i else pf_radio_from c (i + 1) rs)"

definition pf_radio :: "ChannelConfiguration \<Rightarrow> radioConfig list \<Rightarrow> nat" where
  "pf_radio c rs = pf_radio_from c 0 rs"

definition modulation_name :: "modulation \<Rightarrow> string" where
  "modulation_name m = (case m of LORA \<Rightarrow> ''LORA'' | FSK \<Rightarrow> ''FSK'' | LR_FHSS \<Rightarrow> ''LR_FHSS''
     | OtherModulation n \<Rightarrow> (if n < 0 then CHR ''-'' # show_dec (nat (- n)) else show_dec (nat n)))"

definition pf_assign ::
  "ChannelConfiguration \<Rightarrow> nat \<times> pf_gatewayConfiguration \<Rightarrow> (nat \<times> pf_gatewayConfiguration) result" where
  "pf_assign c st = (case st of (multiSFCounter, gc) \<Rightarrow>
     let radio = pf_radio c (pf_Radios gc);
         freq = uint (ch_Frequency c);
         IF = freq - rad_Freq (pf_Radios gc ! radio) in
     (case ch_Modulation c of
        FSK \<Rightarrow> (case GetFskModulationConfig (ch_ModulationConfig c) of
            None \<Rightarrow> Inl (ErrMsg ''fsk_modulation_config must not be nil'')
          | Some m \<Rightarrow>
              if fsk_Enable (pf_FSK gc) then Inl (ErrMsg ''gateway: fsk channel already configured'')
              else Inr (multiSFCounter, gc\<lparr>pf_FSK := \<lparr>fsk_Enable = True, fsk_Radio = radio, fsk_IF = IF,
                fsk_Bandwidth = uint (fc_Bandwidth m), fsk_DataRate = uint (fc_Bitrate m), fsk_Freq = freq\<rparr>\<rparr>))
      | LORA \<Rightarrow> (case GetLoraModulationConfig (ch_ModulationConfig c) of
            None \<Rightarrow> Inl (ErrMsg ''lora_modulation_config must not be nil'')
          | Some m \<Rightarrow> (case lc_SpreadingFactors m of
                [sf] \<Rightarrow>
                  if std_Enable (pf_LoRaSTD gc) then
                    Inl (ErrMsg ''gateway: lora std channel already configured'')
                  else Inr (multiSFCounter, gc\<lparr>pf_LoRaSTD := \<lparr>std_Enable = True, std_Radio = radio, std_IF = IF,
                    std_Bandwidth = pf_channelBandwidth c, std_SpreadFactor = uint sf, std_Freq = freq\<rparr>\<rparr>)
              | _ \<Rightarrow>
                  if channelCount \<le> multiSFCounter then
                    Inl (ErrMsg ''gateway: exceeded maximum number of multi-sf channels'')
                  else Inr (multiSFCounter + 1, gc\<lparr>pf_MultiSFChannels := (pf_MultiSFChannels gc)
                    [multiSFCounter := \<lparr>msf_Enable = True, msf_Radio = radio, msf_IF = IF, msf_Freq = freq\<rparr>]\<rparr>)))
      | m \<Rightarrow> Inl (ErrMsg (''gateway: invalid modulation: '' @ modulation_name m))))"

fun pf_assign_all ::
  "ChannelConfiguration list \<Rightarrow> nat \<times> pf_gatewayConfiguration \<Rightarrow> (nat \<times> pf_gatewayConfiguration) result" where
  "pf_assign_all [] st = Inr st"
| "pf_assign_all (c # cs) st = bind_res (pf_assign c st) (pf_assign_all cs)"

definition getGatewayConfig ::
  "channel_sort \<Rightarrow> GatewayConfiguration \<Rightarrow> pf_gatewayConfiguration result" where
  "getGatewayConfig srt conf =
     (let cs = srt (gc_Channels conf);
          gc = empty_gc\<lparr>pf_Radios := fold pf_place cs (pf_Radios empty_gc)\<rparr> in
      bind_res (pf_assign_all cs (0, gc)) (\<lambda>(n, gc). Inr gc))"

section \<open>The configuration file\<close>

text \<open>
  Values of the file, and the Go values that are put among them. A section of \<open>SX1301_conf\<close>
  is a JSON object or something else; a missing \<open>gateway_conf\<close> is a nil map.
\<close>

datatype leaf = FromFile json | SetBool bool | SetInt int | SetStr string

datatype conf_section = SectionMap "(string \<times> leaf) list" | SectionOther json

record configFile =
  cf_SX1301Conf :: "(string \<times> conf_section) list"
  cf_GatewayConf :: "(string \<times> leaf) list option"

text \<open>\<open>/\*.*\*/\<close>: on each line from the first opening to the last closing mark after it.\<close>

definition strip_line :: "string \<Rightarrow> string" where
  "strip_line l = (case cut_at ''/*'' l of
     None \<Rightarrow> l
   | Some (a, r) \<Rightarrow> (case cut_at ''/*'' (rev r) of
         None \<Rightarrow> l
       | Some (b, _) \<Rightarrow> a @ rev b))"

definition strip_comments :: "string \<Rightarrow> string" where
  "strip_comments s = join_char CHR 0x0A (map strip_line (split_char CHR 0x0A s))"

definition loadConfigFile ::
  "(string \<Rightarrow> string option) \<Rightarrow> (string \<Rightarrow> configFile option) \<Rightarrow> string \<Rightarrow> configFile result" where
  "loadConfigFile ReadFile json_Unmarshal filePath =
     (case ReadFile filePath of
        None \<Rightarrow> Inl (Wrap ''read file error'' (LibErr ''ioutil.ReadFile''))
      | Some b \<Rightarrow> (case json_Unmarshal (strip_comments b) of
            None \<Rightarrow> Inl (Wrap ''unmarshal config json error'' (LibErr ''json''))
          | Some cf \<Rightarrow> Inr cf))"

fun go_type :: "conf_section option \<Rightarrow> string" where
  "go_type (Some (SectionOther (JBool b))) = ''bool''"
| "go_type (Some (SectionOther (JNum n))) = ''float64''"
| "go_type (Some (SectionOther (JStr s))) = ''string''"
| "go_type (Some (SectionOther (JArr xs))) = ''[]interface {}''"
| "go_type (Some (SectionOther (JObj m))) = ''map[string]interface {}''"
| "go_type (Some (SectionOther JNull)) = ''<nil>''"
| "go_type (Some (SectionMap m)) = ''map[string]interface {}''"
| "go_type None = ''<nil>''"

text \<open>The keys of one section are set in place; the sections set before a failure stay set.\<close>

definition set_section ::
  "string \<times> (string \<times> leaf) list \<Rightarrow> configFile \<Rightarrow> go_err option \<times> configFile" where
  "set_section s config = (case map_of (cf_SX1301Conf config) (fst s) of
     Some (SectionMap m) \<Rightarrow> (None, config\<lparr>cf_SX1301Conf := AList.update (fst s)
       (SectionMap (fold (\<lambda>(k, v). AList.update k v) (snd s) m)) (cf_SX1301Conf config)\<rparr>)
   | other \<Rightarrow> (Some (ErrMsg (''expected '' @ fst s @ '' to be of type map[string]interface{}, got ''
       @ go_type other)), config))"

fun set_sections ::
  "(string \<times> (string \<times> leaf) list) list \<Rightarrow> configFile \<Rightarrow> go_err option \<times> configFile" where
  "set_sections [] config = (None, config)"
| "set_sections (s # ss) config = (case set_section s config of
     (Some e, config1) \<Rightarrow> (Some e, config1)
   | (None, config1) \<Rightarrow> set_sections ss config1)"

definition radio_sections :: "pf_gatewayConfiguration \<Rightarrow> (string \<times> (string \<times> leaf) list) list" where
  "radio_sections gc = map (\<lambda>(i, r). (''radio_'' @ show_dec i,
     [(''enable'', SetBool (rad_Enable r)), (''freq'', SetInt (rad_Freq r))])) (enumerate 0 (pf_Radios gc))"

definition multi_sections :: "pf_gatewayConfiguration \<Rightarrow> (string \<times> (string \<times> leaf) list) list" where
  "multi_sections gc = map (\<lambda>(i, c). (''chan_multiSF_'' @ show_dec i,
     [(''enable'', SetBool (msf_Enable c)), (''radio'', SetInt (int (msf_Radio c))),
      (''if'', SetInt (msf_IF c))])) (enumerate 0 (pf_MultiSFChannels gc))"

definition std_section :: "loRaSTDChannelConfig \<Rightarrow> string \<times> (string \<times> leaf) list" where
  "std_section c = (''chan_Lora_std'', [(''enable'', SetBool (std_Enable c)),
     (''radio'', SetInt (int (std_Radio c))), (''if'', SetInt (std_IF c)),
     (''bandwidth'', SetInt (std_Bandwidth c)), (''spread_factor'', SetInt (std_SpreadFactor c))])"

definition fsk_section :: "fskChannelConfig \<Rightarrow> string \<times> (string \<times> leaf) list" where
  "fsk_section c = (''chan_FSK'', [(''enable'', SetBool (fsk_Enable c)),
     (''radio'', SetInt (int (fsk_Radio c))), (''if'', SetInt (fsk_IF c)),
     (''bandwidth'', SetInt (fsk_Bandwidth c)), (''datarate'', SetInt (fsk_DataRate c))])"

text \<open>\<open>mac_String\<close> is the text of the gateway ID; writing to a nil map panics.\<close>

definition mergeConfig ::
  "string \<Rightarrow> configFile \<Rightarrow> pf_gatewayConfiguration \<Rightarrow> go_err option \<times> configFile" where
  "mergeConfig mac_String config gc =
     (case set_sections (radio_sections gc @ multi_sections gc
         @ [std_section (pf_LoRaSTD gc), fsk_section (pf_FSK gc)]) config of
        (Some e, config1) \<Rightarrow> (Some e, config1)
      | (None, config1) \<Rightarrow> (case cf_GatewayConf config1 of
            None \<Rightarrow> (Some (GoPanic ''assignment to entry in nil map''), config1)
          | Some m \<Rightarrow> (None, config1\<lparr>cf_GatewayConf :=
              Some (AList.update ''gateway_ID'' (SetStr mac_String) m)\<rparr>)))"

section \<open>Restarting the packet-forwarder\<close>

text \<open>\<open>run\<close> executes a program with its arguments; its output is not used.\<close>

definition invokePFRestart :: "(string \<Rightarrow> string list \<Rightarrow> go_err option) \<Rightarrow> string \<Rightarrow> go_err option" where
  "invokePFRestart run cmd = (case go_Fields cmd of
     [] \<Rightarrow> Some (ErrMsg ''gateway: no packet-forwarder restart command configured'')
   | name # args \<Rightarrow> map_option (Wrap ''execute command error'') (run name args))"

lemma invokePFRestart_words:
  assumes "\<forall>w \<in> set (name # args). plain_word w"
  shows "invokePFRestart run (join_char CHR '' '' (name # args))
    = map_option (Wrap ''execute command error'') (run name args)"
  using go_Fields_join[OF assms] by (simp add: invokePFRestart_def)

section \<open>The two placements\<close>

text \<open>Bandwidths are configured in kilohertz; these do not wrap when they are turned into hertz.\<close>

definition small_bandwidth :: "ChannelConfiguration \<Rightarrow> bool" where
  "small_bandwidth c \<longleftrightarrow> pf_channelBandwidth c < 2 ^ 32"

lemma thousand: "125 * uint (w :: u32) < 536870912 \<Longrightarrow> uint (w * 1000) = uint w * 1000"
  by (simp add: uint_word_ariths)

lemma same_channelBandwidth: "small_bandwidth c \<Longrightarrow> pf_channelBandwidth c = uint (channelBandwidth c)"
  by (auto simp: small_bandwidth_def pf_channelBandwidth_def channelBandwidth_def thousand
      split: modulation.splits option.splits)

lemma same_radioBandwidth: "small_bandwidth c \<Longrightarrow> pf_radioBandwidth c = uint (radioBandwidth c)"
  by (simp add: pf_radioBandwidth_def radioBandwidth_def pf_radioBandwidths_def same_channelBandwidth
      radioBandwidthPerChannelBandwidth_def defaultRadioBandwidth_def word_uint_eq_iff)

lemma same_bounds:
  assumes "plain_channel c" "small_bandwidth c"
  shows "pf_channelMin c = uint (channelMin c)" "pf_channelMax c = uint (channelMax c)"
    "pf_minRadioCenterFreq c = uint (minRadioCenterFreq c)"
proof -
  have b: "unat (channelBandwidth c) div 2 \<le> 462500" using bandwidths[OF assms(1)] by auto
  have f: "2000000 \<le> unat (ch_Frequency c)"
    using assms(1) by (simp add: plain_channel_def word_le_nat_alt)
  have e: "pf_channelBandwidth c div 2 = int (unat (channelBandwidth c) div 2)"
    "pf_radioBandwidth c div 2 = int (unat (radioBandwidth c) div 2)"
    "uint (ch_Frequency c) = int (unat (ch_Frequency c))"
    by (simp_all add: same_channelBandwidth[OF assms(2)] same_radioBandwidth[OF assms(2)] zdiv_int)
  have u: "uint w = int (unat w)" for w :: u32 by simp
  show "pf_channelMin c = uint (channelMin c)" "pf_channelMax c = uint (channelMax c)"
    "pf_minRadioCenterFreq c = uint (minRadioCenterFreq c)"
    unfolding pf_channelMin_def pf_channelMax_def pf_minRadioCenterFreq_def e u[of "channelMin c"]
      u[of "channelMax c"] u[of "minRadioCenterFreq c"] plain_unat[OF assms(1)]
    using b f by linarith+
qed

text \<open>A radio of the one placement and of the other.\<close>

definition same_radio :: "radioConfig \<Rightarrow> u32 \<Rightarrow> bool" where
  "same_radio p r \<longleftrightarrow> rad_Freq p = uint r \<and> (rad_Enable p \<longleftrightarrow> r \<noteq> 0) \<and> (r = 0 \<or> good_radio r)"

lemma same_upper:
  assumes "plain_channel c" "small_bandwidth c" "good_radio r"
  shows "pf_channelMax c \<le> uint r + pf_radioBandwidth c div 2
    \<longleftrightarrow> channelMax c \<le> r + radioBandwidth c div 2"
proof -
  have b: "unat (radioBandwidth c) div 2 \<le> 550000" using bandwidths[OF assms(1)] by auto
  have r: "unat (r + radioBandwidth c div 2) = unat r + unat (radioBandwidth c) div 2"
    using b assms(3) by (simp add: unat_word_ariths(1) unat_div_2 good_radio_def)
  have "pf_radioBandwidth c div 2 = int (unat (radioBandwidth c) div 2)"
    by (simp add: same_radioBandwidth[OF assms(2)] zdiv_int)
  moreover have "pf_channelMax c = int (unat (channelMax c))"
    by (simp add: same_bounds(2)[OF assms(1,2)])
  moreover have "uint r = int (unat r)" by simp
  ultimately show ?thesis unfolding word_le_nat_alt r by linarith
qed

lemma same_covers:
  assumes "plain_channel c" "small_bandwidth c" "same_radio p r"
  shows "(pf_channelMin c \<ge> rad_Freq p - pf_radioBandwidth c div 2
    \<and> pf_channelMax c \<le> rad_Freq p + pf_radioBandwidth c div 2) \<longleftrightarrow> covers c r"
proof (cases "r = 0")
  case True
  have "pf_radioBandwidth c \<le> 1100000"
    by (simp add: pf_radioBandwidth_def pf_radioBandwidths_def)
  then have "pf_radioBandwidth c div 2 \<le> 550000" by linarith
  moreover have "2000000 \<le> pf_channelMax c"
  proof -
    have "2000000 \<le> uint (ch_Frequency c)" using assms(1) by (simp add: plain_channel_def word_le_def)
    moreover have "0 \<le> pf_channelBandwidth c" by (simp add: same_channelBandwidth[OF assms(2)])
    ultimately show ?thesis by (simp add: pf_channelMax_def)
  qed
  ultimately show ?thesis using True assms(3) not_covers_0[OF assms(1)] by (simp add: same_radio_def)
next
  case False
  then have g: "good_radio r" "rad_Freq p = uint r" using assms(3) by (auto simp: same_radio_def)
  have m: "rad_Freq p - pf_radioBandwidth c div 2 \<le> pf_channelMin c
      \<longleftrightarrow> r \<le> minRadioCenterFreq c"
    unfolding word_le_def g(2) same_bounds(3)[OF assms(1,2), symmetric]
    by (auto simp: pf_minRadioCenterFreq_def pf_channelMin_def)
  show ?thesis
    using m same_upper[OF assms(1,2) g(1)] covers_iff[OF assms(1) g(1)] by (simp add: g(2))
qed

lemma pf_place_same:
  assumes "place c rs = Inr rs'" "plain_channel c" "small_bandwidth c" "list_all2 same_radio ps rs"
  shows "list_all2 same_radio (pf_place c ps) rs'"
  using assms
proof (induction c rs arbitrary: ps rs' rule: place.induct)
  case (2 c r rs)
  obtain p ps1 where ps: "ps = p # ps1" "same_radio p r" "list_all2 same_radio ps1 rs"
    using "2.prems"(4) by (auto simp: list_all2_Cons2)
  consider "r = 0" | "r \<noteq> 0" "channelMax c \<le> r + radioBandwidth c div 2"
    | "r \<noteq> 0" "\<not> channelMax c \<le> r + radioBandwidth c div 2" by blast
  then show ?case
  proof cases
    case 1
    then show ?thesis
      using "2.prems" ps same_bounds(3)[OF "2.prems"(2,3)] center_good[OF "2.prems"(2)]
      by (auto simp: same_radio_def good_radio_def)
  next
    case 2
    then have r: "good_radio r" "rad_Enable p" "rad_Freq p = uint r"
      using ps(2) by (auto simp: same_radio_def)
    then show ?thesis
      using 2 "2.prems" ps same_upper[OF "2.prems"(2,3) r(1)] by auto
  next
    case 3
    then have g: "good_radio r" "rad_Enable p" "rad_Freq p = uint r"
      using ps(2) by (auto simp: same_radio_def)
    obtain rs1 where rs1: "rs \<noteq> []" "place c rs = Inr rs1" "rs' = r # rs1"
      using 3 "2.prems"(1) by (auto simp: bind_res_Inr_iff split: if_splits)
    have "list_all2 same_radio (pf_place c ps1) rs1"
      by (rule "2.IH"[OF 3 rs1(1,2) "2.prems"(2,3) ps(3)])
    then show ?thesis
      using 3 ps(1,2) g(2,3) rs1(3) same_upper[OF "2.prems"(2,3) g(1)] by simp
  qed
qed simp

lemma pf_place_all_same:
  "place_all cs rs = Inr rs' \<Longrightarrow> \<forall>c \<in> set cs. plain_channel c \<and> small_bandwidth c
    \<Longrightarrow> list_all2 same_radio ps rs \<Longrightarrow> list_all2 same_radio (fold pf_place cs ps) rs'"
  by (induction cs arbitrary: ps rs) (auto simp: bind_res_Inr_iff dest: pf_place_same)

lemma pf_radio_same:
  "plain_channel c \<Longrightarrow> small_bandwidth c \<Longrightarrow> list_all2 same_radio ps rs
    \<Longrightarrow> first_radio c k rs = Some i \<Longrightarrow> pf_radio_from c k ps = i"
proof (induction c k rs arbitrary: ps rule: first_radio.induct)
  case (2 c k f fs)
  obtain p ps1 where ps: "ps = p # ps1" "same_radio p f" "list_all2 same_radio ps1 fs"
    using "2.prems"(3) by (auto simp: list_all2_Cons2)
  show ?case
    using "2.IH"[OF _ "2.prems"(1,2) ps(3)] "2.prems" ps(1) same_covers[OF "2.prems"(1,2) ps(2)]
    by (auto simp: covers_def split: if_splits)
qed simp

lemma pf_assign_radios: "pf_assign c (n, gc) = Inr (m, gc') \<Longrightarrow> pf_Radios gc' = pf_Radios gc"
  by (auto simp: pf_assign_def Let_def split: modulation.splits option.splits list.splits if_splits)

lemma pf_assign_all_radios: "pf_assign_all cs (n, gc) = Inr (m, gc') \<Longrightarrow> pf_Radios gc' = pf_Radios gc"
  by (induction cs arbitrary: n gc) (fastforce simp: bind_res_Inr_iff dest: pf_assign_radios)+

text \<open>C37: The placement of the Semtech backend and that of the shared concentrator package are the
  same computation: when the shared one finds radio frequencies for a set of channels (in
  32-bit arithmetic), the other has set the same frequencies (in 64-bit arithmetic), and
  both put every channel on the same radio.\<close>

theorem placements_agree:
  assumes "sorts minRadioCenterFreq srt" "getGatewayConfig srt conf = Inr gc"
    and "GetRadioFrequencies srt (gc_Channels conf) = (Inr radios, cs)"
    and "\<forall>c \<in> set (gc_Channels conf). plain_channel c \<and> small_bandwidth c"
  shows "map rad_Freq (pf_Radios gc) = map uint radios
    \<and> (\<forall>c \<in> set (gc_Channels conf). GetRadioForChannel radios c = Inr (pf_radio c (pf_Radios gc)))"
proof -
  have cs: "srt (gc_Channels conf) = cs" "place_all cs [0, 0] = Inr radios"
    using assms(3) by (auto simp: GetRadioFrequencies_def Let_def)
  have set: "set cs = set (gc_Channels conf)"
    using assms(1) cs(1) by (auto simp: sorts_def dest: mset_eq_setD)
  have gc: "pf_Radios gc = fold pf_place cs (pf_Radios empty_gc)"
    using assms(2) by (auto simp: getGatewayConfig_def Let_def cs(1) bind_res_Inr_iff
        dest: pf_assign_all_radios)
  have same: "list_all2 same_radio (pf_Radios gc) radios"
    unfolding gc by (rule pf_place_all_same[OF cs(2)])
      (use assms(4) set in \<open>auto simp: empty_gc_def radioCount_def same_radio_def numeral_2_eq_2\<close>)
  then have "map rad_Freq (pf_Radios gc) = map uint radios"
    by (induction rule: list_all2_induct) (simp_all add: same_radio_def)
  moreover have "GetRadioForChannel radios c = Inr (pf_radio c (pf_Radios gc))"
    if c: "c \<in> set (gc_Channels conf)" for c
  proof -
    obtain i where i: "GetRadioForChannel radios c = Inr i"
      using radio_for_every_channel[OF assms(1,3) _ c] assms(4) by blast
    then have "first_radio c 0 radios = Some i"
      by (auto simp: GetRadioForChannel_def split: option.splits)
    then show ?thesis
      using i pf_radio_same[OF _ _ same] assms(4) c by (simp add: pf_radio_def)
  qed
  ultimately show ?thesis by blast
qed

definition demo_channels :: "ChannelConfiguration list" where
  "demo_channels = map (\<lambda>f. \<lparr>ch_Frequency = f, ch_Modulation = LORA, ch_ModulationConfig =
     LoraConfig \<lparr>lc_Bandwidth = 125, lc_SpreadingFactors = [7, 8, 9, 10, 11, 12]\<rparr>\<rparr>)
     [867100000, 868100000, 868500000]"

definition demo_gateway_conf :: GatewayConfiguration where
  "demo_gateway_conf = \<lparr>gc_GatewayId = [], gc_Version = [], gc_Channels = demo_channels\<rparr>"

lemmas demo_placement = demo_channels_def minRadioCenterFreq_def channelBandwidth_def radioBandwidth_def
  radioBandwidthPerChannelBandwidth_def defaultRadioBandwidth_def channelMax_def word_le_nat_alt

lemma demo_sorted: "sort_key minRadioCenterFreq demo_channels = demo_channels"
  by (simp add: demo_placement)

lemma demo_radios: "GetRadioFrequencies (sort_key minRadioCenterFreq) (gc_Channels demo_gateway_conf)
    = (Inr [867500000, 868500000], demo_channels)"
  unfolding GetRadioFrequencies_def demo_gateway_conf_def Let_def
  by (simp add: demo_sorted) (simp add: demo_placement)

lemma demo_pf: "\<exists>gc. getGatewayConfig (sort_key minRadioCenterFreq) demo_gateway_conf = Inr gc"
  unfolding getGatewayConfig_def demo_gateway_conf_def Let_def
  by (simp add: demo_sorted) (simp add: demo_channels_def pf_assign_def channelCount_def Let_def)

theorem placements_agree_witness:
  "\<exists>gc. getGatewayConfig (sort_key minRadioCenterFreq) demo_gateway_conf = Inr gc
    \<and> map rad_Freq (pf_Radios gc) = [867500000, 868500000]"
proof -
  obtain gc where gc: "getGatewayConfig (sort_key minRadioCenterFreq) demo_gateway_conf = Inr gc"
    using demo_pf by blast
  have plain: "\<forall>c \<in> set (gc_Channels demo_gateway_conf). plain_channel c \<and> small_bandwidth c"
    by (simp add: demo_gateway_conf_def demo_placement plain_channel_def small_bandwidth_def
        pf_channelBandwidth_def)
  show ?thesis
    using placements_agree[OF sorts_sort_key gc demo_radios plain] gc by simp
qed

end
