(* ===== verification/Websocket.thy ===== *)
theory Websocket
  imports BasicStationProps
begin

text \<open>
  The server of the Basic Station backend (\<open>backend.go\<close>): which handler a request goes to,
  where a gateway is told to connect, and how a websocket is kept alive by pings and deadlines.
  Upgrading a request and the tickers are the library's; what they yield is given.
\<close>

section \<open>Serving\<close>

text \<open>\<open>NewBackend\<close> starts with the scheme of a plain listener; \<open>Start\<close> serves with TLS if any of
  the three files is configured.\<close>

definition bs_scheme :: string where "bs_scheme = ''ws''"

datatype serving = Serve | ServeTLS string string

definition bs_Start :: "string \<Rightarrow> string \<Rightarrow> string \<Rightarrow> string \<Rightarrow> string \<times> serving" where
  "bs_Start tlsCert tlsKey caCert scheme =
     (if tlsCert = [] \<and> tlsKey = [] \<and> caCert = [] then (scheme, Serve)
      else (''wss'', ServeTLS tlsCert tlsKey))"

text \<open>The two routes; every path but one is a gateway's.\<close>

datatype bs_route = RouterInfoRoute | GatewayRoute

definition bs_mux :: "string \<Rightarrow> bs_route" where
  "bs_mux path = (if path = ''/router-info'' then RouterInfoRoute else GatewayRoute)"

section \<open>A websocket\<close>

record ws_conf =
  wc_pingInterval :: go_duration
  wc_readTimeout :: go_duration
  wc_writeTimeout :: go_duration

text \<open>The zero time is no deadline.\<close>

record ws_conn =
  wk_open :: bool
  wk_readDeadline :: gotime
  wk_writeDeadline :: gotime
  wk_pings :: nat


text \<open>The pong handler, the receive loop for each message, and the ping goroutine.\<close>

definition ws_pong :: "ws_conf \<Rightarrow> gotime \<Rightarrow> ws_conn \<Rightarrow> ws_conn" where
  "ws_pong C now c = c\<lparr>wk_readDeadline := time_Add now (wc_readTimeout C)\<rparr>"

definition ws_message :: "ws_conf \<Rightarrow> gotime \<Rightarrow> ws_conn \<Rightarrow> ws_conn" where
  "ws_message C now c = c\<lparr>wk_readDeadline := time_Add now (wc_readTimeout C)\<rparr>"

definition ws_ping :: "ws_conf \<Rightarrow> gotime \<Rightarrow> bool \<Rightarrow> ws_conn \<Rightarrow> ws_conn" where
  "ws_ping C now written c =
     (let c1 = c\<lparr>wk_writeDeadline := time_Add now (wc_writeTimeout C)\<rparr> in
      if written then c1\<lparr>wk_pings := wk_pings c1 + 1\<rparr> else c1\<lparr>wk_open := False\<rparr>)"

text \<open>A read that is waiting at its deadline fails: the handler returns and the connection is
  closed.\<close>

definition ws_expire :: "gotime \<Rightarrow> ws_conn \<Rightarrow> ws_conn" where
  "ws_expire now c = (if wk_readDeadline c \<le> now then c\<lparr>wk_open := False\<rparr> else c)"

datatype ws_event = WsTick bool | WsPong | WsMessage

definition ws_step :: "ws_conf \<Rightarrow> gotime \<times> ws_event \<Rightarrow> ws_conn \<Rightarrow> ws_conn" where
  "ws_step C e c = (let c1 = ws_expire (fst e) c in
     if \<not> wk_open c1 then c1
     else (case snd e of
         WsTick written \<Rightarrow> ws_ping C (fst e) written c1
       | WsPong \<Rightarrow> ws_pong C (fst e) c1
       | WsMessage \<Rightarrow> ws_message C (fst e) c1))"

definition ws_run :: "ws_conf \<Rightarrow> (gotime \<times> ws_event) list \<Rightarrow> ws_conn \<Rightarrow> ws_conn" where
  "ws_run C es c = fold (ws_step C) es c"

section \<open>When a connection is kept\<close>


lemma ws_run_simps [simp]: "ws_run C [] c = c" "ws_run C (e # es) c = ws_run C es (ws_step C e c)"
  by (simp_all add: ws_run_def)






section \<open>Properties\<close>




text \<open>Discovery leads to a connection: the address in the answer to a router-info request, asked
  for with a certificate of that name or without one, is one whose path goes to the gateway
  handler, which connects a gateway that is not connected yet under the identifier it asked
  with, over the scheme the server was started with. With a certificate of another name the
  answer has no address, and a connection under that identifier is refused.\<close>

lemma discovery_connects:
  assumes "be_eui_unmarshal E (be_eui_string E router) = Some router"
    and "CHR ''/'' \<notin> set (be_eui_string E router)"
    and "resp = handleRouterInfo E (fst (bs_Start cert key ca bs_scheme)) host cn router"
  shows "if cn_matches E cn router
    then \<exists>path. ri_URI resp = (if cert = [] \<and> key = [] \<and> ca = [] then ''ws'' else ''wss'') @ ''://'' @ host @ path
      \<and> ri_Error resp = [] \<and> bs_mux path = GatewayRoute
      \<and> (\<forall>conn s. bs_get (bst_gateways s) router = Inl errGatewayDoesNotExist \<longrightarrow>
          (\<exists>t. bs_connect E path cn conn s = (Some router, t) \<and> bs_get (bst_gateways t) router
            = Inr \<lparr>bc_conn = conn, bc_stats = NewCollector, bc_lastTimesync = 0\<rparr>))
    else ri_URI resp = [] \<and> ri_Error resp \<noteq> []
      \<and> (\<forall>path conn s. url_gateway E path = Some router \<longrightarrow> bs_connect E path cn conn s = (None, s))"
proof (cases "cn_matches E cn router")
  case True
  let ?path = "''/gateway/'' @ be_eui_string E router"
  have "split_char CHR ''/'' ?path = [[], ''gateway'', be_eui_string E router]"
    using split_char_no_sep[OF assms(2)] by simp
  then have "url_gateway E ?path = Some router" using assms(1) by (simp add: url_gateway_def)
  then have "\<exists>t. bs_connect E ?path cn conn s = (Some router, t) \<and> bs_get (bst_gateways t) router
      = Inr \<lparr>bc_conn = conn, bc_stats = NewCollector, bc_lastTimesync = 0\<rparr>"
    if "bs_get (bst_gateways s) router = Inl errGatewayDoesNotExist" for conn s
    using that True by (simp add: bs_connect_def bs_set_def bs_get_def update_conv')
  moreover have "bs_mux ?path = GatewayRoute" by (simp add: bs_mux_def)
  moreover have "ri_URI resp = (if cert = [] \<and> key = [] \<and> ca = [] then ''ws'' else ''wss'') @ ''://'' @ host @ ?path"
    "ri_Error resp = []"
    using True by (simp_all add: assms(3) handleRouterInfo_def bs_Start_def bs_scheme_def)
  ultimately show ?thesis using True by auto
next
  case False
  then show ?thesis by (simp add: assms(3) handleRouterInfo_def bs_connect_def)
qed

end
